(* ===== verification/Prelude.thy ===== *)
theory Prelude
  imports "HOL-Library.Word" "HOL-Library.Char_ord" "HOL-Library.AList"
begin

text \<open>
  Shared vocabulary of the development.  Rust's integer types are machine words, a Rust
  \<open>String\<close>, \<open>&str\<close> or byte slice is a list of 8-bit characters (so \<open>length\<close> is
  \<open>str::len\<close>, the number of UTF-8 bytes), and \<open>Result<T, E>\<close> is the sum type with
  \<open>Ok\<close> on the right.  The theory also models the pieces of the Rust standard library the
  program relies on: byte classes, UTF-8 validity (\<open>String::from_utf8\<close>), Unicode blanks
  (\<open>str::trim\<close>), \<open>checked_add\<close>, decimal printing and parsing of integers.
\<close>

section \<open>Types\<close>

type_synonym bytes = "char list"
type_synonym u16 = "16 word"
type_synonym u64 = "64 word"
type_synonym i32 = "32 word"
type_synonym i64 = "64 word"

type_synonym ('a, 'e) result = "'e + 'a"

abbreviation Ok :: "'a \<Rightarrow> ('a, 'e) result" where
  "Ok \<equiv> Inr"

abbreviation Err :: "'e \<Rightarrow> ('a, 'e) result" where
  "Err \<equiv> Inl"

named_theorems rust_simps \<open>equations of the modelled Rust standard library\<close>

named_theorems redis_simps \<open>what the Redis commands do to the observable store\<close>

section \<open>Results\<close>

text \<open>The \<open>?\<close> operator: continue with the value, or leave with the error.\<close>

fun and_then :: "('a, 'e) result \<Rightarrow> ('a \<Rightarrow> ('b, 'e) result) \<Rightarrow> ('b, 'e) result" where
  "and_then (Inl e) f = Inl e"
| "and_then (Inr a) f = f a"

definition is_ok :: "('a, 'e) result \<Rightarrow> bool" where
  "is_ok r \<longleftrightarrow> (case r of Inl _ \<Rightarrow> False | Inr _ \<Rightarrow> True)"

definition is_err :: "('a, 'e) result \<Rightarrow> bool" where
  "is_err r \<longleftrightarrow> \<not> is_ok r"

definition ok_or :: "'a option \<Rightarrow> 'e \<Rightarrow> ('a, 'e) result" where
  "ok_or x e = (case x of None \<Rightarrow> Err e | Some a \<Rightarrow> Ok a)"

definition ok_of :: "('a, 'e) result \<Rightarrow> 'a option" where
  "ok_of r = (case r of Inl _ \<Rightarrow> None | Inr a \<Rightarrow> Some a)"

lemma is_ok_simps [simp]: "is_ok (Inr a)" "\<not> is_ok (Inl e)"
  by (simp_all add: is_ok_def)

lemma is_err_simps [simp]: "is_err (Inl e)" "\<not> is_err (Inr a)"
  by (simp_all add: is_err_def)

lemma ok_or_simps [simp]: "ok_or None e = Err e" "ok_or (Some a) e = Ok a"
  by (simp_all add: ok_or_def)

lemma ok_of_simps [simp]: "ok_of (Inl e) = None" "ok_of (Inr a) = Some a"
  by (simp_all add: ok_of_def)

lemma and_then_Ok_iff: "and_then r f = Ok b \<longleftrightarrow> (\<exists>a. r = Ok a \<and> f a = Ok b)"
  by (cases r) auto

lemma and_then_Err_iff:
  "and_then r f = Err e \<longleftrightarrow> r = Err e \<or> (\<exists>a. r = Ok a \<and> f a = Err e)"
  by (cases r) auto

lemma and_then_Ok_unitD: "and_then (r :: (unit, 'e) result) f = Ok b \<Longrightarrow> r = Ok ()"
  by (cases r) auto

lemma is_ok_unit_iff: "is_ok (r :: (unit, 'e) result) \<longleftrightarrow> r = Ok ()"
  by (cases r) auto

lemma ok_or_eq_Ok_iff: "ok_or x e = Ok a \<longleftrightarrow> x = Some a"
  by (cases x) auto

section \<open>Byte classes\<close>

definition byte_in :: "char \<Rightarrow> char \<Rightarrow> char \<Rightarrow> bool" where
  "byte_in lo hi c \<longleftrightarrow> lo \<le> c \<and> c \<le> hi"

definition is_ascii_byte :: "char \<Rightarrow> bool" where
  "is_ascii_byte c \<longleftrightarrow> c \<le> CHR 0x7F"

definition is_ascii :: "string \<Rightarrow> bool" where
  "is_ascii s \<longleftrightarrow> list_all is_ascii_byte s"

definition is_digit :: "char \<Rightarrow> bool" where
  "is_digit c \<longleftrightarrow> byte_in CHR ''0'' CHR ''9'' c"

definition is_lower :: "char \<Rightarrow> bool" where
  "is_lower c \<longleftrightarrow> byte_in CHR ''a'' CHR ''z'' c"

definition is_upper :: "char \<Rightarrow> bool" where
  "is_upper c \<longleftrightarrow> byte_in CHR ''A'' CHR ''Z'' c"

definition is_alphanumeric :: "char \<Rightarrow> bool" where
  "is_alphanumeric c \<longleftrightarrow> is_upper c \<or> is_lower c \<or> is_digit c"

lemmas byte_class_defs = byte_in_def is_ascii_byte_def is_digit_def is_lower_def is_upper_def
  is_alphanumeric_def

declare byte_class_defs [rust_simps] is_ascii_def [rust_simps]

section \<open>Strings\<close>

definition strip_prefix :: "string \<Rightarrow> string \<Rightarrow> string option" where
  "strip_prefix p s = (if take (length p) s = p then Some (drop (length p) s) else None)"

definition starts_with :: "string \<Rightarrow> string \<Rightarrow> bool" where
  "starts_with p s \<longleftrightarrow> take (length p) s = p"

fun split_once :: "char \<Rightarrow> string \<Rightarrow> (string \<times> string) option" where
  "split_once d [] = None"
| "split_once d (c # cs) =
     (if c = d then Some ([], cs)
      else (case split_once d cs of None \<Rightarrow> None | Some (a, b) \<Rightarrow> Some (c # a, b)))"

lemma split_once_Some_iff:
  "split_once d s = Some (a, b) \<longleftrightarrow> s = a @ d # b \<and> d \<notin> set a"
proof (induction s arbitrary: a)
  case Nil
  then show ?case by simp
next
  case (Cons c cs)
  show ?case
  proof (cases "c = d")
    case True
    then show ?thesis by (cases a) auto
  next
    case False
    then have "split_once d (c # cs) = Some (a, b) \<longleftrightarrow>
        (\<exists>a'. a = c # a' \<and> split_once d cs = Some (a', b))"
      by (auto split: option.splits)
    with False show ?thesis by (cases a) (auto simp: Cons.IH)
  qed
qed

lemma split_once_None_iff: "split_once d s = None \<longleftrightarrow> d \<notin> set s"
  by (induction s) (auto split: option.splits)

text \<open>UTF-8 validity, byte for byte as \<open>core::str::from_utf8\<close> decides it.\<close>

definition utf8_cont :: "char \<Rightarrow> bool" where
  "utf8_cont c \<longleftrightarrow> byte_in CHR 0x80 CHR 0xBF c"

fun utf8_valid :: "bytes \<Rightarrow> bool" where
  "utf8_valid [] = True"
| "utf8_valid (a # s) =
     (if is_ascii_byte a then utf8_valid s
      else if byte_in CHR 0xC2 CHR 0xDF a then
        (case s of b # t \<Rightarrow> utf8_cont b \<and> utf8_valid t | _ \<Rightarrow> False)
      else if byte_in CHR 0xE0 CHR 0xEF a then
        (case s of b # c # t \<Rightarrow>
           (if a = CHR 0xE0 then byte_in CHR 0xA0 CHR 0xBF b
            else if a = CHR 0xED then byte_in CHR 0x80 CHR 0x9F b
            else utf8_cont b) \<and> utf8_cont c \<and> utf8_valid t
         | _ \<Rightarrow> False)
      else if byte_in CHR 0xF0 CHR 0xF4 a then
        (case s of b # c # d # t \<Rightarrow>
           (if a = CHR 0xF0 then byte_in CHR 0x90 CHR 0xBF b
            else if a = CHR 0xF4 then byte_in CHR 0x80 CHR 0x8F b
            else utf8_cont b) \<and> utf8_cont c \<and> utf8_cont d \<and> utf8_valid t
         | _ \<Rightarrow> False)
      else False)"

definition from_utf8 :: "bytes \<Rightarrow> string option" where
  "from_utf8 bs = (if utf8_valid bs then Some bs else None)"

lemma is_ascii_utf8_valid: "is_ascii s \<Longrightarrow> utf8_valid s"
  by (induction s) (auto simp: is_ascii_def)

lemma utf8_valid_ascii_append: "is_ascii s \<Longrightarrow> utf8_valid (s @ t) = utf8_valid t"
  by (induction s) (auto simp: is_ascii_def)

text \<open>
  \<open>s.trim().is_empty()\<close>: every character of the string has the Unicode property
  \<open>White_Space\<close>.  The two- and three-byte blanks are listed by their UTF-8 bytes.
\<close>

fun is_blank :: "string \<Rightarrow> bool" where
  "is_blank [] = True"
| "is_blank (a # s) =
     (if byte_in CHR 0x09 CHR 0x0D a \<or> a = CHR 0x20 then is_blank s
      else if a = CHR 0xC2 then
        (case s of b # t \<Rightarrow> (b = CHR 0x85 \<or> b = CHR 0xA0) \<and> is_blank t | _ \<Rightarrow> False)
      else if a = CHR 0xE1 then
        (case s of b # c # t \<Rightarrow> b = CHR 0x9A \<and> c = CHR 0x80 \<and> is_blank t | _ \<Rightarrow> False)
      else if a = CHR 0xE2 then
        (case s of b # c # t \<Rightarrow>
           (b = CHR 0x80 \<and> (byte_in CHR 0x80 CHR 0x8A c \<or> c = CHR 0xA8 \<or> c = CHR 0xA9 \<or> c = CHR 0xAF)
            \<or> b = CHR 0x81 \<and> c = CHR 0x9F) \<and> is_blank t
         | _ \<Rightarrow> False)
      else if a = CHR 0xE3 then
        (case s of b # c # t \<Rightarrow> b = CHR 0x80 \<and> c = CHR 0x80 \<and> is_blank t | _ \<Rightarrow> False)
      else False)"

section \<open>Association lists\<close>

lemma map_of_fold_update:
  "map_of (fold (\<lambda>(f, v). AList.update f v) ps qs) = map_of qs ++ map_of (rev ps)"
proof (induction ps arbitrary: qs)
  case Nil
  then show ?case by simp
next
  case (Cons p ps)
  obtain f v where "p = (f, v)" by (cases p)
  with Cons.IH [of "AList.update f v qs"] show ?case by (simp add: update_conv' map_add_def fun_eq_iff split: option.splits)
qed

lemma map_of_rev: "distinct (map fst ps) \<Longrightarrow> map_of (rev ps) = map_of ps"
proof (induction ps)
  case Nil
  then show ?case by simp
next
  case (Cons p ps)
  then have "map_of ps (fst p) = None" by (auto simp: map_of_eq_None_iff)
  with Cons show ?case by (cases p) (auto simp: map_add_def fun_eq_iff split: option.splits)
qed

section \<open>Decimal printing and parsing\<close>

definition digit_char :: "nat \<Rightarrow> char" where
  "digit_char d = ''0123456789'' ! d"

fun show_nat :: "nat \<Rightarrow> string" where
  "show_nat n = (if n < 10 then [digit_char n] else show_nat (n div 10) @ [digit_char (n mod 10)])"

declare show_nat.simps [simp del]

definition show_int :: "int \<Rightarrow> string" where
  "show_int z = (if z < 0 then CHR ''-'' # show_nat (nat (- z)) else show_nat (nat z))"

definition u64_to_string :: "u64 \<Rightarrow> string" where
  "u64_to_string w = show_nat (unat w)"

definition i32_to_string :: "i32 \<Rightarrow> string" where
  "i32_to_string w = show_int (sint w)"

definition digit_value :: "char \<Rightarrow> nat" where
  "digit_value c = of_char c - 48"

fun digits_value :: "nat \<Rightarrow> string \<Rightarrow> nat option" where
  "digits_value acc [] = Some acc"
| "digits_value acc (c # cs) =
     (if is_digit c then digits_value (10 * acc + digit_value c) cs else None)"

definition parse_digits :: "string \<Rightarrow> nat option" where
  "parse_digits s = (if s = [] then None else digits_value 0 s)"

text \<open>
  \<open>str::parse\<close> for the unsigned types takes an optional \<open>+\<close>, for the signed types an
  optional \<open>+\<close> or \<open>-\<close>; at least one digit must follow and the value must be in range.
\<close>

definition parse_nat :: "string \<Rightarrow> nat option" where
  "parse_nat s =
     (case s of [] \<Rightarrow> None | c # cs \<Rightarrow> if c = CHR ''+'' then parse_digits cs else parse_digits s)"

definition parse_int :: "string \<Rightarrow> int option" where
  "parse_int s =
     (case s of [] \<Rightarrow> None
      | c # cs \<Rightarrow>
          if c = CHR ''-'' then map_option (\<lambda>n. - int n) (parse_digits cs)
          else if c = CHR ''+'' then map_option int (parse_digits cs)
          else map_option int (parse_digits s))"

definition parse_uint_str :: "string \<Rightarrow> ('w::len) word option" where
  "parse_uint_str s =
     (case parse_nat s of None \<Rightarrow> None
      | Some n \<Rightarrow> if n < 2 ^ LENGTH('w) then Some (word_of_nat n) else None)"

definition parse_sint_str :: "string \<Rightarrow> ('w::len) word option" where
  "parse_sint_str s =
     (case parse_int s of None \<Rightarrow> None
      | Some z \<Rightarrow> if - (2 ^ (LENGTH('w) - 1)) \<le> z \<and> z < 2 ^ (LENGTH('w) - 1)
                   then Some (word_of_int z) else None)"

lemma digit_char_props:
  assumes "d < 10"
  shows "is_digit (digit_char d)" "digit_value (digit_char d) = d"
proof -
  have "d \<in> {0, 1, 2, 3, 4, 5, 6, 7, 8, 9}" using assms by auto
  then show "is_digit (digit_char d)" "digit_value (digit_char d) = d"
    by (auto simp: is_digit_def byte_in_def digit_value_def digit_char_def)
qed

lemma show_nat_digits: "list_all is_digit (show_nat n)"
proof (induction n rule: show_nat.induct)
  case (1 n)
  then show ?case
    by (subst show_nat.simps) (auto simp: digit_char_props)
qed

lemma show_nat_not_Nil [simp]: "show_nat n \<noteq> []"
  by (subst show_nat.simps) simp

lemma digits_value_append:
  "digits_value acc (s @ t) =
     (case digits_value acc s of None \<Rightarrow> None | Some v \<Rightarrow> digits_value v t)"
  by (induction s arbitrary: acc) auto

lemma digits_value_show_nat: "digits_value 0 (show_nat n) = Some n"
proof (induction n rule: show_nat.induct)
  case (1 n)
  show ?case
  proof (cases "n < 10")
    case True
    then show ?thesis by (subst show_nat.simps) (simp add: digit_char_props)
  next
    case False
    with "1.IH" have "digits_value 0 (show_nat (n div 10)) = Some (n div 10)" by simp
    with False show ?thesis
      by (subst show_nat.simps) (simp add: digits_value_append digit_char_props)
  qed
qed

lemma show_nat_hd: "\<exists>c cs. show_nat n = c # cs \<and> is_digit c"
  using show_nat_digits [of n] show_nat_not_Nil [of n] by (cases "show_nat n") auto

lemma is_digit_not_sign: "is_digit c \<Longrightarrow> c \<noteq> CHR ''+'' \<and> c \<noteq> CHR ''-''"
  by (auto simp: is_digit_def byte_in_def)

lemma parse_digits_show_nat [simp]: "parse_digits (show_nat n) = Some n"
  by (simp add: parse_digits_def digits_value_show_nat)

lemma parse_nat_show_nat [simp]: "parse_nat (show_nat n) = Some n"
proof -
  obtain c cs where "show_nat n = c # cs" "is_digit c"
    using show_nat_hd by blast
  then show ?thesis
    using parse_digits_show_nat [of n] is_digit_not_sign [of c] by (simp add: parse_nat_def)
qed

lemma parse_int_show_nat: "parse_int (show_nat n) = Some (int n)"
proof -
  obtain c cs where "show_nat n = c # cs" "is_digit c"
    using show_nat_hd by blast
  then show ?thesis
    using parse_digits_show_nat [of n] is_digit_not_sign [of c] by (simp add: parse_int_def)
qed

lemma parse_int_show_int [simp]: "parse_int (show_int z) = Some z"
proof (cases "z < 0")
  case True
  then show ?thesis by (simp add: show_int_def parse_int_def)
next
  case False
  then show ?thesis by (simp add: show_int_def parse_int_show_nat)
qed

theorem parse_u64_to_string: "(parse_uint_str (u64_to_string w) :: u64 option) = Some w"
  using unsigned_less [of w, where 'a = nat] by (simp add: parse_uint_str_def u64_to_string_def)

theorem parse_i32_to_string: "(parse_sint_str (i32_to_string w) :: i32 option) = Some w"
proof -
  have "- (2 ^ 31) \<le> sint w" "sint w < 2 ^ 31"
    using sint_greater_eq [of w] sint_lt [of w] by simp_all
  then show ?thesis by (simp add: parse_sint_str_def i32_to_string_def)
qed

lemma is_digit_ascii: "is_digit c \<Longrightarrow> is_ascii_byte c"
  by (auto simp: is_digit_def byte_in_def is_ascii_byte_def elim!: order_trans)

lemma show_nat_ascii: "is_ascii (show_nat n)"
  using show_nat_digits [of n] by (auto simp: is_ascii_def list_all_iff is_digit_ascii)

lemma show_int_ascii: "is_ascii (show_int z)"
  using show_nat_ascii by (auto simp: show_int_def is_ascii_def is_ascii_byte_def)

section \<open>Checked arithmetic and conversions\<close>

definition checked_add :: "u64 \<Rightarrow> u64 \<Rightarrow> u64 option" where
  "checked_add a b = (if unat a + unat b < 2 ^ 64 then Some (a + b) else None)"

lemma checked_add_Some_iff:
  "checked_add a b = Some c \<longleftrightarrow> unat c = unat a + unat b"
proof
  assume "checked_add a b = Some c"
  then show "unat c = unat a + unat b"
    by (auto simp: checked_add_def unat_word_ariths split: if_splits)
next
  assume c: "unat c = unat a + unat b"
  then have "unat a + unat b < 2 ^ 64"
    using unsigned_less [of c, where 'a = nat] by simp
  moreover from this have "unat (a + b) = unat c"
    by (simp add: unat_word_ariths c)
  ultimately show "checked_add a b = Some c"
    by (simp add: checked_add_def word_unat_eq_iff)
qed

lemma checked_add_None_iff: "checked_add a b = None \<longleftrightarrow> 2 ^ 64 \<le> unat a + unat b"
  by (auto simp: checked_add_def)

text \<open>\<open>i32::try_from(i64)\<close> and \<open>u64::try_from(i64)\<close>, on the integer the reply carries.\<close>

definition i32_try_from :: "int \<Rightarrow> i32 option" where
  "i32_try_from z = (if - (2 ^ 31) \<le> z \<and> z < 2 ^ 31 then Some (word_of_int z) else None)"

definition u64_try_from :: "int \<Rightarrow> u64 option" where
  "u64_try_from z = (if 0 \<le> z \<and> z < 2 ^ 64 then Some (word_of_int z) else None)"

lemma i32_try_from_sint [simp]: "i32_try_from (sint w) = Some w"
  using sint_greater_eq [of w] sint_lt [of w] by (simp add: i32_try_from_def)

lemma u64_try_from_uint [simp]: "u64_try_from (int (unat w)) = Some w"
proof -
  have "int (unat w) = uint w" by simp
  moreover have "uint w < 2 ^ 64" using unsigned_less [of w, where 'a = int] by simp
  ultimately show ?thesis by (simp only: u64_try_from_def) simp
qed

end
