(* ===== verification/Redis_Server.thy ===== *)
theory Redis_Server
  imports Prelude
begin

text \<open>
  The Redis server and the connection to it.  The server is a parameter of the model: a
  record of the commands the program sends, over a state type of its own.  Each command that
  Redis may refuse returns \<open>None\<close> for an error reply.  The locale \<open>redis_server\<close>
  states the documented effect of each command on the observable keyspace \<open>view\<close>; the
  in-memory server at the end of the theory satisfies it.

  A command or script that the Rust code awaits is one round trip: before it runs, anything
  may have happened on the server (other clients, time passing, keys expiring), and the
  request or the reply may be lost.  Both are parameters, indexed by the number of the round
  trip, so that what is proved holds for every interleaving and every fault.
\<close>

section \<open>The commands\<close>

datatype redis_object = RHash "string \<rightharpoonup> string" | ROther string

record 's redis =
  r_type :: "'s \<Rightarrow> string \<Rightarrow> string"
  r_exists :: "'s \<Rightarrow> string \<Rightarrow> bool"
  r_hlen :: "'s \<Rightarrow> string \<Rightarrow> nat option"
  r_hget :: "'s \<Rightarrow> string \<Rightarrow> string \<Rightarrow> string option option"
  r_hgetall :: "'s \<Rightarrow> string \<Rightarrow> (string \<times> string) list option"
  r_hset :: "'s \<Rightarrow> string \<Rightarrow> (string \<times> string) list \<Rightarrow> 's option"
  r_del :: "'s \<Rightarrow> string \<Rightarrow> 's"
  r_expireat :: "'s \<Rightarrow> string \<Rightarrow> string \<Rightarrow> 's option"
  r_time :: "'s \<Rightarrow> nat"

definition hash_of :: "redis_object option \<Rightarrow> (string \<rightharpoonup> string) option" where
  "hash_of x = (case x of None \<Rightarrow> Some Map.empty | Some (RHash h) \<Rightarrow> Some h | Some (ROther t) \<Rightarrow> None)"

lemma hash_of_simps [simp]:
  "hash_of None = Some Map.empty" "hash_of (Some (RHash h)) = Some h" "hash_of (Some (ROther t)) = None"
  by (simp_all add: hash_of_def)

text \<open>\<open>EXPIREAT\<close> accepts a decimal timestamp up to this bound (milliseconds in an \<open>i64\<close>).\<close>

definition expireat_max :: nat where
  "expireat_max = 9223372036854775"

locale redis_server =
  fixes R :: "'s redis"
    and view :: "'s \<Rightarrow> string \<rightharpoonup> redis_object"
  assumes type_eq: "r_type R s k =
      (case view s k of None \<Rightarrow> ''none'' | Some (RHash h) \<Rightarrow> ''hash'' | Some (ROther t) \<Rightarrow> t)"
    and other_type: "view s k = Some (ROther t) \<Longrightarrow> t \<noteq> ''hash'' \<and> t \<noteq> ''none''"
    and exists_eq: "r_exists R s k \<longleftrightarrow> view s k \<noteq> None"
    and finite_hash: "view s k = Some (RHash h) \<Longrightarrow> finite (dom h)"
    and hash_not_empty: "view s k = Some (RHash h) \<Longrightarrow> h \<noteq> Map.empty"
    and hlen_eq: "r_hlen R s k = map_option (\<lambda>h. card (dom h)) (hash_of (view s k))"
    and hget_eq: "r_hget R s k f = map_option (\<lambda>h. h f) (hash_of (view s k))"
    and hgetall_None: "r_hgetall R s k = None \<longleftrightarrow> hash_of (view s k) = None"
    and hgetall_Some: "r_hgetall R s k = Some ps \<Longrightarrow>
      distinct (map fst ps) \<and> hash_of (view s k) = Some (map_of ps)"
    and hset_None: "r_hset R s k (p # ps) = None \<longleftrightarrow> hash_of (view s k) = None"
    and hset_Some: "r_hset R s k (p # ps) = Some s' \<Longrightarrow> hash_of (view s k) = Some h \<Longrightarrow>
      view s' = (view s)(k \<mapsto> RHash (h ++ map_of (rev (p # ps)))) \<and> r_time R s' = r_time R s"
    and del_eq: "view (r_del R s k) = (view s)(k := None)" "r_time R (r_del R s k) = r_time R s"
    and expireat_Some: "n \<le> expireat_max \<Longrightarrow>
      \<exists>s'. r_expireat R s k (show_nat n) = Some s' \<and> r_time R s' = r_time R s
        \<and> view s' = (if r_time R s < n then view s else (view s)(k := None))"
    and expireat_None: "expireat_max < n \<Longrightarrow> r_expireat R s k (show_nat n) = None"

section \<open>Round trips\<close>

datatype fault = Delivered | RequestLost | ReplyLost

text \<open>What the client library says about a failed command: \<open>{:?}\<close> of its kind, and its code.\<close>

record redis_error =
  err_kind :: string
  err_code :: "string option"

record 's redis_env =
  server_cmds :: "'s redis"
  interference :: "nat \<Rightarrow> 's \<Rightarrow> 's"
  network :: "nat \<Rightarrow> fault"
  client_error :: "nat \<Rightarrow> redis_error"

text \<open>The server behind a connection, the round trips so far and the lines logged with \<open>error!\<close>.\<close>

record 's connection =
  server :: 's
  trips :: nat
  log_lines :: "string list"

text \<open>
  \<open>query_async\<close> and \<open>invoke_async\<close>: the outcome is \<open>None\<close> when the request or the
  reply is lost or the server answers with an error.
\<close>

definition round_trip ::
    "'s redis_env \<Rightarrow> ('s \<Rightarrow> 'a option \<times> 's) \<Rightarrow> 's connection \<Rightarrow> 'a option \<times> 's connection" where
  "round_trip E cmd c =
     (let s = interference E (trips c) (server c); (r, s') = cmd s; n = Suc (trips c)
      in case network E (trips c) of
           Delivered \<Rightarrow> (r, c\<lparr>server := s', trips := n\<rparr>)
         | RequestLost \<Rightarrow> (None, c\<lparr>server := s, trips := n\<rparr>)
         | ReplyLost \<Rightarrow> (None, c\<lparr>server := s', trips := n\<rparr>))"

text \<open>The state in which the next command is executed.\<close>

definition arrival :: "'s redis_env \<Rightarrow> 's connection \<Rightarrow> 's" where
  "arrival E c = interference E (trips c) (server c)"

lemma round_trip_Some:
  assumes "round_trip E cmd c = (Some r, c')"
  shows "\<exists>s'. cmd (arrival E c) = (Some r, s') \<and> server c' = s' \<and> trips c' = Suc (trips c)
    \<and> network E (trips c) = Delivered"
  using assms by (auto simp: round_trip_def arrival_def Let_def split: prod.splits fault.splits)

lemma round_trip_server:
  "server (snd (round_trip E cmd c)) = arrival E c
   \<or> server (snd (round_trip E cmd c)) = snd (cmd (arrival E c))"
  by (auto simp: round_trip_def arrival_def Let_def split: prod.splits fault.splits)

lemma round_trip_Delivered:
  "network E (trips c) = Delivered \<Longrightarrow>
     round_trip E cmd c =
       (fst (cmd (arrival E c)), c\<lparr>server := snd (cmd (arrival E c)), trips := Suc (trips c)\<rparr>)"
  by (simp add: round_trip_def arrival_def Let_def split: prod.splits)

lemma trips_round_trip [simp]: "trips (snd (round_trip E cmd c)) = Suc (trips c)"
  by (auto simp: round_trip_def Let_def split: prod.splits fault.splits)

text \<open>Each command as the Rust client sends it on its own.\<close>

definition cmd_type :: "'s redis \<Rightarrow> string \<Rightarrow> 's \<Rightarrow> string option \<times> 's" where
  "cmd_type R k s = (Some (r_type R s k), s)"

definition cmd_hget :: "'s redis \<Rightarrow> string \<Rightarrow> string \<Rightarrow> 's \<Rightarrow> string option option \<times> 's" where
  "cmd_hget R k f s = (r_hget R s k f, s)"

definition cmd_hgetall :: "'s redis \<Rightarrow> string \<Rightarrow> 's \<Rightarrow> (string \<times> string) list option \<times> 's" where
  "cmd_hgetall R k s = (r_hgetall R s k, s)"

definition cmd_hset :: "'s redis \<Rightarrow> string \<Rightarrow> (string \<times> string) list \<Rightarrow> 's \<Rightarrow> unit option \<times> 's" where
  "cmd_hset R k ps s = (case r_hset R s k ps of None \<Rightarrow> (None, s) | Some s' \<Rightarrow> (Some (), s'))"

definition cmd_expireat :: "'s redis \<Rightarrow> string \<Rightarrow> string \<Rightarrow> 's \<Rightarrow> unit option \<times> 's" where
  "cmd_expireat R k t s = (case r_expireat R s k t of None \<Rightarrow> (None, s) | Some s' \<Rightarrow> (Some (), s'))"

definition cmd_del :: "'s redis \<Rightarrow> string \<Rightarrow> 's \<Rightarrow> unit option \<times> 's" where
  "cmd_del R k s = (Some (), r_del R s k)"

section \<open>An in-memory server\<close>

text \<open>
  Hashes are association lists with distinct keys after every \<open>HSET\<close>; a key's time to live is
  enforced by the environment, which removes expired keys between round trips.
\<close>

datatype mem_object = MHash "(string \<times> string) list" | MString

record mem =
  mem_time :: nat
  mem_data :: "string \<rightharpoonup> mem_object"

definition mem_view :: "mem \<Rightarrow> string \<rightharpoonup> redis_object" where
  "mem_view s k = (case mem_data s k of
      None \<Rightarrow> None
    | Some (MHash ps) \<Rightarrow> if ps = [] then None else Some (RHash (map_of ps))
    | Some MString \<Rightarrow> Some (ROther ''string''))"

definition mem_fields :: "mem \<Rightarrow> string \<Rightarrow> (string \<times> string) list option" where
  "mem_fields s k = (case mem_data s k of
      None \<Rightarrow> Some [] | Some (MHash ps) \<Rightarrow> Some ps | Some MString \<Rightarrow> None)"

definition mem_hset :: "mem \<Rightarrow> string \<Rightarrow> (string \<times> string) list \<Rightarrow> mem option" where
  "mem_hset s k ps = (case mem_fields s k of
      None \<Rightarrow> None
    | Some qs \<Rightarrow> Some (s\<lparr>mem_data := (mem_data s)(k \<mapsto> MHash (fold (\<lambda>(f, v). AList.update f v) ps qs))\<rparr>))"

definition mem_expireat :: "mem \<Rightarrow> string \<Rightarrow> string \<Rightarrow> mem option" where
  "mem_expireat s k t = (case parse_nat t of
      None \<Rightarrow> None
    | Some n \<Rightarrow> if n > expireat_max then None
        else Some (if mem_time s < n then s else s\<lparr>mem_data := (mem_data s)(k := None)\<rparr>))"

definition mem_redis :: "mem redis" where
  "mem_redis = \<lparr>
     r_type = (\<lambda>s k. case mem_view s k of None \<Rightarrow> ''none'' | Some (RHash h) \<Rightarrow> ''hash'' | Some (ROther t) \<Rightarrow> t),
     r_exists = (\<lambda>s k. mem_view s k \<noteq> None),
     r_hlen = (\<lambda>s k. map_option (\<lambda>ps. length (remdups (map fst ps))) (mem_fields s k)),
     r_hget = (\<lambda>s k f. map_option (\<lambda>ps. map_of ps f) (mem_fields s k)),
     r_hgetall = (\<lambda>s k. map_option AList.clearjunk (mem_fields s k)),
     r_hset = mem_hset,
     r_del = (\<lambda>s k. s\<lparr>mem_data := (mem_data s)(k := None)\<rparr>),
     r_expireat = mem_expireat,
     r_time = mem_time\<rparr>"

lemma mem_hash_of: "hash_of (mem_view s k) = map_option map_of (mem_fields s k)"
  by (auto simp: mem_view_def mem_fields_def split: option.splits mem_object.splits)

lemma fold_update_not_Nil: "fold (\<lambda>(f, v). AList.update f v) (p # ps) qs \<noteq> []"
proof -
  have "map_of (fold (\<lambda>(f, v). AList.update f v) (p # ps) qs) (fst p) \<noteq> None"
    using map_of_fold_update [of "p # ps" qs]
    by (cases p) (auto simp del: fold.simps simp: map_add_def map_of_eq_None_iff split: option.splits)
  then show ?thesis by auto
qed

lemma mem_hset_view:
  assumes "mem_hset s k (p # ps) = Some s'" "hash_of (mem_view s k) = Some h"
  shows "mem_view s' = (mem_view s)(k \<mapsto> RHash (h ++ map_of (rev (p # ps))))"
    "mem_time s' = mem_time s"
proof -
  obtain qs where qs: "mem_fields s k = Some qs" "h = map_of qs"
    using assms(2) by (auto simp: mem_hash_of)
  define rs where "rs = fold (\<lambda>(f, v). AList.update f v) (p # ps) qs"
  have rs: "rs \<noteq> []" "map_of rs = h ++ map_of (rev (p # ps))"
    unfolding rs_def qs(2) by (rule fold_update_not_Nil, rule map_of_fold_update)
  have s': "s' = s\<lparr>mem_data := (mem_data s)(k \<mapsto> MHash rs)\<rparr>"
    using assms(1) qs(1) by (simp only: mem_hset_def rs_def option.case option.inject)
  show "mem_view s' = (mem_view s)(k \<mapsto> RHash (h ++ map_of (rev (p # ps))))"
    by (rule ext) (simp only: s' rs(2) [symmetric], simp add: mem_view_def rs(1))
  show "mem_time s' = mem_time s" by (simp add: s')
qed

interpretation mem_server: redis_server mem_redis mem_view
proof (unfold_locales, goal_cases)
  case (1 s k)
  show ?case by (simp add: mem_redis_def)
next
  case (2 s k t)
  then show ?case by (auto simp: mem_view_def split: option.splits mem_object.splits if_splits)
next
  case (3 s k)
  show ?case by (simp add: mem_redis_def)
next
  case (4 s k h)
  then show ?case by (auto simp: mem_view_def finite_dom_map_of split: option.splits mem_object.splits if_splits)
next
  case (5 s k h)
  then show ?case by (auto simp: mem_view_def split: option.splits mem_object.splits if_splits)
next
  case (6 s k)
  show ?case
    by (cases "mem_fields s k") (simp_all add: mem_redis_def mem_hash_of dom_map_of_conv_image_fst
        length_remdups_card_conv)
next
  case (7 s k f)
  show ?case by (cases "mem_fields s k") (simp_all add: mem_redis_def mem_hash_of)
next
  case (8 s k)
  show ?case by (simp add: mem_redis_def mem_hash_of)
next
  case (9 s k ps)
  then show ?case by (auto simp: mem_redis_def mem_hash_of map_of_clearjunk distinct_clearjunk)
next
  case (10 s k p ps)
  show ?case by (simp add: mem_redis_def mem_hset_def mem_hash_of split: option.splits)
next
  case (11 s k p ps s' h)
  then show ?case
    using mem_hset_view [of s k p ps s' h] by (simp add: mem_redis_def)
next
  case (12 s k)
  show ?case by (auto simp: mem_redis_def mem_view_def)
next
  case (13 s k)
  show ?case by (simp add: mem_redis_def)
next
  case (14 n s k)
  then show ?case by (auto simp: mem_redis_def mem_expireat_def mem_view_def)
next
  case (15 n s k)
  then show ?case by (simp add: mem_redis_def mem_expireat_def)
qed

end
