(* ===== verification/Crypto.thy ===== *)
theory Crypto
  imports Prelude
begin

text \<open>
  The cryptographic crates both services link: \<open>sha2\<close> (SHA-256), \<open>base64\<close> (URL-safe
  without padding and standard with padding) and \<open>subtle\<close> (constant-time comparison).
  They are a parameter of the model, a record of functions that every definition using one of
  them takes as its first argument.  What the program relies on is the locale
  \<open>crypto_lib\<close>: a digest has 32 bytes, 32 bytes encode to 43 characters of the URL-safe
  alphabet, decoding inverts encoding, and \<open>ct_eq\<close> is equality.
\<close>

record crypto =
  sha256 :: "bytes \<Rightarrow> bytes"
  b64url_encode :: "bytes \<Rightarrow> string"
  b64_encode :: "bytes \<Rightarrow> string"
  b64_decode :: "string \<Rightarrow> bytes option"
  ct_eq :: "bytes \<Rightarrow> bytes \<Rightarrow> bool"

definition b64url_byte :: "char \<Rightarrow> bool" where
  "b64url_byte c \<longleftrightarrow> is_alphanumeric c \<or> c = CHR ''-'' \<or> c = CHR ''_''"

definition b64_byte :: "char \<Rightarrow> bool" where
  "b64_byte c \<longleftrightarrow> is_alphanumeric c \<or> c = CHR ''+'' \<or> c = CHR ''/'' \<or> c = CHR ''=''"

locale crypto_lib =
  fixes C :: "'a crypto_scheme"
  assumes sha256_length: "length (sha256 C m) = 32"
    and b64url_length: "length bs = 32 \<Longrightarrow> length (b64url_encode C bs) = 43"
    and b64url_alphabet: "list_all b64url_byte (b64url_encode C bs)"
    and b64_alphabet: "list_all b64_byte (b64_encode C bs)"
    and b64_roundtrip: "b64_decode C (b64_encode C bs) = Some bs"
    and ct_eq_iff: "ct_eq C a b \<longleftrightarrow> a = b"

lemma b64url_byte_ascii: "b64url_byte c \<Longrightarrow> is_ascii_byte c"
  by (auto simp: b64url_byte_def byte_class_defs elim!: order_trans)

lemma b64_byte_ascii: "b64_byte c \<Longrightarrow> is_ascii_byte c"
  by (auto simp: b64_byte_def byte_class_defs elim!: order_trans)

context crypto_lib
begin

lemma b64url_ascii: "is_ascii (b64url_encode C bs)"
  using b64url_alphabet by (auto simp: is_ascii_def list_all_iff b64url_byte_ascii)

lemma b64_ascii: "is_ascii (b64_encode C bs)"
  using b64_alphabet by (auto simp: is_ascii_def list_all_iff b64_byte_ascii)

end

end
