(* ===== verification/Auth_Foundation.thy ===== *)
theory Auth_Foundation
  imports Crypto
begin

text \<open>
  Model of \<open>rust-auth0-service/src/auth_foundation.rs\<close>: the reference values
  (32 random bytes as 43 URL-safe base64 characters), their SHA-256 lookups, the PKCE S256
  challenge, the time boundary and the input validators.
\<close>

section \<open>Bounds\<close>

definition SERVICE_ID_MAX_BYTES :: nat where "SERVICE_ID_MAX_BYTES = 64"
definition SERVICE_STATE_MAX_BYTES :: nat where "SERVICE_STATE_MAX_BYTES = 256"
definition REFERENCE_VALUE_ENCODED_BYTES :: nat where "REFERENCE_VALUE_ENCODED_BYTES = 43"
definition OAUTH_STATE_BYTES :: nat where "OAUTH_STATE_BYTES = REFERENCE_VALUE_ENCODED_BYTES"
definition OAUTH_CODE_MAX_BYTES :: nat where "OAUTH_CODE_MAX_BYTES = 4096"
definition PKCE_VERIFIER_MIN_BYTES :: nat where "PKCE_VERIFIER_MIN_BYTES = 43"
definition PKCE_VERIFIER_MAX_BYTES :: nat where "PKCE_VERIFIER_MAX_BYTES = 128"
definition PROVIDER_MAX_BYTES :: nat where "PROVIDER_MAX_BYTES = 16"
definition SUBJECT_MAX_BYTES :: nat where "SUBJECT_MAX_BYTES = 255"
definition HANDOFF_CODE_BYTES :: nat where "HANDOFF_CODE_BYTES = REFERENCE_VALUE_ENCODED_BYTES"
definition PKCE_CHALLENGE_BYTES :: nat where "PKCE_CHALLENGE_BYTES = REFERENCE_VALUE_ENCODED_BYTES"
definition POST_LOGIN_PATH_MAX_BYTES :: nat where "POST_LOGIN_PATH_MAX_BYTES = 2048"
definition CSRF_VALUE_BYTES :: nat where "CSRF_VALUE_BYTES = REFERENCE_VALUE_ENCODED_BYTES"
definition AUTHORIZATION_HEADER_MAX_BYTES :: nat where "AUTHORIZATION_HEADER_MAX_BYTES = 8192"
definition CALLBACK_URI_MAX_BYTES :: nat where "CALLBACK_URI_MAX_BYTES = 2048"
definition LOGOUT_RETURN_URI_MAX_BYTES :: nat where "LOGOUT_RETURN_URI_MAX_BYTES = 2048"
definition HTTP_BODY_MAX_BYTES :: nat where "HTTP_BODY_MAX_BYTES = 16384"
definition REFERENCE_VALUE_RANDOM_BYTES :: nat where "REFERENCE_VALUE_RANDOM_BYTES = 32"

lemmas foundation_bounds = SERVICE_ID_MAX_BYTES_def SERVICE_STATE_MAX_BYTES_def
  REFERENCE_VALUE_ENCODED_BYTES_def OAUTH_STATE_BYTES_def OAUTH_CODE_MAX_BYTES_def
  PKCE_VERIFIER_MIN_BYTES_def PKCE_VERIFIER_MAX_BYTES_def PROVIDER_MAX_BYTES_def
  SUBJECT_MAX_BYTES_def HANDOFF_CODE_BYTES_def PKCE_CHALLENGE_BYTES_def POST_LOGIN_PATH_MAX_BYTES_def
  CSRF_VALUE_BYTES_def AUTHORIZATION_HEADER_MAX_BYTES_def CALLBACK_URI_MAX_BYTES_def
  LOGOUT_RETURN_URI_MAX_BYTES_def HTTP_BODY_MAX_BYTES_def REFERENCE_VALUE_RANDOM_BYTES_def

section \<open>Errors and identities\<close>

datatype input_boundary_error = InvalidLength | InvalidAsciiFormat

datatype time_boundary_error = BeforeUnixEpoch | Overflow

datatype email_verification = Verified | Unverified | Unknown

record normalized_external_identity =
  nei_provider :: string
  nei_subject :: string
  nei_email :: "string option"
  nei_email_verification :: email_verification
  nei_display_name :: "string option"
  nei_picture_url :: "string option"

section \<open>Validators\<close>

definition validate_max_bytes :: "string \<Rightarrow> nat \<Rightarrow> (unit, input_boundary_error) result" where
  "validate_max_bytes value limit = (if length value \<le> limit then Ok () else Err InvalidLength)"

definition validate_nonempty_max_bytes ::
    "string \<Rightarrow> nat \<Rightarrow> (unit, input_boundary_error) result" where
  "validate_nonempty_max_bytes value limit =
     (if value = [] \<or> length value > limit then Err InvalidLength else Ok ())"

definition validate_ascii_byte_range ::
    "string \<Rightarrow> nat \<Rightarrow> nat \<Rightarrow> (unit, input_boundary_error) result" where
  "validate_ascii_byte_range value lower upper =
     (if \<not> (lower \<le> length value \<and> length value \<le> upper) then Err InvalidLength
      else if is_ascii value then Ok () else Err InvalidAsciiFormat)"

definition is_base64url_no_pad_byte :: "char \<Rightarrow> bool" where
  "is_base64url_no_pad_byte byte \<longleftrightarrow>
     byte_in CHR ''A'' CHR ''Z'' byte \<or> byte_in CHR ''a'' CHR ''z'' byte
     \<or> byte_in CHR ''0'' CHR ''9'' byte \<or> byte = CHR ''-'' \<or> byte = CHR ''_''"

definition is_service_id_rest_byte :: "char \<Rightarrow> bool" where
  "is_service_id_rest_byte byte \<longleftrightarrow>
     byte_in CHR ''a'' CHR ''z'' byte \<or> byte_in CHR ''0'' CHR ''9'' byte
     \<or> byte = CHR ''_'' \<or> byte = CHR ''-''"

definition validate_fixed_reference_value ::
    "string \<Rightarrow> (unit, input_boundary_error) result" where
  "validate_fixed_reference_value value =
     (if length value \<noteq> OAUTH_STATE_BYTES then Err InvalidLength
      else if list_all is_base64url_no_pad_byte value then Ok ()
      else Err InvalidAsciiFormat)"

text \<open>\<open>bytes[0]\<close> and \<open>bytes[1..]\<close> are only read after the emptiness check.\<close>

definition validate_service_id :: "string \<Rightarrow> (unit, input_boundary_error) result" where
  "validate_service_id value =
     (case value of
        [] \<Rightarrow> Err InvalidLength
      | b # rest \<Rightarrow>
          if length value > SERVICE_ID_MAX_BYTES then Err InvalidLength
          else if \<not> (byte_in CHR ''a'' CHR ''z'' b \<or> byte_in CHR ''0'' CHR ''9'' b)
                  \<or> \<not> list_all is_service_id_rest_byte rest
          then Err InvalidAsciiFormat
          else Ok ())"

definition identity_validate ::
    "normalized_external_identity \<Rightarrow> (unit, input_boundary_error) result" where
  "identity_validate self =
     and_then (validate_nonempty_max_bytes (nei_provider self) PROVIDER_MAX_BYTES)
       (\<lambda>_. validate_nonempty_max_bytes (nei_subject self) SUBJECT_MAX_BYTES)"

section \<open>Reference values, digests, PKCE\<close>

text \<open>The argument is what \<open>OsRng.try_fill_bytes\<close> did: the 32 bytes, or its error.\<close>

definition generate_reference_value ::
    "'c crypto_scheme \<Rightarrow> bytes option \<Rightarrow> (string, unit) result" where
  "generate_reference_value C fill =
     (case fill of None \<Rightarrow> Err () | Some bs \<Rightarrow> Ok (b64url_encode C bs))"

definition hex_digit :: "nat \<Rightarrow> char" where
  "hex_digit d = ''0123456789abcdef'' ! d"

definition byte_hex :: "char \<Rightarrow> string" where
  "byte_hex b = [hex_digit (of_char b div 16), hex_digit (of_char b mod 16)]"

definition sha256_digest :: "'c crypto_scheme \<Rightarrow> bytes \<Rightarrow> bytes" where
  "sha256_digest C value = sha256 C value"

definition reference_value_lookup :: "'c crypto_scheme \<Rightarrow> string \<Rightarrow> string" where
  "reference_value_lookup C value = concat (map byte_hex (sha256_digest C value))"

definition sha256_digest_eq :: "'c crypto_scheme \<Rightarrow> bytes \<Rightarrow> bytes \<Rightarrow> bool" where
  "sha256_digest_eq C left right \<longleftrightarrow> ct_eq C left right"

definition pkce_s256_challenge ::
    "'c crypto_scheme \<Rightarrow> string \<Rightarrow> (string, input_boundary_error) result" where
  "pkce_s256_challenge C verifier =
     and_then (validate_ascii_byte_range verifier PKCE_VERIFIER_MIN_BYTES PKCE_VERIFIER_MAX_BYTES)
       (\<lambda>_. Ok (b64url_encode C (sha256_digest C verifier)))"

section \<open>Time\<close>

text \<open>A \<open>SystemTime\<close> is its signed distance from the Unix epoch in nanoseconds.\<close>

definition unix_seconds :: "int \<Rightarrow> (u64, time_boundary_error) result" where
  "unix_seconds time =
     (if time < 0 then Err BeforeUnixEpoch else Ok (word_of_int (time div 1000000000)))"

definition checked_expires_at :: "u64 \<Rightarrow> u64 \<Rightarrow> (u64, time_boundary_error) result" where
  "checked_expires_at now ttl_seconds = ok_or (checked_add now ttl_seconds) Overflow"

definition is_unexpired :: "u64 \<Rightarrow> u64 \<Rightarrow> bool" where
  "is_unexpired now expires_at \<longleftrightarrow> now < expires_at"

section \<open>What the validators accept\<close>

lemma is_base64url_no_pad_byte_eq: "is_base64url_no_pad_byte = b64url_byte"
  by (rule ext) (auto simp: is_base64url_no_pad_byte_def b64url_byte_def byte_class_defs)

lemma validate_max_bytes_Ok: "validate_max_bytes v n = Ok () \<longleftrightarrow> length v \<le> n"
  by (simp add: validate_max_bytes_def)

lemma validate_fixed_reference_value_Ok:
  "validate_fixed_reference_value v = Ok () \<longleftrightarrow> length v = 43 \<and> list_all b64url_byte v"
  by (simp add: validate_fixed_reference_value_def foundation_bounds is_base64url_no_pad_byte_eq)

lemma validate_ascii_byte_range_Ok:
  "validate_ascii_byte_range v lo hi = Ok () \<longleftrightarrow> lo \<le> length v \<and> length v \<le> hi \<and> is_ascii v"
  by (auto simp: validate_ascii_byte_range_def)

lemma is_err_iff_not_Ok: "is_err (r :: (unit, 'e) result) \<longleftrightarrow> r \<noteq> Ok ()"
  by (cases r) auto

lemma fixed_reference_ascii: "list_all b64url_byte v \<Longrightarrow> is_ascii v"
  by (auto simp: is_ascii_def list_all_iff b64url_byte_ascii)

lemma fixed_reference_utf8: "validate_fixed_reference_value v = Ok () \<Longrightarrow> utf8_valid v"
  by (auto simp: validate_fixed_reference_value_Ok intro: is_ascii_utf8_valid fixed_reference_ascii)

lemma validate_service_id_bytes:
  "validate_service_id v = Ok () \<Longrightarrow> v \<noteq> [] \<and> length v \<le> 64 \<and> list_all is_service_id_rest_byte v"
  by (auto simp: validate_service_id_def is_service_id_rest_byte_def foundation_bounds split: list.splits if_splits)

lemma validate_service_id_ascii: "validate_service_id v = Ok () \<Longrightarrow> is_ascii v"
  using validate_service_id_bytes [of v]
  by (auto simp: is_ascii_def list_all_iff is_service_id_rest_byte_def byte_class_defs elim!: order_trans)

section \<open>Lookups\<close>

definition hex_byte :: "char \<Rightarrow> bool" where
  "hex_byte c \<longleftrightarrow> byte_in CHR ''0'' CHR ''9'' c \<or> byte_in CHR ''a'' CHR ''f'' c"

lemma of_char_less_256: "(of_char c :: nat) < 256"
proof -
  have "(of_char c :: nat) mod 256 < 256" by (rule mod_less_divisor) simp
  then show ?thesis by simp
qed

lemma of_char_nibble: "(of_char c :: nat) div 16 < 16"
  using of_char_less_256 [of c] by (simp only: less_mult_imp_div_less)

lemma hex_digit_props:
  assumes "d < 16"
  shows "hex_byte (hex_digit d)"
proof -
  have "d \<in> {0, 1, 2, 3, 4, 5, 6, 7, 8, 9, 10, 11, 12, 13, 14, 15}"
    using assms by (simp only: insert_iff empty_iff) arith
  then show ?thesis by (auto simp: hex_byte_def byte_in_def hex_digit_def)
qed

lemma hex_digit_inj:
  assumes "d < 16" "e < 16" "hex_digit d = hex_digit e"
  shows "d = e"
  using assms nth_eq_iff_index_eq [of "''0123456789abcdef''" d e] by (simp add: hex_digit_def)

lemma byte_hex_inj: "byte_hex a = byte_hex b \<Longrightarrow> a = b"
proof -
  assume eq: "byte_hex a = byte_hex b"
  from eq have "(of_char a :: nat) div 16 = of_char b div 16" "(of_char a :: nat) mod 16 = of_char b mod 16"
    by (auto simp: byte_hex_def intro: hex_digit_inj [OF of_char_nibble of_char_nibble]
        hex_digit_inj [OF mod_less_divisor mod_less_divisor])
  then have "(of_char a :: nat) = of_char b"
    using div_mult_mod_eq [of "of_char a :: nat" 16] div_mult_mod_eq [of "of_char b :: nat" 16] by metis
  then show ?thesis by simp
qed

lemma length_byte_hex [simp]: "length (byte_hex b) = 2"
  by (simp add: byte_hex_def)

lemma byte_hex_hex: "list_all hex_byte (byte_hex b)"
  by (simp add: byte_hex_def hex_digit_props of_char_nibble)

lemma length_concat_byte_hex: "length (concat (map byte_hex bs)) = 2 * length bs"
  by (induction bs) auto

lemma list_all_concat_byte_hex: "list_all hex_byte (concat (map byte_hex bs))"
  by (induction bs) (auto simp: byte_hex_hex)

lemma concat_byte_hex_inj:
  "concat (map byte_hex as) = concat (map byte_hex bs) \<Longrightarrow> as = bs"
proof (induction as arbitrary: bs)
  case Nil
  then show ?case by (cases bs) (auto simp: byte_hex_def)
next
  case (Cons a as)
  from Cons.prems obtain b bs' where bs: "bs = b # bs'"
    by (cases bs) (auto simp: byte_hex_def)
  with Cons.prems have "byte_hex a = byte_hex b" "concat (map byte_hex as) = concat (map byte_hex bs')"
    by (auto simp: append_eq_append_conv)
  with Cons.IH bs show ?case by (auto dest: byte_hex_inj)
qed

lemma hex_byte_ascii: "hex_byte c \<Longrightarrow> is_ascii_byte c"
  by (auto simp: hex_byte_def byte_class_defs elim!: order_trans)

lemma reference_value_lookup_hex: "list_all hex_byte (reference_value_lookup C v)"
  by (simp add: reference_value_lookup_def list_all_concat_byte_hex)

lemma reference_value_lookup_eq_iff:
  "reference_value_lookup C v = reference_value_lookup C w \<longleftrightarrow> sha256 C v = sha256 C w"
  by (auto simp: reference_value_lookup_def sha256_digest_def dest: concat_byte_hex_inj)

lemma reference_value_lookup_length:
  "crypto_lib C \<Longrightarrow> length (reference_value_lookup C v) = 64"
  by (simp add: reference_value_lookup_def sha256_digest_def length_concat_byte_hex
      crypto_lib.sha256_length)

section \<open>Properties\<close>

lemma generated_reference_valid:
  assumes "crypto_lib C" "length bs = 32"
  shows "validate_fixed_reference_value (b64url_encode C bs) = Ok ()"
  using assms
  by (simp add: validate_fixed_reference_value_Ok crypto_lib.b64url_length crypto_lib.b64url_alphabet)

lemma pkce_challenge_valid:
  assumes "crypto_lib C" "pkce_s256_challenge C v = Ok c"
  shows "validate_fixed_reference_value c = Ok ()"
  using assms
  by (auto simp: pkce_s256_challenge_def and_then_Ok_iff sha256_digest_def
      intro: generated_reference_valid crypto_lib.sha256_length)

lemma pkce_s256_challenge_Ok_iff:
  "pkce_s256_challenge C v = Ok c \<longleftrightarrow>
     43 \<le> length v \<and> length v \<le> 128 \<and> is_ascii v \<and> c = b64url_encode C (sha256 C v)"
  by (auto simp: pkce_s256_challenge_def and_then_Ok_iff validate_ascii_byte_range_Ok
      foundation_bounds sha256_digest_def)

lemma checked_expires_at_Ok_iff:
  "checked_expires_at now ttl = Ok t \<longleftrightarrow> unat t = unat now + unat ttl"
  by (simp add: checked_expires_at_def ok_or_eq_Ok_iff checked_add_Some_iff)

lemma checked_expires_at_Err_iff:
  "checked_expires_at now ttl = Err e \<longleftrightarrow> e = Overflow \<and> 2 ^ 64 \<le> unat now + unat ttl"
  by (auto simp: checked_expires_at_def checked_add_def)

end
