(* ===== verification/Redis_Codec.thy ===== *)
theory Redis_Codec
  imports Auth_Foundation
begin

text \<open>
  The stored states of \<open>rust-auth0-service/src/redis_state.rs\<close> and their hash encoding:
  the four records, the status enumerations, the field lists, \<open>encode_*\<close>,
  \<open>decode_*\<close> and their helpers.  The locale \<open>state_codec\<close> is the contract all four
  pairs satisfy; it is interpreted once for each.
\<close>

section \<open>Times to live and field names\<close>

definition EXTERNAL_AUTH_TRANSACTION_TTL_SECONDS :: u64 where
  "EXTERNAL_AUTH_TRANSACTION_TTL_SECONDS = 600"
definition COMMON_SESSION_TTL_SECONDS :: u64 where
  "COMMON_SESSION_TTL_SECONDS = 28800"
definition AUTHENTICATION_HANDOFF_TTL_SECONDS :: u64 where
  "AUTHENTICATION_HANDOFF_TTL_SECONDS = 120"
definition COMMON_LOGOUT_TRANSACTION_TTL_SECONDS :: u64 where
  "COMMON_LOGOUT_TRANSACTION_TTL_SECONDS = 600"

lemmas ttl_defs = EXTERNAL_AUTH_TRANSACTION_TTL_SECONDS_def COMMON_SESSION_TTL_SECONDS_def
  AUTHENTICATION_HANDOFF_TTL_SECONDS_def COMMON_LOGOUT_TRANSACTION_TTL_SECONDS_def

definition EXTERNAL_FIELDS :: "string list" where
  "EXTERNAL_FIELDS = [''service_id'', ''service_state'', ''handoff_code_challenge'', ''provider'',
     ''provider_verification_data'', ''created_at'', ''expires_at'', ''status'']"

definition SESSION_FIELDS :: "string list" where
  "SESSION_FIELDS = [''internal_user_id'', ''authenticated_at'', ''created_at'', ''expires_at'']"

definition HANDOFF_FIELDS :: "string list" where
  "HANDOFF_FIELDS = [''service_id'', ''internal_user_id'', ''common_session_lookup'', ''code_challenge'',
     ''authenticated_at'', ''issued_at'', ''expires_at'', ''status'']"

definition LOGOUT_FIELDS :: "string list" where
  "LOGOUT_FIELDS = [''service_id'', ''logout_return_uri'', ''csrf_lookup'', ''created_at'',
     ''expires_at'', ''status'']"

lemmas field_defs = EXTERNAL_FIELDS_def SESSION_FIELDS_def HANDOFF_FIELDS_def LOGOUT_FIELDS_def

section \<open>Stored states\<close>

datatype external_status = Waiting | Processing

datatype usage_status = Unused | Used

record external_auth_transaction =
  ext_service_id :: string
  ext_service_state :: string
  ext_handoff_code_challenge :: string
  ext_provider :: string
  ext_provider_verification_data :: string
  ext_created_at :: u64
  ext_expires_at :: u64
  ext_status :: external_status

record common_session =
  ses_internal_user_id :: i32
  ses_authenticated_at :: u64
  ses_created_at :: u64
  ses_expires_at :: u64

record authentication_handoff =
  hnd_service_id :: string
  hnd_internal_user_id :: i32
  hnd_common_session_lookup :: string
  hnd_code_challenge :: string
  hnd_authenticated_at :: u64
  hnd_issued_at :: u64
  hnd_expires_at :: u64
  hnd_status :: usage_status

record common_logout_transaction =
  lgo_service_id :: string
  lgo_logout_return_uri :: string
  lgo_csrf_lookup :: string
  lgo_created_at :: u64
  lgo_expires_at :: u64
  lgo_status :: usage_status

datatype redis_state_error =
    NotFound | Expired | RedisFailure | InvalidStoredState | AlreadyClaimed | AlreadyUsed
  | ServiceMismatch | ChallengeMismatch | CsrfMismatch | KeyConflict

record handoff_exchange_result =
  her_internal_user_id :: i32
  her_authenticated_at :: u64

section \<open>Field maps\<close>

text \<open>
  A \<open>BTreeMap<String, String>\<close> is an association list with distinct keys; nothing the code
  does depends on the order.  \<open>collect\<close> inserts the pairs one after the other.
\<close>

type_synonym field_map = "(string \<times> string) list"

definition btree_collect :: "(string \<times> string) list \<Rightarrow> field_map" where
  "btree_collect ps = fold (\<lambda>(k, v). AList.update k v) ps []"

definition contains_key :: "field_map \<Rightarrow> string \<Rightarrow> bool" where
  "contains_key fs k \<longleftrightarrow> map_of fs k \<noteq> None"

definition validate_field_names :: "field_map \<Rightarrow> string list \<Rightarrow> (unit, redis_state_error) result" where
  "validate_field_names fs expected =
     (if length fs \<noteq> length expected \<or> list_ex (\<lambda>f. \<not> contains_key fs f) expected
      then Err InvalidStoredState else Ok ())"

definition required_string :: "field_map \<Rightarrow> string \<Rightarrow> (string, redis_state_error) result" where
  "required_string fs field = ok_or (map_of fs field) InvalidStoredState"

definition parse_u64 :: "field_map \<Rightarrow> string \<Rightarrow> (u64, redis_state_error) result" where
  "parse_u64 fs field =
     and_then (required_string fs field) (\<lambda>v. ok_or (parse_uint_str v) InvalidStoredState)"

definition parse_i32 :: "field_map \<Rightarrow> string \<Rightarrow> (i32, redis_state_error) result" where
  "parse_i32 fs field =
     and_then (required_string fs field) (\<lambda>v. ok_or (parse_sint_str v) InvalidStoredState)"

fun external_status_value :: "external_status \<Rightarrow> string" where
  "external_status_value Waiting = ''waiting''"
| "external_status_value Processing = ''processing''"

definition decode_external_status :: "string \<Rightarrow> (external_status, redis_state_error) result" where
  "decode_external_status value =
     (if value = ''waiting'' then Ok Waiting
      else if value = ''processing'' then Ok Processing
      else Err InvalidStoredState)"

fun usage_status_value :: "usage_status \<Rightarrow> string" where
  "usage_status_value Unused = ''unused''"
| "usage_status_value Used = ''used''"

definition decode_usage_status :: "string \<Rightarrow> (usage_status, redis_state_error) result" where
  "decode_usage_status value =
     (if value = ''unused'' then Ok Unused
      else if value = ''used'' then Ok Used
      else Err InvalidStoredState)"

definition is_lookup :: "string \<Rightarrow> bool" where
  "is_lookup value \<longleftrightarrow>
     length value = 64 \<and> is_ascii value
     \<and> list_all (\<lambda>byte. is_digit byte \<or> byte_in CHR ''a'' CHR ''f'' byte) value"

section \<open>Encoders\<close>

definition encode_external :: "external_auth_transaction \<Rightarrow> (string \<times> string) list" where
  "encode_external state =
     [(''service_id'', ext_service_id state),
      (''service_state'', ext_service_state state),
      (''handoff_code_challenge'', ext_handoff_code_challenge state),
      (''provider'', ext_provider state),
      (''provider_verification_data'', ext_provider_verification_data state),
      (''created_at'', u64_to_string (ext_created_at state)),
      (''expires_at'', u64_to_string (ext_expires_at state)),
      (''status'', external_status_value (ext_status state))]"

definition encode_session :: "common_session \<Rightarrow> (string \<times> string) list" where
  "encode_session state =
     [(''internal_user_id'', i32_to_string (ses_internal_user_id state)),
      (''authenticated_at'', u64_to_string (ses_authenticated_at state)),
      (''created_at'', u64_to_string (ses_created_at state)),
      (''expires_at'', u64_to_string (ses_expires_at state))]"

definition encode_handoff :: "authentication_handoff \<Rightarrow> (string \<times> string) list" where
  "encode_handoff state =
     [(''service_id'', hnd_service_id state),
      (''internal_user_id'', i32_to_string (hnd_internal_user_id state)),
      (''common_session_lookup'', hnd_common_session_lookup state),
      (''code_challenge'', hnd_code_challenge state),
      (''authenticated_at'', u64_to_string (hnd_authenticated_at state)),
      (''issued_at'', u64_to_string (hnd_issued_at state)),
      (''expires_at'', u64_to_string (hnd_expires_at state)),
      (''status'', usage_status_value (hnd_status state))]"

definition encode_logout :: "common_logout_transaction \<Rightarrow> (string \<times> string) list" where
  "encode_logout state =
     [(''service_id'', lgo_service_id state),
      (''logout_return_uri'', lgo_logout_return_uri state),
      (''csrf_lookup'', lgo_csrf_lookup state),
      (''created_at'', u64_to_string (lgo_created_at state)),
      (''expires_at'', u64_to_string (lgo_expires_at state)),
      (''status'', usage_status_value (lgo_status state))]"

section \<open>Decoders\<close>

definition decode_external :: "field_map \<Rightarrow> (external_auth_transaction, redis_state_error) result" where
  "decode_external fs =
     and_then (validate_field_names fs EXTERNAL_FIELDS) (\<lambda>_.
     and_then (required_string fs ''service_id'') (\<lambda>service_id.
     and_then (required_string fs ''service_state'') (\<lambda>service_state.
     and_then (required_string fs ''handoff_code_challenge'') (\<lambda>challenge.
     and_then (required_string fs ''provider'') (\<lambda>provider.
     and_then (required_string fs ''provider_verification_data'') (\<lambda>verification.
     and_then (parse_u64 fs ''created_at'') (\<lambda>created_at.
     and_then (parse_u64 fs ''expires_at'') (\<lambda>expires_at.
     and_then (required_string fs ''status'') (\<lambda>status_text.
     and_then (decode_external_status status_text) (\<lambda>status.
       Ok \<lparr>ext_service_id = service_id, ext_service_state = service_state,
           ext_handoff_code_challenge = challenge, ext_provider = provider,
           ext_provider_verification_data = verification, ext_created_at = created_at,
           ext_expires_at = expires_at, ext_status = status\<rparr>))))))))))"

definition decode_session :: "field_map \<Rightarrow> (common_session, redis_state_error) result" where
  "decode_session fs =
     and_then (validate_field_names fs SESSION_FIELDS) (\<lambda>_.
     and_then (parse_i32 fs ''internal_user_id'') (\<lambda>user.
     and_then (parse_u64 fs ''authenticated_at'') (\<lambda>authenticated_at.
     and_then (parse_u64 fs ''created_at'') (\<lambda>created_at.
     and_then (parse_u64 fs ''expires_at'') (\<lambda>expires_at.
       Ok \<lparr>ses_internal_user_id = user, ses_authenticated_at = authenticated_at,
           ses_created_at = created_at, ses_expires_at = expires_at\<rparr>)))))"

definition decode_handoff :: "field_map \<Rightarrow> (authentication_handoff, redis_state_error) result" where
  "decode_handoff fs =
     and_then (validate_field_names fs HANDOFF_FIELDS) (\<lambda>_.
     and_then (required_string fs ''common_session_lookup'') (\<lambda>session_lookup.
     if \<not> is_lookup session_lookup then Err InvalidStoredState else
     and_then (required_string fs ''service_id'') (\<lambda>service_id.
     and_then (parse_i32 fs ''internal_user_id'') (\<lambda>user.
     and_then (required_string fs ''code_challenge'') (\<lambda>challenge.
     and_then (parse_u64 fs ''authenticated_at'') (\<lambda>authenticated_at.
     and_then (parse_u64 fs ''issued_at'') (\<lambda>issued_at.
     and_then (parse_u64 fs ''expires_at'') (\<lambda>expires_at.
     and_then (required_string fs ''status'') (\<lambda>status_text.
     and_then (decode_usage_status status_text) (\<lambda>status.
       Ok \<lparr>hnd_service_id = service_id, hnd_internal_user_id = user,
           hnd_common_session_lookup = session_lookup, hnd_code_challenge = challenge,
           hnd_authenticated_at = authenticated_at, hnd_issued_at = issued_at,
           hnd_expires_at = expires_at, hnd_status = status\<rparr>))))))))))"

definition decode_logout :: "field_map \<Rightarrow> (common_logout_transaction, redis_state_error) result" where
  "decode_logout fs =
     and_then (validate_field_names fs LOGOUT_FIELDS) (\<lambda>_.
     and_then (required_string fs ''csrf_lookup'') (\<lambda>csrf_lookup.
     if \<not> is_lookup csrf_lookup then Err InvalidStoredState else
     and_then (required_string fs ''service_id'') (\<lambda>service_id.
     and_then (required_string fs ''logout_return_uri'') (\<lambda>return_uri.
     and_then (parse_u64 fs ''created_at'') (\<lambda>created_at.
     and_then (parse_u64 fs ''expires_at'') (\<lambda>expires_at.
     and_then (required_string fs ''status'') (\<lambda>status_text.
     and_then (decode_usage_status status_text) (\<lambda>status.
       Ok \<lparr>lgo_service_id = service_id, lgo_logout_return_uri = return_uri,
           lgo_csrf_lookup = csrf_lookup, lgo_created_at = created_at,
           lgo_expires_at = expires_at, lgo_status = status\<rparr>))))))))"

section \<open>Field-map lemmas\<close>

lemma map_of_btree_collect: "map_of (btree_collect ps) = map_of (rev ps)"
  by (simp add: btree_collect_def map_of_fold_update)

lemma distinct_btree_collect: "distinct (map fst (btree_collect ps))"
proof -
  have "distinct (map fst qs) \<Longrightarrow> distinct (map fst (fold (\<lambda>(k, v). AList.update k v) ps qs))" for qs
    by (induction ps arbitrary: qs) (auto simp: distinct_update)
  from this [of "[]"] show ?thesis by (simp add: btree_collect_def)
qed

lemma map_of_btree_collect_distinct:
  "distinct (map fst ps) \<Longrightarrow> map_of (btree_collect ps) = map_of ps"
  by (simp add: map_of_btree_collect map_of_rev)

lemma length_fields_card: "distinct (map fst fs) \<Longrightarrow> length fs = card (dom (map_of fs))"
  by (metis dom_map_of_conv_image_fst distinct_card length_map set_map)

lemma length_fields_eq:
  "distinct (map fst fs) \<Longrightarrow> distinct (map fst gs) \<Longrightarrow> map_of fs = map_of gs \<Longrightarrow> length fs = length gs"
  by (simp add: length_fields_card)

lemma validate_field_names_Ok:
  assumes "distinct (map fst fs)" "distinct names"
  shows "validate_field_names fs names = Ok () \<longleftrightarrow> set (map fst fs) = set names"
proof -
  have "validate_field_names fs names = Ok () \<longleftrightarrow>
      length (map fst fs) = length names \<and> set names \<subseteq> set (map fst fs)"
    by (auto simp: validate_field_names_def list_ex_iff contains_key_def map_of_eq_None_iff)
  also have "\<dots> \<longleftrightarrow> card (set (map fst fs)) = card (set names) \<and> set names \<subseteq> set (map fst fs)"
    using assms by (simp only: distinct_card)
  also have "\<dots> \<longleftrightarrow> set (map fst fs) = set names"
    by (metis List.finite_set card_subset_eq subset_refl)
  finally show ?thesis .
qed

lemma required_string_Ok: "required_string fs f = Ok v \<longleftrightarrow> map_of fs f = Some v"
  by (simp add: required_string_def ok_or_eq_Ok_iff)

lemma parse_u64_Ok: "parse_u64 fs f = Ok w \<longleftrightarrow> (\<exists>v. map_of fs f = Some v \<and> parse_uint_str v = Some w)"
  by (auto simp: parse_u64_def and_then_Ok_iff required_string_Ok ok_or_eq_Ok_iff)

lemma parse_i32_Ok: "parse_i32 fs f = Ok w \<longleftrightarrow> (\<exists>v. map_of fs f = Some v \<and> parse_sint_str v = Some w)"
  by (auto simp: parse_i32_def and_then_Ok_iff required_string_Ok ok_or_eq_Ok_iff)

lemma decode_external_status_value [simp]: "decode_external_status (external_status_value st) = Ok st"
  by (cases st) (simp_all add: decode_external_status_def)

lemma decode_usage_status_value [simp]: "decode_usage_status (usage_status_value st) = Ok st"
  by (cases st) (simp_all add: decode_usage_status_def)

lemma is_lookup_hex: "is_lookup v \<longleftrightarrow> length v = 64 \<and> list_all hex_byte v"
proof -
  have "list_all hex_byte v \<Longrightarrow> is_ascii v"
    by (auto simp: is_ascii_def list_all_iff hex_byte_ascii)
  then show ?thesis
    by (auto simp: is_lookup_def hex_byte_def [abs_def] is_digit_def)
qed

lemma reference_value_lookup_is_lookup: "crypto_lib C \<Longrightarrow> is_lookup (reference_value_lookup C v)"
  by (simp add: is_lookup_hex reference_value_lookup_length reference_value_lookup_hex)

section \<open>The codec contract\<close>

locale state_codec =
  fixes encode :: "'a \<Rightarrow> (string \<times> string) list"
    and decode :: "field_map \<Rightarrow> ('a, redis_state_error) result"
    and names :: "string list"
    and storable :: "'a \<Rightarrow> bool"
  assumes encode_names: "map fst (encode x) = names"
    and names_distinct: "distinct names" "names \<noteq> []"
    and encode_utf8: "storable x \<Longrightarrow> (f, v) \<in> set (encode x) \<Longrightarrow> utf8_valid f \<and> utf8_valid v"
    and decode_encode: "storable x \<Longrightarrow> decode (btree_collect (encode x)) = Ok x"
    and decode_ext: "distinct (map fst fs) \<Longrightarrow> distinct (map fst gs) \<Longrightarrow> map_of fs = map_of gs \<Longrightarrow>
      decode fs = decode gs"
    and decode_error: "decode fs = Err e \<Longrightarrow> e = InvalidStoredState"
    and decode_names: "distinct (map fst fs) \<Longrightarrow> decode fs = Ok x \<Longrightarrow> set (map fst fs) = set names"
begin

lemma decode_map_of_encode:
  assumes "storable x" "distinct (map fst fs)" "map_of fs = map_of (encode x)"
  shows "decode fs = Ok x"
proof -
  have "distinct (map fst (encode x))" by (simp add: encode_names names_distinct)
  then have "map_of fs = map_of (btree_collect (encode x))"
    by (simp add: assms(3) map_of_btree_collect_distinct)
  then have "decode fs = decode (btree_collect (encode x))"
    using assms(2) distinct_btree_collect by (rule decode_ext [rotated 2])
  then show ?thesis using assms(1) by (simp add: decode_encode)
qed

lemma encode_inj: "storable x \<Longrightarrow> storable y \<Longrightarrow> encode x = encode y \<Longrightarrow> x = y"
  by (metis decode_encode sum.inject(2))

lemma decode_rejects_other_names:
  "distinct (map fst fs) \<Longrightarrow> set (map fst fs) \<noteq> set names \<Longrightarrow> decode fs = Err InvalidStoredState"
  by (metis decode_error decode_names sum.exhaust)

lemma dom_encode: "dom (map_of (encode x)) = set names"
  by (metis dom_map_of_conv_image_fst encode_names set_map)

lemma encode_not_Nil: "encode x \<noteq> []"
  using encode_names names_distinct by force

end

definition wf_external :: "external_auth_transaction \<Rightarrow> bool" where
  "wf_external x \<longleftrightarrow> utf8_valid (ext_service_id x) \<and> utf8_valid (ext_service_state x)
     \<and> utf8_valid (ext_handoff_code_challenge x) \<and> utf8_valid (ext_provider x)
     \<and> utf8_valid (ext_provider_verification_data x)"

definition wf_session :: "common_session \<Rightarrow> bool" where
  "wf_session x \<longleftrightarrow> True"

definition wf_handoff :: "authentication_handoff \<Rightarrow> bool" where
  "wf_handoff x \<longleftrightarrow> utf8_valid (hnd_service_id x) \<and> is_lookup (hnd_common_session_lookup x)
     \<and> utf8_valid (hnd_code_challenge x)"

definition wf_logout :: "common_logout_transaction \<Rightarrow> bool" where
  "wf_logout x \<longleftrightarrow> utf8_valid (lgo_service_id x) \<and> utf8_valid (lgo_logout_return_uri x)
     \<and> is_lookup (lgo_csrf_lookup x)"

lemma utf8_valid_u64 [simp]: "utf8_valid (u64_to_string w)"
  by (simp add: u64_to_string_def show_nat_ascii is_ascii_utf8_valid)

lemma utf8_valid_i32 [simp]: "utf8_valid (i32_to_string w)"
  by (simp add: i32_to_string_def show_int_ascii is_ascii_utf8_valid)

lemma utf8_valid_external_status [simp]: "utf8_valid (external_status_value st)"
  by (cases st) (simp_all add: is_ascii_byte_def)

lemma utf8_valid_usage_status [simp]: "utf8_valid (usage_status_value st)"
  by (cases st) (simp_all add: is_ascii_byte_def)

lemma utf8_valid_lookup: "is_lookup v \<Longrightarrow> utf8_valid v"
  by (simp add: is_lookup_def is_ascii_utf8_valid)

lemma field_names_utf8 [simp]:
  "list_all utf8_valid EXTERNAL_FIELDS" "list_all utf8_valid SESSION_FIELDS"
  "list_all utf8_valid HANDOFF_FIELDS" "list_all utf8_valid LOGOUT_FIELDS"
  by (simp_all add: field_defs is_ascii_byte_def)

lemma field_names_distinct [simp]:
  "distinct EXTERNAL_FIELDS" "distinct SESSION_FIELDS" "distinct HANDOFF_FIELDS" "distinct LOGOUT_FIELDS"
  by (simp_all add: field_defs)

lemmas decode_defs = decode_external_def decode_session_def decode_handoff_def decode_logout_def

lemmas encode_defs = encode_external_def encode_session_def encode_handoff_def encode_logout_def

lemma decode_congs:
  assumes "length fs = length gs" "map_of fs = map_of gs"
  shows "decode_external fs = decode_external gs" "decode_session fs = decode_session gs"
    "decode_handoff fs = decode_handoff gs" "decode_logout fs = decode_logout gs"
  by (simp_all only: decode_defs validate_field_names_def contains_key_def required_string_def
      parse_u64_def parse_i32_def assms)

lemma decode_errors:
  "decode_external fs = Err e \<Longrightarrow> e = InvalidStoredState"
  "decode_session fs = Err e \<Longrightarrow> e = InvalidStoredState"
  "decode_handoff fs = Err e \<Longrightarrow> e = InvalidStoredState"
  "decode_logout fs = Err e \<Longrightarrow> e = InvalidStoredState"
  by (auto simp: decode_defs and_then_Err_iff validate_field_names_def required_string_def ok_or_def
      parse_u64_def parse_i32_def decode_external_status_def decode_usage_status_def
      split: if_splits option.splits)

lemma length_btree_collect: "distinct (map fst ps) \<Longrightarrow> length (btree_collect ps) = length ps"
  by (rule length_fields_eq) (simp_all add: distinct_btree_collect map_of_btree_collect_distinct)

lemma encode_names_eqs:
  "map fst (encode_external x) = EXTERNAL_FIELDS" "map fst (encode_session y) = SESSION_FIELDS"
  "map fst (encode_handoff z) = HANDOFF_FIELDS" "map fst (encode_logout w) = LOGOUT_FIELDS"
  by (simp_all add: encode_defs field_defs)

lemma decode_collect:
  assumes "distinct (map fst ps)"
  shows "decode_external (btree_collect ps) = decode_external ps"
    "decode_session (btree_collect ps) = decode_session ps"
    "decode_handoff (btree_collect ps) = decode_handoff ps"
    "decode_logout (btree_collect ps) = decode_logout ps"
  by (rule decode_congs; simp add: assms length_btree_collect map_of_btree_collect_distinct)+

lemmas parse_to_string = parse_u64_to_string parse_i32_to_string

lemma decode_encode_external: "decode_external (encode_external x) = Ok x"
  by (simp add: decode_external_def encode_external_def validate_field_names_def contains_key_def
      EXTERNAL_FIELDS_def required_string_def parse_u64_def parse_to_string)

lemma decode_encode_session: "decode_session (encode_session x) = Ok x"
  by (simp add: decode_session_def encode_session_def validate_field_names_def contains_key_def
      SESSION_FIELDS_def required_string_def parse_u64_def parse_i32_def parse_to_string)

lemma decode_encode_handoff:
  "is_lookup (hnd_common_session_lookup x) \<Longrightarrow> decode_handoff (encode_handoff x) = Ok x"
  by (simp add: decode_handoff_def encode_handoff_def validate_field_names_def contains_key_def
      HANDOFF_FIELDS_def required_string_def parse_u64_def parse_i32_def parse_to_string)

lemma decode_encode_logout:
  "is_lookup (lgo_csrf_lookup x) \<Longrightarrow> decode_logout (encode_logout x) = Ok x"
  by (simp add: decode_logout_def encode_logout_def validate_field_names_def contains_key_def
      LOGOUT_FIELDS_def required_string_def parse_u64_def parse_to_string)

lemma decode_Ok_names:
  assumes "distinct (map fst fs)"
  shows "decode_external fs = Ok x \<Longrightarrow> set (map fst fs) = set EXTERNAL_FIELDS"
    "decode_session fs = Ok y \<Longrightarrow> set (map fst fs) = set SESSION_FIELDS"
    "decode_handoff fs = Ok z \<Longrightarrow> set (map fst fs) = set HANDOFF_FIELDS"
    "decode_logout fs = Ok w \<Longrightarrow> set (map fst fs) = set LOGOUT_FIELDS"
  using assms
  by (auto simp only: decode_defs validate_field_names_Ok field_names_distinct dest!: and_then_Ok_unitD)

lemma codec_utf8:
  "wf_external x \<Longrightarrow> (f, v) \<in> set (encode_external x) \<Longrightarrow> utf8_valid v"
  "(f, v) \<in> set (encode_session y) \<Longrightarrow> utf8_valid v"
  "wf_handoff z \<Longrightarrow> (f, v) \<in> set (encode_handoff z) \<Longrightarrow> utf8_valid v"
  "wf_logout w \<Longrightarrow> (f, v) \<in> set (encode_logout w) \<Longrightarrow> utf8_valid v"
  by (auto simp: encode_defs wf_external_def wf_handoff_def wf_logout_def utf8_valid_lookup)

text \<open>The contract follows from the facts that are particular to one state.\<close>

lemma state_codecI:
  assumes names: "\<And>x. map fst (encode x) = names"
    and ok: "distinct names" "names \<noteq> []" "list_all utf8_valid names"
    and utf8: "\<And>x f v. storable x \<Longrightarrow> (f, v) \<in> set (encode x) \<Longrightarrow> utf8_valid v"
    and roundtrip: "\<And>x. storable x \<Longrightarrow> decode (encode x) = Ok x"
    and cong: "\<And>fs gs. length fs = length gs \<Longrightarrow> map_of fs = map_of gs \<Longrightarrow> decode fs = decode gs"
    and err: "\<And>fs e. decode fs = Err e \<Longrightarrow> e = InvalidStoredState"
    and exact: "\<And>fs x. distinct (map fst fs) \<Longrightarrow> decode fs = Ok x \<Longrightarrow> set (map fst fs) = set names"
  shows "state_codec encode decode names storable"
proof (unfold_locales, goal_cases)
  case (4 x f v)
  have "f \<in> set names" using 4(2) by (metis fst_conv image_eqI names set_map)
  with 4 ok(3) utf8 show ?case by (auto simp: list_all_iff)
next
  case (5 x)
  have "distinct (map fst (encode x))" by (simp add: names ok(1))
  then have "decode (btree_collect (encode x)) = decode (encode x)"
    by (intro cong) (simp_all add: length_btree_collect map_of_btree_collect_distinct)
  then show ?case by (simp add: roundtrip 5)
qed (fact names ok err exact | rule cong length_fields_eq | assumption)+

lemma field_names_not_Nil:
  "EXTERNAL_FIELDS \<noteq> []" "SESSION_FIELDS \<noteq> []" "HANDOFF_FIELDS \<noteq> []" "LOGOUT_FIELDS \<noteq> []"
  by (simp_all add: field_defs)

lemmas codec_facts = encode_names_eqs field_names_distinct field_names_not_Nil field_names_utf8

interpretation external_codec: state_codec encode_external decode_external EXTERNAL_FIELDS wf_external
  by (rule state_codecI) (erule (1) codec_utf8 decode_congs decode_Ok_names | erule decode_errors
    | rule codec_facts decode_encode_external)+

interpretation session_codec: state_codec encode_session decode_session SESSION_FIELDS wf_session
  by (rule state_codecI) (erule (1) decode_congs decode_Ok_names | erule decode_errors codec_utf8
    | rule codec_facts decode_encode_session)+

interpretation handoff_codec: state_codec encode_handoff decode_handoff HANDOFF_FIELDS wf_handoff
  by (rule state_codecI) (erule (1) codec_utf8 decode_congs decode_Ok_names | erule decode_errors
    | rule codec_facts | simp add: wf_handoff_def decode_encode_handoff)+

interpretation logout_codec: state_codec encode_logout decode_logout LOGOUT_FIELDS wf_logout
  by (rule state_codecI) (erule (1) codec_utf8 decode_congs decode_Ok_names | erule decode_errors
    | rule codec_facts | simp add: wf_logout_def decode_encode_logout)+

end
