(* ===== verification/Redis_Scripts.thy ===== *)
theory Redis_Scripts
  imports Redis_Server Redis_Codec
begin

text \<open>
  The five Lua scripts of \<open>rust-auth0-service/src/redis_state.rs\<close>.  Redis runs a script
  atomically, so each is one function on the server state: the reply (\<open>None\<close> when a
  \<open>redis.call\<close> raises and aborts the script) and the new state.  A Lua value that may be
  \<open>false\<close> (the reply of \<open>HGET\<close> on a missing field) is an option.

  Lua numbers are doubles.  \<open>uint\<close> lets pass decimal integers up to \<open>2^53 - 1\<close> only and
  \<open>int\<close> 32-bit integers, all of which doubles represent exactly; a larger decimal rounds to a
  double that is still above the bound.  So the arithmetic after the checks is exact and is
  modelled on \<open>int\<close>.
\<close>

unbundle bit_operations_syntax

section \<open>Replies and Lua helpers\<close>

type_synonym lua_key = string
type_synonym lua_arg = string

datatype redis_value = VInt int | VBulk bytes | VNil

definition lua_uint_max :: nat where
  "lua_uint_max = 9007199254740991"

definition lua_uint :: "string option \<Rightarrow> bool" where
  "lua_uint value \<longleftrightarrow>
     (case value of None \<Rightarrow> False
      | Some v \<Rightarrow> (case parse_nat v of None \<Rightarrow> False | Some n \<Rightarrow> n \<le> lua_uint_max))"

definition lua_int :: "string option \<Rightarrow> bool" where
  "lua_int value \<longleftrightarrow>
     (case value of None \<Rightarrow> False
      | Some v \<Rightarrow> (case parse_int v of None \<Rightarrow> False | Some z \<Rightarrow> -2147483648 \<le> z \<and> z \<le> 2147483647))"

definition lua_lookup :: "string option \<Rightarrow> bool" where
  "lua_lookup value \<longleftrightarrow>
     (case value of None \<Rightarrow> False | Some v \<Rightarrow> v \<noteq> [] \<and> list_all hex_byte v \<and> length v = 64)"

text \<open>\<open>tonumber\<close>, on strings that passed \<open>uint\<close> or \<open>int\<close>.\<close>

definition tonumber :: "string option \<Rightarrow> int" where
  "tonumber value = (case value of None \<Rightarrow> 0 | Some v \<Rightarrow> (case parse_int v of None \<Rightarrow> 0 | Some z \<Rightarrow> z))"

text \<open>The loop of \<open>fixed_work_equal_lookup\<close>, on the bytes of both strings.\<close>

fun lookup_diff :: "32 word \<Rightarrow> string \<Rightarrow> string \<Rightarrow> 32 word" where
  "lookup_diff diff (a # as) (b # bs) = lookup_diff (diff OR (of_char a XOR of_char b)) as bs"
| "lookup_diff diff _ _ = diff"

definition fixed_work_equal_lookup :: "string option \<Rightarrow> string option \<Rightarrow> bool" where
  "fixed_work_equal_lookup a b \<longleftrightarrow>
     (if \<not> lua_lookup a \<or> \<not> lua_lookup b then False else lookup_diff 0 (the a) (the b) = 0)"

text \<open>\<open>"auth:session:" .. lookup\<close>.\<close>

definition session_key_text :: "string \<Rightarrow> string" where
  "session_key_text lookup = ''auth:session:'' @ lookup"

text \<open>Reads several fields of one hash with \<open>HGET\<close>; \<open>None\<close> when one of the calls raises.\<close>

definition hget_each :: "'s redis \<Rightarrow> 's \<Rightarrow> string \<Rightarrow> string list \<Rightarrow> (string \<Rightarrow> string option) option" where
  "hget_each R s key names =
     (if list_all (\<lambda>f. r_hget R s key f \<noteq> None) names then Some (\<lambda>f. the (r_hget R s key f)) else None)"

section \<open>The scripts\<close>

definition callback_claim_script :: "'s redis \<Rightarrow> string \<Rightarrow> 's \<Rightarrow> redis_value list option \<times> 's" where
  "callback_claim_script R key s =
     (if \<not> r_exists R s key then (Some [VInt 1], s)
      else if r_type R s key \<noteq> ''hash'' then (Some [VInt 3], s)
      else case r_hlen R s key of None \<Rightarrow> (None, s) | Some n \<Rightarrow>
      if n \<noteq> 8 then (Some [VInt 3], s)
      else case hget_each R s key EXTERNAL_FIELDS of None \<Rightarrow> (None, s) | Some g \<Rightarrow>
      if g ''service_id'' = None \<or> g ''service_state'' = None \<or> g ''handoff_code_challenge'' = None
        \<or> g ''provider'' = None \<or> g ''provider_verification_data'' = None
        \<or> \<not> lua_uint (g ''created_at'') \<or> \<not> lua_uint (g ''expires_at'') \<or> g ''status'' = None
      then (Some [VInt 3], s)
      else if int (r_time R s) \<ge> tonumber (g ''expires_at'') then (Some [VInt 2], r_del R s key)
      else if g ''status'' = Some ''processing'' then (Some [VInt 4], s)
      else if g ''status'' \<noteq> Some ''waiting'' then (Some [VInt 3], s)
      else case r_hset R s key [(''status'', ''processing'')] of None \<Rightarrow> (None, s) | Some s' \<Rightarrow>
        (Some [VInt 0, VBulk (the (g ''service_id'')), VBulk (the (g ''service_state'')),
               VBulk (the (g ''handoff_code_challenge'')), VBulk (the (g ''provider'')),
               VBulk (the (g ''provider_verification_data'')), VBulk (the (g ''created_at'')),
               VBulk (the (g ''expires_at'')), VBulk ''processing''], s'))"

text \<open>\<open>HSET\<close> of a handoff with its \<open>EXPIREAT\<close>, as two of the scripts end.\<close>

definition hset_expireat ::
    "'s redis \<Rightarrow> string \<Rightarrow> (string \<times> string) list \<Rightarrow> string \<Rightarrow> 's \<Rightarrow> unit option \<times> 's" where
  "hset_expireat R key ps t s =
     (case r_hset R s key ps of None \<Rightarrow> (None, s) | Some s' \<Rightarrow>
      case r_expireat R s' key t of None \<Rightarrow> (None, s') | Some s'' \<Rightarrow> (Some (), s''))"

definition issue_sso_handoff_script ::
    "'s redis \<Rightarrow> lua_key \<Rightarrow> lua_key \<Rightarrow> lua_arg \<Rightarrow> lua_arg \<Rightarrow> lua_arg \<Rightarrow> lua_arg \<Rightarrow> lua_arg \<Rightarrow> lua_arg \<Rightarrow> lua_arg
     \<Rightarrow> lua_arg \<Rightarrow> lua_arg \<Rightarrow> 's \<Rightarrow> redis_value list option \<times> 's" where
  "issue_sso_handoff_script R key1 key2 arg1 arg2 arg3 arg4 arg5 arg6 arg7 arg8 arg9 s =
     (if \<not> r_exists R s key1 then (Some [VInt 1], s)
      else if r_type R s key1 \<noteq> ''hash'' then (Some [VInt 3], s)
      else case r_hlen R s key1 of None \<Rightarrow> (None, s) | Some n \<Rightarrow>
      if n \<noteq> 4 then (Some [VInt 3], s)
      else case hget_each R s key1 SESSION_FIELDS of None \<Rightarrow> (None, s) | Some g \<Rightarrow>
      if \<not> lua_int (g ''internal_user_id'') \<or> \<not> lua_uint (g ''authenticated_at'')
        \<or> \<not> lua_uint (g ''created_at'') \<or> \<not> lua_uint (g ''expires_at'')
      then (Some [VInt 3], s)
      else if int (r_time R s) \<ge> tonumber (g ''expires_at'') then (Some [VInt 2], r_del R s key1)
      else if r_exists R s key2 then (Some [VInt 9], s)
      else if \<not> lua_lookup (Some arg1) \<or> key1 \<noteq> session_key_text arg1 then (Some [VInt 3], s)
      else if arg9 \<noteq> ''unused'' \<or> \<not> lua_int (Some arg3) \<or> \<not> lua_lookup (Some arg4) \<or> \<not> lua_uint (Some arg6)
        \<or> \<not> lua_uint (Some arg7) \<or> \<not> lua_uint (Some arg8)
      then (Some [VInt 3], s)
      else if arg4 \<noteq> arg1 \<or> tonumber (Some arg3) \<noteq> tonumber (g ''internal_user_id'')
        \<or> tonumber (Some arg6) \<noteq> tonumber (g ''authenticated_at'')
      then (Some [VInt 3], s)
      else if tonumber (Some arg8) \<le> int (r_time R s) then (Some [VInt 2], s)
      else case hset_expireat R key2
          [(''service_id'', arg2), (''internal_user_id'', arg3), (''common_session_lookup'', arg4),
           (''code_challenge'', arg5), (''authenticated_at'', arg6), (''issued_at'', arg7),
           (''expires_at'', arg8), (''status'', arg9)] arg8 s of
        (None, s') \<Rightarrow> (None, s') | (Some _, s') \<Rightarrow> (Some [VInt 0], s'))"

definition create_session_and_handoff_script ::
    "'s redis \<Rightarrow> lua_key \<Rightarrow> lua_key \<Rightarrow> lua_arg \<Rightarrow> lua_arg \<Rightarrow> lua_arg \<Rightarrow> lua_arg \<Rightarrow> lua_arg \<Rightarrow> lua_arg \<Rightarrow> lua_arg
     \<Rightarrow> lua_arg \<Rightarrow> lua_arg \<Rightarrow> lua_arg \<Rightarrow> lua_arg \<Rightarrow> lua_arg \<Rightarrow> lua_arg \<Rightarrow> 's \<Rightarrow> redis_value list option \<times> 's" where
  "create_session_and_handoff_script R key1 key2 arg1 arg2 arg3 arg4 arg5 arg6 arg7 arg8 arg9 arg10
       arg11 arg12 arg13 s =
     (if r_exists R s key1 \<or> r_exists R s key2 then (Some [VInt 9], s)
      else if \<not> lua_int (Some arg1) \<or> \<not> lua_uint (Some arg2) \<or> \<not> lua_uint (Some arg3) \<or> \<not> lua_uint (Some arg4)
        \<or> \<not> lua_lookup (Some arg5) \<or> key1 \<noteq> session_key_text arg5
      then (Some [VInt 3], s)
      else if arg13 \<noteq> ''unused'' \<or> \<not> lua_int (Some arg7) \<or> \<not> lua_lookup (Some arg8) \<or> \<not> lua_uint (Some arg10)
        \<or> \<not> lua_uint (Some arg11) \<or> \<not> lua_uint (Some arg12)
      then (Some [VInt 3], s)
      else if arg8 \<noteq> arg5 \<or> tonumber (Some arg7) \<noteq> tonumber (Some arg1)
        \<or> tonumber (Some arg10) \<noteq> tonumber (Some arg2)
      then (Some [VInt 3], s)
      else if tonumber (Some arg4) \<le> int (r_time R s) \<or> tonumber (Some arg12) \<le> int (r_time R s)
      then (Some [VInt 2], s)
      else case hset_expireat R key1
          [(''internal_user_id'', arg1), (''authenticated_at'', arg2), (''created_at'', arg3),
           (''expires_at'', arg4)] arg4 s of
        (None, s') \<Rightarrow> (None, s')
      | (Some _, s') \<Rightarrow>
          (case hset_expireat R key2
              [(''service_id'', arg6), (''internal_user_id'', arg7), (''common_session_lookup'', arg8),
               (''code_challenge'', arg9), (''authenticated_at'', arg10), (''issued_at'', arg11),
               (''expires_at'', arg12), (''status'', arg13)] arg12 s' of
             (None, s'') \<Rightarrow> (None, s'') | (Some _, s'') \<Rightarrow> (Some [VInt 0], s'')))"

definition exchange_handoff_script ::
    "'s redis \<Rightarrow> lua_key \<Rightarrow> lua_key \<Rightarrow> lua_arg \<Rightarrow> lua_arg \<Rightarrow> lua_arg \<Rightarrow> 's \<Rightarrow> redis_value list option \<times> 's" where
  "exchange_handoff_script R key1 key2 arg1 arg2 arg3 s =
     (if \<not> r_exists R s key1 then (Some [VInt 1], s)
      else if r_type R s key1 \<noteq> ''hash'' then (Some [VInt 3], s)
      else case r_hlen R s key1 of None \<Rightarrow> (None, s) | Some n \<Rightarrow>
      if n \<noteq> 8 then (Some [VInt 3], s)
      else case hget_each R s key1 HANDOFF_FIELDS of None \<Rightarrow> (None, s) | Some h \<Rightarrow>
      if h ''service_id'' = None \<or> \<not> lua_int (h ''internal_user_id'') \<or> \<not> lua_lookup (h ''common_session_lookup'')
        \<or> h ''code_challenge'' = None \<or> \<not> lua_uint (h ''authenticated_at'') \<or> \<not> lua_uint (h ''issued_at'')
        \<or> \<not> lua_uint (h ''expires_at'') \<or> h ''status'' = None
      then (Some [VInt 3], s)
      else if int (r_time R s) \<ge> tonumber (h ''expires_at'') then (Some [VInt 2], r_del R s key1)
      else if h ''status'' = Some ''used'' then (Some [VInt 5], s)
      else if h ''status'' \<noteq> Some ''unused'' then (Some [VInt 3], s)
      else if h ''service_id'' \<noteq> Some arg1 then (Some [VInt 6], s)
      else if h ''code_challenge'' \<noteq> Some arg2 then (Some [VInt 7], s)
      else if \<not> lua_lookup (Some arg3) \<or> h ''common_session_lookup'' \<noteq> Some arg3
        \<or> key2 \<noteq> session_key_text arg3
      then (Some [VInt 3], s)
      else if \<not> r_exists R s key2 then (Some [VInt 1], s)
      else if r_type R s key2 \<noteq> ''hash'' then (Some [VInt 3], s)
      else case r_hlen R s key2 of None \<Rightarrow> (None, s) | Some m \<Rightarrow>
      if m \<noteq> 4 then (Some [VInt 3], s)
      else case hget_each R s key2 SESSION_FIELDS of None \<Rightarrow> (None, s) | Some g \<Rightarrow>
      if \<not> lua_int (g ''internal_user_id'') \<or> \<not> lua_uint (g ''authenticated_at'')
        \<or> \<not> lua_uint (g ''created_at'') \<or> \<not> lua_uint (g ''expires_at'')
      then (Some [VInt 3], s)
      else if int (r_time R s) \<ge> tonumber (g ''expires_at'') then (Some [VInt 2], r_del R s key2)
      else if tonumber (h ''internal_user_id'') \<noteq> tonumber (g ''internal_user_id'')
        \<or> tonumber (h ''authenticated_at'') \<noteq> tonumber (g ''authenticated_at'')
      then (Some [VInt 3], s)
      else case r_hset R s key1 [(''status'', ''used'')] of None \<Rightarrow> (None, s) | Some s' \<Rightarrow>
        (Some [VInt 0, VInt (tonumber (h ''internal_user_id'')), VInt (tonumber (h ''authenticated_at''))], s'))"

definition complete_common_logout_script ::
    "'s redis \<Rightarrow> lua_key \<Rightarrow> lua_key \<Rightarrow> lua_arg \<Rightarrow> 's \<Rightarrow> redis_value list option \<times> 's" where
  "complete_common_logout_script R key1 key2 arg1 s =
     (if \<not> r_exists R s key1 then (Some [VInt 1], s)
      else if r_type R s key1 \<noteq> ''hash'' then (Some [VInt 3], s)
      else case r_hlen R s key1 of None \<Rightarrow> (None, s) | Some n \<Rightarrow>
      if n \<noteq> 6 then (Some [VInt 3], s)
      else case hget_each R s key1 LOGOUT_FIELDS of None \<Rightarrow> (None, s) | Some g \<Rightarrow>
      if g ''service_id'' = None \<or> g ''logout_return_uri'' = None \<or> \<not> lua_lookup (g ''csrf_lookup'')
        \<or> \<not> lua_uint (g ''created_at'') \<or> \<not> lua_uint (g ''expires_at'') \<or> g ''status'' = None
      then (Some [VInt 3], s)
      else if int (r_time R s) \<ge> tonumber (g ''expires_at'') then (Some [VInt 2], r_del R s key1)
      else if g ''status'' = Some ''used'' then (Some [VInt 5], s)
      else if g ''status'' \<noteq> Some ''unused'' then (Some [VInt 3], s)
      else if \<not> lua_lookup (Some arg1) then (Some [VInt 8], s)
      else if \<not> fixed_work_equal_lookup (g ''csrf_lookup'') (Some arg1) then (Some [VInt 8], s)
      else case r_hset R s key1 [(''status'', ''used'')] of None \<Rightarrow> (None, s) | Some s' \<Rightarrow>
        (Some [VInt 0, VBulk (the (g ''logout_return_uri''))], r_del R s' key2))"

end
