(* ===== verification/Script_Laws.thy ===== *)
theory Script_Laws
  imports Redis_Scripts
begin

text \<open>
  What the Lua scripts do, on any server that satisfies \<open>redis_server\<close>.  The admission
  predicates (\<open>claimable\<close>, \<open>session_live\<close>, \<open>exchangeable\<close>, \<open>logout_ready\<close>) say when a
  script succeeds; the outcome lemmas say what it then replies and stores, and that it
  otherwise refuses without changing anything but an expired key.
\<close>

section \<open>Lua helpers\<close>

lemma lua_lookup_is_lookup: "lua_lookup (Some v) \<longleftrightarrow> is_lookup v"
  by (auto simp: lua_lookup_def is_lookup_hex)

lemma or_eq_0_word: "(a OR b = 0) \<longleftrightarrow> a = 0 \<and> b = (0 :: 'a::len word)"
  by (auto simp: bit_eq_iff bit_or_iff)

lemma xor_eq_0_word: "(a XOR b = 0) \<longleftrightarrow> a = (b :: 'a::len word)"
  by (auto simp: bit_eq_iff bit_xor_iff)

lemma of_char_word_inj: "(of_char a :: 32 word) = of_char b \<longleftrightarrow> a = b"
proof
  assume "(of_char a :: 32 word) = of_char b"
  then have "(word_of_nat (of_char a) :: 32 word) = word_of_nat (of_char b)"
    by (simp add: of_nat_of_char)
  then have "unat (word_of_nat (of_char a) :: 32 word) = unat (word_of_nat (of_char b) :: 32 word)"
    by simp
  moreover have "(of_char a :: nat) < 2 ^ 32" "(of_char b :: nat) < 2 ^ 32"
    by (rule less_trans [OF of_char_less_256], simp)+
  ultimately have "(of_char a :: nat) = of_char b"
    by (simp add: unat_of_nat)
  then show "a = b" by simp
qed simp

lemma lookup_diff_eq_0:
  "length as = length bs \<Longrightarrow> lookup_diff d as bs = 0 \<longleftrightarrow> d = 0 \<and> as = bs"
  by (induction d as bs rule: lookup_diff.induct)
    (auto simp: or_eq_0_word xor_eq_0_word of_char_word_inj)

lemma fixed_work_equal_lookup_iff:
  "fixed_work_equal_lookup a b \<longleftrightarrow> lua_lookup a \<and> lua_lookup b \<and> a = b"
  by (auto simp: fixed_work_equal_lookup_def lookup_diff_eq_0 lua_lookup_def split: option.splits)

lemma lua_uint_u64: "lua_uint (Some (u64_to_string w)) \<longleftrightarrow> unat w \<le> lua_uint_max"
  by (simp add: lua_uint_def u64_to_string_def)

lemma lua_int_i32: "lua_int (Some (i32_to_string w))"
  using sint_greater_eq [of w] sint_lt [of w] by (simp add: lua_int_def i32_to_string_def)

lemma tonumber_u64: "tonumber (Some (u64_to_string w)) = int (unat w)"
  by (simp add: tonumber_def u64_to_string_def parse_int_show_nat del: of_nat_unat)

lemma tonumber_i32: "tonumber (Some (i32_to_string w)) = sint w"
  by (simp add: tonumber_def i32_to_string_def)

lemma parse_int_of_nat: "parse_nat v = Some n \<Longrightarrow> parse_int v = Some (int n)"
  by (auto simp: parse_nat_def parse_int_def parse_digits_def is_digit_def byte_in_def
      split: list.splits if_splits)

lemma lua_uint_tonumber: "lua_uint v \<Longrightarrow> \<exists>t n. v = Some t \<and> parse_nat t = Some n \<and> tonumber v = int n \<and> n \<le> lua_uint_max"
  by (auto simp: lua_uint_def tonumber_def parse_int_of_nat split: option.splits)

lemma lua_uint_max_le: "lua_uint_max \<le> expireat_max"
  by (simp add: lua_uint_max_def expireat_max_def)

section \<open>When the scripts succeed\<close>

definition claimable :: "nat \<Rightarrow> (string \<rightharpoonup> string) \<Rightarrow> bool" where
  "claimable now h \<longleftrightarrow> card (dom h) = 8
     \<and> h ''service_id'' \<noteq> None \<and> h ''service_state'' \<noteq> None \<and> h ''handoff_code_challenge'' \<noteq> None
     \<and> h ''provider'' \<noteq> None \<and> h ''provider_verification_data'' \<noteq> None
     \<and> lua_uint (h ''created_at'') \<and> lua_uint (h ''expires_at'')
     \<and> int now < tonumber (h ''expires_at'') \<and> h ''status'' = Some ''waiting''"

definition session_live :: "nat \<Rightarrow> (string \<rightharpoonup> string) \<Rightarrow> bool" where
  "session_live now g \<longleftrightarrow> card (dom g) = 4
     \<and> lua_int (g ''internal_user_id'') \<and> lua_uint (g ''authenticated_at'')
     \<and> lua_uint (g ''created_at'') \<and> lua_uint (g ''expires_at'')
     \<and> int now < tonumber (g ''expires_at'')"

definition handoff_live :: "nat \<Rightarrow> (string \<rightharpoonup> string) \<Rightarrow> bool" where
  "handoff_live now h \<longleftrightarrow> card (dom h) = 8
     \<and> h ''service_id'' \<noteq> None \<and> lua_int (h ''internal_user_id'')
     \<and> lua_lookup (h ''common_session_lookup'') \<and> h ''code_challenge'' \<noteq> None
     \<and> lua_uint (h ''authenticated_at'') \<and> lua_uint (h ''issued_at'') \<and> lua_uint (h ''expires_at'')
     \<and> int now < tonumber (h ''expires_at'')"

definition exchangeable ::
    "nat \<Rightarrow> (string \<rightharpoonup> string) \<Rightarrow> (string \<rightharpoonup> string) \<Rightarrow> string \<Rightarrow> string \<Rightarrow> string \<Rightarrow> bool" where
  "exchangeable now h g service challenge session_lookup \<longleftrightarrow>
     handoff_live now h \<and> h ''status'' = Some ''unused'' \<and> h ''service_id'' = Some service
     \<and> h ''code_challenge'' = Some challenge \<and> h ''common_session_lookup'' = Some session_lookup
     \<and> session_live now g
     \<and> tonumber (h ''internal_user_id'') = tonumber (g ''internal_user_id'')
     \<and> tonumber (h ''authenticated_at'') = tonumber (g ''authenticated_at'')"

definition logout_ready :: "nat \<Rightarrow> (string \<rightharpoonup> string) \<Rightarrow> string \<Rightarrow> bool" where
  "logout_ready now h csrf \<longleftrightarrow> card (dom h) = 6
     \<and> h ''service_id'' \<noteq> None \<and> h ''logout_return_uri'' \<noteq> None
     \<and> lua_uint (h ''created_at'') \<and> lua_uint (h ''expires_at'')
     \<and> int now < tonumber (h ''expires_at'') \<and> h ''status'' = Some ''unused''
     \<and> lua_lookup (Some csrf) \<and> h ''csrf_lookup'' = Some csrf"

section \<open>Commands on the observable store\<close>

context redis_server
begin

lemma hash_commands:
  assumes "view s k = Some (RHash h)"
  shows "r_exists R s k" "r_type R s k = ''hash''" "r_hlen R s k = Some (card (dom h))"
    "hget_each R s k names = Some h"
  using assms by (simp_all add: exists_eq type_eq hlen_eq hget_each_def hget_eq list_all_iff)

lemma absent_commands:
  assumes "view s k = None"
  shows "\<not> r_exists R s k"
  using assms by (simp add: exists_eq)

lemma other_commands:
  assumes "view s k = Some (ROther t)"
  shows "r_exists R s k" "r_type R s k \<noteq> ''hash''"
  using assms other_type [OF assms] by (simp_all add: exists_eq type_eq)

lemma hset_hash:
  assumes "view s k = Some (RHash h)"
  obtains s' where "r_hset R s k [(f, v)] = Some s'"
    "view s' = (view s)(k \<mapsto> RHash (h(f \<mapsto> v)))" "r_time R s' = r_time R s"
proof -
  have h: "hash_of (view s k) = Some h" by (simp add: assms)
  then obtain s' where "r_hset R s k [(f, v)] = Some s'"
    using hset_None [of s k "(f, v)" "[]"] by auto
  with hset_Some [OF this h] that show ?thesis by simp
qed

lemma hset_expireat_absent:
  assumes "view s k = None" "ps \<noteq> []" "distinct (map fst ps)" "t = u64_to_string w" "lua_uint (Some t)"
    "int (r_time R s) < tonumber (Some t)"
  obtains s' where "hset_expireat R k ps t s = (Some (), s')"
    "view s' = (view s)(k \<mapsto> RHash (map_of ps))" "r_time R s' = r_time R s"
proof -
  obtain p qs where ps: "ps = p # qs" using assms(2) by (cases ps) auto
  have h: "hash_of (view s k) = Some Map.empty" by (simp add: assms(1))
  then obtain s1 where s1: "r_hset R s k ps = Some s1"
    using hset_None [of s k p qs] ps by auto
  have v1: "view s1 = (view s)(k \<mapsto> RHash (map_of ps))" "r_time R s1 = r_time R s"
    using hset_Some [OF s1 [unfolded ps] h] map_of_rev [OF assms(3)] ps by simp_all
  obtain n where n: "parse_nat t = Some n" "tonumber (Some t) = int n" "n \<le> lua_uint_max"
    using lua_uint_tonumber [OF assms(5)] by auto
  have "n \<le> expireat_max" using n(3) lua_uint_max_le by simp
  moreover have "t = show_nat n" using n(1) assms(4) by (simp add: u64_to_string_def)
  ultimately obtain s2 where s2: "r_expireat R s1 k t = Some s2"
    "r_time R s2 = r_time R s1" "view s2 = (if r_time R s1 < n then view s1 else (view s1)(k := None))"
    using expireat_Some by blast
  have "r_time R s < n" using assms(6) n(2) by simp
  with s1 s2 v1 show ?thesis by (intro that [of s2]) (simp_all add: hset_expireat_def)
qed

end

section \<open>The scripts on the observable store\<close>

text \<open>
  Each script has three kinds of outcome: it succeeds and changes the store as its admission
  predicate allows; it reports an error code and changes nothing; or it reports
  \<open>Expired\<close> (code 2) and deletes the expired key.
\<close>

lemma key_cases [case_names absent other hash]:
  obtains "x = None" | t where "x = Some (ROther t)" | h where "x = Some (RHash h)"
  by (metis not_None_eq redis_object.exhaust)

definition refusal :: "'s redis \<Rightarrow> string list \<Rightarrow> 's \<Rightarrow> redis_value list option \<times> 's \<Rightarrow> bool" where
  "refusal R keys s r \<longleftrightarrow>
     (\<exists>n. 1 \<le> n \<and> n \<le> 9 \<and> r = (Some [VInt n], s))
     \<or> (\<exists>k \<in> set keys. r_exists R s k \<and> r = (Some [VInt 2], r_del R s k))"

definition claim_values :: "(string \<rightharpoonup> string) \<Rightarrow> redis_value list" where
  "claim_values h =
     map (\<lambda>f. VBulk (the (h f))) (butlast EXTERNAL_FIELDS) @ [VBulk ''processing'']"

context redis_server
begin

lemma claim_script_outcome:
  "(\<exists>h. view s key = Some (RHash h) \<and> claimable (r_time R s) h
      \<and> fst (callback_claim_script R key s) = Some (VInt 0 # claim_values h)
      \<and> view (snd (callback_claim_script R key s)) = (view s)(key \<mapsto> RHash (h(''status'' \<mapsto> ''processing'')))
      \<and> r_time R (snd (callback_claim_script R key s)) = r_time R s)
   \<or> \<not> (\<exists>h. view s key = Some (RHash h) \<and> claimable (r_time R s) h)
      \<and> refusal R [key] s (callback_claim_script R key s)"
proof -
  show ?thesis
  proof (cases "view s key" rule: key_cases)
    case absent
    then show ?thesis by (simp add: refusal_def callback_claim_script_def absent_commands)
  next
    case (other t)
    then show ?thesis by (simp add: refusal_def callback_claim_script_def other_commands)
  next
    case (hash h)
    obtain s' where s': "r_hset R s key [(''status'', ''processing'')] = Some s'"
      "view s' = (view s)(key \<mapsto> RHash (h(''status'' \<mapsto> ''processing'')))" "r_time R s' = r_time R s"
      by (rule hset_hash [OF hash])
    show ?thesis
      by (simp add: refusal_def callback_claim_script_def hash_commands [OF hash] hash s' claimable_def
          claim_values_def EXTERNAL_FIELDS_def)
  qed
qed

lemma exchange_script_outcome:
  assumes "key1 \<noteq> key2"
  shows "(\<exists>h g. view s key1 = Some (RHash h) \<and> view s key2 = Some (RHash g)
      \<and> exchangeable (r_time R s) h g arg1 arg2 arg3 \<and> key2 = session_key_text arg3
      \<and> fst (exchange_handoff_script R key1 key2 arg1 arg2 arg3 s) =
          Some [VInt 0, VInt (tonumber (h ''internal_user_id'')), VInt (tonumber (h ''authenticated_at''))]
      \<and> view (snd (exchange_handoff_script R key1 key2 arg1 arg2 arg3 s)) =
          (view s)(key1 \<mapsto> RHash (h(''status'' \<mapsto> ''used'')))
      \<and> r_time R (snd (exchange_handoff_script R key1 key2 arg1 arg2 arg3 s)) = r_time R s)
   \<or> \<not> (\<exists>h g. view s key1 = Some (RHash h) \<and> view s key2 = Some (RHash g)
          \<and> exchangeable (r_time R s) h g arg1 arg2 arg3 \<and> key2 = session_key_text arg3)
      \<and> refusal R [key1, key2] s (exchange_handoff_script R key1 key2 arg1 arg2 arg3 s)"
proof (cases "view s key1" rule: key_cases)
  case absent
  then show ?thesis by (simp add: refusal_def exchange_handoff_script_def absent_commands)
next
  case (other t)
  then show ?thesis by (simp add: refusal_def exchange_handoff_script_def other_commands)
next
  case h1: (hash h)
  obtain s' where s': "r_hset R s key1 [(''status'', ''used'')] = Some s'"
    "view s' = (view s)(key1 \<mapsto> RHash (h(''status'' \<mapsto> ''used'')))" "r_time R s' = r_time R s"
    by (rule hset_hash [OF h1])
  note defs = refusal_def exchange_handoff_script_def exchangeable_def handoff_live_def
  show ?thesis
  proof (cases "key2 = session_key_text arg3")
    case False
    then show ?thesis by (simp add: defs hash_commands [OF h1] h1)
  next
    case True
    then have k2: "session_key_text arg3 = key2" by simp
    show ?thesis
    proof (cases "view s key2" rule: key_cases)
      case absent
      then show ?thesis by (simp add: defs hash_commands [OF h1] h1 k2 absent_commands)
    next
      case (other t)
      then show ?thesis by (simp add: defs hash_commands [OF h1] h1 k2 other_commands)
    next
      case h2: (hash g)
      show ?thesis
        by (simp add: defs hash_commands [OF h1] h1 hash_commands [OF h2] h2 s' k2 session_live_def) blast
    qed
  qed
qed

lemma logout_script_outcome:
  assumes "key1 \<noteq> key2"
  shows "(\<exists>h. view s key1 = Some (RHash h) \<and> logout_ready (r_time R s) h arg1
      \<and> fst (complete_common_logout_script R key1 key2 arg1 s) =
          Some [VInt 0, VBulk (the (h ''logout_return_uri''))]
      \<and> view (snd (complete_common_logout_script R key1 key2 arg1 s)) =
          (view s)(key1 \<mapsto> RHash (h(''status'' \<mapsto> ''used'')), key2 := None)
      \<and> r_time R (snd (complete_common_logout_script R key1 key2 arg1 s)) = r_time R s)
   \<or> \<not> (\<exists>h. view s key1 = Some (RHash h) \<and> logout_ready (r_time R s) h arg1)
      \<and> refusal R [key1] s (complete_common_logout_script R key1 key2 arg1 s)"
proof (cases "view s key1" rule: key_cases)
  case absent
  then show ?thesis by (simp add: refusal_def complete_common_logout_script_def absent_commands)
next
  case (other t)
  then show ?thesis by (simp add: refusal_def complete_common_logout_script_def other_commands)
next
  case h1: (hash h)
  obtain s' where s': "r_hset R s key1 [(''status'', ''used'')] = Some s'"
    "view s' = (view s)(key1 \<mapsto> RHash (h(''status'' \<mapsto> ''used'')))" "r_time R s' = r_time R s"
    by (rule hset_hash [OF h1])
  show ?thesis
    by (simp add: refusal_def complete_common_logout_script_def logout_ready_def hash_commands [OF h1] h1
        s' del_eq fixed_work_equal_lookup_iff)
qed

lemma issue_script_outcome:
  fixes key1 key2 arg1 arg2 arg3 arg4 arg5 arg6 arg7 arg8 arg9 s
  defines "ps \<equiv> [(''service_id'', arg2), (''internal_user_id'', arg3), (''common_session_lookup'', arg4),
      (''code_challenge'', arg5), (''authenticated_at'', arg6), (''issued_at'', arg7),
      (''expires_at'', arg8), (''status'', arg9)]"
    and "r \<equiv> issue_sso_handoff_script R key1 key2 arg1 arg2 arg3 arg4 arg5 arg6 arg7 arg8 arg9 s"
  assumes arg8: "arg8 = u64_to_string w8"
  shows "(\<exists>g. view s key1 = Some (RHash g) \<and> session_live (r_time R s) g \<and> view s key2 = None
      \<and> tonumber (Some arg3) = tonumber (g ''internal_user_id'')
      \<and> tonumber (Some arg6) = tonumber (g ''authenticated_at'')
      \<and> fst r = Some [VInt 0] \<and> view (snd r) = (view s)(key2 \<mapsto> RHash (map_of ps))
      \<and> r_time R (snd r) = r_time R s)
   \<or> refusal R [key1] s r"
proof (cases "view s key1" rule: key_cases)
  case absent
  then show ?thesis by (simp add: refusal_def r_def issue_sso_handoff_script_def absent_commands)
next
  case (other t)
  then show ?thesis by (simp add: refusal_def r_def issue_sso_handoff_script_def other_commands)
next
  case h1: (hash g)
  show ?thesis
  proof (cases "view s key2 = None \<and> lua_uint (Some arg8) \<and> int (r_time R s) < tonumber (Some arg8)")
    case True
    obtain s' where "hset_expireat R key2 ps arg8 s = (Some (), s')"
      "view s' = (view s)(key2 \<mapsto> RHash (map_of ps))" "r_time R s' = r_time R s"
      by (rule hset_expireat_absent [of s key2 ps arg8]) (use True arg8 in \<open>simp_all add: ps_def\<close>)
    with True h1 show ?thesis
      unfolding r_def issue_sso_handoff_script_def ps_def [symmetric]
      by (simp add: refusal_def hash_commands [OF h1] exists_eq session_live_def)
  next
    case False
    then have "r_exists R s key2 \<or> \<not> lua_uint (Some arg8) \<or> tonumber (Some arg8) \<le> int (r_time R s)"
      by (auto simp: exists_eq)
    with h1 show ?thesis
      unfolding r_def issue_sso_handoff_script_def
      by (elim disjE) (simp_all add: refusal_def hash_commands [OF h1])
  qed
qed

lemma create_script_outcome:
  fixes key1 key2 arg1 arg2 arg3 arg4 arg5 arg6 arg7 arg8 arg9 arg10 arg11 arg12 arg13 s
  defines "ps1 \<equiv> [(''internal_user_id'', arg1), (''authenticated_at'', arg2), (''created_at'', arg3),
      (''expires_at'', arg4)]"
    and "ps2 \<equiv> [(''service_id'', arg6), (''internal_user_id'', arg7), (''common_session_lookup'', arg8),
      (''code_challenge'', arg9), (''authenticated_at'', arg10), (''issued_at'', arg11),
      (''expires_at'', arg12), (''status'', arg13)]"
    and "r \<equiv> create_session_and_handoff_script R key1 key2 arg1 arg2 arg3 arg4 arg5 arg6 arg7 arg8
      arg9 arg10 arg11 arg12 arg13 s"
  assumes "key1 \<noteq> key2" and args: "arg4 = u64_to_string w4" "arg12 = u64_to_string w12"
  shows "(view s key1 = None \<and> view s key2 = None
      \<and> fst r = Some [VInt 0]
      \<and> view (snd r) = (view s)(key1 \<mapsto> RHash (map_of ps1), key2 \<mapsto> RHash (map_of ps2))
      \<and> r_time R (snd r) = r_time R s)
   \<or> refusal R [] s r"
proof (cases "r_exists R s key1 \<or> r_exists R s key2 \<or> \<not> lua_uint (Some arg4) \<or> \<not> lua_uint (Some arg12)
    \<or> tonumber (Some arg4) \<le> int (r_time R s) \<or> tonumber (Some arg12) \<le> int (r_time R s)")
  case True
  then show ?thesis
    unfolding r_def create_session_and_handoff_script_def
    by (elim disjE) (simp_all add: refusal_def)
next
  case False
  then have absent: "view s key1 = None" "view s key2 = None" by (simp_all add: exists_eq)
  obtain s1 where s1: "hset_expireat R key1 ps1 arg4 s = (Some (), s1)"
    "view s1 = (view s)(key1 \<mapsto> RHash (map_of ps1))" "r_time R s1 = r_time R s"
    by (rule hset_expireat_absent [of s key1 ps1 arg4]) (use False absent args in \<open>simp_all add: ps1_def\<close>)
  have "view s1 key2 = None" using s1(2) absent(2) assms(4) by simp
  then obtain s2 where s2: "hset_expireat R key2 ps2 arg12 s1 = (Some (), s2)"
    "view s2 = (view s1)(key2 \<mapsto> RHash (map_of ps2))" "r_time R s2 = r_time R s1"
    by (rule hset_expireat_absent [of s1 key2 ps2 arg12]) (use False s1(3) args in \<open>simp_all add: ps2_def\<close>)
  show ?thesis
  proof (cases "key1 = session_key_text arg5")
    case True
    then have "session_key_text arg5 = key1" by simp
    with False show ?thesis
      unfolding r_def create_session_and_handoff_script_def ps1_def [symmetric] ps2_def [symmetric]
      by (simp add: refusal_def absent s1 s2)
  next
    case neq: False
    with False show ?thesis
      unfolding r_def create_session_and_handoff_script_def by (simp add: refusal_def)
  qed
qed

end

end
