(* ===== verification/Redis_State.thy ===== *)
theory Redis_State
  imports Script_Laws
begin

text \<open>
  The functions of \<open>rust-auth0-service/src/redis_state.rs\<close> that talk to Redis: the key
  families, writing and reading a state, and the Rust side of the five scripts.  Every function
  takes the Redis environment and the connection and returns its result and the connection.
\<close>

section \<open>Keys\<close>

definition external_key :: "'c crypto_scheme \<Rightarrow> string \<Rightarrow> string" where
  "external_key C reference = ''auth:external:'' @ reference_value_lookup C reference"

definition session_key :: "'c crypto_scheme \<Rightarrow> string \<Rightarrow> string" where
  "session_key C reference = ''auth:session:'' @ reference_value_lookup C reference"

definition session_key_from_lookup :: "string \<Rightarrow> (string, redis_state_error) result" where
  "session_key_from_lookup lookup =
     (if \<not> is_lookup lookup then Err InvalidStoredState else Ok (''auth:session:'' @ lookup))"

definition handoff_key :: "'c crypto_scheme \<Rightarrow> string \<Rightarrow> string" where
  "handoff_key C reference = ''auth:handoff:'' @ reference_value_lookup C reference"

definition logout_key :: "'c crypto_scheme \<Rightarrow> string \<Rightarrow> string" where
  "logout_key C reference = ''auth:logout:'' @ reference_value_lookup C reference"

section \<open>Failure reporting\<close>

datatype redis_write_operation = Hset | Expireat

fun write_operation_as_str :: "redis_write_operation \<Rightarrow> string" where
  "write_operation_as_str Hset = ''hset''"
| "write_operation_as_str Expireat = ''expireat''"

definition safe_redis_error_code :: "string option \<Rightarrow> string" where
  "safe_redis_error_code code =
     (case code of
        None \<Rightarrow> ''none''
      | Some value \<Rightarrow>
          if value \<noteq> [] \<and> length value \<le> 64
             \<and> list_all (\<lambda>byte. is_upper byte \<or> is_digit byte \<or> byte = CHR ''_'' \<or> byte = CHR ''-'') value
          then value else ''none'')"

definition redis_write_failure_message ::
    "string \<Rightarrow> redis_write_operation \<Rightarrow> redis_error \<Rightarrow> string" where
  "redis_write_failure_message state_family operation err =
     ''component=redis_state state_family='' @ state_family @ '' operation=''
     @ write_operation_as_str operation @ '' redis_error_kind='' @ err_kind err
     @ '' redis_error_code='' @ safe_redis_error_code (err_code err)"

definition redis_write_failure ::
    "string \<Rightarrow> redis_write_operation \<Rightarrow> redis_error \<Rightarrow> 's connection \<Rightarrow> redis_state_error \<times> 's connection" where
  "redis_write_failure state_family operation err c =
     (RedisFailure, c\<lparr>log_lines := log_lines c @ [redis_write_failure_message state_family operation err]\<rparr>)"

definition script_error :: "int \<Rightarrow> ('a, redis_state_error) result" where
  "script_error code =
     (if code = 1 then Err NotFound
      else if code = 2 then Err Expired
      else if code = 3 then Err InvalidStoredState
      else if code = 4 then Err AlreadyClaimed
      else if code = 5 then Err AlreadyUsed
      else if code = 6 then Err ServiceMismatch
      else if code = 7 then Err ChallengeMismatch
      else if code = 8 then Err CsrfMismatch
      else if code = 9 then Err KeyConflict
      else Err InvalidStoredState)"

fun reply_string :: "redis_value \<Rightarrow> (string, redis_state_error) result" where
  "reply_string (VBulk v) = ok_or (from_utf8 v) InvalidStoredState"
| "reply_string _ = Err InvalidStoredState"

section \<open>Writing and reading states\<close>

definition write_state ::
    "'s redis_env \<Rightarrow> string \<Rightarrow> string \<Rightarrow> (string \<times> string) list \<Rightarrow> u64 \<Rightarrow> u64 \<Rightarrow> 's connection
     \<Rightarrow> (unit, redis_state_error) result \<times> 's connection" where
  "write_state E state_family key fs expires_at now c =
     (if \<not> is_unexpired now expires_at then (Err Expired, c)
      else case round_trip E (cmd_hset (server_cmds E) key fs) c of
        (None, c1) \<Rightarrow>
          (case redis_write_failure state_family Hset (client_error E (trips c)) c1 of
             (e, c2) \<Rightarrow> (Err e, c2))
      | (Some _, c1) \<Rightarrow>
          (case round_trip E (cmd_expireat (server_cmds E) key (u64_to_string expires_at)) c1 of
             (None, c2) \<Rightarrow>
               (case redis_write_failure state_family Expireat (client_error E (trips c1)) c2 of
                  (e, c3) \<Rightarrow> (Err e, c3))
           | (Some _, c2) \<Rightarrow> (Ok (), c2)))"

definition write_external ::
    "'c crypto_scheme \<Rightarrow> 's redis_env \<Rightarrow> string \<Rightarrow> external_auth_transaction \<Rightarrow> u64 \<Rightarrow> 's connection
     \<Rightarrow> (unit, redis_state_error) result \<times> 's connection" where
  "write_external C E reference state now c =
     write_state E ''external'' (external_key C reference) (encode_external state)
       (ext_expires_at state) now c"

definition write_session ::
    "'c crypto_scheme \<Rightarrow> 's redis_env \<Rightarrow> string \<Rightarrow> common_session \<Rightarrow> u64 \<Rightarrow> 's connection
     \<Rightarrow> (unit, redis_state_error) result \<times> 's connection" where
  "write_session C E reference state now c =
     write_state E ''session'' (session_key C reference) (encode_session state)
       (ses_expires_at state) now c"

definition write_handoff ::
    "'c crypto_scheme \<Rightarrow> 's redis_env \<Rightarrow> string \<Rightarrow> authentication_handoff \<Rightarrow> u64 \<Rightarrow> 's connection
     \<Rightarrow> (unit, redis_state_error) result \<times> 's connection" where
  "write_handoff C E reference state now c =
     write_state E ''handoff'' (handoff_key C reference) (encode_handoff state)
       (hnd_expires_at state) now c"

definition write_logout ::
    "'c crypto_scheme \<Rightarrow> 's redis_env \<Rightarrow> string \<Rightarrow> common_logout_transaction \<Rightarrow> u64 \<Rightarrow> 's connection
     \<Rightarrow> (unit, redis_state_error) result \<times> 's connection" where
  "write_logout C E reference state now c =
     write_state E ''logout'' (logout_key C reference) (encode_logout state)
       (lgo_expires_at state) now c"

text \<open>
  The client turns the reply of \<open>HGETALL\<close> into \<open>Vec<(String, String)>\<close>, which fails on bytes
  that are not UTF-8.
\<close>

definition utf8_pairs :: "(bytes \<times> bytes) list \<Rightarrow> (string \<times> string) list option" where
  "utf8_pairs ps = (if list_all (\<lambda>(f, v). utf8_valid f \<and> utf8_valid v) ps then Some ps else None)"

definition read_fields ::
    "'s redis_env \<Rightarrow> string \<Rightarrow> 's connection \<Rightarrow> (field_map, redis_state_error) result \<times> 's connection" where
  "read_fields E key c =
     (case round_trip E (cmd_hgetall (server_cmds E) key) c of
        (None, c1) \<Rightarrow> (Err RedisFailure, c1)
      | (Some ps, c1) \<Rightarrow>
          (case utf8_pairs ps of
             None \<Rightarrow> (Err RedisFailure, c1)
           | Some pairs \<Rightarrow>
               if pairs = [] then (Err NotFound, c1) else (Ok (btree_collect pairs), c1)))"

definition expire_if_needed ::
    "'s redis_env \<Rightarrow> string \<Rightarrow> u64 \<Rightarrow> u64 \<Rightarrow> 's connection
     \<Rightarrow> (unit, redis_state_error) result \<times> 's connection" where
  "expire_if_needed E key expires_at now c =
     (if is_unexpired now expires_at then (Ok (), c)
      else case round_trip E (cmd_del (server_cmds E) key) c of
        (None, c1) \<Rightarrow> (Err RedisFailure, c1)
      | (Some _, c1) \<Rightarrow> (Err Expired, c1))"

text \<open>The common shape of the four readers.\<close>

definition read_state ::
    "'s redis_env \<Rightarrow> string \<Rightarrow> (field_map \<Rightarrow> ('a, redis_state_error) result) \<Rightarrow> ('a \<Rightarrow> u64) \<Rightarrow> u64
     \<Rightarrow> 's connection \<Rightarrow> ('a, redis_state_error) result \<times> 's connection" where
  "read_state E key decode expiry now c =
     (case read_fields E key c of
        (Inl e, c1) \<Rightarrow> (Err e, c1)
      | (Inr fs, c1) \<Rightarrow>
          (case decode fs of
             Inl e \<Rightarrow> (Err e, c1)
           | Inr state \<Rightarrow>
               (case expire_if_needed E key (expiry state) now c1 of
                  (Inl e, c2) \<Rightarrow> (Err e, c2)
                | (Inr _, c2) \<Rightarrow> (Ok state, c2))))"

definition read_external ::
    "'c crypto_scheme \<Rightarrow> 's redis_env \<Rightarrow> string \<Rightarrow> u64 \<Rightarrow> 's connection
     \<Rightarrow> (external_auth_transaction, redis_state_error) result \<times> 's connection" where
  "read_external C E reference now c =
     read_state E (external_key C reference) decode_external ext_expires_at now c"

definition read_session ::
    "'c crypto_scheme \<Rightarrow> 's redis_env \<Rightarrow> string \<Rightarrow> u64 \<Rightarrow> 's connection
     \<Rightarrow> (common_session, redis_state_error) result \<times> 's connection" where
  "read_session C E reference now c =
     read_state E (session_key C reference) decode_session ses_expires_at now c"

definition read_handoff ::
    "'c crypto_scheme \<Rightarrow> 's redis_env \<Rightarrow> string \<Rightarrow> u64 \<Rightarrow> 's connection
     \<Rightarrow> (authentication_handoff, redis_state_error) result \<times> 's connection" where
  "read_handoff C E reference now c =
     read_state E (handoff_key C reference) decode_handoff hnd_expires_at now c"

definition read_logout ::
    "'c crypto_scheme \<Rightarrow> 's redis_env \<Rightarrow> string \<Rightarrow> u64 \<Rightarrow> 's connection
     \<Rightarrow> (common_logout_transaction, redis_state_error) result \<times> 's connection" where
  "read_logout C E reference now c =
     read_state E (logout_key C reference) decode_logout lgo_expires_at now c"

section \<open>The Rust side of the scripts\<close>

text \<open>The keys and arguments each function passes to its script.\<close>

definition claim_invocation :: "'c crypto_scheme \<Rightarrow> 's redis \<Rightarrow> string \<Rightarrow> 's \<Rightarrow> redis_value list option \<times> 's" where
  "claim_invocation C R external_reference =
     callback_claim_script R (external_key C external_reference)"

definition issue_invocation ::
    "'c crypto_scheme \<Rightarrow> 's redis \<Rightarrow> string \<Rightarrow> string \<Rightarrow> authentication_handoff
     \<Rightarrow> 's \<Rightarrow> redis_value list option \<times> 's" where
  "issue_invocation C R common_session_reference handoff_reference handoff =
     issue_sso_handoff_script R
       (session_key C common_session_reference) (handoff_key C handoff_reference)
       (reference_value_lookup C common_session_reference)
       (hnd_service_id handoff) (i32_to_string (hnd_internal_user_id handoff))
       (hnd_common_session_lookup handoff) (hnd_code_challenge handoff)
       (u64_to_string (hnd_authenticated_at handoff)) (u64_to_string (hnd_issued_at handoff))
       (u64_to_string (hnd_expires_at handoff)) (usage_status_value (hnd_status handoff))"

definition create_invocation ::
    "'c crypto_scheme \<Rightarrow> 's redis \<Rightarrow> string \<Rightarrow> common_session \<Rightarrow> string \<Rightarrow> authentication_handoff
     \<Rightarrow> 's \<Rightarrow> redis_value list option \<times> 's" where
  "create_invocation C R common_session_reference session handoff_reference handoff =
     create_session_and_handoff_script R
       (session_key C common_session_reference) (handoff_key C handoff_reference)
       (i32_to_string (ses_internal_user_id session)) (u64_to_string (ses_authenticated_at session))
       (u64_to_string (ses_created_at session)) (u64_to_string (ses_expires_at session))
       (reference_value_lookup C common_session_reference)
       (hnd_service_id handoff) (i32_to_string (hnd_internal_user_id handoff))
       (hnd_common_session_lookup handoff) (hnd_code_challenge handoff)
       (u64_to_string (hnd_authenticated_at handoff)) (u64_to_string (hnd_issued_at handoff))
       (u64_to_string (hnd_expires_at handoff)) (usage_status_value (hnd_status handoff))"

definition exchange_invocation ::
    "'c crypto_scheme \<Rightarrow> 's redis \<Rightarrow> string \<Rightarrow> string \<Rightarrow> string \<Rightarrow> string \<Rightarrow> string
     \<Rightarrow> 's \<Rightarrow> redis_value list option \<times> 's" where
  "exchange_invocation C R handoff_reference skey service_id challenge common_session_lookup =
     exchange_handoff_script R (handoff_key C handoff_reference) skey service_id challenge
       common_session_lookup"

definition logout_invocation ::
    "'c crypto_scheme \<Rightarrow> 's redis \<Rightarrow> string \<Rightarrow> string \<Rightarrow> string \<Rightarrow> 's \<Rightarrow> redis_value list option \<times> 's" where
  "logout_invocation C R logout_reference common_session_reference csrf_lookup =
     complete_common_logout_script R (logout_key C logout_reference)
       (session_key C common_session_reference) csrf_lookup"

fun claim_reply :: "redis_value list \<Rightarrow> (external_auth_transaction, redis_state_error) result" where
  "claim_reply [VInt z, service_id, service_state, challenge, provider, verification, created_at,
      expires_at, status] =
     (if z \<noteq> 0 then Err InvalidStoredState else
      and_then (reply_string service_id) (\<lambda>v1.
      and_then (reply_string service_state) (\<lambda>v2.
      and_then (reply_string challenge) (\<lambda>v3.
      and_then (reply_string provider) (\<lambda>v4.
      and_then (reply_string verification) (\<lambda>v5.
      and_then (reply_string created_at) (\<lambda>v6.
      and_then (reply_string expires_at) (\<lambda>v7.
      and_then (reply_string status) (\<lambda>v8.
      and_then (decode_external (btree_collect
         [(''service_id'', v1), (''service_state'', v2), (''handoff_code_challenge'', v3),
          (''provider'', v4), (''provider_verification_data'', v5), (''created_at'', v6),
          (''expires_at'', v7), (''status'', v8)])) (\<lambda>state.
      if ext_status state \<noteq> Processing then Err InvalidStoredState else Ok state))))))))))"
| "claim_reply [VInt code] = script_error code"
| "claim_reply _ = Err InvalidStoredState"

definition claim_external_callback ::
    "'c crypto_scheme \<Rightarrow> 's redis_env \<Rightarrow> string \<Rightarrow> 's connection
     \<Rightarrow> (external_auth_transaction, redis_state_error) result \<times> 's connection" where
  "claim_external_callback C E external_reference c =
     (case round_trip E (claim_invocation C (server_cmds E) external_reference) c of
        (None, c1) \<Rightarrow> (Err RedisFailure, c1)
      | (Some reply, c1) \<Rightarrow> (claim_reply reply, c1))"

fun unit_reply :: "redis_value list \<Rightarrow> (unit, redis_state_error) result" where
  "unit_reply [VInt code] = (if code = 0 then Ok () else script_error code)"
| "unit_reply _ = Err InvalidStoredState"

definition issue_sso_handoff ::
    "'c crypto_scheme \<Rightarrow> 's redis_env \<Rightarrow> string \<Rightarrow> string \<Rightarrow> authentication_handoff \<Rightarrow> 's connection
     \<Rightarrow> (unit, redis_state_error) result \<times> 's connection" where
  "issue_sso_handoff C E common_session_reference handoff_reference handoff c =
     (case round_trip E (issue_invocation C (server_cmds E) common_session_reference
          handoff_reference handoff) c of
        (None, c1) \<Rightarrow> (Err RedisFailure, c1)
      | (Some reply, c1) \<Rightarrow> (unit_reply reply, c1))"

definition create_session_and_handoff ::
    "'c crypto_scheme \<Rightarrow> 's redis_env \<Rightarrow> string \<Rightarrow> common_session \<Rightarrow> string \<Rightarrow> authentication_handoff
     \<Rightarrow> 's connection \<Rightarrow> (unit, redis_state_error) result \<times> 's connection" where
  "create_session_and_handoff C E common_session_reference session handoff_reference handoff c =
     (case round_trip E (create_invocation C (server_cmds E) common_session_reference session
          handoff_reference handoff) c of
        (None, c1) \<Rightarrow> (Err RedisFailure, c1)
      | (Some reply, c1) \<Rightarrow> (unit_reply reply, c1))"

definition resolve_handoff_session_lookup ::
    "'c crypto_scheme \<Rightarrow> 's redis_env \<Rightarrow> string \<Rightarrow> 's connection
     \<Rightarrow> (string, redis_state_error) result \<times> 's connection" where
  "resolve_handoff_session_lookup C E handoff_reference c =
     (case round_trip E (cmd_type (server_cmds E) (handoff_key C handoff_reference)) c of
        (None, c1) \<Rightarrow> (Err RedisFailure, c1)
      | (Some key_type, c1) \<Rightarrow>
          if key_type = ''none'' then (Err NotFound, c1)
          else if key_type \<noteq> ''hash'' then (Err InvalidStoredState, c1)
          else case round_trip E (cmd_hget (server_cmds E) (handoff_key C handoff_reference)
                 ''common_session_lookup'') c1 of
             (None, c2) \<Rightarrow> (Err RedisFailure, c2)
           | (Some None, c2) \<Rightarrow> (Err InvalidStoredState, c2)
           | (Some (Some lookup), c2) \<Rightarrow>
               if \<not> utf8_valid lookup then (Err RedisFailure, c2)
               else if \<not> is_lookup lookup then (Err InvalidStoredState, c2)
               else (Ok lookup, c2))"

fun exchange_reply :: "redis_value list \<Rightarrow> (handoff_exchange_result, redis_state_error) result" where
  "exchange_reply [VInt z, VInt user, VInt authenticated] =
     (if z \<noteq> 0 then Err InvalidStoredState else
      and_then (ok_or (i32_try_from user) InvalidStoredState) (\<lambda>internal_user_id.
      and_then (ok_or (u64_try_from authenticated) InvalidStoredState) (\<lambda>authenticated_at.
      Ok \<lparr>her_internal_user_id = internal_user_id, her_authenticated_at = authenticated_at\<rparr>)))"
| "exchange_reply [VInt code] = script_error code"
| "exchange_reply _ = Err InvalidStoredState"

definition exchange_handoff ::
    "'c crypto_scheme \<Rightarrow> 's redis_env \<Rightarrow> string \<Rightarrow> string \<Rightarrow> string \<Rightarrow> 's connection
     \<Rightarrow> (handoff_exchange_result, redis_state_error) result \<times> 's connection" where
  "exchange_handoff C E handoff_reference service_id candidate_code_challenge c =
     (case resolve_handoff_session_lookup C E handoff_reference c of
        (Inl e, c1) \<Rightarrow> (Err e, c1)
      | (Inr common_session_lookup, c1) \<Rightarrow>
          (case session_key_from_lookup common_session_lookup of
             Inl e \<Rightarrow> (Err e, c1)
           | Inr skey \<Rightarrow>
               (case round_trip E (exchange_invocation C (server_cmds E) handoff_reference skey
                    service_id candidate_code_challenge common_session_lookup) c1 of
                  (None, c2) \<Rightarrow> (Err RedisFailure, c2)
                | (Some reply, c2) \<Rightarrow> (exchange_reply reply, c2))))"

fun logout_reply :: "redis_value list \<Rightarrow> (string, redis_state_error) result" where
  "logout_reply [VInt z, return_uri] =
     (if z = 0 then reply_string return_uri else Err InvalidStoredState)"
| "logout_reply [VInt code] = script_error code"
| "logout_reply _ = Err InvalidStoredState"

definition complete_common_logout ::
    "'c crypto_scheme \<Rightarrow> 's redis_env \<Rightarrow> string \<Rightarrow> string \<Rightarrow> string \<Rightarrow> 's connection
     \<Rightarrow> (string, redis_state_error) result \<times> 's connection" where
  "complete_common_logout C E logout_reference common_session_reference csrf_lookup c =
     (case round_trip E (logout_invocation C (server_cmds E) logout_reference
          common_session_reference csrf_lookup) c of
        (None, c1) \<Rightarrow> (Err RedisFailure, c1)
      | (Some reply, c1) \<Rightarrow> (logout_reply reply, c1))"

section \<open>The invocations on the observable store\<close>

lemma key_families_distinct [simp]:
  "external_key C a \<noteq> session_key D b" "external_key C a \<noteq> handoff_key D b" "external_key C a \<noteq> logout_key D b"
  "session_key C a \<noteq> external_key D b" "session_key C a \<noteq> handoff_key D b" "session_key C a \<noteq> logout_key D b"
  "handoff_key C a \<noteq> external_key D b" "handoff_key C a \<noteq> session_key D b" "handoff_key C a \<noteq> logout_key D b"
  "logout_key C a \<noteq> external_key D b" "logout_key C a \<noteq> session_key D b" "logout_key C a \<noteq> handoff_key D b"
  "handoff_key C a \<noteq> session_key_text l" "session_key_text l \<noteq> handoff_key C a"
  by (simp_all add: external_key_def session_key_def handoff_key_def logout_key_def session_key_text_def)

lemma session_key_eq_text: "session_key C r = session_key_text (reference_value_lookup C r)"
  by (simp add: session_key_def session_key_text_def)

lemma session_key_text_inj [simp]: "session_key_text a = session_key_text b \<longleftrightarrow> a = b"
  by (simp add: session_key_text_def)

context redis_server
begin

lemma issue_outcome:
  fixes C sr hr h s
  defines "r \<equiv> issue_invocation C R sr hr h s"
  shows "(\<exists>g. view s (session_key C sr) = Some (RHash g) \<and> session_live (r_time R s) g
      \<and> view s (handoff_key C hr) = None
      \<and> sint (hnd_internal_user_id h) = tonumber (g ''internal_user_id'')
      \<and> int (unat (hnd_authenticated_at h)) = tonumber (g ''authenticated_at'')
      \<and> fst r = Some [VInt 0]
      \<and> view (snd r) = (view s)(handoff_key C hr \<mapsto> RHash (map_of (encode_handoff h)))
      \<and> r_time R (snd r) = r_time R s)
   \<or> refusal R [session_key C sr] s r"
  unfolding r_def issue_invocation_def encode_handoff_def tonumber_i32 [symmetric] tonumber_u64 [symmetric]
  by (rule issue_script_outcome) (rule refl)

lemma create_outcome:
  fixes C sr ses hr h s
  defines "r \<equiv> create_invocation C R sr ses hr h s"
  shows "(view s (session_key C sr) = None \<and> view s (handoff_key C hr) = None \<and> fst r = Some [VInt 0]
      \<and> view (snd r) = (view s)(session_key C sr \<mapsto> RHash (map_of (encode_session ses)),
           handoff_key C hr \<mapsto> RHash (map_of (encode_handoff h)))
      \<and> r_time R (snd r) = r_time R s)
   \<or> refusal R [] s r"
  unfolding r_def create_invocation_def encode_handoff_def encode_session_def
  by (rule create_script_outcome) simp_all

lemma claim_outcome:
  fixes C r s
  defines "x \<equiv> claim_invocation C R r s"
  shows "(\<exists>h. view s (external_key C r) = Some (RHash h) \<and> claimable (r_time R s) h
      \<and> fst x = Some (VInt 0 # claim_values h)
      \<and> view (snd x) = (view s)(external_key C r \<mapsto> RHash (h(''status'' \<mapsto> ''processing'')))
      \<and> r_time R (snd x) = r_time R s)
   \<or> \<not> (\<exists>h. view s (external_key C r) = Some (RHash h) \<and> claimable (r_time R s) h)
      \<and> refusal R [external_key C r] s x"
  unfolding x_def claim_invocation_def by (rule claim_script_outcome)

lemma exchange_outcome:
  fixes C hr l service challenge s
  defines "x \<equiv> exchange_invocation C R hr (session_key_text l) service challenge l s"
  shows "(\<exists>h g. view s (handoff_key C hr) = Some (RHash h) \<and> view s (session_key_text l) = Some (RHash g)
      \<and> exchangeable (r_time R s) h g service challenge l
      \<and> fst x = Some [VInt 0, VInt (tonumber (h ''internal_user_id'')), VInt (tonumber (h ''authenticated_at''))]
      \<and> view (snd x) = (view s)(handoff_key C hr \<mapsto> RHash (h(''status'' \<mapsto> ''used'')))
      \<and> r_time R (snd x) = r_time R s)
   \<or> \<not> (\<exists>h g. view s (handoff_key C hr) = Some (RHash h) \<and> view s (session_key_text l) = Some (RHash g)
          \<and> exchangeable (r_time R s) h g service challenge l)
      \<and> refusal R [handoff_key C hr, session_key_text l] s x"
  using exchange_script_outcome [of "handoff_key C hr" "session_key_text l" s service challenge l]
  unfolding x_def exchange_invocation_def by simp

lemma logout_outcome:
  fixes C lr sr csrf s
  defines "x \<equiv> logout_invocation C R lr sr csrf s"
  shows "(\<exists>h. view s (logout_key C lr) = Some (RHash h) \<and> logout_ready (r_time R s) h csrf
      \<and> fst x = Some [VInt 0, VBulk (the (h ''logout_return_uri''))]
      \<and> view (snd x) = (view s)(logout_key C lr \<mapsto> RHash (h(''status'' \<mapsto> ''used'')), session_key C sr := None)
      \<and> r_time R (snd x) = r_time R s)
   \<or> \<not> (\<exists>h. view s (logout_key C lr) = Some (RHash h) \<and> logout_ready (r_time R s) h csrf)
      \<and> refusal R [logout_key C lr] s x"
  unfolding x_def logout_invocation_def by (rule logout_script_outcome) simp

end

end
