(* ===== verification/Postgres.thy ===== *)
theory Postgres
  imports Auth_Foundation Redis_Server
begin

text \<open>
  Model of \<open>rust-auth0-service/src/postgres.rs\<close>.  The database is a parameter: a record of
  the statements the program sends, over a state type of its own.  As for Redis, every awaited
  statement is one round trip, before which other clients may have acted and in which the
  request or the reply may be lost.  The locale \<open>postgres_db\<close> states what the program relies
  on (the tables of \<open>postgres/auth-migrations\<close>, their keys, transactions); the in-memory
  database at the end satisfies it.
\<close>

section \<open>Rows and statements\<close>

datatype pg_value = PgText string | PgBool bool | PgInt i32 | PgBytes bytes | PgNull

type_synonym pg_row = "string \<rightharpoonup> pg_value"

text \<open>\<open>sqlx::Error\<close>: an error reported by the server with its code and constraint, or another one.\<close>

datatype sqlx_error = DatabaseError "string option" "string option" | ConnectionError

record 'd postgres =
  q_services :: "'d \<Rightarrow> string list \<Rightarrow> string \<Rightarrow> pg_row option"
  q_users :: "'d \<Rightarrow> string list \<Rightarrow> i32 \<Rightarrow> pg_row option"
  q_identities :: "'d \<Rightarrow> string \<Rightarrow> string \<Rightarrow> pg_row option"
  tx_begin :: "'d \<Rightarrow> nat \<times> 'd"
  tx_insert_user :: "nat \<Rightarrow> 'd \<Rightarrow> (pg_row, sqlx_error) result \<times> 'd"
  tx_insert_identity :: "nat \<Rightarrow> string \<Rightarrow> string \<Rightarrow> i32 \<Rightarrow> 'd \<Rightarrow> (unit, sqlx_error) result \<times> 'd"
  tx_commit :: "nat \<Rightarrow> 'd \<Rightarrow> 'd"
  tx_rollback :: "nat \<Rightarrow> 'd \<Rightarrow> 'd"

record 'd pg_env =
  pg :: "'d postgres"
  pg_interference :: "nat \<Rightarrow> 'd \<Rightarrow> 'd"
  pg_network :: "nat \<Rightarrow> fault"

record 'd pool =
  database :: 'd
  statements :: nat

definition pg_arrival :: "'d pg_env \<Rightarrow> 'd pool \<Rightarrow> 'd" where
  "pg_arrival E p = pg_interference E (statements p) (database p)"

definition pg_trip ::
    "'d pg_env \<Rightarrow> ('d \<Rightarrow> ('a, sqlx_error) result \<times> 'd) \<Rightarrow> 'd pool \<Rightarrow> ('a, sqlx_error) result \<times> 'd pool" where
  "pg_trip E stmt p =
     (let d = pg_arrival E p; (r, d') = stmt d; n = Suc (statements p)
      in case pg_network E (statements p) of
           Delivered \<Rightarrow> (r, \<lparr>database = d', statements = n\<rparr>)
         | RequestLost \<Rightarrow> (Err ConnectionError, \<lparr>database = d, statements = n\<rparr>)
         | ReplyLost \<Rightarrow> (Err ConnectionError, \<lparr>database = d', statements = n\<rparr>))"

text \<open>A statement that only reads, and one that always succeeds on the server.\<close>

definition fetch_optional :: "('d \<Rightarrow> pg_row option) \<Rightarrow> 'd \<Rightarrow> (pg_row option, sqlx_error) result \<times> 'd" where
  "fetch_optional q d = (Ok (q d), d)"

definition plain :: "('d \<Rightarrow> 'd) \<Rightarrow> 'd \<Rightarrow> (unit, sqlx_error) result \<times> 'd" where
  "plain f d = (Ok (), f d)"

text \<open>\<open>Row::try_get\<close> at the types the code asks for.\<close>

fun as_bool :: "pg_value option \<Rightarrow> bool option" where
  "as_bool (Some (PgBool b)) = Some b"
| "as_bool _ = None"

fun as_opt_bool :: "pg_value option \<Rightarrow> bool option option" where
  "as_opt_bool (Some (PgBool b)) = Some (Some b)"
| "as_opt_bool (Some PgNull) = Some None"
| "as_opt_bool _ = None"

fun as_text :: "pg_value option \<Rightarrow> string option" where
  "as_text (Some (PgText t)) = Some t"
| "as_text _ = None"

fun as_int :: "pg_value option \<Rightarrow> i32 option" where
  "as_int (Some (PgInt i)) = Some i"
| "as_int _ = None"

fun as_bytes :: "pg_value option \<Rightarrow> bytes option" where
  "as_bytes (Some (PgBytes b)) = Some b"
| "as_bytes _ = None"

section \<open>The functions\<close>

record authenticated_service =
  asv_service_id :: string
  asv_login_callback_uri :: string
  asv_logout_return_uri :: string

datatype postgres_auth_error =
    ServiceNotFound | ServiceDisabled | ServiceSecretMismatch | UserDisabled | DatabaseFailure
  | StoredSecretInvalidLength | IdentityInconsistent

definition read_registered_service ::
    "'d pg_env \<Rightarrow> string \<Rightarrow> 'd pool
     \<Rightarrow> ((string \<times> bool \<times> string \<times> string \<times> bytes) option, postgres_auth_error) result \<times> 'd pool" where
  "read_registered_service E service_id p =
     (case pg_trip E (fetch_optional (\<lambda>d. q_services (pg E) d
          [''service_id'', ''is_enabled'', ''login_callback_uri'', ''logout_return_uri'',
           ''service_secret_sha256''] service_id)) p of
        (Inl _, p1) \<Rightarrow> (Err DatabaseFailure, p1)
      | (Inr None, p1) \<Rightarrow> (Ok None, p1)
      | (Inr (Some row), p1) \<Rightarrow>
          (and_then (ok_or (as_text (row ''service_id'')) DatabaseFailure) (\<lambda>sid.
           and_then (ok_or (as_bool (row ''is_enabled'')) DatabaseFailure) (\<lambda>enabled.
           and_then (ok_or (as_text (row ''login_callback_uri'')) DatabaseFailure) (\<lambda>login_uri.
           and_then (ok_or (as_text (row ''logout_return_uri'')) DatabaseFailure) (\<lambda>logout_uri.
           and_then (ok_or (as_bytes (row ''service_secret_sha256'')) DatabaseFailure) (\<lambda>secret.
             Ok (Some (sid, enabled, login_uri, logout_uri, secret))))))), p1))"

definition stored_secret_digest :: "bytes \<Rightarrow> (bytes, postgres_auth_error) result" where
  "stored_secret_digest stored_secret =
     (if length stored_secret = 32 then Ok stored_secret else Err StoredSecretInvalidLength)"

definition authenticate_service ::
    "'c crypto_scheme \<Rightarrow> 'd pg_env \<Rightarrow> string \<Rightarrow> string \<Rightarrow> 'd pool
     \<Rightarrow> (authenticated_service, postgres_auth_error) result \<times> 'd pool" where
  "authenticate_service C E service_id presented_service_secret p =
     (case read_registered_service E service_id p of
        (Inl e, p1) \<Rightarrow> (Err e, p1)
      | (Inr None, p1) \<Rightarrow> (Err ServiceNotFound, p1)
      | (Inr (Some (sid, is_enabled, login_callback_uri, logout_return_uri, stored_secret)), p1) \<Rightarrow>
          if \<not> is_enabled then (Err ServiceDisabled, p1)
          else case stored_secret_digest stored_secret of
            Inl e \<Rightarrow> (Err e, p1)
          | Inr stored_digest \<Rightarrow>
              if \<not> sha256_digest_eq C stored_digest (sha256_digest C presented_service_secret)
              then (Err ServiceSecretMismatch, p1)
              else (Ok \<lparr>asv_service_id = sid, asv_login_callback_uri = login_callback_uri,
                      asv_logout_return_uri = logout_return_uri\<rparr>, p1))"

definition lookup_login_callback_uri ::
    "'d pg_env \<Rightarrow> string \<Rightarrow> 'd pool \<Rightarrow> (string, postgres_auth_error) result \<times> 'd pool" where
  "lookup_login_callback_uri E service_id p =
     (case pg_trip E (fetch_optional (\<lambda>d. q_services (pg E) d [''is_enabled'', ''login_callback_uri''] service_id)) p of
        (Inl _, p1) \<Rightarrow> (Err DatabaseFailure, p1)
      | (Inr None, p1) \<Rightarrow> (Err ServiceNotFound, p1)
      | (Inr (Some row), p1) \<Rightarrow>
          (and_then (ok_or (as_bool (row ''is_enabled'')) DatabaseFailure) (\<lambda>is_enabled.
           if \<not> is_enabled then Err ServiceDisabled
           else ok_or (as_text (row ''login_callback_uri'')) DatabaseFailure), p1))"

definition lookup_logout_return_uri ::
    "'d pg_env \<Rightarrow> string \<Rightarrow> 'd pool \<Rightarrow> (string, postgres_auth_error) result \<times> 'd pool" where
  "lookup_logout_return_uri E service_id p =
     (case pg_trip E (fetch_optional (\<lambda>d. q_services (pg E) d [''is_enabled'', ''logout_return_uri''] service_id)) p of
        (Inl _, p1) \<Rightarrow> (Err DatabaseFailure, p1)
      | (Inr None, p1) \<Rightarrow> (Err ServiceNotFound, p1)
      | (Inr (Some row), p1) \<Rightarrow>
          (and_then (ok_or (as_bool (row ''is_enabled'')) DatabaseFailure) (\<lambda>is_enabled.
           if \<not> is_enabled then Err ServiceDisabled
           else ok_or (as_text (row ''logout_return_uri'')) DatabaseFailure), p1))"

definition read_internal_user_enabled ::
    "'d pg_env \<Rightarrow> i32 \<Rightarrow> 'd pool \<Rightarrow> (bool option, postgres_auth_error) result \<times> 'd pool" where
  "read_internal_user_enabled E internal_user_id p =
     (case pg_trip E (fetch_optional (\<lambda>d. q_users (pg E) d [''is_enabled''] internal_user_id)) p of
        (Inl _, p1) \<Rightarrow> (Err DatabaseFailure, p1)
      | (Inr None, p1) \<Rightarrow> (Ok None, p1)
      | (Inr (Some row), p1) \<Rightarrow>
          (and_then (ok_or (as_bool (row ''is_enabled'')) DatabaseFailure) (\<lambda>b. Ok (Some b)), p1))"

definition read_external_identity_with_user ::
    "'d pg_env \<Rightarrow> string \<Rightarrow> string \<Rightarrow> 'd pool
     \<Rightarrow> ((i32 \<times> bool option) option, postgres_auth_error) result \<times> 'd pool" where
  "read_external_identity_with_user E provider subject p =
     (case pg_trip E (fetch_optional (\<lambda>d. q_identities (pg E) d provider subject)) p of
        (Inl _, p1) \<Rightarrow> (Err DatabaseFailure, p1)
      | (Inr None, p1) \<Rightarrow> (Ok None, p1)
      | (Inr (Some row), p1) \<Rightarrow>
          (and_then (ok_or (as_int (row ''internal_user_id'')) DatabaseFailure) (\<lambda>u.
           and_then (ok_or (as_opt_bool (row ''is_enabled'')) DatabaseFailure) (\<lambda>b.
             Ok (Some (u, b)))), p1))"

fun is_external_identity_unique_violation :: "sqlx_error \<Rightarrow> bool" where
  "is_external_identity_unique_violation (DatabaseError code constraint) \<longleftrightarrow>
     code = Some ''23505'' \<and> constraint = Some ''external_identities_pkey''"
| "is_external_identity_unique_violation ConnectionError \<longleftrightarrow> False"

text \<open>What both callers make of a row that links the identity to a user.\<close>

fun linked_user :: "(i32 \<times> bool option) option \<Rightarrow> (i32, postgres_auth_error) result option" where
  "linked_user (Some (u, Some True)) = Some (Ok u)"
| "linked_user (Some (_, Some False)) = Some (Err UserDisabled)"
| "linked_user (Some (_, None)) = Some (Err IdentityInconsistent)"
| "linked_user None = None"

text \<open>The part of \<open>create_external_identity\<close> after the second \<open>INSERT\<close>.\<close>

definition finish_identity ::
    "'d pg_env \<Rightarrow> string \<Rightarrow> string \<Rightarrow> nat \<Rightarrow> i32 \<Rightarrow> (unit, sqlx_error) result \<Rightarrow> 'd pool
     \<Rightarrow> (i32, postgres_auth_error) result \<times> 'd pool" where
  "finish_identity E provider subject t internal_user_id inserted p =
     (case inserted of
        Inr _ \<Rightarrow>
          (case pg_trip E (plain (tx_commit (pg E) t)) p of
             (Inr _, p1) \<Rightarrow> (Ok internal_user_id, p1)
           | (Inl _, p1) \<Rightarrow> (Err DatabaseFailure, p1))
      | Inl error \<Rightarrow>
          (case pg_trip E (plain (tx_rollback (pg E) t)) p of
             (Inl _, p1) \<Rightarrow> (Err DatabaseFailure, p1)
           | (Inr _, p1) \<Rightarrow>
               if \<not> is_external_identity_unique_violation error then (Err DatabaseFailure, p1)
               else case read_external_identity_with_user E provider subject p1 of
                 (Inl e, p2) \<Rightarrow> (Err e, p2)
               | (Inr found, p2) \<Rightarrow>
                   (case linked_user found of
                      Some r \<Rightarrow> (r, p2)
                    | None \<Rightarrow> (Err IdentityInconsistent, p2))))"

definition create_external_identity ::
    "'d pg_env \<Rightarrow> string \<Rightarrow> string \<Rightarrow> 'd pool \<Rightarrow> (i32, postgres_auth_error) result \<times> 'd pool" where
  "create_external_identity E provider subject p =
     (case pg_trip E (\<lambda>d. case tx_begin (pg E) d of (t, d') \<Rightarrow> (Ok t, d')) p of
        (Inl _, p1) \<Rightarrow> (Err DatabaseFailure, p1)
      | (Inr t, p1) \<Rightarrow>
          (case pg_trip E (tx_insert_user (pg E) t) p1 of
             (Inl _, p2) \<Rightarrow>
               (Err DatabaseFailure, snd (pg_trip E (plain (tx_rollback (pg E) t)) p2))
           | (Inr internal_user_row, p2) \<Rightarrow>
               (case as_int (internal_user_row ''internal_user_id'') of
                  None \<Rightarrow>
                    (Err DatabaseFailure, snd (pg_trip E (plain (tx_rollback (pg E) t)) p2))
                | Some internal_user_id \<Rightarrow>
                    (case pg_trip E (tx_insert_identity (pg E) t provider subject internal_user_id) p2 of
                       (inserted, p3) \<Rightarrow>
                         finish_identity E provider subject t internal_user_id inserted p3))))"

definition resolve_external_identity ::
    "'d pg_env \<Rightarrow> string \<Rightarrow> string \<Rightarrow> 'd pool \<Rightarrow> (i32, postgres_auth_error) result \<times> 'd pool" where
  "resolve_external_identity E provider subject p =
     (case read_external_identity_with_user E provider subject p of
        (Inl e, p1) \<Rightarrow> (Err e, p1)
      | (Inr found, p1) \<Rightarrow>
          (case linked_user found of
             Some r \<Rightarrow> (r, p1)
           | None \<Rightarrow> create_external_identity E provider subject p1))"

section \<open>What the database promises\<close>

record service_row =
  row_is_enabled :: bool
  row_login_callback_uri :: string
  row_logout_return_uri :: string
  row_service_secret_sha256 :: bytes

definition service_columns :: "string \<Rightarrow> service_row \<Rightarrow> pg_row" where
  "service_columns sid r = [''service_id'' \<mapsto> PgText sid, ''is_enabled'' \<mapsto> PgBool (row_is_enabled r),
     ''login_callback_uri'' \<mapsto> PgText (row_login_callback_uri r),
     ''logout_return_uri'' \<mapsto> PgText (row_logout_return_uri r),
     ''service_secret_sha256'' \<mapsto> PgBytes (row_service_secret_sha256 r)]"

text \<open>The committed rows of the three tables.\<close>

record tables =
  services :: "string \<rightharpoonup> service_row"
  users :: "i32 \<rightharpoonup> bool"
  identities :: "string \<times> string \<rightharpoonup> i32"

definition identity_columns :: "tables \<Rightarrow> i32 \<Rightarrow> pg_row" where
  "identity_columns v u = [''internal_user_id'' \<mapsto> PgInt u,
     ''is_enabled'' \<mapsto> (case users v u of None \<Rightarrow> PgNull | Some b \<Rightarrow> PgBool b)]"

text \<open>
  \<open>committed\<close> is what every client sees; \<open>staged\<close> is what an open transaction has
  inserted so far and becomes visible with its commit.
\<close>

locale postgres_db =
  fixes P :: "'d postgres"
    and committed :: "'d \<Rightarrow> tables"
    and staged :: "'d \<Rightarrow> nat \<rightharpoonup> (i32 \<rightharpoonup> bool) \<times> (string \<times> string \<rightharpoonup> i32)"
  assumes q_services: "q_services P d cols sid =
      map_option (\<lambda>r. service_columns sid r |` set cols) (services (committed d) sid)"
    and q_users: "q_users P d cols u =
      map_option (\<lambda>b. [''internal_user_id'' \<mapsto> PgInt u, ''is_enabled'' \<mapsto> PgBool b] |` set cols) (users (committed d) u)"
    and q_identities: "q_identities P d provider subject =
      map_option (identity_columns (committed d)) (identities (committed d) (provider, subject))"
    and begin_tx: "tx_begin P d = (t, d') \<Longrightarrow>
      committed d' = committed d \<and> staged d' = (staged d)(t \<mapsto> (Map.empty, Map.empty))"
    and insert_user_keeps: "committed (snd (tx_insert_user P t d)) = committed d"
    and insert_user_Ok: "tx_insert_user P t d = (Ok row, d') \<Longrightarrow> staged d t = Some (us, ids) \<Longrightarrow>
      \<exists>u. as_int (row ''internal_user_id'') = Some u \<and> users (committed d) u = None
        \<and> staged d' = (staged d)(t \<mapsto> (us(u \<mapsto> True), ids))"
    and insert_identity_keeps: "committed (snd (tx_insert_identity P t provider subject u d)) = committed d"
    and insert_identity_Ok: "tx_insert_identity P t provider subject u d = (Ok (), d') \<Longrightarrow>
      staged d t = Some (us, ids) \<Longrightarrow>
      identities (committed d) (provider, subject) = None
      \<and> staged d' = (staged d)(t \<mapsto> (us, ids((provider, subject) \<mapsto> u)))"
    and insert_identity_violation: "tx_insert_identity P t provider subject u d = (Err e, d') \<Longrightarrow>
      is_external_identity_unique_violation e \<Longrightarrow> identities (committed d) (provider, subject) \<noteq> None"
    and commit: "staged d t = Some (us, ids) \<Longrightarrow> committed (tx_commit P t d) =
      (committed d)\<lparr>users := users (committed d) ++ us, identities := identities (committed d) ++ ids\<rparr>"
    and rollback: "committed (tx_rollback P t d) = committed d"

section \<open>An in-memory database\<close>

record mem_pg_state =
  pg_tables :: tables
  pg_staged :: "nat \<rightharpoonup> (i32 \<rightharpoonup> bool) \<times> (string \<times> string \<rightharpoonup> i32)"
  pg_next_tx :: nat
  pg_next_user :: i32

text \<open>The identity column counts up; a number that is taken is refused by the primary key.\<close>

definition mem_insert_user :: "nat \<Rightarrow> mem_pg_state \<Rightarrow> (pg_row, sqlx_error) result \<times> mem_pg_state" where
  "mem_insert_user t d =
     (let u = pg_next_user d; d1 = d\<lparr>pg_next_user := u + 1\<rparr> in
      if users (pg_tables d) u \<noteq> None then (Err (DatabaseError (Some ''23505'') (Some ''internal_users_pkey'')), d1)
      else (Ok [''internal_user_id'' \<mapsto> PgInt u],
        d1\<lparr>pg_staged := (pg_staged d)(t := map_option (\<lambda>(us, ids). (us(u \<mapsto> True), ids)) (pg_staged d t))\<rparr>))"

definition mem_insert_identity ::
    "nat \<Rightarrow> string \<Rightarrow> string \<Rightarrow> i32 \<Rightarrow> mem_pg_state \<Rightarrow> (unit, sqlx_error) result \<times> mem_pg_state" where
  "mem_insert_identity t provider subject u d =
     (if identities (pg_tables d) (provider, subject) \<noteq> None
      then (Err (DatabaseError (Some ''23505'') (Some ''external_identities_pkey'')), d)
      else (Ok (), d\<lparr>pg_staged := (pg_staged d)(t :=
        map_option (\<lambda>(us, ids). (us, ids((provider, subject) \<mapsto> u))) (pg_staged d t))\<rparr>))"

definition mem_commit :: "nat \<Rightarrow> mem_pg_state \<Rightarrow> mem_pg_state" where
  "mem_commit t d = (case pg_staged d t of
      None \<Rightarrow> d
    | Some (us, ids) \<Rightarrow> d\<lparr>pg_staged := (pg_staged d)(t := None),
        pg_tables := (pg_tables d)\<lparr>users := users (pg_tables d) ++ us, identities := identities (pg_tables d) ++ ids\<rparr>\<rparr>)"

definition mem_pg :: "mem_pg_state postgres" where
  "mem_pg = \<lparr>
     q_services = (\<lambda>d cols sid. map_option (\<lambda>r. service_columns sid r |` set cols) (services (pg_tables d) sid)),
     q_users = (\<lambda>d cols u. map_option
        (\<lambda>b. [''internal_user_id'' \<mapsto> PgInt u, ''is_enabled'' \<mapsto> PgBool b] |` set cols) (users (pg_tables d) u)),
     q_identities = (\<lambda>d provider subject.
        map_option (identity_columns (pg_tables d)) (identities (pg_tables d) (provider, subject))),
     tx_begin = (\<lambda>d. (pg_next_tx d, d\<lparr>pg_next_tx := Suc (pg_next_tx d),
        pg_staged := (pg_staged d)(pg_next_tx d \<mapsto> (Map.empty, Map.empty))\<rparr>)),
     tx_insert_user = mem_insert_user,
     tx_insert_identity = mem_insert_identity,
     tx_commit = mem_commit,
     tx_rollback = (\<lambda>t d. d\<lparr>pg_staged := (pg_staged d)(t := None)\<rparr>)\<rparr>"

interpretation mem_db: postgres_db mem_pg pg_tables pg_staged
  by unfold_locales
    (auto simp: mem_pg_def mem_insert_user_def mem_insert_identity_def mem_commit_def Let_def split: if_splits)

section \<open>Round trips\<close>

definition pg_quiet :: "'d pg_env \<Rightarrow> bool" where
  "pg_quiet E \<longleftrightarrow> (\<forall>n. pg_network E n = Delivered \<and> pg_interference E n = id)"

lemma pg_trip_Ok:
  assumes "pg_trip E stmt p = (Ok a, p')"
  shows "stmt (pg_arrival E p) = (Ok a, database p')" "pg_network E (statements p) = Delivered"
  using assms by (auto simp: pg_trip_def Let_def split: prod.splits fault.splits)

lemma pg_trip_database:
  "database (snd (pg_trip E stmt p)) = pg_arrival E p \<or> database (snd (pg_trip E stmt p)) = snd (stmt (pg_arrival E p))"
  by (auto simp: pg_trip_def Let_def split: prod.splits fault.splits)

lemma pg_trip_quiet:
  "pg_quiet E \<Longrightarrow> pg_trip E stmt p =
     (fst (stmt (database p)), \<lparr>database = snd (stmt (database p)), statements = Suc (statements p)\<rparr>)"
  by (simp add: pg_quiet_def pg_trip_def pg_arrival_def Let_def split: prod.splits)

end
