(* ===== verification/Handler.thy ===== *)
theory Handler
  imports Prelude
begin

text \<open>
  Request handlers as state transformers with early return, for both services: a step returns a
  value or stops with an answer; \<open>hbind\<close> continues only in the first case, \<open>run_handler\<close>
  answers with what was returned either way.  \<open>stops_in\<close> bounds the answers a handler can stop
  with, part by part.
\<close>

section \<open>Steps\<close>

type_synonym ('w, 'e, 'a) fallible = "'w \<Rightarrow> ('a, 'e) result \<times> 'w"

definition hbind :: "('w, 'e, 'a) fallible \<Rightarrow> ('a \<Rightarrow> ('w, 'e, 'b) fallible) \<Rightarrow> ('w, 'e, 'b) fallible" where
  "hbind m f w = (case m w of (Inl r, w1) \<Rightarrow> (Inl r, w1) | (Inr a, w1) \<Rightarrow> f a w1)"

definition reply :: "'e \<Rightarrow> ('w, 'e, 'a) fallible" where
  "reply r w = (Inl r, w)"

definition proceed :: "'a \<Rightarrow> ('w, 'e, 'a) fallible" where
  "proceed a w = (Inr a, w)"

definition ensure :: "bool \<Rightarrow> ('w, 'e, unit) fallible \<Rightarrow> ('w, 'e, unit) fallible" where
  "ensure b otherwise w = (if b then (Inr (), w) else otherwise w)"

definition run_handler :: "('w, 'e, 'e) fallible \<Rightarrow> 'w \<Rightarrow> 'e \<times> 'w" where
  "run_handler h w = (case h w of (Inl r, w1) \<Rightarrow> (r, w1) | (Inr r, w1) \<Rightarrow> (r, w1))"

text \<open>\<open>match op { Ok(value) => value, Err(e) => handler }\<close>.\<close>

definition or_else :: "('w, 'f, 'a) fallible \<Rightarrow> ('f \<Rightarrow> ('w, 'e, 'a) fallible) \<Rightarrow> ('w, 'e, 'a) fallible" where
  "or_else m h w = (case m w of (Inr a, w1) \<Rightarrow> (Inr a, w1) | (Inl e, w1) \<Rightarrow> h e w1)"

text \<open>A computation without effects as a step.\<close>

definition pure :: "'r \<Rightarrow> 'w \<Rightarrow> 'r \<times> 'w" where
  "pure r w = (r, w)"

text \<open>\<open>return handler(...)\<close> from the middle of another handler.\<close>

definition early :: "('w, 'e, 'e) fallible \<Rightarrow> ('w, 'e, 'a) fallible" where
  "early h w = (case run_handler h w of (r, w1) \<Rightarrow> (Inl r, w1))"

lemma hbind_Ok: "hbind m f w = (Inr b, w') \<longleftrightarrow> (\<exists>a w1. m w = (Inr a, w1) \<and> f a w1 = (Inr b, w'))"
  by (auto simp: hbind_def split: prod.splits sum.splits)

lemma hbind_Err: "hbind m f w = (Inl r, w') \<longleftrightarrow>
    m w = (Inl r, w') \<or> (\<exists>a w1. m w = (Inr a, w1) \<and> f a w1 = (Inl r, w'))"
  by (auto simp: hbind_def split: prod.splits sum.splits)

lemma ensure_Ok: "ensure b m w = (Inr (), w') \<longleftrightarrow> (if b then w' = w else m w = (Inr (), w'))"
  by (auto simp: ensure_def)

lemma ensure_Err: "ensure b m w = (Inl r, w') \<longleftrightarrow> \<not> b \<and> m w = (Inl r, w')"
  by (auto simp: ensure_def)

lemma hbind_step [simp]:
  "m w = (Inr a, w1) \<Longrightarrow> hbind m f w = f a w1" "m w = (Inl r, w1) \<Longrightarrow> hbind m f w = (Inl r, w1)"
  by (simp_all add: hbind_def)

lemma reply_simps [simp]: "reply r w = (Inl r, w)" "proceed a w = (Inr a, w)" "ensure True m w = (Inr (), w)"
  "ensure False m w = m w"
  by (simp_all add: reply_def proceed_def ensure_def)

lemma or_else_Ok:
  assumes "\<And>e w1. m w = (Inl e, w1) \<Longrightarrow> h e w1 \<noteq> (Inr a, w')"
  shows "or_else m h w = (Inr a, w') \<longleftrightarrow> m w = (Inr a, w')"
  using assms by (auto simp: or_else_def split: prod.splits sum.splits)

lemma pure_eq: "pure r w = (x, w') \<longleftrightarrow> r = x \<and> w' = w"
  by (auto simp: pure_def)

lemma if_step_Ok: "(if b then m else n) w = (Inr a, w') \<longleftrightarrow> (if b then m w = (Inr a, w') else n w = (Inr a, w'))"
  by simp

lemma case_sum_Ok: "(case x of Inl e \<Rightarrow> f e | Inr a \<Rightarrow> g a) w = (Inr b, w') \<longleftrightarrow>
    (\<exists>e. x = Inl e \<and> f e w = (Inr b, w')) \<or> (\<exists>a. x = Inr a \<and> g a w = (Inr b, w'))"
  by (cases x) auto

lemma case_option_Ok: "(case x of None \<Rightarrow> f | Some a \<Rightarrow> g a) w = (Inr b, w') \<longleftrightarrow>
    (x = None \<and> f w = (Inr b, w')) \<or> (\<exists>a. x = Some a \<and> g a w = (Inr b, w'))"
  by (cases x) auto

lemmas case_Ok = case_sum_Ok case_option_Ok if_step_Ok

section \<open>Early answers\<close>

text \<open>\<open>stops_in P h\<close>: every early answer of the handler satisfies \<open>P\<close>.\<close>

definition stops_in :: "('e \<Rightarrow> 'w \<Rightarrow> bool) \<Rightarrow> ('w, 'e, 'a) fallible \<Rightarrow> bool" where
  "stops_in P h \<longleftrightarrow> (\<forall>w r w'. h w = (Inl r, w') \<longrightarrow> P r w')"

definition answers_in :: "('e \<Rightarrow> 'w \<Rightarrow> bool) \<Rightarrow> ('w, 'e, 'e) fallible \<Rightarrow> bool" where
  "answers_in P h \<longleftrightarrow> (\<forall>w r w'. run_handler h w = (r, w') \<longrightarrow> P r w')"

named_theorems status_intros \<open>how the statuses of a handler follow from its parts\<close>

lemma stops_hbind [status_intros]: "stops_in P m \<Longrightarrow> (\<And>a. stops_in P (f a)) \<Longrightarrow> stops_in P (hbind m f)"
  unfolding stops_in_def hbind_Err by blast

lemma stops_or_else [status_intros]: "(\<And>e. stops_in P (h e)) \<Longrightarrow> stops_in P (or_else m h)"
  by (auto simp: stops_in_def or_else_def split: prod.splits sum.splits)

lemma stops_proceed [status_intros]: "stops_in P (proceed a)"
  by (simp add: stops_in_def)

lemma stops_ensure [status_intros]: "stops_in P m \<Longrightarrow> stops_in P (ensure b m)"
  by (auto simp: stops_in_def ensure_def)

lemma stops_early [status_intros]: "answers_in P h \<Longrightarrow> stops_in P (early h)"
  by (auto simp: stops_in_def answers_in_def early_def split: prod.splits)

lemma stops_if [status_intros]: "(b \<Longrightarrow> stops_in P m) \<Longrightarrow> (\<not> b \<Longrightarrow> stops_in P n) \<Longrightarrow> stops_in P (if b then m else n)"
  by simp

lemma stops_case_option [status_intros]:
  "stops_in P n \<Longrightarrow> (\<And>a. stops_in P (f a)) \<Longrightarrow> stops_in P (case x of None \<Rightarrow> n | Some a \<Rightarrow> f a)"
  by (cases x) simp_all

lemma stops_case_sum [status_intros]:
  "(\<And>a. stops_in P (f a)) \<Longrightarrow> (\<And>a. stops_in P (g a)) \<Longrightarrow> stops_in P (case x of Inl a \<Rightarrow> f a | Inr a \<Rightarrow> g a)"
  by (cases x) simp_all

lemma stops_case_prod [status_intros]:
  "(\<And>a b. stops_in P (f a b)) \<Longrightarrow> stops_in P (case x of (a, b) \<Rightarrow> f a b)"
  by (cases x) simp

lemma stops_mono: "stops_in P h \<Longrightarrow> (\<And>r w. P r w \<Longrightarrow> Q r w) \<Longrightarrow> stops_in Q h"
  by (auto simp: stops_in_def)

lemma answers_mono: "answers_in P h \<Longrightarrow> (\<And>r w. P r w \<Longrightarrow> Q r w) \<Longrightarrow> answers_in Q h"
  by (auto simp: answers_in_def)

lemma answersI: "stops_in P h \<Longrightarrow> (\<And>w r w'. h w = (Inr r, w') \<Longrightarrow> P r w') \<Longrightarrow> answers_in P h"
  by (auto simp: answers_in_def stops_in_def run_handler_def split: prod.splits sum.splits)

text \<open>The same for every answer, early or at the end.\<close>

named_theorems answer_intros \<open>how the answers of a handler follow from its parts\<close>

lemma answers_iff: "answers_in P h \<longleftrightarrow> (\<forall>w r w'. h w = (Inl r, w') \<or> h w = (Inr r, w') \<longrightarrow> P r w')"
  by (auto simp: answers_in_def run_handler_def split: prod.splits sum.splits)

lemma answers_hbind [answer_intros]: "stops_in P m \<Longrightarrow> (\<And>a. answers_in P (f a)) \<Longrightarrow> answers_in P (hbind m f)"
  unfolding answers_iff stops_in_def hbind_Ok hbind_Err by blast

lemma answers_proceed [answer_intros]: "(\<And>w. P r w) \<Longrightarrow> answers_in P (proceed r)"
  by (simp add: answers_in_def run_handler_def)

lemma answers_reply [answer_intros]: "(\<And>w. P r w) \<Longrightarrow> answers_in P (reply r)"
  by (simp add: answers_in_def run_handler_def)

lemma answers_if [answer_intros]:
  "(b \<Longrightarrow> answers_in P m) \<Longrightarrow> (\<not> b \<Longrightarrow> answers_in P n) \<Longrightarrow> answers_in P (if b then m else n)"
  by simp

lemma answers_case_option [answer_intros]:
  "answers_in P n \<Longrightarrow> (\<And>a. answers_in P (f a)) \<Longrightarrow> answers_in P (case x of None \<Rightarrow> n | Some a \<Rightarrow> f a)"
  by (cases x) simp_all

lemma answers_case_sum [answer_intros]:
  "(\<And>a. answers_in P (f a)) \<Longrightarrow> (\<And>a. answers_in P (g a)) \<Longrightarrow> answers_in P (case x of Inl a \<Rightarrow> f a | Inr a \<Rightarrow> g a)"
  by (cases x) simp_all

lemma answers_case_prod [answer_intros]:
  "(\<And>a b. answers_in P (f a b)) \<Longrightarrow> answers_in P (case x of (a, b) \<Rightarrow> f a b)"
  by (cases x) simp

end
