(* ===== verification/Http.thy ===== *)
theory Http
  imports Handler
begin

text \<open>
  What both services use of HTTP: requests, responses, cookies, JSON values and header values.  The URL crate is a parameter, the record \<open>url_ops\<close>, with the
  locale \<open>url_lib\<close> for what the program relies on; a small URL type at the end satisfies it.
\<close>

section \<open>Requests and responses\<close>

datatype http_method = GET | POST | OtherMethod string

text \<open>A JSON value; a number that is not an integer is kept as its text.\<close>

datatype json = JNull | JBool bool | JNum int | JFloat string | JStr string | JArray "json list"
  | JObject "(string \<times> json) list"

datatype body = NoBody | Html string | Text string | Json json

datatype same_site = Strict | Lax | SameSiteNone

record cookie =
  ck_name :: string
  ck_value :: string
  ck_path :: "string option"
  ck_max_age :: "int option"
  ck_secure :: bool
  ck_http_only :: bool
  ck_same_site :: "same_site option"

record response =
  resp_status :: nat
  resp_headers :: "(string \<times> string) list"
  resp_cookies :: "cookie list"
  resp_body :: body

definition finish :: "nat \<Rightarrow> response" where
  "finish st = \<lparr>resp_status = st, resp_headers = [], resp_cookies = [], resp_body = NoBody\<rparr>"

definition with_header :: "string \<Rightarrow> string \<Rightarrow> response \<Rightarrow> response" where
  "with_header k v r = r\<lparr>resp_headers := resp_headers r @ [(k, v)]\<rparr>"

definition with_cookie :: "cookie \<Rightarrow> response \<Rightarrow> response" where
  "with_cookie ck r = r\<lparr>resp_cookies := resp_cookies r @ [ck]\<rparr>"

definition with_body :: "body \<Rightarrow> response \<Rightarrow> response" where
  "with_body b r = r\<lparr>resp_body := b\<rparr>"

definition json_response :: "nat \<Rightarrow> json \<Rightarrow> response" where
  "json_response st j = with_body (Json j) (with_header ''content-type'' ''application/json'' (finish st))"

definition location :: "response \<Rightarrow> string option" where
  "location r = map_of (resp_headers r) ''location''"

text \<open>
  \<open>HeaderValue::to_str\<close> accepts visible ASCII, space and tab.  Header names are compared in
  lower case by the HTTP libraries; the model keeps them in lower case.
\<close>

definition header_byte :: "char \<Rightarrow> bool" where
  "header_byte b \<longleftrightarrow> byte_in CHR 0x20 CHR 0x7E b \<or> b = CHR 0x09"

definition to_str :: "bytes \<Rightarrow> string option" where
  "to_str v = (if list_all header_byte v then Some v else None)"

text \<open>
  \<open>HeaderValue::from_str\<close> also accepts the bytes above ASCII.  The response builder of
  \<open>actix-web\<close> answers an internal server error in place of a response with an invalid value.
\<close>

definition header_value_byte :: "char \<Rightarrow> bool" where
  "header_value_byte b \<longleftrightarrow> (CHR 0x20 \<le> b \<and> b \<noteq> CHR 0x7F) \<or> b = CHR 0x09"

definition header_value :: "string \<Rightarrow> bool" where
  "header_value v \<longleftrightarrow> list_all header_value_byte v"

definition append_header :: "string \<Rightarrow> string \<Rightarrow> response \<Rightarrow> response" where
  "append_header k v r = (if header_value v then with_header k v r
     else with_body (Text ''failed to parse header value'') (with_header ''content-type'' ''text/plain; charset=utf-8'' (finish 500)))"

definition get_all :: "string \<Rightarrow> (string \<times> bytes) list \<Rightarrow> bytes list" where
  "get_all name hs = map snd (filter (\<lambda>(k, v). k = name) hs)"

lemma to_str_Some_iff: "to_str v = Some s \<longleftrightarrow> s = v \<and> list_all header_byte v"
  by (auto simp: to_str_def)

lemma header_byte_ascii: "header_byte b \<Longrightarrow> is_ascii_byte b"
  by (auto simp: header_byte_def byte_class_defs elim!: order_trans)

text \<open>\<open>request.cookie(name)\<close>: the first cookie of that name, when the header parses at all.\<close>

definition request_cookie :: "(string \<times> string) list option \<Rightarrow> string \<Rightarrow> string option" where
  "request_cookie cookies name = (case cookies of None \<Rightarrow> None | Some cs \<Rightarrow> map_of cs name)"

section \<open>JSON objects as structs\<close>

text \<open>
  A struct with derived \<open>Deserialize\<close> is read from an object in which each of its fields occurs
  at most once (others are ignored), or from an array of its fields in order.
\<close>

definition json_field :: "string \<Rightarrow> (string \<times> json) list \<Rightarrow> json option option" where
  "json_field name fs = (case filter (\<lambda>(k, v). k = name) fs of
      [] \<Rightarrow> Some None | [(k, v)] \<Rightarrow> Some (Some v) | _ \<Rightarrow> None)"

fun struct_fields :: "string list \<Rightarrow> json \<Rightarrow> json option list option" where
  "struct_fields names (JObject fs) =
     (if list_all (\<lambda>name. json_field name fs \<noteq> None) names then Some (map (\<lambda>name. the (json_field name fs)) names) else None)"
| "struct_fields names (JArray vs) = (if length vs = length names then Some (map Some vs) else None)"
| "struct_fields names _ = None"

text \<open>An optional field may be missing or null.\<close>

fun opt_string :: "json option \<Rightarrow> string option option" where
  "opt_string None = Some None"
| "opt_string (Some JNull) = Some None"
| "opt_string (Some (JStr s)) = Some (Some s)"
| "opt_string _ = None"

fun opt_bool :: "json option \<Rightarrow> bool option option" where
  "opt_bool None = Some None"
| "opt_bool (Some JNull) = Some None"
| "opt_bool (Some (JBool b)) = Some (Some b)"
| "opt_bool _ = None"

lemma finish_simps [simp]: "resp_status (finish st) = st" "resp_headers (finish st) = []" "resp_cookies (finish st) = []"
  "resp_body (finish st) = NoBody"
  by (simp_all add: finish_def)

lemma with_simps [simp]:
  "resp_status (with_header k v r) = resp_status r" "resp_headers (with_header k v r) = resp_headers r @ [(k, v)]"
  "resp_cookies (with_header k v r) = resp_cookies r" "resp_body (with_header k v r) = resp_body r"
  "resp_status (with_cookie ck r) = resp_status r" "resp_headers (with_cookie ck r) = resp_headers r"
  "resp_cookies (with_cookie ck r) = resp_cookies r @ [ck]" "resp_body (with_cookie ck r) = resp_body r"
  "resp_status (with_body b r) = resp_status r" "resp_headers (with_body b r) = resp_headers r"
  "resp_cookies (with_body b r) = resp_cookies r" "resp_body (with_body b r) = b"
  by (simp_all add: with_header_def with_cookie_def with_body_def)

lemma json_response_simps [simp]:
  "resp_status (json_response st j) = st" "resp_headers (json_response st j) = [(''content-type'', ''application/json'')]"
  "resp_cookies (json_response st j) = []" "resp_body (json_response st j) = Json j"
  by (simp_all add: json_response_def)

lemma append_header_status [simp]: "resp_status (append_header k v r) = (if header_value v then resp_status r else 500)"
  by (simp add: append_header_def)

text \<open>A step of a handler that may answer at once.\<close>

type_synonym ('w, 'a) step = "('w, response, 'a) fallible"

section \<open>URLs\<close>

record 'u url_ops =
  url_parse :: "string \<Rightarrow> 'u option"
  url_scheme :: "'u \<Rightarrow> string"
  url_host :: "'u \<Rightarrow> string option"
  url_append_pairs :: "(string \<times> string) list \<Rightarrow> 'u \<Rightarrow> 'u"
  url_clear_query :: "'u \<Rightarrow> 'u"
  url_set_path :: "string \<Rightarrow> 'u \<Rightarrow> 'u"
  url_clear_fragment :: "'u \<Rightarrow> 'u"
  url_to_string :: "'u \<Rightarrow> string"
  url_form_parse :: "string \<Rightarrow> (string \<times> string) list"

text \<open>A path that \<open>set_path\<close> neither encodes nor normalises: letters, digits and slashes.\<close>

definition plain_path :: "string \<Rightarrow> bool" where
  "plain_path p \<longleftrightarrow> starts_with ''/'' p \<and> list_all (\<lambda>c. is_alphanumeric c \<or> c = CHR ''/'') p"

text \<open>
  \<open>pairs\<close> are the decoded query pairs of a URL, \<open>path\<close> its path and \<open>raw_query\<close> its query
  string, which \<open>form_urlencoded::parse\<close> decodes.
\<close>

locale url_lib =
  fixes U :: "'u url_ops"
    and pairs :: "'u \<Rightarrow> (string \<times> string) list"
    and path :: "'u \<Rightarrow> string"
    and raw_query :: "'u \<Rightarrow> string"
  assumes append_pairs: "pairs (url_append_pairs U ps u) = pairs u @ ps"
    and append_path: "path (url_append_pairs U ps u) = path u"
    and append_host: "url_host U (url_append_pairs U ps u) = url_host U u"
    and append_scheme: "url_scheme U (url_append_pairs U ps u) = url_scheme U u"
    and clear_pairs: "pairs (url_clear_query U u) = []"
    and clear_path: "path (url_clear_query U u) = path u"
    and clear_host: "url_host U (url_clear_query U u) = url_host U u"
    and clear_scheme: "url_scheme U (url_clear_query U u) = url_scheme U u"
    and set_path: "plain_path p \<Longrightarrow> url_host U u \<noteq> None \<Longrightarrow> path (url_set_path U p u) = p"
    and set_path_keeps: "pairs (url_set_path U p u) = pairs u" "url_host U (url_set_path U p u) = url_host U u"
      "url_scheme U (url_set_path U p u) = url_scheme U u"
    and fragment_keeps: "pairs (url_clear_fragment U u) = pairs u" "path (url_clear_fragment U u) = path u"
      "url_host U (url_clear_fragment U u) = url_host U u" "url_scheme U (url_clear_fragment U u) = url_scheme U u"
    and form_parse: "url_form_parse U (raw_query u) = pairs u"
    and to_string_header: "header_value (url_to_string U u)"

text \<open>
  An instance: a URL as its parts, printed without the bytes no URL contains.  Pairs are written \<open>name=value\<close> and joined by \<open>&\<close>; a byte
  that is not alphanumeric, \<open>-\<close>, \<open>_\<close> or \<open>.\<close> is percent-encoded in hexadecimal.
\<close>

record simple_url =
  su_scheme :: string
  su_host :: string
  su_path :: string
  su_query :: "(string \<times> string) list"

definition unreserved :: "char \<Rightarrow> bool" where
  "unreserved c \<longleftrightarrow> is_alphanumeric c \<or> c = CHR ''-'' \<or> c = CHR ''_'' \<or> c = CHR ''.''"

definition hex_upper :: "nat \<Rightarrow> char" where
  "hex_upper d = ''0123456789ABCDEF'' ! d"

definition hex_value :: "char \<Rightarrow> nat" where
  "hex_value c = (let n = of_char c in if n < 58 then n - 48 else n - 55)"

fun percent_encode :: "string \<Rightarrow> string" where
  "percent_encode [] = []"
| "percent_encode (c # s) =
     (if unreserved c then [c]
      else [CHR ''%'', hex_upper (of_char c div 16), hex_upper (of_char c mod 16)]) @ percent_encode s"

fun percent_decode :: "string \<Rightarrow> string" where
  "percent_decode (c # s) =
     (if c = CHR ''%'' then
        (case s of a # b # t \<Rightarrow> char_of (16 * hex_value a + hex_value b) # percent_decode t | _ \<Rightarrow> c # percent_decode s)
      else c # percent_decode s)"
| "percent_decode [] = []"

fun show_query :: "(string \<times> string) list \<Rightarrow> string" where
  "show_query [] = []"
| "show_query [(n, v)] = percent_encode n @ ''='' @ percent_encode v"
| "show_query ((n, v) # p # ps) = percent_encode n @ ''='' @ percent_encode v @ ''&'' @ show_query (p # ps)"

definition pair_of :: "string \<Rightarrow> string \<times> string" where
  "pair_of s = (case split_once (CHR ''='') s of
      None \<Rightarrow> (percent_decode s, []) | Some (n, v) \<Rightarrow> (percent_decode n, percent_decode v))"

function form_parse :: "string \<Rightarrow> (string \<times> string) list" where
  "form_parse s = (if s = [] then [] else case split_once (CHR ''&'') s of
      None \<Rightarrow> [pair_of s] | Some (a, r) \<Rightarrow> pair_of a # form_parse r)"
  by pat_completeness auto
termination
  by (relation "measure length") (auto simp: split_once_Some_iff)

declare form_parse.simps [simp del]

definition simple_mk :: "string \<Rightarrow> string \<Rightarrow> simple_url" where
  "simple_mk scheme rest =
     (let (before, query) = (case split_once (CHR ''?'') rest of None \<Rightarrow> (rest, []) | Some p \<Rightarrow> p);
          host = takeWhile (\<lambda>c. c \<noteq> CHR ''/'') before; path = dropWhile (\<lambda>c. c \<noteq> CHR ''/'') before
      in \<lparr>su_scheme = scheme, su_host = host, su_path = (if path = [] then ''/'' else path),
          su_query = form_parse query\<rparr>)"

definition simple_parse :: "string \<Rightarrow> simple_url option" where
  "simple_parse s = (case split_once (CHR '':'') s of
      None \<Rightarrow> None
    | Some (scheme, rest) \<Rightarrow> map_option (simple_mk scheme) (strip_prefix ''//'' rest))"

definition simple_to_string :: "simple_url \<Rightarrow> string" where
  "simple_to_string u = filter header_value_byte (su_scheme u @ ''://'' @ su_host u @ su_path u
     @ (if su_query u = [] then [] else ''?'' @ show_query (su_query u)))"

definition simple_urls :: "simple_url url_ops" where
  "simple_urls = \<lparr>
     url_parse = simple_parse,
     url_scheme = su_scheme,
     url_host = (\<lambda>u. if su_host u = [] then None else Some (su_host u)),
     url_append_pairs = (\<lambda>ps u. u\<lparr>su_query := su_query u @ ps\<rparr>),
     url_clear_query = (\<lambda>u. u\<lparr>su_query := []\<rparr>),
     url_set_path = (\<lambda>p u. u\<lparr>su_path := p\<rparr>),
     url_clear_fragment = (\<lambda>u. u),
     url_to_string = simple_to_string,
     url_form_parse = form_parse\<rparr>"

lemma hex_upper_props:
  assumes "d < 16"
  shows "hex_value (hex_upper d) = d" "hex_upper d \<noteq> CHR ''&''" "hex_upper d \<noteq> CHR ''=''"
proof -
  have "d < Suc (Suc (Suc (Suc (Suc (Suc (Suc (Suc (Suc (Suc (Suc (Suc (Suc (Suc (Suc (Suc 0)))))))))))))))"
    using assms by simp
  then show "hex_value (hex_upper d) = d" "hex_upper d \<noteq> CHR ''&''" "hex_upper d \<noteq> CHR ''=''"
    by (auto simp: hex_upper_def hex_value_def less_Suc_eq)
qed

lemma char_nibbles: "(of_char c :: nat) div 16 < 16" "(of_char c :: nat) mod 16 < 16"
    "char_of (16 * (of_char c div 16) + of_char c mod 16 :: nat) = c"
proof -
  have "(of_char c :: nat) < 256"
    using mod_less_divisor [of 256 "of_char c :: nat"] by simp
  then show "(of_char c :: nat) div 16 < 16" by (simp only: less_mult_imp_div_less)
  show "(of_char c :: nat) mod 16 < 16" by simp
  have "16 * (of_char c div 16) + of_char c mod 16 = (of_char c :: nat)" by simp
  then show "char_of (16 * (of_char c div 16) + of_char c mod 16 :: nat) = c" by (metis char_of_char)
qed

lemma percent_roundtrip: "percent_decode (percent_encode s) = s"
proof (induction s)
  case Nil
  then show ?case by simp
next
  case (Cons c s)
  show ?case
  proof (cases "unreserved c")
    case True
    then have "c \<noteq> CHR ''%''" by (auto simp: unreserved_def byte_class_defs)
    with True Cons.IH show ?thesis by simp
  next
    case False
    with Cons.IH show ?thesis by (simp add: hex_upper_props char_nibbles)
  qed
qed

lemma percent_encode_safe: "c \<in> set (percent_encode s) \<Longrightarrow> c \<noteq> CHR ''&'' \<and> c \<noteq> CHR ''=''"
proof (induction s)
  case (Cons x s)
  have "\<not> unreserved (CHR ''&'')" "\<not> unreserved (CHR ''='')"
    by (simp_all add: unreserved_def byte_class_defs)
  with Cons show ?case
    by (auto simp: hex_upper_props char_nibbles split: if_splits)
qed simp

lemma split_once_append: "d \<notin> set a \<Longrightarrow> split_once d (a @ d # b) = Some (a, b)"
  by (simp add: split_once_Some_iff)

lemma pair_of_show: "pair_of (percent_encode n @ CHR ''='' # percent_encode v) = (n, v)"
proof -
  have "CHR ''='' \<notin> set (percent_encode n)" using percent_encode_safe by blast
  then show ?thesis by (simp add: pair_of_def split_once_append percent_roundtrip)
qed

lemma form_parse_show: "form_parse (show_query ps) = ps"
proof (induction ps rule: show_query.induct)
  case 1
  then show ?case by (simp add: form_parse.simps)
next
  case (2 n v)
  have "CHR ''&'' \<notin> set (percent_encode n @ CHR ''='' # percent_encode v)"
    using percent_encode_safe by auto
  then have "split_once (CHR ''&'') (percent_encode n @ CHR ''='' # percent_encode v) = None"
    by (simp add: split_once_None_iff)
  then show ?case by (subst form_parse.simps) (simp add: pair_of_show)
next
  case (3 n v p ps)
  have "CHR ''&'' \<notin> set (percent_encode n @ CHR ''='' # percent_encode v)"
    using percent_encode_safe by auto
  then have "split_once (CHR ''&'') ((percent_encode n @ CHR ''='' # percent_encode v) @ CHR ''&'' # show_query (p # ps)) =
      Some (percent_encode n @ CHR ''='' # percent_encode v, show_query (p # ps))"
    by (rule split_once_append)
  with 3 show ?case by (subst form_parse.simps) (simp add: pair_of_show)
qed

interpretation simple: url_lib simple_urls su_query su_path "\<lambda>u. show_query (su_query u)"
  by unfold_locales (auto simp: simple_urls_def form_parse_show simple_to_string_def header_value_def list_all_iff)

end
