(* ===== verification/Auth_Service.thy ===== *)
theory Auth_Service
  imports Redis_State Postgres Http
begin

text \<open>
  Model of the request handlers of \<open>rust-auth0-service/src/main.rs\<close>.  A handler is a step
  over the \<open>world\<close> (the Redis connection, the PostgreSQL pool, the random source, the clock
  and the error log); what it needs of the outside is the environment \<open>auth_env\<close>.
\<close>

section \<open>Constants and data\<close>

definition AUTH_SESSION_COOKIE_NAME :: string where
  "AUTH_SESSION_COOKIE_NAME = ''__Host-auth_session''"

definition GOOGLE_AUTHORIZATION_URL :: string where
  "GOOGLE_AUTHORIZATION_URL = ''https://accounts.google.com/o/oauth2/auth''"

definition GOOGLE_TOKEN_URL :: string where
  "GOOGLE_TOKEN_URL = ''https://oauth2.googleapis.com/token''"

definition GOOGLE_USERINFO_URL :: string where
  "GOOGLE_USERINFO_URL = ''https://www.googleapis.com/oauth2/v1/userinfo?alt=json''"

record google_authorization_config =
  gac_client_id :: string
  gac_redirect_uri :: string

record google_callback_config =
  gcc_client_id :: string
  gcc_client_secret :: string
  gcc_auth_url :: string
  gcc_token_url :: string
  gcc_redirect_uri :: string
  gcc_userinfo_url :: string

record login_query =
  lq_service_id :: string
  lq_state :: string
  lq_code_challenge :: string
  lq_code_challenge_method :: string

record callback_query =
  cq_code :: string
  cq_state :: string

record google_user_info =
  gui_id :: string
  gui_email :: "string option"
  gui_verified_email :: "bool option"
  gui_name :: "string option"
  gui_picture :: "string option"

record handoff_exchange_request =
  hxr_code :: string
  hxr_code_verifier :: string

record logout_query =
  lgq_service_id :: string

record logout_form =
  lgf_logout_reference :: string
  lgf_csrf_token :: string

text \<open>What a handler sees of a request: its headers and, parsed by the framework, its cookies.\<close>

record request =
  rq_headers :: "(string \<times> bytes) list"
  rq_cookies :: "(string \<times> string) list option"

section \<open>The environment\<close>

text \<open>
  The Google services are parameters: \<open>authorize_url\<close> is the URL the \<open>oauth2\<close> crate builds
  for a state and scopes, \<open>google_token\<close> the access token it gets for a code, and
  \<open>google_userinfo\<close> the status and JSON body of the user-info response.
\<close>

record ('s, 'd, 'u) auth_env =
  redis_at :: "'s redis_env"
  redis_up :: "nat \<Rightarrow> bool"
  postgres_at :: "'d pg_env"
  urls :: "'u url_ops"
  rng :: "nat \<Rightarrow> bytes option"
  clock :: "nat \<Rightarrow> int"
  authorize_url :: "string \<Rightarrow> google_authorization_config \<Rightarrow> string \<Rightarrow> string list \<Rightarrow> string"
  google_token :: "google_callback_config \<Rightarrow> string \<Rightarrow> string option"
  google_userinfo :: "string \<Rightarrow> string \<Rightarrow> (nat \<times> json option) option"

record ('s, 'd) world =
  conn :: "'s connection"
  pool_of :: "'d pool"
  draws :: nat
  ticks :: nat
  errors :: "string list"

definition quit :: "nat \<Rightarrow> (('s, 'd) world, 'a) step" where
  "quit st = reply (finish st)"

text \<open>\<open>error!(msg); return HttpResponse::...().finish()\<close>.\<close>

definition fail :: "string \<Rightarrow> nat \<Rightarrow> (('s, 'd) world, 'a) step" where
  "fail msg st w = (Inl (finish st), w\<lparr>errors := errors w @ [msg]\<rparr>)"

definition on_redis :: "('s connection \<Rightarrow> 'r \<times> 's connection) \<Rightarrow> ('s, 'd) world \<Rightarrow> 'r \<times> ('s, 'd) world" where
  "on_redis f w = (case f (conn w) of (r, c) \<Rightarrow> (r, w\<lparr>conn := c\<rparr>))"

definition on_postgres :: "('d pool \<Rightarrow> 'r \<times> 'd pool) \<Rightarrow> ('s, 'd) world \<Rightarrow> 'r \<times> ('s, 'd) world" where
  "on_postgres f w = (case f (pool_of w) of (r, p) \<Rightarrow> (r, w\<lparr>pool_of := p\<rparr>))"

definition draw ::
    "'c crypto_scheme \<Rightarrow> ('s, 'd, 'u) auth_env \<Rightarrow> ('s, 'd) world \<Rightarrow> (string, unit) result \<times> ('s, 'd) world" where
  "draw C E w = (generate_reference_value C (rng E (draws w)), w\<lparr>draws := Suc (draws w)\<rparr>)"

definition read_clock ::
    "('s, 'd, 'u) auth_env \<Rightarrow> ('s, 'd) world \<Rightarrow> (u64, time_boundary_error) result \<times> ('s, 'd) world" where
  "read_clock E w = (unix_seconds (clock E (ticks w)), w\<lparr>ticks := Suc (ticks w)\<rparr>)"

definition get_connection ::
    "('s, 'd, 'u) auth_env \<Rightarrow> ('s, 'd) world \<Rightarrow> (unit, unit) result \<times> ('s, 'd) world" where
  "get_connection E w = (if redis_up E (trips (conn w)) then Ok () else Err (), w)"

section \<open>Input checks and cookies\<close>

definition login_input_is_valid :: "login_query \<Rightarrow> bool" where
  "login_input_is_valid query \<longleftrightarrow>
     is_ok (validate_service_id (lq_service_id query))
     \<and> lq_state query \<noteq> []
     \<and> is_ok (validate_max_bytes (lq_state query) SERVICE_STATE_MAX_BYTES)
     \<and> is_ok (validate_fixed_reference_value (lq_code_challenge query))
     \<and> lq_code_challenge_method query = ''S256''"

definition valid_callback_url :: "'u url_ops \<Rightarrow> string \<Rightarrow> 'u option" where
  "valid_callback_url U callback_uri =
     (case url_parse U callback_uri of
        None \<Rightarrow> None
      | Some url \<Rightarrow>
          if (url_scheme U url = ''http'' \<or> url_scheme U url = ''https'') \<and> url_host U url \<noteq> None
          then Some url else None)"

text \<open>\<open>DefaultHeaders\<close> adds a header only where the response does not have it yet.\<close>

definition default_header :: "string \<Rightarrow> string \<Rightarrow> response \<Rightarrow> response" where
  "default_header k v r = (if map_of (resp_headers r) k = None then with_header k v r else r)"

definition auth_security_headers :: "response \<Rightarrow> response" where
  "auth_security_headers r =
     default_header ''referrer-policy'' ''no-referrer'' (default_header ''cache-control'' ''no-store'' r)"

definition build_deleted_common_auth_cookie :: cookie where
  "build_deleted_common_auth_cookie = \<lparr>ck_name = AUTH_SESSION_COOKIE_NAME, ck_value = '''', ck_path = Some ''/'',
     ck_max_age = Some 0, ck_secure = True, ck_http_only = True, ck_same_site = Some Lax\<rparr>"

definition basic_credentials :: "'c crypto_scheme \<Rightarrow> request \<Rightarrow> (string \<times> string) option" where
  "basic_credentials C request =
     (case get_all ''authorization'' (rq_headers request) of
        [v] \<Rightarrow>
          (case to_str v of
             None \<Rightarrow> None
           | Some value \<Rightarrow>
               if length value > 8192 then None
               else case strip_prefix ''Basic '' value of
                 None \<Rightarrow> None
               | Some encoded \<Rightarrow>
                   (case b64_decode C encoded of
                      None \<Rightarrow> None
                    | Some bytes \<Rightarrow>
                        (case from_utf8 bytes of
                           None \<Rightarrow> None
                         | Some decoded \<Rightarrow>
                             (case split_once (CHR '':'') decoded of
                                None \<Rightarrow> None
                              | Some (service_id, service_secret) \<Rightarrow>
                                  if service_id = [] then None else Some (service_id, service_secret)))))
      | _ \<Rightarrow> None)"

section \<open>Login\<close>

definition start_google_login ::
    "'c crypto_scheme \<Rightarrow> ('s, 'd, 'u) auth_env \<Rightarrow> google_authorization_config \<Rightarrow> login_query \<Rightarrow> u64
     \<Rightarrow> (('s, 'd) world, response) step" where
  "start_google_login C E google_config query now =
     hbind (or_else (draw C E) (\<lambda>_. quit 503)) (\<lambda>oauth_state.
     let authorization_url =
           authorize_url E GOOGLE_AUTHORIZATION_URL google_config oauth_state [''email'', ''profile''] in
     hbind (or_else (pure (checked_expires_at now EXTERNAL_AUTH_TRANSACTION_TTL_SECONDS)) (\<lambda>_. quit 503))
       (\<lambda>expires_at.
     let transaction = \<lparr>ext_service_id = lq_service_id query, ext_service_state = lq_state query,
           ext_handoff_code_challenge = lq_code_challenge query, ext_provider = ''google'',
           ext_provider_verification_data = '''', ext_created_at = now, ext_expires_at = expires_at,
           ext_status = Waiting\<rparr> in
     hbind (or_else (on_redis (write_external C (redis_at E) oauth_state transaction now))
         (\<lambda>_. fail ''authentication storage unavailable'' 503)) (\<lambda>_.
     proceed (with_header ''location'' authorization_url (finish 302)))))"

text \<open>The session check of \<open>login\<close>: a session that exists, and its user enabled.\<close>

definition login_session ::
    "'c crypto_scheme \<Rightarrow> ('s, 'd, 'u) auth_env \<Rightarrow> (('s, 'd) world, response) step \<Rightarrow> string \<Rightarrow> u64
     \<Rightarrow> (('s, 'd) world, common_session) step" where
  "login_session C E google_login common_session_reference now =
     hbind (or_else (on_redis (read_session C (redis_at E) common_session_reference now))
       (\<lambda>e. if e = NotFound \<or> e = Expired then early google_login
             else fail ''authentication storage unavailable'' 503)) (\<lambda>session.
     hbind (or_else (on_postgres (read_internal_user_enabled (postgres_at E) (ses_internal_user_id session)))
       (\<lambda>_. fail ''authentication storage unavailable'' 503)) (\<lambda>enabled.
     hbind (ensure (enabled = Some True) (fail ''SSO session user is not eligible'' 403)) (\<lambda>_.
     proceed session)))"

definition login ::
    "'c crypto_scheme \<Rightarrow> ('s, 'd, 'u) auth_env \<Rightarrow> google_authorization_config \<Rightarrow> request \<Rightarrow> login_query
     \<Rightarrow> (('s, 'd) world, response) step" where
  "login C E google_config request query =
     hbind (ensure (login_input_is_valid query) (fail ''authentication login input rejected'' 400)) (\<lambda>_.
     hbind (or_else (on_postgres (lookup_login_callback_uri (postgres_at E) (lq_service_id query)))
       (\<lambda>e. if e = ServiceNotFound \<or> e = ServiceDisabled then quit 403
             else fail ''registered login service unavailable'' 503)) (\<lambda>callback_uri.
     hbind (or_else (read_clock E) (\<lambda>_. quit 503)) (\<lambda>now.
     hbind (or_else (get_connection E) (\<lambda>_. fail ''authentication storage unavailable'' 503)) (\<lambda>_.
     let google_login = start_google_login C E google_config query now in
     case request_cookie (rq_cookies request) AUTH_SESSION_COOKIE_NAME of
       None \<Rightarrow> google_login
     | Some common_session_reference \<Rightarrow>
         if is_err (validate_fixed_reference_value common_session_reference) then google_login
         else
     hbind (case valid_callback_url (urls E) callback_uri of
              Some url \<Rightarrow> proceed url | None \<Rightarrow> fail ''registered login service unavailable'' 503) (\<lambda>callback_url.
     hbind (login_session C E google_login common_session_reference now) (\<lambda>session.
     hbind (or_else (draw C E) (\<lambda>_. quit 503)) (\<lambda>handoff_reference.
     hbind (or_else (pure (checked_expires_at now AUTHENTICATION_HANDOFF_TTL_SECONDS)) (\<lambda>_. quit 503))
       (\<lambda>expires_at.
     let handoff = \<lparr>hnd_service_id = lq_service_id query,
           hnd_internal_user_id = ses_internal_user_id session,
           hnd_common_session_lookup = reference_value_lookup C common_session_reference,
           hnd_code_challenge = lq_code_challenge query,
           hnd_authenticated_at = ses_authenticated_at session, hnd_issued_at = now,
           hnd_expires_at = expires_at, hnd_status = Unused\<rparr> in
     hbind (or_else (on_redis (issue_sso_handoff C (redis_at E) common_session_reference handoff_reference handoff))
       (\<lambda>e. if e = NotFound \<or> e = Expired then early google_login
             else fail ''authentication storage unavailable'' 503)) (\<lambda>_.
     let callback_url = url_append_pairs (urls E)
           [(''code'', handoff_reference), (''state'', lq_state query)] callback_url in
     proceed (with_header ''location'' (url_to_string (urls E) callback_url) (finish 302)))))))))))"

section \<open>Google callback\<close>

text \<open>\<open>response.json::<GoogleUserInfo>()\<close>.\<close>

definition decode_google_user_info :: "json \<Rightarrow> google_user_info option" where
  "decode_google_user_info j =
     (case struct_fields [''id'', ''email'', ''verified_email'', ''name'', ''picture''] j of
        Some [Some (JStr uid), email, verified, name, pic] \<Rightarrow>
          (case (opt_string email, opt_bool verified, opt_string name, opt_string pic) of
             (Some e, Some v, Some n, Some p) \<Rightarrow>
               Some \<lparr>gui_id = uid, gui_email = e, gui_verified_email = v, gui_name = n, gui_picture = p\<rparr>
           | _ \<Rightarrow> None)
      | _ \<Rightarrow> None)"

definition option_filter :: "('a \<Rightarrow> bool) \<Rightarrow> 'a option \<Rightarrow> 'a option" where
  "option_filter P x = (case x of None \<Rightarrow> None | Some a \<Rightarrow> if P a then Some a else None)"

definition normalize_google_user_info :: "google_user_info \<Rightarrow> (normalized_external_identity, unit) result" where
  "normalize_google_user_info user_info =
     (let identity = \<lparr>nei_provider = ''google'', nei_subject = gui_id user_info,
            nei_email = option_filter (\<lambda>v. v \<noteq> []) (gui_email user_info),
            nei_email_verification = (case gui_verified_email user_info of
               Some True \<Rightarrow> Verified | Some False \<Rightarrow> Unverified | None \<Rightarrow> Unknown),
            nei_display_name = option_filter (\<lambda>v. \<not> is_blank v) (gui_name user_info),
            nei_picture_url = option_filter (\<lambda>v. v \<noteq> []) (gui_picture user_info)\<rparr>
      in case identity_validate identity of Inl _ \<Rightarrow> Err () | Inr _ \<Rightarrow> Ok identity)"

text \<open>The handler in three parts.  First: the input, the claim, and the service's callback URL.\<close>

definition callback_claim ::
    "'c crypto_scheme \<Rightarrow> ('s, 'd, 'u) auth_env \<Rightarrow> callback_query
     \<Rightarrow> (('s, 'd) world, external_auth_transaction \<times> 'u) step" where
  "callback_claim C E query =
     hbind (ensure (\<not> (cq_code query = [] \<or> is_err (validate_max_bytes (cq_code query) OAUTH_CODE_MAX_BYTES)
                       \<or> is_err (validate_fixed_reference_value (cq_state query))))
       (fail ''authentication callback input rejected'' 400)) (\<lambda>_.
     hbind (or_else (get_connection E) (\<lambda>_. fail ''authentication storage unavailable'' 503)) (\<lambda>_.
     hbind (or_else (on_redis (claim_external_callback C (redis_at E) (cq_state query)))
       (\<lambda>e. if e = NotFound \<or> e = Expired \<or> e = AlreadyClaimed
             then fail ''authentication callback state unavailable'' 400
             else fail ''authentication Redis state unavailable'' 503)) (\<lambda>transaction.
     hbind (or_else (on_postgres (lookup_login_callback_uri (postgres_at E) (ext_service_id transaction)))
       (\<lambda>e. if e = ServiceNotFound \<or> e = ServiceDisabled then quit 403
             else fail ''authentication database unavailable'' 503)) (\<lambda>callback_uri.
     case valid_callback_url (urls E) callback_uri of
       Some callback_url \<Rightarrow> proceed (transaction, callback_url)
     | None \<Rightarrow> fail ''registered login callback URI is invalid'' 500))))"

text \<open>Second: the code is exchanged at Google for the user's identity.\<close>

definition callback_identity ::
    "('s, 'd, 'u) auth_env \<Rightarrow> google_callback_config \<Rightarrow> string
     \<Rightarrow> (('s, 'd) world, normalized_external_identity) step" where
  "callback_identity E google_config code =
     (case google_token E google_config code of
        None \<Rightarrow> fail ''Google token exchange failed'' 502
      | Some token \<Rightarrow>
          (case google_userinfo E (gcc_userinfo_url google_config) token of
             Some (st, content) \<Rightarrow>
               if 200 \<le> st \<and> st < 300 then
                 (case (case content of None \<Rightarrow> None | Some j \<Rightarrow> decode_google_user_info j) of
                    None \<Rightarrow> fail ''Google user info response invalid'' 502
                  | Some user_info \<Rightarrow>
                      (case normalize_google_user_info user_info of
                         Inr identity \<Rightarrow> proceed identity
                       | Inl _ \<Rightarrow> fail ''Google identity response invalid'' 502))
               else fail ''Google user info request failed'' 502
           | None \<Rightarrow> fail ''Google user info request failed'' 502))"

definition auth_session_cookie :: "string \<Rightarrow> cookie" where
  "auth_session_cookie common_session_reference = \<lparr>ck_name = AUTH_SESSION_COOKIE_NAME,
     ck_value = common_session_reference, ck_path = Some ''/'', ck_max_age = None, ck_secure = True,
     ck_http_only = True, ck_same_site = Some Lax\<rparr>"

text \<open>Third: the user is resolved, and session and handoff are created.\<close>

definition callback_session ::
    "'c crypto_scheme \<Rightarrow> ('s, 'd, 'u) auth_env \<Rightarrow> external_auth_transaction \<Rightarrow> 'u
     \<Rightarrow> normalized_external_identity \<Rightarrow> (('s, 'd) world, response) step" where
  "callback_session C E transaction callback_url identity =
     hbind (or_else (read_clock E) (\<lambda>_. quit 500)) (\<lambda>now.
     hbind (or_else (on_postgres (resolve_external_identity (postgres_at E) (nei_provider identity) (nei_subject identity)))
       (\<lambda>e. if e = UserDisabled then quit 403 else if e = IdentityInconsistent then quit 500
             else fail ''authentication database unavailable'' 503)) (\<lambda>internal_user_id.
     hbind (or_else (draw C E) (\<lambda>_. quit 503)) (\<lambda>common_session_reference.
     hbind (or_else (draw C E) (\<lambda>_. quit 503)) (\<lambda>handoff_reference.
     hbind (or_else (pure (checked_expires_at now COMMON_SESSION_TTL_SECONDS)) (\<lambda>_. quit 500)) (\<lambda>session_expires_at.
     hbind (or_else (pure (checked_expires_at now AUTHENTICATION_HANDOFF_TTL_SECONDS)) (\<lambda>_. quit 500)) (\<lambda>handoff_expires_at.
     let session = \<lparr>ses_internal_user_id = internal_user_id, ses_authenticated_at = now, ses_created_at = now,
           ses_expires_at = session_expires_at\<rparr>;
         handoff = \<lparr>hnd_service_id = ext_service_id transaction, hnd_internal_user_id = internal_user_id,
           hnd_common_session_lookup = reference_value_lookup C common_session_reference,
           hnd_code_challenge = ext_handoff_code_challenge transaction, hnd_authenticated_at = now,
           hnd_issued_at = now, hnd_expires_at = handoff_expires_at, hnd_status = Unused\<rparr>;
         callback_url = url_append_pairs (urls E)
           [(''code'', handoff_reference), (''state'', ext_service_state transaction)]
           (url_clear_query (urls E) callback_url);
         location = url_to_string (urls E) callback_url in
     hbind (or_else (on_redis (create_session_and_handoff C (redis_at E) common_session_reference session
           handoff_reference handoff))
       (\<lambda>_. fail ''authentication Redis state unavailable'' 503)) (\<lambda>_.
     proceed (with_header ''location'' location
       (with_cookie (auth_session_cookie common_session_reference) (finish 302))))))))))"

definition google_auth_callback ::
    "'c crypto_scheme \<Rightarrow> ('s, 'd, 'u) auth_env \<Rightarrow> google_callback_config \<Rightarrow> callback_query
     \<Rightarrow> (('s, 'd) world, response) step" where
  "google_auth_callback C E google_config query =
     hbind (callback_claim C E query) (\<lambda>(transaction, callback_url).
     hbind (callback_identity E google_config (cq_code query)) (\<lambda>identity.
     callback_session C E transaction callback_url identity))"

section \<open>Handoff exchange\<close>

definition handoff_exchange_response :: "i32 \<Rightarrow> u64 \<Rightarrow> json" where
  "handoff_exchange_response internal_user_id authenticated_at =
     JObject [(''internal_user_id'', JNum (sint internal_user_id)),
              (''authenticated_at'', JNum (uint authenticated_at))]"

definition exchange_auth_handoff ::
    "'c crypto_scheme \<Rightarrow> ('s, 'd, 'u) auth_env \<Rightarrow> request \<Rightarrow> handoff_exchange_request
     \<Rightarrow> (('s, 'd) world, response) step" where
  "exchange_auth_handoff C E request body =
     hbind (ensure (\<not> (is_err (validate_fixed_reference_value (hxr_code body))
                       \<or> hxr_code_verifier body = []
                       \<or> is_err (pkce_s256_challenge C (hxr_code_verifier body)))) (quit 400)) (\<lambda>_.
     case basic_credentials C request of
       None \<Rightarrow> quit 401
     | Some (service_id, service_secret) \<Rightarrow>
     hbind (ensure (is_ok (validate_service_id service_id)) (quit 401)) (\<lambda>_.
     hbind (or_else (on_postgres (authenticate_service C (postgres_at E) service_id service_secret))
       (\<lambda>e. if e = ServiceNotFound \<or> e = ServiceSecretMismatch then quit 401
             else if e = ServiceDisabled then quit 403
             else quit 503)) (\<lambda>_.
     hbind (or_else (pure (pkce_s256_challenge C (hxr_code_verifier body))) (\<lambda>_. quit 400)) (\<lambda>challenge.
     hbind (or_else (get_connection E) (\<lambda>_. quit 503)) (\<lambda>_.
     hbind (or_else (on_redis (exchange_handoff C (redis_at E) (hxr_code body) service_id challenge))
       (\<lambda>e. if e = NotFound \<or> e = Expired \<or> e = AlreadyUsed \<or> e = ServiceMismatch \<or> e = ChallengeMismatch
             then quit 400 else quit 503)) (\<lambda>result.
     proceed (json_response 200 (handoff_exchange_response (her_internal_user_id result) (her_authenticated_at result)))))))))"

section \<open>Logout\<close>

definition logout_page :: "string \<Rightarrow> string \<Rightarrow> string" where
  "logout_page logout_reference csrf_plaintext =
     ''<form method=\"post\" action=\"/auth/logout\"><input type=\"hidden\" name=\"logout_reference\" value=\"'' @ logout_reference
     @ ''\"><input type=\"hidden\" name=\"csrf_token\" value=\"'' @ csrf_plaintext
     @ ''\"><button type=\"submit\">Log out</button></form>''"

definition logout_get ::
    "'c crypto_scheme \<Rightarrow> ('s, 'd, 'u) auth_env \<Rightarrow> request \<Rightarrow> logout_query \<Rightarrow> (('s, 'd) world, response) step" where
  "logout_get C E request query =
     hbind (ensure (is_ok (validate_service_id (lgq_service_id query))) (quit 400)) (\<lambda>_.
     hbind (or_else (on_postgres (lookup_logout_return_uri (postgres_at E) (lgq_service_id query)))
       (\<lambda>e. if e = ServiceNotFound \<or> e = ServiceDisabled then quit 403 else quit 503)) (\<lambda>return_uri.
     hbind (ensure (valid_callback_url (urls E) return_uri \<noteq> None) (quit 500)) (\<lambda>_.
     let to_service = proceed (append_header ''location'' return_uri (finish 302)) in
     case request_cookie (rq_cookies request) AUTH_SESSION_COOKIE_NAME of
       None \<Rightarrow> to_service
     | Some value \<Rightarrow>
         if is_err (validate_fixed_reference_value value) then to_service
         else
     hbind (or_else (draw C E) (\<lambda>_. quit 503)) (\<lambda>logout_reference.
     hbind (or_else (draw C E) (\<lambda>_. quit 503)) (\<lambda>csrf_plaintext.
     hbind (or_else (read_clock E) (\<lambda>_. quit 500)) (\<lambda>now.
     hbind (or_else (pure (checked_expires_at now COMMON_LOGOUT_TRANSACTION_TTL_SECONDS)) (\<lambda>_. quit 500)) (\<lambda>expires_at.
     let transaction = \<lparr>lgo_service_id = lgq_service_id query, lgo_logout_return_uri = return_uri,
           lgo_csrf_lookup = reference_value_lookup C csrf_plaintext, lgo_created_at = now,
           lgo_expires_at = expires_at, lgo_status = Unused\<rparr> in
     hbind (or_else (get_connection E) (\<lambda>_. quit 503)) (\<lambda>_.
     hbind (or_else (on_redis (write_logout C (redis_at E) logout_reference transaction now)) (\<lambda>_. quit 503)) (\<lambda>_.
     proceed (with_body (Html (logout_page logout_reference csrf_plaintext))
       (with_header ''content-type'' ''text/html; charset=utf-8'' (finish 200))))))))))))"

definition logout_post ::
    "'c crypto_scheme \<Rightarrow> ('s, 'd, 'u) auth_env \<Rightarrow> request \<Rightarrow> logout_form \<Rightarrow> (('s, 'd) world, response) step" where
  "logout_post C E request form =
     hbind (ensure (\<not> (is_err (validate_fixed_reference_value (lgf_logout_reference form))
                       \<or> is_err (validate_fixed_reference_value (lgf_csrf_token form)))) (quit 400)) (\<lambda>_.
     case request_cookie (rq_cookies request) AUTH_SESSION_COOKIE_NAME of
       None \<Rightarrow> quit 400
     | Some value \<Rightarrow>
     hbind (ensure (is_ok (validate_fixed_reference_value value)) (quit 400)) (\<lambda>_.
     let csrf_lookup = reference_value_lookup C (lgf_csrf_token form) in
     hbind (or_else (get_connection E) (\<lambda>_. quit 503)) (\<lambda>_.
     hbind (or_else (on_redis (complete_common_logout C (redis_at E) (lgf_logout_reference form) value csrf_lookup))
       (\<lambda>e. if e = NotFound \<or> e = Expired \<or> e = AlreadyUsed then quit 400
             else if e = CsrfMismatch then quit 403 else quit 503)) (\<lambda>return_uri.
     proceed (append_header ''location'' return_uri
       (with_cookie build_deleted_common_auth_cookie (finish 303)))))))"

section \<open>Routes\<close>

datatype auth_route = RouteLogin | RouteGoogleCallback | RouteExchange | RouteLogoutGet | RouteLogoutPost

definition configure_auth_routes :: "http_method \<Rightarrow> string \<Rightarrow> auth_route option" where
  "configure_auth_routes method path =
     (if path = ''/auth/login'' \<and> method = GET then Some RouteLogin
      else if path = ''/auth/google/callback'' \<and> method = GET then Some RouteGoogleCallback
      else if path = ''/auth/handoffs/exchange'' \<and> method = POST then Some RouteExchange
      else if path = ''/auth/logout'' \<and> method = GET then Some RouteLogoutGet
      else if path = ''/auth/logout'' \<and> method = POST then Some RouteLogoutPost
      else None)"

text \<open>
  What the framework made of the query string and the body: the typed value, or the response it
  answers itself (a missing field, a body over \<open>HTTP_BODY_MAX_BYTES\<close>, an unknown route).
\<close>

record incoming =
  in_request :: request
  in_login :: "(login_query, response) result"
  in_callback :: "(callback_query, response) result"
  in_exchange :: "(handoff_exchange_request, response) result"
  in_logout_query :: "(logout_query, response) result"
  in_logout_form :: "(logout_form, response) result"
  in_no_route :: response

definition extracted :: "('a, response) result \<Rightarrow> ('a \<Rightarrow> ('w, response) step) \<Rightarrow> ('w, response) step" where
  "extracted x h = (case x of Inl r \<Rightarrow> reply r | Inr a \<Rightarrow> h a)"

definition auth_app ::
    "'c crypto_scheme \<Rightarrow> ('s, 'd, 'u) auth_env \<Rightarrow> google_authorization_config \<Rightarrow> google_callback_config
     \<Rightarrow> http_method \<Rightarrow> string \<Rightarrow> incoming \<Rightarrow> ('s, 'd) world \<Rightarrow> response \<times> ('s, 'd) world" where
  "auth_app C E gac gcc method path i w =
     (let handler = (case configure_auth_routes method path of
          None \<Rightarrow> reply (in_no_route i)
        | Some RouteLogin \<Rightarrow> extracted (in_login i) (login C E gac (in_request i))
        | Some RouteGoogleCallback \<Rightarrow> extracted (in_callback i) (google_auth_callback C E gcc)
        | Some RouteExchange \<Rightarrow> extracted (in_exchange i) (exchange_auth_handoff C E (in_request i))
        | Some RouteLogoutGet \<Rightarrow> extracted (in_logout_query i) (logout_get C E (in_request i))
        | Some RouteLogoutPost \<Rightarrow> extracted (in_logout_form i) (logout_post C E (in_request i)))
      in case run_handler handler w of (r, w1) \<Rightarrow> (auth_security_headers r, w1))"

end
