(* ===== verification/Environment.thy ===== *)
theory Environment
  imports Prelude
begin

text \<open>
  The process environment as both services read it: \<open>env::var\<close> gives the value of a variable,
  or says that it is not set or is not Unicode.
\<close>

datatype env_var = Present string | NotPresent | NotUnicode

type_synonym environ = "string \<Rightarrow> env_var"

text \<open>\<open>io::Error::new(kind, message)\<close>.\<close>

datatype error_kind = InvalidInput | ConnectionRefused | OtherKind

datatype io_error = IoError (io_kind: error_kind) (io_message: string)

text \<open>\<open>env::var(name).ok()\<close>.\<close>

definition var_ok :: "env_var \<Rightarrow> string option" where
  "var_ok v = (case v of Present s \<Rightarrow> Some s | _ \<Rightarrow> None)"

lemma var_ok_iff: "var_ok v = Some s \<longleftrightarrow> v = Present s"
  by (cases v) (simp_all add: var_ok_def)

lemma parse_uint_str_range: "parse_uint_str s = Some (w :: 'w::len word) \<longleftrightarrow> parse_nat s = Some (unat w)"
  by (auto simp: parse_uint_str_def unat_of_nat split: option.splits)

end
