(* ===== verification/Auth_Startup.thy ===== *)
theory Auth_Startup
  imports Auth_Service Environment
begin

text \<open>
  Model of the configuration and of \<open>main\<close> of \<open>rust-auth0-service/src/main.rs\<close>.  The
  environment (after \<open>dotenv\<close>), the connections, the URL parser, the listener and the
  \<open>{:?}\<close> formatting of strings are parameters.
\<close>

section \<open>Configuration\<close>

datatype pg_ssl_mode = Prefer | Require

record auth_foundation_config =
  afc_google_client_id :: string
  afc_google_client_secret :: string
  afc_google_redirect_uri :: string
  afc_redis_url :: string
  afc_pg_host :: string
  afc_pg_port :: u16
  afc_pg_database :: string
  afc_pg_user :: string
  afc_pg_password :: string
  afc_pg_ssl_mode :: pg_ssl_mode

definition required_nonempty_env :: "environ \<Rightarrow> string \<Rightarrow> (string, io_error) result" where
  "required_nonempty_env env name =
     and_then (ok_or (var_ok (env name)) (IoError InvalidInput (name @ '' environment variable is required''))) (\<lambda>value.
     if is_blank value then Err (IoError InvalidInput (name @ '' environment variable is required''))
     else Ok value)"

definition read_pg_ssl_mode :: "(string \<Rightarrow> string) \<Rightarrow> environ \<Rightarrow> (pg_ssl_mode, io_error) result" where
  "read_pg_ssl_mode debug env =
     (case env ''PGSSLMODE'' of
        NotPresent \<Rightarrow> Ok Prefer
      | Present value \<Rightarrow>
          if value = ''require'' then Ok Require
          else Err (IoError InvalidInput (''unsupported PGSSLMODE value: '' @ debug value))
      | NotUnicode \<Rightarrow> Err (IoError InvalidInput ''PGSSLMODE environment variable must be valid Unicode''))"

definition from_env :: "(string \<Rightarrow> string) \<Rightarrow> environ \<Rightarrow> (auth_foundation_config, io_error) result" where
  "from_env debug env =
     and_then (required_nonempty_env env ''PGPORT'') (\<lambda>port_text.
     and_then (ok_or (parse_uint_str port_text)
       (IoError InvalidInput ''PGPORT environment variable must be a valid u16'')) (\<lambda>pg_port.
     and_then (required_nonempty_env env ''GOOGLE_CLIENT_ID'') (\<lambda>google_client_id.
     and_then (required_nonempty_env env ''GOOGLE_CLIENT_SECRET'') (\<lambda>google_client_secret.
     and_then (required_nonempty_env env ''GOOGLE_REDIRECT_URI'') (\<lambda>google_redirect_uri.
     and_then (required_nonempty_env env ''REDIS_URL'') (\<lambda>redis_url.
     and_then (required_nonempty_env env ''PGHOST'') (\<lambda>pg_host.
     and_then (required_nonempty_env env ''PGDATABASE'') (\<lambda>pg_database.
     and_then (required_nonempty_env env ''PGUSER'') (\<lambda>pg_user.
     and_then (required_nonempty_env env ''PGPASSWORD'') (\<lambda>pg_password.
     and_then (read_pg_ssl_mode debug env) (\<lambda>pg_ssl_mode.
     Ok \<lparr>afc_google_client_id = google_client_id, afc_google_client_secret = google_client_secret,
         afc_google_redirect_uri = google_redirect_uri, afc_redis_url = redis_url, afc_pg_host = pg_host,
         afc_pg_port = pg_port, afc_pg_database = pg_database, afc_pg_user = pg_user,
         afc_pg_password = pg_password, afc_pg_ssl_mode = pg_ssl_mode\<rparr>)))))))))))"

section \<open>Startup\<close>

text \<open>
  The outside of \<open>main\<close>: connecting to PostgreSQL with its options (host, port, database, user,
  password, mode), creating a Redis client and connecting it once, whether a URL parses, and
  binding the listener.  \<open>started\<close> is what the server is run with.
\<close>

record ('p, 'r) machine =
  mc_environ :: environ
  mc_debug :: "string \<Rightarrow> string"
  mc_postgres :: "auth_foundation_config \<Rightarrow> ('p, string) result"
  mc_redis_open :: "string \<Rightarrow> 'r option"
  mc_redis_connect :: "'r \<Rightarrow> bool"
  mc_url_ok :: "string \<Rightarrow> bool"
  mc_bind :: "string \<Rightarrow> (unit, io_error) result"

record ('p, 'r) started =
  sv_postgres_pool :: 'p
  sv_redis_client :: 'r
  sv_authorization :: google_authorization_config
  sv_callback :: google_callback_config
  sv_address :: string

datatype ('p, 'r) startup = Serving "('p, 'r) started" | Exits io_error | Panics string

text \<open>\<open>?\<close> in \<open>main\<close>, and \<open>.expect(message)\<close>.\<close>

definition try_startup :: "('a, io_error) result \<Rightarrow> ('a \<Rightarrow> ('p, 'r) startup) \<Rightarrow> ('p, 'r) startup" where
  "try_startup r k = (case r of Inl e \<Rightarrow> Exits e | Inr a \<Rightarrow> k a)"

definition expect_startup :: "bool \<Rightarrow> string \<Rightarrow> ('p, 'r) startup \<Rightarrow> ('p, 'r) startup" where
  "expect_startup b message k = (if b then k else Panics message)"

definition main :: "('p, 'r) machine \<Rightarrow> ('p, 'r) startup" where
  "main M =
     try_startup (from_env (mc_debug M) (mc_environ M)) (\<lambda>config.
     try_startup (case mc_postgres M config of Inl message \<Rightarrow> Err (IoError OtherKind message) | Inr p \<Rightarrow> Ok p) (\<lambda>postgres_pool.
     try_startup (ok_or (mc_redis_open M (afc_redis_url config)) (IoError InvalidInput ''failed to create Redis client''))
       (\<lambda>redis_client.
     try_startup (if mc_redis_connect M redis_client then Ok ()
                  else Err (IoError ConnectionRefused ''failed to connect to Redis'')) (\<lambda>_.
     let redirect_uri = (if mc_url_ok M (afc_google_redirect_uri config) then Ok (afc_google_redirect_uri config)
           else Err (IoError InvalidInput ''GOOGLE_REDIRECT_URI must be a valid URL'')) in
     try_startup redirect_uri (\<lambda>authorization_redirect.
     expect_startup (mc_url_ok M GOOGLE_AUTHORIZATION_URL) ''valid URL'' (
     expect_startup (mc_url_ok M GOOGLE_TOKEN_URL) ''valid URL'' (
     try_startup redirect_uri (\<lambda>callback_redirect.
     expect_startup (mc_url_ok M GOOGLE_USERINFO_URL) ''valid URL'' (
     try_startup (mc_bind M ''0.0.0.0:8080'') (\<lambda>_.
     Serving \<lparr>sv_postgres_pool = postgres_pool, sv_redis_client = redis_client,
       sv_authorization = \<lparr>gac_client_id = afc_google_client_id config, gac_redirect_uri = authorization_redirect\<rparr>,
       sv_callback = \<lparr>gcc_client_id = afc_google_client_id config,
         gcc_client_secret = afc_google_client_secret config, gcc_auth_url = GOOGLE_AUTHORIZATION_URL,
         gcc_token_url = GOOGLE_TOKEN_URL, gcc_redirect_uri = callback_redirect,
         gcc_userinfo_url = GOOGLE_USERINFO_URL\<rparr>,
       sv_address = ''0.0.0.0:8080''\<rparr>))))))))))"

section \<open>What a configuration and a running server say about the environment\<close>

definition required_settings :: "auth_foundation_config \<Rightarrow> (string \<times> string) list" where
  "required_settings cfg =
     [(''GOOGLE_CLIENT_ID'', afc_google_client_id cfg), (''GOOGLE_CLIENT_SECRET'', afc_google_client_secret cfg),
      (''GOOGLE_REDIRECT_URI'', afc_google_redirect_uri cfg), (''REDIS_URL'', afc_redis_url cfg),
      (''PGHOST'', afc_pg_host cfg), (''PGDATABASE'', afc_pg_database cfg), (''PGUSER'', afc_pg_user cfg),
      (''PGPASSWORD'', afc_pg_password cfg)]"

definition ssl_setting :: "pg_ssl_mode \<Rightarrow> env_var" where
  "ssl_setting mode = (case mode of Prefer \<Rightarrow> NotPresent | Require \<Rightarrow> Present ''require'')"

lemma required_nonempty_env_Ok: "required_nonempty_env env name = Ok v \<longleftrightarrow> env name = Present v \<and> \<not> is_blank v"
  by (auto simp: required_nonempty_env_def and_then_Ok_iff ok_or_eq_Ok_iff var_ok_iff)

lemma required_nonempty_env_Err: "required_nonempty_env env name = Err e \<longleftrightarrow>
    e = IoError InvalidInput (name @ '' environment variable is required'')
    \<and> (\<forall>v. env name = Present v \<longrightarrow> is_blank v)"
  by (cases "env name") (auto simp: required_nonempty_env_def var_ok_def)

lemma read_pg_ssl_mode_Ok: "read_pg_ssl_mode debug env = Ok mode \<longleftrightarrow> env ''PGSSLMODE'' = ssl_setting mode"
  by (cases mode; cases "env ''PGSSLMODE''") (auto simp: read_pg_ssl_mode_def ssl_setting_def)

lemma try_startup_Serving: "try_startup r k = Serving s \<longleftrightarrow> (\<exists>a. r = Ok a \<and> k a = Serving s)"
  by (cases r) (simp_all add: try_startup_def)

lemma expect_startup_Serving: "expect_startup b msg k = Serving s \<longleftrightarrow> b \<and> k = Serving s"
  by (simp add: expect_startup_def)

lemma try_startup_Panics: "try_startup r k = Panics m \<longleftrightarrow> (\<exists>a. r = Ok a \<and> k a = Panics m)"
  by (cases r) (simp_all add: try_startup_def)

lemma map_error_Ok: "(case x of Inl m \<Rightarrow> Err (f m) | Inr p \<Rightarrow> Ok p) = Ok a \<longleftrightarrow> x = Ok a"
  by (cases x) simp_all

lemma if_Ok_iff: "(if b then Ok a else Err e) = Ok a' \<longleftrightarrow> b \<and> a' = a"
  by auto

text \<open>
  The configuration is read exactly when it is complete: \<open>from_env\<close> succeeds with a
  configuration if and only if every required variable is set to that configuration's value and
  is not blank, \<open>PGPORT\<close> is not blank and is a decimal number that fits 16 bits with that value,
  and \<open>PGSSLMODE\<close> is unset or is \<open>require\<close>.
\<close>

theorem from_env_complete:
  "from_env debug env = Ok cfg \<longleftrightarrow>
     list_all (\<lambda>(name, v). env name = Present v \<and> \<not> is_blank v) (required_settings cfg)
     \<and> (\<exists>t. env ''PGPORT'' = Present t \<and> \<not> is_blank t \<and> parse_nat t = Some (unat (afc_pg_port cfg)))
     \<and> env ''PGSSLMODE'' = ssl_setting (afc_pg_ssl_mode cfg)"
  (is "?l \<longleftrightarrow> ?r")
proof
  assume ?l
  then show ?r
    by (auto simp: from_env_def and_then_Ok_iff ok_or_eq_Ok_iff required_nonempty_env_Ok parse_uint_str_range
        read_pg_ssl_mode_Ok required_settings_def)
next
  assume ?r
  then show ?l
    by (cases cfg) (auto simp: from_env_def and_then_Ok_iff ok_or_eq_Ok_iff required_nonempty_env_Ok
        parse_uint_str_range read_pg_ssl_mode_Ok required_settings_def)
qed


definition sample_environ :: environ where
  "sample_environ = (\<lambda>_. NotPresent)(''PGPORT'' := Present ''5432'', ''GOOGLE_CLIENT_ID'' := Present ''client'',
     ''GOOGLE_CLIENT_SECRET'' := Present ''secret'', ''GOOGLE_REDIRECT_URI'' := Present ''https://auth.example/cb'',
     ''REDIS_URL'' := Present ''redis://redis'', ''PGHOST'' := Present ''db'', ''PGDATABASE'' := Present ''auth'',
     ''PGUSER'' := Present ''auth'', ''PGPASSWORD'' := Present ''pw'')"

definition sample_config :: auth_foundation_config where
  "sample_config = \<lparr>afc_google_client_id = ''client'', afc_google_client_secret = ''secret'',
     afc_google_redirect_uri = ''https://auth.example/cb'', afc_redis_url = ''redis://redis'', afc_pg_host = ''db'',
     afc_pg_port = 5432, afc_pg_database = ''auth'', afc_pg_user = ''auth'', afc_pg_password = ''pw'',
     afc_pg_ssl_mode = Prefer\<rparr>"

lemma sample_from_env: "from_env debug sample_environ = Ok sample_config"
  by (simp add: from_env_def sample_environ_def sample_config_def required_nonempty_env_def var_ok_def byte_in_def
      parse_uint_str_def parse_nat_def parse_digits_def is_digit_def digit_value_def read_pg_ssl_mode_def)

definition sample_machine :: "(unit, unit) machine" where
  "sample_machine = \<lparr>mc_environ = sample_environ, mc_debug = (\<lambda>s. s), mc_postgres = (\<lambda>_. Ok ()),
     mc_redis_open = (\<lambda>_. Some ()), mc_redis_connect = (\<lambda>_. True), mc_url_ok = starts_with ''https://'',
     mc_bind = (\<lambda>_. Ok ())\<rparr>"


end
