(* ===== verification/Redis_Machine.thy ===== *)
theory Redis_Machine
  imports Redis_State
begin

text \<open>
  The Redis side of the service as a state machine.  The abstract specification is a
  transition relation on the keyspace, \<open>store_step\<close>: a key vanishes, a status advances
  (\<open>waiting\<close> to \<open>processing\<close>, \<open>unused\<close> to \<open>used\<close>), an absent key is created or a hash
  is written.  In it, a key that is not renewed advances at most once.  The concrete machine
  \<open>server_step\<close> runs the program's own operations, in any order and by any number of
  instances, with time passing and keys expiring in between; every step of it is a path of the
  abstract one.
\<close>

section \<open>The abstract store\<close>

type_synonym keyspace = "string \<rightharpoonup> redis_object"

datatype store_event =
    Vanish string
  | Advance string string string
  | Create string "(string \<times> string) list"
  | Write string "(string \<times> string) list"

definition status_order :: "(string \<times> string) list" where
  "status_order = [(''waiting'', ''processing''), (''unused'', ''used'')]"

inductive store_step :: "keyspace \<Rightarrow> store_event \<Rightarrow> keyspace \<Rightarrow> bool" where
  vanish: "store_step v (Vanish k) (v(k := None))"
| advance: "v k = Some (RHash h) \<Longrightarrow> h ''status'' = Some a \<Longrightarrow> (a, b) \<in> set status_order \<Longrightarrow>
    store_step v (Advance k a b) (v(k \<mapsto> RHash (h(''status'' \<mapsto> b))))"
| create: "v k = None \<Longrightarrow> store_step v (Create k ps) (v(k \<mapsto> RHash (map_of ps)))"
| overwrite: "hash_of (v k) = Some h \<Longrightarrow> store_step v (Write k ps) (v(k \<mapsto> RHash (h ++ map_of (rev ps))))"

inductive_cases store_step_AdvanceE: "store_step v (Advance k a b) w"

inductive store_path :: "keyspace \<Rightarrow> store_event list \<Rightarrow> keyspace \<Rightarrow> bool" where
  path_Nil: "store_path v [] v"
| path_Cons: "store_step v e w \<Longrightarrow> store_path w es u \<Longrightarrow> store_path v (e # es) u"

inductive_simps store_path_Nil [simp]: "store_path v [] w"
inductive_simps store_path_Cons: "store_path v (e # es) w"

fun renews :: "string \<Rightarrow> store_event \<Rightarrow> bool" where
  "renews k (Create k' ps) = (k' = k)"
| "renews k (Write k' ps) = (k' = k)"
| "renews k _ = False"

fun advances :: "string \<Rightarrow> store_event \<Rightarrow> bool" where
  "advances k (Advance k' a b) = (k' = k)"
| "advances k _ = False"

text \<open>No operation can advance a spent key.\<close>

definition spent :: "keyspace \<Rightarrow> string \<Rightarrow> bool" where
  "spent v k \<longleftrightarrow> (\<forall>h. v k = Some (RHash h) \<longrightarrow> h ''status'' \<notin> Some ` fst ` set status_order)"

lemma spent_step:
  assumes "store_step v e w" "\<not> renews k e" "spent v k"
  shows "spent w k \<and> \<not> advances k e"
  using assms by (induction rule: store_step.induct) (auto simp: spent_def status_order_def)

lemma advance_spends: "store_step v e w \<Longrightarrow> advances k e \<Longrightarrow> spent w k"
  by (induction rule: store_step.induct) (auto simp: spent_def status_order_def)

lemma store_path_append:
  "store_path v (es @ fs) w \<longleftrightarrow> (\<exists>u. store_path v es u \<and> store_path u fs w)"
  by (induction es arbitrary: v) (auto simp: store_path_Cons)

lemma spent_path:
  assumes "store_path v es w" "\<forall>e \<in> set es. \<not> renews k e" "spent v k"
  shows "spent w k \<and> filter (advances k) es = []"
  using assms
proof (induction rule: store_path.induct)
  case (path_Cons v e w es u)
  then show ?case using spent_step [of v e w k] by auto
qed simp

theorem abstract_one_shot:
  assumes "store_path v es w" "\<forall>e \<in> set es. \<not> renews k e"
  shows "length (filter (advances k) es) \<le> 1"
  using assms
proof (induction rule: store_path.induct)
  case (path_Cons v e w es u)
  show ?case
  proof (cases "advances k e")
    case True
    with path_Cons have "filter (advances k) es = []"
      using spent_path advance_spends by simp
    with True show ?thesis by simp
  next
    case False
    with path_Cons show ?thesis by simp
  qed
qed simp

section \<open>The operations\<close>

datatype server_op =
    ClaimCallback string
  | IssueHandoff string string authentication_handoff
  | CreateSession string common_session string authentication_handoff
  | ExchangeHandoff string string string string
  | CompleteLogout string string string
  | WriteExternal string external_auth_transaction
  | WriteLogout string common_logout_transaction
  | ExpireExternalAt string u64
  | ExpireLogoutAt string u64
  | DeleteSession string

definition as_reply :: "'a option \<times> 's \<Rightarrow> redis_value list option \<times> 's" where
  "as_reply r = (map_option (\<lambda>_. [VNil]) (fst r), snd r)"

fun run_op :: "'c crypto_scheme \<Rightarrow> 's redis \<Rightarrow> server_op \<Rightarrow> 's \<Rightarrow> redis_value list option \<times> 's" where
  "run_op C R (ClaimCallback r) s = claim_invocation C R r s"
| "run_op C R (IssueHandoff sr hr h) s = issue_invocation C R sr hr h s"
| "run_op C R (CreateSession sr ses hr h) s = create_invocation C R sr ses hr h s"
| "run_op C R (ExchangeHandoff hr service challenge lookup) s =
     exchange_invocation C R hr (session_key_text lookup) service challenge lookup s"
| "run_op C R (CompleteLogout lr sr csrf) s = logout_invocation C R lr sr csrf s"
| "run_op C R (WriteExternal r t) s = as_reply (cmd_hset R (external_key C r) (encode_external t) s)"
| "run_op C R (WriteLogout r t) s = as_reply (cmd_hset R (logout_key C r) (encode_logout t) s)"
| "run_op C R (ExpireExternalAt r t) s = as_reply (cmd_expireat R (external_key C r) (u64_to_string t) s)"
| "run_op C R (ExpireLogoutAt r t) s = as_reply (cmd_expireat R (logout_key C r) (u64_to_string t) s)"
| "run_op C R (DeleteSession r) s = as_reply (cmd_del R (session_key C r) s)"

text \<open>The key whose status an operation advances when it succeeds, and the keys it (re)creates.\<close>

fun op_consumes :: "'c crypto_scheme \<Rightarrow> server_op \<Rightarrow> string option" where
  "op_consumes C (ClaimCallback r) = Some (external_key C r)"
| "op_consumes C (ExchangeHandoff hr _ _ _) = Some (handoff_key C hr)"
| "op_consumes C (CompleteLogout lr _ _) = Some (logout_key C lr)"
| "op_consumes C _ = None"

fun op_renews :: "'c crypto_scheme \<Rightarrow> server_op \<Rightarrow> string list" where
  "op_renews C (IssueHandoff sr hr h) = [handoff_key C hr]"
| "op_renews C (CreateSession sr ses hr h) = [session_key C sr, handoff_key C hr]"
| "op_renews C (WriteExternal r t) = [external_key C r]"
| "op_renews C (WriteLogout r t) = [logout_key C r]"
| "op_renews C _ = []"

definition succeeded :: "redis_value list option \<Rightarrow> bool" where
  "succeeded reply \<longleftrightarrow> (\<exists>vs. reply = Some (VInt 0 # vs))"

section \<open>Refinement\<close>

definition refines_op ::
    "'c crypto_scheme \<Rightarrow> server_op \<Rightarrow> redis_value list option \<Rightarrow> keyspace \<Rightarrow> store_event list \<Rightarrow> keyspace \<Rightarrow> bool" where
  "refines_op C op reply v es w \<longleftrightarrow> store_path v es w
     \<and> (\<forall>k. op_consumes C op = Some k \<longrightarrow> succeeded reply \<longrightarrow> (\<exists>e \<in> set es. advances k e))
     \<and> (\<forall>k. (\<exists>e \<in> set es. renews k e) \<longrightarrow> k \<in> set (op_renews C op))"

lemma refusal_not_succeeded: "refusal R keys s r \<Longrightarrow> \<not> succeeded (fst r)"
  by (auto simp: refusal_def succeeded_def)

context redis_server
begin

lemma refusal_path:
  assumes "refusal R keys s r"
  shows "\<exists>es. refines_op C op (fst r) (view s) es (view (snd r))"
proof -
  from assms consider "snd r = s" | k where "snd r = r_del R s k"
    by (auto simp: refusal_def)
  then obtain es where "store_path (view s) es (view (snd r))" "\<forall>k. \<forall>e \<in> set es. \<not> renews k e"
  proof cases
    case 1
    then show ?thesis by (intro that [of "[]"]) simp_all
  next
    case 2
    then show ?thesis
      by (intro that [of "[Vanish k]"]) (simp_all add: store_path_Cons del_eq store_step.vanish)
  qed
  then show ?thesis
    using refusal_not_succeeded [OF assms] by (auto simp: refines_op_def)
qed

lemma hset_path:
  "fs \<noteq> [] \<Longrightarrow> \<exists>es. store_path (view s) es (view (snd (cmd_hset R k fs s))) \<and> (\<forall>e \<in> set es. \<forall>k'. renews k' e \<longrightarrow> k' = k)"
proof -
  assume "fs \<noteq> []"
  then obtain p qs where fs: "fs = p # qs" by (cases fs) auto
  show ?thesis
  proof (cases "r_hset R s k fs")
    case None
    then show ?thesis by (intro exI [of _ "[]"]) (simp add: cmd_hset_def)
  next
    case (Some s')
    then obtain h where h: "hash_of (view s k) = Some h"
      using hset_None [of s k p qs] fs by auto
    have "view s' = (view s)(k \<mapsto> RHash (h ++ map_of (rev fs)))"
      using hset_Some [OF Some [unfolded fs] h] fs by simp
    then have "store_step (view s) (Write k fs) (view s')"
      using store_step.overwrite [of "view s" k h fs] h by simp
    then show ?thesis
      by (intro exI [of _ "[Write k fs]"]) (auto simp: cmd_hset_def Some store_path_Cons)
  qed
qed

lemma expireat_path:
  "\<exists>es. store_path (view s) es (view (snd (cmd_expireat R k (u64_to_string t) s))) \<and> (\<forall>e \<in> set es. \<forall>k'. \<not> renews k' e)"
proof (cases "unat t \<le> expireat_max")
  case True
  from expireat_Some [OF True, of s k] obtain s' where
    "r_expireat R s k (u64_to_string t) = Some s'" "view s' = view s \<or> view s' = (view s)(k := None)"
    by (auto simp: u64_to_string_def split: if_splits)
  then have "store_path (view s) [] (view (snd (cmd_expireat R k (u64_to_string t) s)))
      \<or> store_path (view s) [Vanish k] (view (snd (cmd_expireat R k (u64_to_string t) s)))"
    by (auto simp: cmd_expireat_def store_path_Cons intro: store_step.vanish)
  then show ?thesis by (metis list.set_intros(1) empty_iff empty_set renews.simps(3) set_ConsD)
next
  case False
  then have "r_expireat R s k (u64_to_string t) = None"
    using expireat_None [of "unat t" s k] by (simp add: u64_to_string_def)
  then show ?thesis by (intro exI [of _ "[]"]) (simp add: cmd_expireat_def)
qed

lemma single_path:
  "store_step v e w \<Longrightarrow> store_path v [e] w"
  by (auto simp: store_path_Cons)

lemma claim_refines:
  "\<exists>es. refines_op C (ClaimCallback r) (fst (claim_invocation C R r s)) (view s) es
     (view (snd (claim_invocation C R r s)))"
  using claim_outcome [of s C r]
proof (elim disjE conjE exE)
  fix h
  assume "view s (external_key C r) = Some (RHash h)" "claimable (r_time R s) h"
    "view (snd (claim_invocation C R r s)) =
       (view s)(external_key C r \<mapsto> RHash (h(''status'' \<mapsto> ''processing'')))"
  then have "store_step (view s) (Advance (external_key C r) ''waiting'' ''processing'')
      (view (snd (claim_invocation C R r s)))"
    by (auto simp: claimable_def status_order_def intro!: store_step.advance)
  then show ?thesis
    by (intro exI [of _ "[Advance (external_key C r) ''waiting'' ''processing'']"])
      (simp add: refines_op_def single_path)
qed (auto dest: refusal_path)

lemma issue_refines:
  "\<exists>es. refines_op C (IssueHandoff sr hr h) (fst (issue_invocation C R sr hr h s)) (view s) es
     (view (snd (issue_invocation C R sr hr h s)))"
  using issue_outcome [of s C sr hr h]
proof (elim disjE conjE exE)
  assume "view s (handoff_key C hr) = None"
    "view (snd (issue_invocation C R sr hr h s)) =
       (view s)(handoff_key C hr \<mapsto> RHash (map_of (encode_handoff h)))"
  then have "store_step (view s) (Create (handoff_key C hr) (encode_handoff h))
      (view (snd (issue_invocation C R sr hr h s)))"
    using store_step.create [of "view s" "handoff_key C hr" "encode_handoff h"] by simp
  then show ?thesis
    by (intro exI [of _ "[Create (handoff_key C hr) (encode_handoff h)]"])
      (simp add: refines_op_def single_path)
qed (auto dest: refusal_path)

lemma create_refines:
  "\<exists>es. refines_op C (CreateSession sr ses hr h) (fst (create_invocation C R sr ses hr h s)) (view s) es
     (view (snd (create_invocation C R sr ses hr h s)))"
  using create_outcome [of s C sr hr ses h]
proof (elim disjE conjE exE)
  let ?w = "(view s)(session_key C sr \<mapsto> RHash (map_of (encode_session ses)))"
  let ?es = "[Create (session_key C sr) (encode_session ses), Create (handoff_key C hr) (encode_handoff h)]"
  assume absent: "view s (session_key C sr) = None" "view s (handoff_key C hr) = None"
    and v: "view (snd (create_invocation C R sr ses hr h s)) =
       ?w(handoff_key C hr \<mapsto> RHash (map_of (encode_handoff h)))"
  have "store_step (view s) (Create (session_key C sr) (encode_session ses)) ?w"
    by (rule store_step.create) (rule absent)
  moreover have "store_step ?w (Create (handoff_key C hr) (encode_handoff h))
      (?w(handoff_key C hr \<mapsto> RHash (map_of (encode_handoff h))))"
    by (rule store_step.create) (simp add: absent)
  ultimately have "store_path (view s) ?es (view (snd (create_invocation C R sr ses hr h s)))"
    unfolding v by (auto simp: store_path_Cons)
  then show ?thesis by (intro exI [of _ ?es]) (auto simp: refines_op_def)
qed (auto dest: refusal_path)

lemma exchange_refines:
  "\<exists>es. refines_op C (ExchangeHandoff hr service challenge l)
     (fst (exchange_invocation C R hr (session_key_text l) service challenge l s)) (view s) es
     (view (snd (exchange_invocation C R hr (session_key_text l) service challenge l s)))"
  using exchange_outcome [of s C hr l service challenge]
proof (elim disjE conjE exE)
  fix h g
  assume "view s (handoff_key C hr) = Some (RHash h)" "exchangeable (r_time R s) h g service challenge l"
    "view (snd (exchange_invocation C R hr (session_key_text l) service challenge l s)) =
       (view s)(handoff_key C hr \<mapsto> RHash (h(''status'' \<mapsto> ''used'')))"
  then have "store_step (view s) (Advance (handoff_key C hr) ''unused'' ''used'')
      (view (snd (exchange_invocation C R hr (session_key_text l) service challenge l s)))"
    by (auto simp: exchangeable_def status_order_def intro!: store_step.advance)
  then show ?thesis
    by (intro exI [of _ "[Advance (handoff_key C hr) ''unused'' ''used'']"])
      (simp add: refines_op_def single_path)
qed (auto dest: refusal_path)

lemma logout_refines:
  "\<exists>es. refines_op C (CompleteLogout lr sr csrf) (fst (logout_invocation C R lr sr csrf s)) (view s) es
     (view (snd (logout_invocation C R lr sr csrf s)))"
  using logout_outcome [of s C lr csrf sr]
proof (elim disjE conjE exE)
  fix h
  let ?w = "(view s)(logout_key C lr \<mapsto> RHash (h(''status'' \<mapsto> ''used'')))"
  let ?es = "[Advance (logout_key C lr) ''unused'' ''used'', Vanish (session_key C sr)]"
  assume h: "view s (logout_key C lr) = Some (RHash h)" "logout_ready (r_time R s) h csrf"
    and v: "view (snd (logout_invocation C R lr sr csrf s)) = ?w(session_key C sr := None)"
  from h have "store_step (view s) (Advance (logout_key C lr) ''unused'' ''used'') ?w"
    by (auto simp: logout_ready_def status_order_def intro!: store_step.advance)
  then have "store_path (view s) ?es (view (snd (logout_invocation C R lr sr csrf s)))"
    unfolding v by (auto simp: store_path_Cons intro: store_step.vanish)
  then show ?thesis by (intro exI [of _ ?es]) (auto simp: refines_op_def)
qed (auto dest: refusal_path)

lemma run_op_refines:
  "\<exists>es. refines_op C op (fst (run_op C R op s)) (view s) es (view (snd (run_op C R op s)))"
proof (cases op)
  case (WriteExternal r t)
  then show ?thesis
    using hset_path [of "encode_external t" s "external_key C r"] external_codec.encode_not_Nil
    by (auto simp: refines_op_def as_reply_def)
next
  case (WriteLogout r t)
  then show ?thesis
    using hset_path [of "encode_logout t" s "logout_key C r"] logout_codec.encode_not_Nil
    by (auto simp: refines_op_def as_reply_def)
next
  case (ExpireExternalAt r t)
  then show ?thesis
    using expireat_path [of s "external_key C r" t] by (simp add: refines_op_def as_reply_def) blast
next
  case (ExpireLogoutAt r t)
  then show ?thesis
    using expireat_path [of s "logout_key C r" t] by (simp add: refines_op_def as_reply_def) blast
next
  case (DeleteSession r)
  then show ?thesis
    by (intro exI [of _ "[Vanish (session_key C r)]"])
      (simp add: refines_op_def as_reply_def cmd_del_def del_eq single_path store_step.vanish)
qed (simp_all add: claim_refines issue_refines create_refines exchange_refines logout_refines)

end

section \<open>Runs\<close>

datatype server_event =
    Op server_op "redis_value list option"
  | Elapse
  | Expire string

inductive server_step ::
    "'c crypto_scheme \<Rightarrow> 's redis \<Rightarrow> ('s \<Rightarrow> keyspace) \<Rightarrow> 's \<Rightarrow> server_event \<Rightarrow> 's \<Rightarrow> bool"
  for C R view where
  op: "run_op C R op s = (r, s') \<Longrightarrow> server_step C R view s (Op op r) s'"
| elapse: "view s' = view s \<Longrightarrow> r_time R s \<le> r_time R s' \<Longrightarrow> server_step C R view s Elapse s'"
| expire: "view s' = (view s)(k := None) \<Longrightarrow> r_time R s' = r_time R s \<Longrightarrow> server_step C R view s (Expire k) s'"

inductive server_run ::
    "'c crypto_scheme \<Rightarrow> 's redis \<Rightarrow> ('s \<Rightarrow> keyspace) \<Rightarrow> 's \<Rightarrow> server_event list \<Rightarrow> 's \<Rightarrow> bool"
  for C R view where
  run_Nil: "server_run C R view s [] s"
| run_Cons: "server_step C R view s e t \<Longrightarrow> server_run C R view t es u \<Longrightarrow> server_run C R view s (e # es) u"

inductive_cases server_run_ConsE: "server_run C R view s (e # es) u"
inductive_cases server_step_OpE: "server_step C R view s (Op op r) t"

text \<open>The event consumes the key: the claim, the exchange or the logout of it succeeded.\<close>

fun consumed :: "'c crypto_scheme \<Rightarrow> string \<Rightarrow> server_event \<Rightarrow> bool" where
  "consumed C k (Op op r) = (op_consumes C op = Some k \<and> succeeded r)"
| "consumed C k _ = False"

fun renewed :: "'c crypto_scheme \<Rightarrow> string \<Rightarrow> server_event \<Rightarrow> bool" where
  "renewed C k (Op op r) = (k \<in> set (op_renews C op))"
| "renewed C k _ = False"

context redis_server
begin

lemma server_step_path:
  assumes "server_step C R view s e t"
  shows "\<exists>es. store_path (view s) es (view t)
    \<and> (\<forall>k. consumed C k e \<longrightarrow> (\<exists>x \<in> set es. advances k x))
    \<and> (\<forall>k. (\<exists>x \<in> set es. renews k x) \<longrightarrow> renewed C k e)"
  using assms
proof (induction rule: server_step.induct)
  case (op op s r s')
  then show ?case using run_op_refines [of C op s] by (simp add: refines_op_def) blast
next
  case (elapse s' s)
  then show ?case by (intro exI [of _ "[]"]) simp
next
  case (expire s' s k)
  then have "store_path (view s) [Vanish k] (view s')"
    using single_path [OF store_step.vanish [of "view s" k]] by metis
  then show ?case by (intro exI [of _ "[Vanish k]"] conjI) (assumption, simp_all)
qed

text \<open>Every run of the machine is a path of the abstract store with at least as many advances of each key.\<close>

lemma server_run_path:
  assumes "server_run C R view s evs t"
  shows "\<exists>es. store_path (view s) es (view t)
    \<and> (\<forall>k. length (filter (consumed C k) evs) \<le> length (filter (advances k) es))
    \<and> (\<forall>k. (\<exists>x \<in> set es. renews k x) \<longrightarrow> (\<exists>e \<in> set evs. renewed C k e))"
  using assms
proof (induction rule: server_run.induct)
  case (run_Nil s)
  then show ?case by (intro exI [of _ "[]"]) simp
next
  case (run_Cons s e t es u)
  obtain xs where xs: "store_path (view s) xs (view t)"
    "\<And>k. consumed C k e \<Longrightarrow> \<exists>x \<in> set xs. advances k x" "\<And>k. \<exists>x \<in> set xs. renews k x \<Longrightarrow> renewed C k e"
    using server_step_path [OF run_Cons.hyps(1)] by blast
  obtain ys where ys: "store_path (view t) ys (view u)"
    "\<And>k. length (filter (consumed C k) es) \<le> length (filter (advances k) ys)"
    "\<And>k. \<exists>x \<in> set ys. renews k x \<Longrightarrow> \<exists>e \<in> set es. renewed C k e"
    using run_Cons.IH by blast
  have first: "consumed C k e \<Longrightarrow> 1 \<le> length (filter (advances k) xs)" for k
    using xs(2) [of k] by (auto simp: Suc_le_eq filter_empty_conv)
  have "length (filter (consumed C k) (e # es)) \<le> length (filter (advances k) (xs @ ys))" for k
    using ys(2) [of k] first [of k] by (cases "consumed C k e") simp_all
  moreover have "store_path (view s) (xs @ ys) (view u)"
    using xs(1) ys(1) by (auto simp: store_path_append)
  moreover have "\<exists>x \<in> set (xs @ ys). renews k x \<Longrightarrow> \<exists>e' \<in> set (e # es). renewed C k e'" for k
    using xs(3) [of k] ys(3) [of k] by auto
  ultimately show ?case by blast
qed

lemma consumed_at_most_once:
  assumes "server_run C R view s evs t" "\<forall>e \<in> set evs. \<not> renewed C k e"
  shows "length (filter (consumed C k) evs) \<le> 1"
proof -
  obtain es where "store_path (view s) es (view t)"
    "length (filter (consumed C k) evs) \<le> length (filter (advances k) es)" "\<forall>x \<in> set es. \<not> renews k x"
    using server_run_path [OF assms(1)] assms(2) by blast
  then show ?thesis using abstract_one_shot by (metis order_trans)
qed

end

end
