(* ===== verification/Redis_Contracts.thy ===== *)
theory Redis_Contracts
  imports Redis_Machine
begin

text \<open>
  What the Rust functions of \<open>redis_state.rs\<close> return, for every server that satisfies
  \<open>redis_server\<close>, every interference between round trips and every lost request or reply:
  the soundness of a success, the effect of a refusal, and that a success is reached when the
  stored states allow it and no message is lost.
\<close>

section \<open>Quiet environments\<close>

text \<open>
  No message is lost and nothing else happens between the round trips from number \<open>n\<close> on:
  the situation in which the functions are expected to succeed.
\<close>

definition quiet :: "'s redis_env \<Rightarrow> nat \<Rightarrow> bool" where
  "quiet E n \<longleftrightarrow> (\<forall>m \<ge> n. network E m = Delivered \<and> interference E m = id)"

lemma quiet_round_trip:
  "quiet E (trips c) \<Longrightarrow> round_trip E cmd c =
     (fst (cmd (server c)), c\<lparr>server := snd (cmd (server c)), trips := Suc (trips c)\<rparr>)"
  by (simp add: quiet_def round_trip_def Let_def split: prod.splits)

lemma quiet_arrival: "quiet E (trips c) \<Longrightarrow> arrival E c = server c"
  by (simp add: quiet_def arrival_def)

lemma quiet_Suc: "quiet E n \<Longrightarrow> quiet E (Suc n)"
  by (simp add: quiet_def)

section \<open>Replies\<close>

lemma refusal_replies:
  assumes "refusal R keys s (Some reply, s')"
  shows "claim_reply reply = Ok t \<Longrightarrow> False" "unit_reply reply = Ok u \<Longrightarrow> False"
    "exchange_reply reply = Ok x \<Longrightarrow> False" "logout_reply reply = Ok v \<Longrightarrow> False"
  using assms by (auto simp: refusal_def script_error_def split: if_splits)

lemma refusal_Some: "refusal R keys s r \<Longrightarrow> \<exists>reply. fst r = Some reply"
  by (auto simp: refusal_def)

lemma refusal_store:
  assumes "refusal R keys s (Some reply, s')"
  shows "s' = s \<or> (reply = [VInt 2] \<and> (\<exists>k \<in> set keys. r_exists R s k \<and> s' = r_del R s k))"
  using assms by (auto simp: refusal_def)

lemma reply_string_Ok: "reply_string x = Ok v \<longleftrightarrow> x = VBulk v \<and> utf8_valid v"
  by (cases x) (auto simp: ok_or_eq_Ok_iff from_utf8_def)

lemma decode_external_values:
  assumes "decode_external fs = Ok t"
  shows "map_of fs ''service_id'' = Some (ext_service_id t)"
    "map_of fs ''service_state'' = Some (ext_service_state t)"
    "map_of fs ''handoff_code_challenge'' = Some (ext_handoff_code_challenge t)"
    "map_of fs ''provider'' = Some (ext_provider t)"
    "map_of fs ''provider_verification_data'' = Some (ext_provider_verification_data t)"
  using assms by (auto simp: decode_external_def and_then_Ok_iff required_string_Ok)

text \<open>The hash whose values a successful claim replies, as the list of its fields.\<close>

definition claimed_fields :: "(string \<rightharpoonup> string) \<Rightarrow> field_map" where
  "claimed_fields h =
     map (\<lambda>f. (f, the (h f))) (butlast EXTERNAL_FIELDS) @ [(''status'', ''processing'')]"

lemma claim_reply_fields:
  "claim_reply (VInt 0 # claim_values h) =
     (if list_all (\<lambda>f. utf8_valid (the (h f))) (butlast EXTERNAL_FIELDS)
      then and_then (decode_external (btree_collect (claimed_fields h)))
        (\<lambda>t. if ext_status t \<noteq> Processing then Err InvalidStoredState else Ok t)
      else Err InvalidStoredState)"
  by (simp add: claim_values_def EXTERNAL_FIELDS_def claimed_fields_def from_utf8_def is_ascii_byte_def)

lemma distinct_claimed_fields: "distinct (map fst (claimed_fields h))"
  by (simp add: claimed_fields_def EXTERNAL_FIELDS_def)

lemma claim_reply_values:
  assumes "claimable now h" "claim_reply (VInt 0 # claim_values h) = Ok t"
  shows "h ''service_id'' = Some (ext_service_id t)" "h ''service_state'' = Some (ext_service_state t)"
    "h ''handoff_code_challenge'' = Some (ext_handoff_code_challenge t)"
    "h ''provider'' = Some (ext_provider t)"
    "h ''provider_verification_data'' = Some (ext_provider_verification_data t)"
    "ext_status t = Processing"
proof -
  have "decode_external (claimed_fields h) = Ok t" and status: "ext_status t = Processing"
    using assms(2) decode_collect(1) [OF distinct_claimed_fields, of h]
    by (auto simp: claim_reply_fields and_then_Ok_iff split: if_splits)
  from decode_external_values [OF this(1)] assms(1)
  show "h ''service_id'' = Some (ext_service_id t)" "h ''service_state'' = Some (ext_service_state t)"
    "h ''handoff_code_challenge'' = Some (ext_handoff_code_challenge t)"
    "h ''provider'' = Some (ext_provider t)"
    "h ''provider_verification_data'' = Some (ext_provider_verification_data t)"
    by (simp_all add: claimed_fields_def EXTERNAL_FIELDS_def claimable_def) auto
  show "ext_status t = Processing" by (rule status)
qed

text \<open>Claiming a stored transaction replies that transaction, in status \<open>Processing\<close>.\<close>

lemma claim_reply_encoded:
  assumes "wf_external t"
  shows "claim_reply (VInt 0 # claim_values (map_of (encode_external t))) = Ok (t\<lparr>ext_status := Processing\<rparr>)"
proof -
  have "claimed_fields (map_of (encode_external t)) = encode_external (t\<lparr>ext_status := Processing\<rparr>)"
    by (simp add: claimed_fields_def EXTERNAL_FIELDS_def encode_external_def)
  moreover have "list_all (\<lambda>f. utf8_valid (the (map_of (encode_external t) f))) (butlast EXTERNAL_FIELDS)"
    using assms by (simp add: EXTERNAL_FIELDS_def encode_external_def wf_external_def)
  ultimately show ?thesis
    by (simp add: claim_reply_fields decode_collect encode_names_eqs decode_encode_external)
qed

lemma i32_try_from_range:
  "- 2147483648 \<le> z \<Longrightarrow> z \<le> 2147483647 \<Longrightarrow> \<exists>w. i32_try_from z = Some w \<and> sint w = z"
  by (rule exI [of _ "word_of_int z"])
    (simp add: i32_try_from_def signed_take_bit_int_eq_self sint_sbintrunc')

lemma u64_try_from_range:
  "0 \<le> z \<Longrightarrow> z < 2 ^ 64 \<Longrightarrow> \<exists>w. u64_try_from z = Some w \<and> int (unat w) = z"
  by (rule exI [of _ "word_of_int z"]) (simp add: u64_try_from_def take_bit_int_eq_self uint_word_of_int_eq)

lemma exchange_reply_exchangeable:
  assumes "exchangeable now h g service challenge l"
  obtains x where "exchange_reply [VInt 0, VInt (tonumber (h ''internal_user_id'')),
      VInt (tonumber (h ''authenticated_at''))] = Ok x"
    "sint (her_internal_user_id x) = tonumber (h ''internal_user_id'')"
    "int (unat (her_authenticated_at x)) = tonumber (h ''authenticated_at'')"
proof -
  have "lua_int (h ''internal_user_id'')" "lua_uint (h ''authenticated_at'')"
    using assms by (simp_all add: exchangeable_def handoff_live_def)
  then obtain u a where "i32_try_from (tonumber (h ''internal_user_id'')) = Some u"
    "sint u = tonumber (h ''internal_user_id'')"
    "u64_try_from (tonumber (h ''authenticated_at'')) = Some a"
    "int (unat a) = tonumber (h ''authenticated_at'')"
    using i32_try_from_range [of "tonumber (h ''internal_user_id'')"]
      u64_try_from_range [of "tonumber (h ''authenticated_at'')"]
      lua_uint_tonumber [of "h ''authenticated_at''"]
    by (auto simp: lua_int_def tonumber_def lua_uint_max_def split: option.splits)
  then show ?thesis
    by (intro that [of "\<lparr>her_internal_user_id = u, her_authenticated_at = a\<rparr>"]) simp_all
qed

lemma session_key_from_lookup_Ok: "is_lookup l \<Longrightarrow> session_key_from_lookup l = Ok (session_key_text l)"
  by (simp add: session_key_from_lookup_def session_key_text_def)

section \<open>Soundness\<close>

context redis_server
begin

lemma claim_sound:
  assumes "server_cmds E = R" "claim_external_callback C E r c = (Ok t, c')"
  shows "\<exists>h. view (arrival E c) (external_key C r) = Some (RHash h)
    \<and> claimable (r_time R (arrival E c)) h \<and> claim_reply (VInt 0 # claim_values h) = Ok t
    \<and> view (server c') = (view (arrival E c))(external_key C r \<mapsto> RHash (h(''status'' \<mapsto> ''processing'')))"
proof -
  obtain reply where reply: "round_trip E (claim_invocation C R r) c = (Some reply, c')"
    "claim_reply reply = Ok t"
    using assms by (auto simp: claim_external_callback_def split: prod.splits option.splits)
  have run: "claim_invocation C R r (arrival E c) = (Some reply, server c')"
    using round_trip_Some [OF reply(1)] by auto
  show ?thesis
    using claim_outcome [of "arrival E c" C r] reply(2) run
    by (auto simp del: claim_reply.simps dest: refusal_replies(1))
qed

lemma exchange_sound:
  assumes "server_cmds E = R" "exchange_handoff C E hr service challenge c = (Ok x, c')"
  shows "\<exists>c2 h g l. trips c2 = trips c + 2
    \<and> view (arrival E c2) (handoff_key C hr) = Some (RHash h)
    \<and> view (arrival E c2) (session_key_text l) = Some (RHash g)
    \<and> exchangeable (r_time R (arrival E c2)) h g service challenge l
    \<and> sint (her_internal_user_id x) = tonumber (g ''internal_user_id'')
    \<and> int (unat (her_authenticated_at x)) = tonumber (g ''authenticated_at'')
    \<and> view (server c') = (view (arrival E c2))(handoff_key C hr \<mapsto> RHash (h(''status'' \<mapsto> ''used'')))"
proof -
  obtain l c2 where l: "resolve_handoff_session_lookup C E hr c = (Ok l, c2)" "is_lookup l"
    using assms by (auto simp: exchange_handoff_def session_key_from_lookup_def
        split: prod.splits sum.splits if_splits)
  have trips: "trips c2 = trips c + 2"
    using l(1) by (auto simp: resolve_handoff_session_lookup_def split: prod.splits option.splits if_splits
        dest!: round_trip_Some)
  obtain reply where reply: "exchange_reply reply = Ok x"
    "round_trip E (exchange_invocation C R hr (session_key_text l) service challenge l) c2 = (Some reply, c')"
    using assms l by (auto simp: exchange_handoff_def session_key_from_lookup_def session_key_text_def
        split: prod.splits option.splits)
  have run: "exchange_invocation C R hr (session_key_text l) service challenge l (arrival E c2) = (Some reply, server c')"
    using round_trip_Some [OF reply(2)] by auto
  obtain h g where hg: "view (arrival E c2) (handoff_key C hr) = Some (RHash h)"
      "view (arrival E c2) (session_key_text l) = Some (RHash g)"
      "exchangeable (r_time R (arrival E c2)) h g service challenge l"
      "reply = [VInt 0, VInt (tonumber (h ''internal_user_id'')), VInt (tonumber (h ''authenticated_at''))]"
      "view (server c') = (view (arrival E c2))(handoff_key C hr \<mapsto> RHash (h(''status'' \<mapsto> ''used'')))"
    using exchange_outcome [of "arrival E c2" C hr l service challenge] run reply(1)
    by (auto simp del: exchange_reply.simps dest: refusal_replies(3))
  have "sint (her_internal_user_id x) = tonumber (g ''internal_user_id'')"
    "int (unat (her_authenticated_at x)) = tonumber (g ''authenticated_at'')"
    using exchange_reply_exchangeable [OF hg(3)] reply(1) hg(3,4)
    by (auto simp: exchangeable_def simp del: exchange_reply.simps)
  with hg trips show ?thesis by blast
qed

lemma logout_sound:
  assumes "server_cmds E = R" "complete_common_logout C E lr sr csrf c = (Ok uri, c')"
  shows "\<exists>h. view (arrival E c) (logout_key C lr) = Some (RHash h)
    \<and> logout_ready (r_time R (arrival E c)) h csrf \<and> h ''logout_return_uri'' = Some uri
    \<and> view (server c') = (view (arrival E c))(logout_key C lr \<mapsto> RHash (h(''status'' \<mapsto> ''used'')),
        session_key C sr := None)"
proof -
  obtain reply where reply: "round_trip E (logout_invocation C R lr sr csrf) c = (Some reply, c')"
    "logout_reply reply = Ok uri"
    using assms by (auto simp: complete_common_logout_def split: prod.splits option.splits)
  have run: "logout_invocation C R lr sr csrf (arrival E c) = (Some reply, server c')"
    using round_trip_Some [OF reply(1)] by auto
  then obtain h where h: "view (arrival E c) (logout_key C lr) = Some (RHash h)"
    "logout_ready (r_time R (arrival E c)) h csrf" "reply = [VInt 0, VBulk (the (h ''logout_return_uri''))]"
    "view (server c') = (view (arrival E c))(logout_key C lr \<mapsto> RHash (h(''status'' \<mapsto> ''used'')),
        session_key C sr := None)"
    using logout_outcome [of "arrival E c" C lr csrf sr] reply(2)
    by (auto simp del: logout_reply.simps dest: refusal_replies(4))
  then have "h ''logout_return_uri'' = Some uri"
    using reply(2) by (auto simp: logout_ready_def ok_or_eq_Ok_iff from_utf8_def split: if_splits)
  with h show ?thesis by blast
qed

lemma issue_sound:
  assumes "server_cmds E = R" "issue_sso_handoff C E sr hr h c = (Ok (), c')"
  shows "\<exists>g. view (arrival E c) (session_key C sr) = Some (RHash g)
    \<and> session_live (r_time R (arrival E c)) g
    \<and> view (arrival E c) (handoff_key C hr) = None
    \<and> sint (hnd_internal_user_id h) = tonumber (g ''internal_user_id'')
    \<and> int (unat (hnd_authenticated_at h)) = tonumber (g ''authenticated_at'')
    \<and> view (server c') = (view (arrival E c))(handoff_key C hr \<mapsto> RHash (map_of (encode_handoff h)))"
proof -
  obtain reply where reply: "round_trip E (issue_invocation C R sr hr h) c = (Some reply, c')"
    "unit_reply reply = Ok ()"
    using assms by (auto simp: issue_sso_handoff_def split: prod.splits option.splits)
  have run: "issue_invocation C R sr hr h (arrival E c) = (Some reply, server c')"
    using round_trip_Some [OF reply(1)] by auto
  show ?thesis
    using issue_outcome [of "arrival E c" C sr hr h] run reply(2)
    by (auto simp del: unit_reply.simps dest: refusal_replies(2))
qed

lemma create_effect:
  assumes "server_cmds E = R" "create_session_and_handoff C E sr ses hr h c = (res, c')"
  shows "(view (server c') = (view (arrival E c))(session_key C sr \<mapsto> RHash (map_of (encode_session ses)),
             handoff_key C hr \<mapsto> RHash (map_of (encode_handoff h)))
      \<and> view (arrival E c) (session_key C sr) = None \<and> view (arrival E c) (handoff_key C hr) = None
      \<and> (res = Ok () \<or> res = Err RedisFailure \<and> network E (trips c) = ReplyLost))
    \<or> (view (server c') = view (arrival E c) \<and> res \<noteq> Ok ())"
proof -
  let ?cmd = "create_invocation C R sr ses hr h"
  have res: "(res, c') = (case round_trip E ?cmd c of (None, c1) \<Rightarrow> (Err RedisFailure, c1)
      | (Some reply, c1) \<Rightarrow> (unit_reply reply, c1))"
    using assms by (simp add: create_session_and_handoff_def)
  show ?thesis
    using create_outcome [of "arrival E c" C sr hr ses h]
  proof (elim disjE conjE)
    assume ok: "view (arrival E c) (session_key C sr) = None" "view (arrival E c) (handoff_key C hr) = None"
      "fst (?cmd (arrival E c)) = Some [VInt 0]"
      "view (snd (?cmd (arrival E c))) = (view (arrival E c))(session_key C sr \<mapsto> RHash (map_of (encode_session ses)),
             handoff_key C hr \<mapsto> RHash (map_of (encode_handoff h)))"
    then show ?thesis
      using res by (cases "network E (trips c)")
        (auto simp: round_trip_def Let_def arrival_def split: prod.splits)
  next
    assume "refusal R [] (arrival E c) (?cmd (arrival E c))"
    then obtain n where "?cmd (arrival E c) = (Some [VInt n], arrival E c)" "1 \<le> n" "n \<le> 9"
      by (auto simp: refusal_def)
    then show ?thesis
      using res by (cases "network E (trips c)")
        (auto simp: round_trip_def Let_def arrival_def script_error_def)
  qed
qed

end

section \<open>Success in a quiet environment\<close>

lemma card_dom_encode:
  "card (dom (map_of (encode_external t))) = 8" "card (dom (map_of (encode_session ses))) = 4"
  "card (dom (map_of (encode_handoff h))) = 8" "card (dom (map_of (encode_logout l))) = 6"
  by (simp_all add: external_codec.dom_encode session_codec.dom_encode handoff_codec.dom_encode
      logout_codec.dom_encode distinct_card [symmetric] field_names_distinct)
    (simp_all add: field_defs)

lemma claimable_encoded:
  "claimable now (map_of (encode_external t)) \<longleftrightarrow>
     unat (ext_created_at t) \<le> lua_uint_max \<and> unat (ext_expires_at t) \<le> lua_uint_max
     \<and> now < unat (ext_expires_at t) \<and> ext_status t = Waiting"
proof -
  have "external_status_value (ext_status t) = ''waiting'' \<longleftrightarrow> ext_status t = Waiting"
    by (cases "ext_status t") simp_all
  then show ?thesis
    by (simp add: claimable_def card_dom_encode)
      (auto simp: encode_external_def lua_uint_u64 tonumber_u64 simp del: of_nat_unat)
qed

lemma session_live_encoded:
  "session_live now (map_of (encode_session ses)) \<longleftrightarrow>
     unat (ses_authenticated_at ses) \<le> lua_uint_max \<and> unat (ses_created_at ses) \<le> lua_uint_max
     \<and> unat (ses_expires_at ses) \<le> lua_uint_max \<and> now < unat (ses_expires_at ses)"
  by (simp add: session_live_def card_dom_encode)
    (auto simp: encode_session_def lua_uint_u64 lua_int_i32 tonumber_u64 simp del: of_nat_unat)

lemma handoff_live_encoded:
  "handoff_live now (map_of (encode_handoff h)) \<longleftrightarrow>
     is_lookup (hnd_common_session_lookup h) \<and> unat (hnd_authenticated_at h) \<le> lua_uint_max
     \<and> unat (hnd_issued_at h) \<le> lua_uint_max \<and> unat (hnd_expires_at h) \<le> lua_uint_max
     \<and> now < unat (hnd_expires_at h)"
  by (simp add: handoff_live_def card_dom_encode)
    (auto simp: encode_handoff_def lua_uint_u64 lua_int_i32 lua_lookup_is_lookup tonumber_u64 simp del: of_nat_unat)

lemma exchangeable_encoded:
  "exchangeable now (map_of (encode_handoff h)) (map_of (encode_session ses)) service challenge l \<longleftrightarrow>
     handoff_live now (map_of (encode_handoff h)) \<and> session_live now (map_of (encode_session ses))
     \<and> hnd_status h = Unused \<and> hnd_service_id h = service \<and> hnd_code_challenge h = challenge
     \<and> hnd_common_session_lookup h = l \<and> hnd_internal_user_id h = ses_internal_user_id ses
     \<and> hnd_authenticated_at h = ses_authenticated_at ses"
proof -
  have "usage_status_value (hnd_status h) = ''unused'' \<longleftrightarrow> hnd_status h = Unused"
    by (cases "hnd_status h") simp_all
  moreover have "tonumber (map_of (encode_handoff h) ''internal_user_id'') = sint (hnd_internal_user_id h)"
    "tonumber (map_of (encode_session ses) ''internal_user_id'') = sint (ses_internal_user_id ses)"
    "tonumber (map_of (encode_handoff h) ''authenticated_at'') = int (unat (hnd_authenticated_at h))"
    "tonumber (map_of (encode_session ses) ''authenticated_at'') = int (unat (ses_authenticated_at ses))"
    by (simp_all add: encode_handoff_def encode_session_def tonumber_u64 tonumber_i32 del: of_nat_unat)
  moreover have "map_of (encode_handoff h) ''status'' = Some (usage_status_value (hnd_status h))"
    "map_of (encode_handoff h) ''service_id'' = Some (hnd_service_id h)"
    "map_of (encode_handoff h) ''code_challenge'' = Some (hnd_code_challenge h)"
    "map_of (encode_handoff h) ''common_session_lookup'' = Some (hnd_common_session_lookup h)"
    by (simp_all add: encode_handoff_def)
  ultimately show ?thesis
    by (simp only: exchangeable_def of_nat_eq_iff option.inject)
      (auto intro: unsigned_word_eqI signed_word_eqI)
qed

lemma logout_ready_encoded:
  "logout_ready now (map_of (encode_logout t)) csrf \<longleftrightarrow>
     unat (lgo_created_at t) \<le> lua_uint_max \<and> unat (lgo_expires_at t) \<le> lua_uint_max
     \<and> now < unat (lgo_expires_at t) \<and> lgo_status t = Unused \<and> is_lookup csrf \<and> lgo_csrf_lookup t = csrf"
proof -
  have "usage_status_value (lgo_status t) = ''unused'' \<longleftrightarrow> lgo_status t = Unused"
    by (cases "lgo_status t") simp_all
  then show ?thesis
    by (simp add: logout_ready_def card_dom_encode)
      (auto simp: encode_logout_def lua_uint_u64 lua_lookup_is_lookup tonumber_u64 simp del: of_nat_unat)
qed

lemma status_used_live:
  "exchangeable now h g service challenge l \<Longrightarrow> handoff_live now (h(''status'' \<mapsto> ''used''))"
  "claimable now h \<Longrightarrow> card (dom (h(''status'' \<mapsto> st))) = 8"
  "logout_ready now h csrf \<Longrightarrow> card (dom (h(''status'' \<mapsto> st))) = 6"
proof -
  have dom: "h ''status'' \<noteq> None \<Longrightarrow> dom (h(''status'' \<mapsto> st)) = dom h" for h :: "string \<rightharpoonup> string" and st
    by auto
  show "exchangeable now h g service challenge l \<Longrightarrow> handoff_live now (h(''status'' \<mapsto> ''used''))"
    using dom [of h] by (auto simp: exchangeable_def handoff_live_def simp del: dom_fun_upd)
  show "claimable now h \<Longrightarrow> card (dom (h(''status'' \<mapsto> st))) = 8"
    using dom [of h] by (simp add: claimable_def del: dom_fun_upd)
  show "logout_ready now h csrf \<Longrightarrow> card (dom (h(''status'' \<mapsto> st))) = 6"
    using dom [of h] by (simp add: logout_ready_def del: dom_fun_upd)
qed

context redis_server
begin

lemma resolve_quiet:
  assumes "server_cmds E = R" "quiet E (trips c)"
    and "view (server c) (handoff_key C hr) = Some (RHash h)"
    and "h ''common_session_lookup'' = Some l" "is_lookup l"
  shows "resolve_handoff_session_lookup C E hr c = (Ok l, c\<lparr>trips := trips c + 2\<rparr>)"
  using assms quiet_Suc [OF assms(2)]
  by (simp add: resolve_handoff_session_lookup_def quiet_round_trip cmd_type_def cmd_hget_def hget_eq
      hash_commands utf8_valid_lookup)

lemma exchange_quiet:
  assumes "server_cmds E = R" "quiet E (trips c)"
    and "view (server c) (handoff_key C hr) = Some (RHash h)" "view (server c) (session_key_text l) = Some (RHash g)"
    and "exchangeable (r_time R (server c)) h g service challenge l"
  shows "\<exists>x c'. exchange_handoff C E hr service challenge c = (Ok x, c')
    \<and> sint (her_internal_user_id x) = tonumber (h ''internal_user_id'')
    \<and> int (unat (her_authenticated_at x)) = tonumber (h ''authenticated_at'')
    \<and> trips c' = trips c + 3 \<and> r_time R (server c') = r_time R (server c)
    \<and> view (server c') = (view (server c))(handoff_key C hr \<mapsto> RHash (h(''status'' \<mapsto> ''used'')))"
proof -
  have l: "h ''common_session_lookup'' = Some l" "is_lookup l"
    using assms(5) by (auto simp: exchangeable_def handoff_live_def lua_lookup_is_lookup)
  let ?cmd = "exchange_invocation C R hr (session_key_text l) service challenge l"
  let ?c2 = "c\<lparr>trips := trips c + 2\<rparr>"
  have cmd: "fst (?cmd (server c)) = Some [VInt 0, VInt (tonumber (h ''internal_user_id'')),
        VInt (tonumber (h ''authenticated_at''))]"
    "view (snd (?cmd (server c))) = (view (server c))(handoff_key C hr \<mapsto> RHash (h(''status'' \<mapsto> ''used'')))"
    "r_time R (snd (?cmd (server c))) = r_time R (server c)"
    using exchange_outcome [of "server c" C hr l service challenge] assms(3-5) by auto
  obtain x where x: "exchange_reply [VInt 0, VInt (tonumber (h ''internal_user_id'')),
      VInt (tonumber (h ''authenticated_at''))] = Ok x"
    "sint (her_internal_user_id x) = tonumber (h ''internal_user_id'')"
    "int (unat (her_authenticated_at x)) = tonumber (h ''authenticated_at'')"
    by (rule exchange_reply_exchangeable [OF assms(5)])
  have "quiet E (trips ?c2)" using assms(2) by (simp add: quiet_def)
  then have "exchange_handoff C E hr service challenge c =
      (Ok x, ?c2\<lparr>server := snd (?cmd (server c)), trips := Suc (trips ?c2)\<rparr>)"
    using x(1) l(2)
    by (simp add: exchange_handoff_def resolve_quiet [OF assms(1-3) l] session_key_from_lookup_Ok
        quiet_round_trip assms(1) cmd del: exchange_reply.simps)
  then show ?thesis using x(2,3) cmd(2,3) by simp
qed

lemma exchange_used:
  assumes "server_cmds E = R" "quiet E (trips c)"
    and "view (server c) (handoff_key C hr) = Some (RHash h)"
    and "handoff_live (r_time R (server c)) h" "h ''status'' = Some ''used''"
  shows "exchange_handoff C E hr service challenge c = (Err AlreadyUsed, c\<lparr>trips := trips c + 3\<rparr>)"
proof -
  obtain l where l: "h ''common_session_lookup'' = Some l" "is_lookup l"
    using assms(4) by (auto simp: handoff_live_def lua_lookup_def is_lookup_hex split: option.splits)
  let ?c2 = "c\<lparr>trips := trips c + 2\<rparr>"
  have cmd: "exchange_invocation C R hr (session_key_text l) service challenge l (server c) = (Some [VInt 5], server c)"
    using assms(4,5) by (simp add: exchange_invocation_def exchange_handoff_script_def
        hash_commands [OF assms(3)] handoff_live_def)
  have "quiet E (trips ?c2)" using assms(2) by (simp add: quiet_def)
  then show ?thesis
    using l(2) by (simp add: exchange_handoff_def resolve_quiet [OF assms(1-3) l] session_key_from_lookup_Ok
        quiet_round_trip assms(1) cmd script_error_def)
qed

lemma claim_quiet:
  assumes "server_cmds E = R" "quiet E (trips c)"
    and "view (server c) (external_key C r) = Some (RHash h)" "claimable (r_time R (server c)) h"
  shows "\<exists>c'. claim_external_callback C E r c = (claim_reply (VInt 0 # claim_values h), c')
    \<and> trips c' = Suc (trips c) \<and> r_time R (server c') = r_time R (server c)
    \<and> view (server c') = (view (server c))(external_key C r \<mapsto> RHash (h(''status'' \<mapsto> ''processing'')))"
  using claim_outcome [of "server c" C r] assms
  by (auto simp: claim_external_callback_def quiet_round_trip simp del: claim_reply.simps)

lemma claim_processing:
  assumes "server_cmds E = R" "quiet E (trips c)" "claimable (r_time R (server c)) h"
    and "view (server c) (external_key C r) = Some (RHash (h(''status'' \<mapsto> ''processing'')))"
  shows "claim_external_callback C E r c = (Err AlreadyClaimed, c\<lparr>trips := Suc (trips c)\<rparr>)"
proof -
  have "claim_invocation C R r (server c) = (Some [VInt 4], server c)"
    using assms(3) status_used_live(2) [OF assms(3), of "''processing''"]
    by (simp add: claim_invocation_def callback_claim_script_def hash_commands [OF assms(4)] claimable_def
        del: dom_fun_upd)
  then show ?thesis
    using assms by (simp add: claim_external_callback_def quiet_round_trip script_error_def)
qed

lemma logout_quiet:
  assumes "server_cmds E = R" "quiet E (trips c)"
    and "view (server c) (logout_key C lr) = Some (RHash h)" "logout_ready (r_time R (server c)) h csrf"
    and "h ''logout_return_uri'' = Some uri" "utf8_valid uri"
  shows "\<exists>c'. complete_common_logout C E lr sr csrf c = (Ok uri, c') \<and> trips c' = Suc (trips c)
    \<and> view (server c') = (view (server c))(logout_key C lr \<mapsto> RHash (h(''status'' \<mapsto> ''used'')), session_key C sr := None)"
  using logout_outcome [of "server c" C lr csrf sr] assms
  by (auto simp: complete_common_logout_def quiet_round_trip from_utf8_def)

end

section \<open>Creating sessions and handoffs\<close>

text \<open>What the handoff of a session looks like: same session, user and authentication time.\<close>

definition handoff_of :: "'c crypto_scheme \<Rightarrow> string \<Rightarrow> common_session \<Rightarrow> authentication_handoff \<Rightarrow> bool" where
  "handoff_of C sr ses h \<longleftrightarrow> hnd_common_session_lookup h = reference_value_lookup C sr
     \<and> hnd_internal_user_id h = ses_internal_user_id ses
     \<and> hnd_authenticated_at h = ses_authenticated_at ses \<and> hnd_status h = Unused"

lemma handoff_storable_args:
  assumes "crypto_lib C" "handoff_of C sr ses h" "handoff_live now (map_of (encode_handoff h))"
  shows "lua_lookup (Some (reference_value_lookup C sr))" "session_key C sr = session_key_text (reference_value_lookup C sr)"
    "lua_uint (Some (u64_to_string (hnd_authenticated_at h)))" "lua_uint (Some (u64_to_string (hnd_issued_at h)))"
    "lua_uint (Some (u64_to_string (hnd_expires_at h)))" "int now < tonumber (Some (u64_to_string (hnd_expires_at h)))"
    "hnd_common_session_lookup h = reference_value_lookup C sr" "hnd_status h = Unused"
    "hnd_internal_user_id h = ses_internal_user_id ses" "hnd_authenticated_at h = ses_authenticated_at ses"
  using assms
  by (auto simp: handoff_of_def handoff_live_encoded lua_lookup_is_lookup reference_value_lookup_is_lookup
      session_key_eq_text lua_uint_u64 tonumber_u64 simp del: of_nat_unat)

context redis_server
begin

lemma issue_quiet:
  assumes "crypto_lib C" "server_cmds E = R" "quiet E (trips c)"
    and session: "view (server c) (session_key C sr) = Some (RHash (map_of (encode_session ses)))"
    and live: "session_live (r_time R (server c)) (map_of (encode_session ses))"
    and absent: "view (server c) (handoff_key C hr) = None" and "handoff_of C sr ses h"
    and "handoff_live (r_time R (server c)) (map_of (encode_handoff h))"
  shows "\<exists>c'. issue_sso_handoff C E sr hr h c = (Ok (), c') \<and> trips c' = Suc (trips c)
    \<and> view (server c') = (view (server c))(handoff_key C hr \<mapsto> RHash (map_of (encode_handoff h)))
    \<and> r_time R (server c') = r_time R (server c)"
proof -
  note args = handoff_storable_args [OF assms(1,7,8)]
  obtain s' where s': "hset_expireat R (handoff_key C hr) (encode_handoff h) (u64_to_string (hnd_expires_at h))
      (server c) = (Some (), s')"
    "view s' = (view (server c))(handoff_key C hr \<mapsto> RHash (map_of (encode_handoff h)))"
    "r_time R s' = r_time R (server c)"
    using hset_expireat_absent [OF absent _ _ refl args(5,6)] handoff_codec.encode_not_Nil handoff_codec.encode_names
    by (metis field_names_distinct(3))
  have "tonumber (map_of (encode_session ses) ''internal_user_id'') = tonumber (Some (i32_to_string (ses_internal_user_id ses)))"
    "tonumber (map_of (encode_session ses) ''authenticated_at'') = tonumber (Some (u64_to_string (ses_authenticated_at ses)))"
    by (simp_all add: encode_session_def)
  then have "issue_invocation C R sr hr h (server c) = (Some [VInt 0], s')"
    using live s'(1) args(1,3-10) absent_commands [OF absent]
    by (simp add: issue_invocation_def issue_sso_handoff_script_def hash_commands [OF session] session_live_def
        lua_int_i32 encode_handoff_def session_key_eq_text [symmetric])
  then show ?thesis
    using s' by (simp add: issue_sso_handoff_def quiet_round_trip assms(2,3))
qed

lemma create_quiet:
  assumes "crypto_lib C" "server_cmds E = R" "quiet E (trips c)"
    and absent: "view (server c) (session_key C sr) = None" "view (server c) (handoff_key C hr) = None"
    and live: "session_live (r_time R (server c)) (map_of (encode_session ses))" and "handoff_of C sr ses h"
    and "handoff_live (r_time R (server c)) (map_of (encode_handoff h))"
  shows "\<exists>c'. create_session_and_handoff C E sr ses hr h c = (Ok (), c') \<and> trips c' = Suc (trips c)
    \<and> view (server c') = (view (server c))(session_key C sr \<mapsto> RHash (map_of (encode_session ses)),
        handoff_key C hr \<mapsto> RHash (map_of (encode_handoff h)))
    \<and> r_time R (server c') = r_time R (server c)"
proof -
  note args = handoff_storable_args [OF assms(1,7,8)]
  have ses: "lua_uint (Some (u64_to_string (ses_authenticated_at ses)))"
    "lua_uint (Some (u64_to_string (ses_created_at ses)))" "lua_uint (Some (u64_to_string (ses_expires_at ses)))"
    "int (r_time R (server c)) < tonumber (Some (u64_to_string (ses_expires_at ses)))"
    using live by (auto simp: session_live_encoded lua_uint_u64 tonumber_u64 simp del: of_nat_unat)
  obtain s1 where s1: "hset_expireat R (session_key C sr) (encode_session ses) (u64_to_string (ses_expires_at ses))
      (server c) = (Some (), s1)"
    "view s1 = (view (server c))(session_key C sr \<mapsto> RHash (map_of (encode_session ses)))"
    "r_time R s1 = r_time R (server c)"
    using hset_expireat_absent [OF absent(1) _ _ refl ses(3,4)] session_codec.encode_not_Nil session_codec.encode_names
    by (metis field_names_distinct(2))
  have absent1: "view s1 (handoff_key C hr) = None" using absent(2) s1(2) by simp
  obtain s2 where s2: "hset_expireat R (handoff_key C hr) (encode_handoff h) (u64_to_string (hnd_expires_at h)) s1 = (Some (), s2)"
    "view s2 = (view s1)(handoff_key C hr \<mapsto> RHash (map_of (encode_handoff h)))" "r_time R s2 = r_time R s1"
    using hset_expireat_absent [OF absent1 _ _ refl args(5)] args(6) handoff_codec.encode_not_Nil handoff_codec.encode_names s1(3)
    by (metis field_names_distinct(3))
  have "create_invocation C R sr ses hr h (server c) = (Some [VInt 0], s2)"
    using s1(1) s2(1) args ses absent_commands [OF absent(1)] absent_commands [OF absent(2)]
    by (simp add: create_invocation_def create_session_and_handoff_script_def lua_int_i32 encode_handoff_def
        encode_session_def)
  then show ?thesis
    using s1 s2 by (simp add: create_session_and_handoff_def quiet_round_trip assms(2,3))
qed

end

section \<open>Writing and reading\<close>

context redis_server
begin

lemma write_quiet:
  assumes "server_cmds E = R" "quiet E (trips c)" "view (server c) key = None"
    and "ps \<noteq> []" "distinct (map fst ps)" "is_unexpired now expires_at"
    and "r_time R (server c) < unat expires_at" "unat expires_at \<le> expireat_max"
  shows "\<exists>c'. write_state E family key ps expires_at now c = (Ok (), c') \<and> trips c' = trips c + 2
    \<and> r_time R (server c') = r_time R (server c)
    \<and> view (server c') = (view (server c))(key \<mapsto> RHash (map_of ps))"
proof -
  obtain p qs where ps: "ps = p # qs" using assms(4) by (cases ps) auto
  have h: "hash_of (view (server c) key) = Some Map.empty" by (simp add: assms(3))
  then obtain s1 where s1: "r_hset R (server c) key ps = Some s1"
    using hset_None [of "server c" key p qs] ps by auto
  have v1: "view s1 = (view (server c))(key \<mapsto> RHash (map_of ps))" "r_time R s1 = r_time R (server c)"
    using hset_Some [OF s1 [unfolded ps] h] map_of_rev [OF assms(5)] ps by simp_all
  from expireat_Some [OF assms(8), of s1 key] obtain s2 where
    s2: "r_expireat R s1 key (u64_to_string expires_at) = Some s2" "r_time R s2 = r_time R s1"
    "view s2 = view s1" using v1(2) assms(7) by (auto simp: u64_to_string_def)
  show ?thesis
    using assms(6) s1 s2 v1 quiet_Suc [OF assms(2)]
    by (simp add: write_state_def quiet_round_trip assms(1,2) cmd_hset_def cmd_expireat_def)
qed

lemma write_then_logout:
  assumes "server_cmds E = R" "quiet E (trips c)" "view (server c) (logout_key C lr) = None"
    and "is_lookup (lgo_csrf_lookup t)" "utf8_valid (lgo_logout_return_uri t)" "lgo_status t = Unused"
    and "is_unexpired now (lgo_expires_at t)" "r_time R (server c) < unat (lgo_expires_at t)"
    and "unat (lgo_created_at t) \<le> lua_uint_max" "unat (lgo_expires_at t) \<le> lua_uint_max"
  shows "\<exists>c1 c2. write_logout C E lr t now c = (Ok (), c1) \<and> trips c1 = trips c + 2
    \<and> complete_common_logout C E lr sr (lgo_csrf_lookup t) c1 = (Ok (lgo_logout_return_uri t), c2)
    \<and> view (server c2) (session_key C sr) = None"
proof -
  have "unat (lgo_expires_at t) \<le> expireat_max" using assms(10) lua_uint_max_le by simp
  then obtain c1 where c1: "write_logout C E lr t now c = (Ok (), c1)" "trips c1 = trips c + 2"
    "r_time R (server c1) = r_time R (server c)"
    "view (server c1) = (view (server c))(logout_key C lr \<mapsto> RHash (map_of (encode_logout t)))"
    using write_quiet [OF assms(1-3), of "encode_logout t" now "lgo_expires_at t"] assms(7,8)
    by (auto simp: write_logout_def logout_codec.encode_not_Nil logout_codec.encode_names)
  have "logout_ready (r_time R (server c1)) (map_of (encode_logout t)) (lgo_csrf_lookup t)"
    using assms by (simp add: logout_ready_encoded c1(3))
  moreover have "view (server c1) (logout_key C lr) = Some (RHash (map_of (encode_logout t)))" by (simp add: c1(4))
  moreover have "map_of (encode_logout t) ''logout_return_uri'' = Some (lgo_logout_return_uri t)"
    by (simp add: encode_logout_def)
  moreover have "quiet E (trips c1)" using assms(2) by (simp add: quiet_def c1(2))
  ultimately obtain c2 where "complete_common_logout C E lr sr (lgo_csrf_lookup t) c1 = (Ok (lgo_logout_return_uri t), c2)"
    "view (server c2) (session_key C sr) = None"
    using logout_quiet [OF assms(1), of c1 C lr "map_of (encode_logout t)" "lgo_csrf_lookup t" "lgo_logout_return_uri t" sr]
      assms(5) by auto
  with c1(1,2) show ?thesis by blast
qed

lemma read_quiet:
  assumes "state_codec encode decode names storable" "storable x"
    and "server_cmds E = R" "quiet E (trips c)" "view (server c) key = Some (RHash (map_of (encode x)))"
    and "is_unexpired now (expiry x)"
  shows "read_state E key decode expiry now c = (Ok x, c\<lparr>trips := Suc (trips c)\<rparr>)"
proof -
  obtain ps where ps: "r_hgetall R (server c) key = Some ps" "distinct (map fst ps)" "map_of ps = map_of (encode x)"
    using hgetall_None [of "server c" key] hgetall_Some [of "server c" key] assms(5)
    by (cases "r_hgetall R (server c) key") auto
  have "decode (btree_collect ps) = Ok x"
    by (rule state_codec.decode_map_of_encode [OF assms(1,2) distinct_btree_collect])
      (simp add: map_of_btree_collect_distinct ps)
  moreover have "list_all (\<lambda>(f, v). utf8_valid f \<and> utf8_valid v) ps"
    using ps(2,3) state_codec.encode_utf8 [OF assms(1,2)]
    by (auto simp: list_all_iff map_of_is_SomeI) (metis map_of_SomeD map_of_is_SomeI)+
  moreover have "ps \<noteq> []"
    using ps(3) state_codec.encode_not_Nil [OF assms(1), of x] by (metis map_of_eq_empty_iff)
  ultimately show ?thesis
    by (simp add: read_state_def read_fields_def quiet_round_trip assms(3,4,6) cmd_hgetall_def ps(1)
        utf8_pairs_def expire_if_needed_def)
qed

lemma read_sound:
  assumes "server_cmds E = R" "read_state E key decode expiry now c = (Ok x, c')"
  shows "is_unexpired now (expiry x) \<and> server c' = arrival E c
    \<and> (\<exists>h fs. view (arrival E c) key = Some (RHash h) \<and> map_of fs = h \<and> distinct (map fst fs) \<and> decode fs = Ok x)"
proof -
  obtain fs c1 where fs: "read_fields E key c = (Ok fs, c1)" "decode fs = Ok x"
    "expire_if_needed E key (expiry x) now c1 = (Ok (), c')"
    using assms(2) by (auto simp: read_state_def split: prod.splits sum.splits)
  have unexpired: "is_unexpired now (expiry x)" "c' = c1"
    using fs(3) by (auto simp: expire_if_needed_def split: if_splits prod.splits option.splits)
  obtain ps where ps: "round_trip E (cmd_hgetall R key) c = (Some ps, c1)" "fs = btree_collect ps" "ps \<noteq> []"
    using fs(1) assms(1) by (auto simp: read_fields_def utf8_pairs_def split: prod.splits option.splits if_splits)
  have run: "r_hgetall R (arrival E c) key = Some ps" "server c1 = arrival E c"
    using round_trip_Some [OF ps(1)] by (auto simp: cmd_hgetall_def)
  have view: "distinct (map fst ps)" "hash_of (view (arrival E c) key) = Some (map_of ps)"
    using hgetall_Some [OF run(1)] by auto
  have "view (arrival E c) key = Some (RHash (map_of fs))"
    using view(2) ps(3) by (cases "view (arrival E c) key" rule: key_cases)
      (auto simp: ps(2) map_of_btree_collect_distinct [OF view(1)] dest: sym)
  then show ?thesis using unexpired run(2) fs(2) distinct_btree_collect ps(2) by blast
qed

end

end
