(* ===== verification/Crypto_Reference.thy ===== *)
theory Crypto_Reference
  imports Crypto
begin

text \<open>
  An instance of the \<open>crypto_lib\<close> contract: SHA-256 as FIPS 180-4 defines it and base64 as
  RFC 4648 defines it.  Nothing of the model depends on it; it shows that the contract can be
  met and supplies the concrete functions of the witnesses.
\<close>

unbundle bit_operations_syntax

section \<open>SHA-256\<close>

type_synonym u32 = "32 word"

text \<open>
  The constants are the first 32 bits of the fractional parts of the cube roots (of the first 64
  primes) and of the square roots (of the first 8 primes), computed as integer roots.
\<close>

definition int_root :: "nat \<Rightarrow> nat \<Rightarrow> nat" where
  "int_root k n = fold (\<lambda>b r. if (r + 2 ^ b) ^ k \<le> n then r + 2 ^ b else r) (rev [0..<40]) 0"

definition root_bits :: "nat \<Rightarrow> nat \<Rightarrow> u32" where
  "root_bits k p = word_of_nat (int_root k (p * 2 ^ (32 * k)))"

definition sha_primes :: "nat list" where
  "sha_primes = filter (\<lambda>n. list_all (\<lambda>d. n mod d \<noteq> 0) [2..<n]) [2..<312]"

definition sha_k :: "u32 list" where
  "sha_k = map (root_bits 3) sha_primes"

definition sha_h0 :: "u32 list" where
  "sha_h0 = map (root_bits 2) [2, 3, 5, 7, 11, 13, 17, 19]"

definition rotr :: "nat \<Rightarrow> u32 \<Rightarrow> u32" where
  "rotr n x = drop_bit n x OR push_bit (32 - n) x"

definition small_sigma0 :: "u32 \<Rightarrow> u32" where
  "small_sigma0 x = rotr 7 x XOR rotr 18 x XOR drop_bit 3 x"

definition small_sigma1 :: "u32 \<Rightarrow> u32" where
  "small_sigma1 x = rotr 17 x XOR rotr 19 x XOR drop_bit 10 x"

definition big_sigma0 :: "u32 \<Rightarrow> u32" where
  "big_sigma0 x = rotr 2 x XOR rotr 13 x XOR rotr 22 x"

definition big_sigma1 :: "u32 \<Rightarrow> u32" where
  "big_sigma1 x = rotr 6 x XOR rotr 11 x XOR rotr 25 x"

definition sha_ch :: "u32 \<Rightarrow> u32 \<Rightarrow> u32 \<Rightarrow> u32" where
  "sha_ch x y z = (x AND y) XOR (NOT x AND z)"

definition sha_maj :: "u32 \<Rightarrow> u32 \<Rightarrow> u32 \<Rightarrow> u32" where
  "sha_maj x y z = (x AND y) XOR (x AND z) XOR (y AND z)"

text \<open>The message schedule, most recent word first, extended \<open>n\<close> times.\<close>

fun sha_schedule :: "nat \<Rightarrow> u32 list \<Rightarrow> u32 list" where
  "sha_schedule 0 ws = rev ws"
| "sha_schedule (Suc n) ws =
     sha_schedule n ((small_sigma1 (ws ! 1) + ws ! 6 + small_sigma0 (ws ! 14) + ws ! 15) # ws)"

fun sha_rounds :: "(u32 \<times> u32) list \<Rightarrow> u32 list \<Rightarrow> u32 list" where
  "sha_rounds ((k, w) # r) [a, b, c, d, e, f, g, h] =
     (let t1 = h + big_sigma1 e + sha_ch e f g + k + w; t2 = big_sigma0 a + sha_maj a b c
      in sha_rounds r [t1 + t2, a, b, c, d + t1, e, f, g])"
| "sha_rounds _ s = s"

fun words_be :: "bytes \<Rightarrow> u32 list" where
  "words_be (a # b # c # d # r) =
     (of_char a * 2 ^ 24 + of_char b * 2 ^ 16 + of_char c * 2 ^ 8 + of_char d) # words_be r"
| "words_be _ = []"

definition bytes_be :: "nat \<Rightarrow> nat \<Rightarrow> bytes" where
  "bytes_be n x = map (\<lambda>i. char_of (x div 256 ^ (n - 1 - i) mod 256)) [0..<n]"

definition sha_pad :: "bytes \<Rightarrow> bytes" where
  "sha_pad m = m @ [CHR 0x80] @ replicate ((119 - length m mod 64) mod 64) (CHR 0x00) @ bytes_be 8 (8 * length m)"

definition sha_block :: "bytes \<Rightarrow> u32 list \<Rightarrow> u32 list" where
  "sha_block b h = map2 (+) h (sha_rounds (zip sha_k (sha_schedule 48 (rev (words_be b)))) h)"

fun sha_blocks :: "nat \<Rightarrow> bytes \<Rightarrow> u32 list \<Rightarrow> u32 list" where
  "sha_blocks 0 m h = h"
| "sha_blocks (Suc n) m h = sha_blocks n (drop 64 m) (sha_block (take 64 m) h)"

definition fips_sha256 :: "bytes \<Rightarrow> bytes" where
  "fips_sha256 m =
     concat (map (\<lambda>w. bytes_be 4 (unat w)) (sha_blocks (length (sha_pad m) div 64) (sha_pad m) sha_h0))"

lemma length_sha_rounds: "length s = 8 \<Longrightarrow> length (sha_rounds kws s) = 8"
  by (induction kws s rule: sha_rounds.induct) (simp_all add: Let_def)

lemma length_sha_blocks: "length h = 8 \<Longrightarrow> length (sha_blocks n m h) = 8"
  by (induction n m h rule: sha_blocks.induct) (simp_all add: sha_block_def length_sha_rounds)

lemma length_fips_sha256: "length (fips_sha256 m) = 32"
proof -
  have "length (concat (map (\<lambda>w :: u32. bytes_be 4 (unat w)) ws)) = 4 * length ws" for ws
    by (induction ws) (simp_all add: bytes_be_def)
  then show ?thesis by (simp add: fips_sha256_def length_sha_blocks sha_h0_def)
qed

section \<open>Base64\<close>

definition b64_alphabet_std :: string where
  "b64_alphabet_std = map char_of ([65..<91] @ [97..<123] @ [48..<58] @ [43, 47 :: nat])"

definition b64_alphabet_url :: string where
  "b64_alphabet_url = map char_of ([65..<91] @ [97..<123] @ [48..<58] @ [45, 95 :: nat])"

fun sextets :: "nat list \<Rightarrow> nat list" where
  "sextets (a # b # c # r) = [a div 4, a mod 4 * 16 + b div 16, b mod 16 * 4 + c div 64, c mod 64] @ sextets r"
| "sextets [a, b] = [a div 4, a mod 4 * 16 + b div 16, b mod 16 * 4]"
| "sextets [a] = [a div 4, a mod 4 * 16]"
| "sextets [] = []"

definition byte_vals :: "bytes \<Rightarrow> nat list" where
  "byte_vals bs = map of_char bs"

definition rfc_b64url_encode :: "bytes \<Rightarrow> string" where
  "rfc_b64url_encode bs = map (\<lambda>i. b64_alphabet_url ! i) (sextets (byte_vals bs))"

definition b64_padding :: "nat \<Rightarrow> string" where
  "b64_padding n = (if n mod 3 = 1 then ''=='' else if n mod 3 = 2 then ''='' else [])"

definition rfc_b64_encode :: "bytes \<Rightarrow> string" where
  "rfc_b64_encode bs =
     map (\<lambda>i. b64_alphabet_std ! i) (sextets (byte_vals bs)) @ b64_padding (length bs)"

fun unsextets :: "nat list \<Rightarrow> nat list" where
  "unsextets (a # b # c # d # r) = [a * 4 + b div 16, b mod 16 * 16 + c div 4, c mod 4 * 64 + d] @ unsextets r"
| "unsextets [a, b, c] = [a * 4 + b div 16, b mod 16 * 16 + c div 4]"
| "unsextets [a, b] = [a * 4 + b div 16]"
| "unsextets _ = []"

fun b64_index :: "char \<Rightarrow> string \<Rightarrow> nat option" where
  "b64_index c [] = None"
| "b64_index c (x # xs) = (if c = x then Some 0 else map_option Suc (b64_index c xs))"

text \<open>Canonical decoding: the text must be what the encoder produces for the decoded bytes.\<close>

definition rfc_b64_decode :: "string \<Rightarrow> bytes option" where
  "rfc_b64_decode s =
     (let cs = takeWhile (\<lambda>c. c \<noteq> CHR ''='') s;
          bs = map char_of (unsextets (map (\<lambda>c. the (b64_index c b64_alphabet_std)) cs))
      in if list_all (\<lambda>c. b64_index c b64_alphabet_std \<noteq> None) cs \<and> rfc_b64_encode bs = s then Some bs else None)"

lemma byte_vals_bound: "x \<in> set (byte_vals bs) \<Longrightarrow> x < 256"
proof -
  have "(of_char c :: nat) mod 256 < 256" for c by (rule mod_less_divisor) simp
  then show "x \<in> set (byte_vals bs) \<Longrightarrow> x < 256" by (auto simp: byte_vals_def)
qed

lemma sextets_bound: "(\<forall>x \<in> set xs. x < 256) \<Longrightarrow> y \<in> set (sextets xs) \<Longrightarrow> y < 64"
  by (induction xs rule: sextets.induct) auto

lemma unsextets_sextets: "(\<forall>x \<in> set xs. x < 256) \<Longrightarrow> unsextets (sextets xs) = xs"
proof (induction xs rule: sextets.induct)
  case (1 a b c r)
  have "(a mod 4 * 16 + b div 16) div 16 = a mod 4" "(a mod 4 * 16 + b div 16) mod 16 = b div 16"
    "(b mod 16 * 4 + c div 64) div 4 = b mod 16" "(b mod 16 * 4 + c div 64) mod 4 = c div 64"
    using "1.prems" by auto
  then show ?case using "1" by simp
qed auto

lemma length_sextets_32: "length xs = 32 \<Longrightarrow> length (sextets xs) = 43"
proof -
  have "length (sextets xs) = (4 * length xs + 2) div 3" for xs
    by (induction xs rule: sextets.induct) auto
  then show "length xs = 32 \<Longrightarrow> length (sextets xs) = 43" by simp
qed

lemma char_of_inj: "a < 256 \<Longrightarrow> b < 256 \<Longrightarrow> char_of (a :: nat) = char_of b \<Longrightarrow> a = b"
  using of_char_of [of a] of_char_of [of b] by simp

lemma b64_index_nth: "distinct xs \<Longrightarrow> i < length xs \<Longrightarrow> b64_index (xs ! i) xs = Some i"
  by (induction xs arbitrary: i) (auto simp: nth_Cons split: nat.splits)

lemma b64_alphabets:
  "\<forall>i \<in> {..<64}. b64url_byte (b64_alphabet_url ! i)"
  "\<forall>i \<in> {..<64}. b64_byte (b64_alphabet_std ! i) \<and> b64_alphabet_std ! i \<noteq> CHR ''=''
     \<and> b64_index (b64_alphabet_std ! i) b64_alphabet_std = Some i"
proof -
  have length: "length b64_alphabet_url = 64" "length b64_alphabet_std = 64"
    by (simp_all add: b64_alphabet_url_def b64_alphabet_std_def)
  have "list_all b64url_byte b64_alphabet_url"
    "list_all (\<lambda>c. b64_byte c \<and> c \<noteq> CHR ''='') b64_alphabet_std"
    by code_simp+
  moreover have "distinct b64_alphabet_std"
    unfolding b64_alphabet_std_def distinct_map by (auto intro!: inj_onI char_of_inj)
  ultimately show "\<forall>i \<in> {..<64}. b64url_byte (b64_alphabet_url ! i)"
    "\<forall>i \<in> {..<64}. b64_byte (b64_alphabet_std ! i) \<and> b64_alphabet_std ! i \<noteq> CHR ''=''
     \<and> b64_index (b64_alphabet_std ! i) b64_alphabet_std = Some i"
    using length by (auto simp: list_all_length b64_index_nth)
qed

lemma rfc_b64_roundtrip: "rfc_b64_decode (rfc_b64_encode bs) = Some bs"
proof -
  define xs where "xs = sextets (byte_vals bs)"
  define cs where "cs = map (\<lambda>i. b64_alphabet_std ! i) xs"
  have bound: "\<forall>y \<in> set xs. y < 64"
    using sextets_bound byte_vals_bound unfolding xs_def by blast
  have "takeWhile (\<lambda>c. c \<noteq> CHR ''='') (cs @ b64_padding (length bs)) = cs"
    using bound b64_alphabets(2)
    by (subst takeWhile_append2) (auto simp: cs_def b64_padding_def)
  moreover have "list_all (\<lambda>c. b64_index c b64_alphabet_std \<noteq> None) cs"
    using bound b64_alphabets(2) by (auto simp: cs_def list_all_iff)
  moreover have "map (\<lambda>c. the (b64_index c b64_alphabet_std)) cs = xs"
    using bound b64_alphabets(2) by (auto simp: cs_def intro!: map_idI)
  moreover have decoded: "map char_of (unsextets xs) = bs"
    using unsextets_sextets [of "byte_vals bs"] byte_vals_bound [of _ bs]
    by (simp add: xs_def) (simp add: byte_vals_def map_idI)
  moreover have "length (unsextets xs) = length bs"
    using arg_cong [OF decoded, of length] by simp
  ultimately show ?thesis
    by (simp add: rfc_b64_decode_def rfc_b64_encode_def xs_def [symmetric] cs_def [symmetric] Let_def)
qed

lemma rfc_b64url_inj: "rfc_b64url_encode as = rfc_b64url_encode bs \<Longrightarrow> as = bs"
proof -
  assume eq: "rfc_b64url_encode as = rfc_b64url_encode bs"
  have "distinct b64_alphabet_url"
    unfolding b64_alphabet_url_def distinct_map by (auto intro!: inj_onI char_of_inj)
  moreover have "length b64_alphabet_url = 64" by (simp add: b64_alphabet_url_def)
  ultimately have inj: "inj_on (\<lambda>i. b64_alphabet_url ! i) {..<64}" by (auto intro: inj_on_nth)
  have "set (sextets (byte_vals cs)) \<subseteq> {..<64}" for cs using sextets_bound byte_vals_bound by blast
  with eq have "sextets (byte_vals as) = sextets (byte_vals bs)"
    unfolding rfc_b64url_encode_def using inj_on_map_eq_map [of "\<lambda>i. b64_alphabet_url ! i"] inj by (meson inj_on_subset Un_least)
  then have "byte_vals as = byte_vals bs" by (metis byte_vals_bound unsextets_sextets)
  then show ?thesis by (simp add: byte_vals_def inj_map_eq_map inj_def)
qed

section \<open>The instance\<close>

definition ref_crypto :: crypto where
  "ref_crypto = \<lparr>sha256 = fips_sha256, b64url_encode = rfc_b64url_encode, b64_encode = rfc_b64_encode,
     b64_decode = rfc_b64_decode, ct_eq = (=)\<rparr>"

interpretation reference: crypto_lib ref_crypto
proof (unfold_locales, goal_cases)
  case (1 m)
  show ?case by (simp add: ref_crypto_def length_fips_sha256)
next
  case (2 bs)
  then show ?case by (simp add: ref_crypto_def rfc_b64url_encode_def length_sextets_32 byte_vals_def)
next
  case (3 bs)
  show ?case
    using b64_alphabets(1) sextets_bound [of "byte_vals bs"] byte_vals_bound [of _ bs]
    by (auto simp: ref_crypto_def rfc_b64url_encode_def list_all_iff)
next
  case (4 bs)
  have "list_all b64_byte (b64_padding n)" for n by (simp add: b64_padding_def b64_byte_def)
  then show ?case
    using b64_alphabets(2) sextets_bound [of "byte_vals bs"] byte_vals_bound [of _ bs]
    by (auto simp: ref_crypto_def rfc_b64_encode_def list_all_iff)
next
  case (5 bs)
  show ?case by (simp add: ref_crypto_def rfc_b64_roundtrip)
next
  case (6 a b)
  show ?case by (simp add: ref_crypto_def)
qed

end
