(* ===== verification/Postgres_Properties.thy ===== *)
theory Postgres_Properties
  imports Postgres Crypto_Reference
begin

text \<open>
  The properties of \<open>postgres.rs\<close> for every database that satisfies \<open>postgres_db\<close>.
\<close>

section \<open>Lemmas\<close>

text \<open>Other clients commit rows of their own but leave open transactions alone.\<close>

definition isolated :: "('d \<Rightarrow> nat \<rightharpoonup> 'x) \<Rightarrow> 'd pg_env \<Rightarrow> bool" where
  "isolated staged E \<longleftrightarrow> (\<forall>n d t. staged d t \<noteq> None \<longrightarrow> staged (pg_interference E n d) t = staged d t)"

definition alone :: "'d pg_env \<Rightarrow> bool" where
  "alone E \<longleftrightarrow> (\<forall>n. pg_interference E n = id)"

lemma alone_arrival: "alone E \<Longrightarrow> pg_arrival E p = database p"
  by (simp add: alone_def pg_arrival_def)

lemma pg_quiet_alone: "pg_quiet E \<Longrightarrow> alone E"
  by (simp add: pg_quiet_def alone_def)

lemma restrict_columns [simp]: "x \<in> A \<Longrightarrow> (m |` A) x = m x"
  by (simp add: restrict_map_def)

lemma linked_user_Ok: "linked_user found = Some (Ok u) \<longleftrightarrow> found = Some (u, Some True)"
  by (cases found rule: linked_user.cases) auto

lemma linked_user_None: "linked_user found = None \<longleftrightarrow> found = None"
  by (cases found rule: linked_user.cases) auto

context postgres_db
begin

lemma read_identity_delivered:
  assumes "pg E = P" "pg_network E (statements p) = Delivered"
  shows "read_external_identity_with_user E provider subject p =
    (Ok (map_option (\<lambda>u. (u, users (committed (pg_arrival E p)) u)) (identities (committed (pg_arrival E p)) (provider, subject))),
     \<lparr>database = pg_arrival E p, statements = Suc (statements p)\<rparr>)"
  using assms
  by (auto simp: read_external_identity_with_user_def pg_trip_def Let_def fetch_optional_def q_identities
      identity_columns_def split: option.splits)

lemma read_identity_Ok:
  assumes "pg E = P" "read_external_identity_with_user E provider subject p = (Ok found, p')"
  shows "database p' = pg_arrival E p
    \<and> found = map_option (\<lambda>u. (u, users (committed (pg_arrival E p)) u)) (identities (committed (pg_arrival E p)) (provider, subject))"
proof -
  have "pg_network E (statements p) = Delivered"
    using assms(2) by (auto simp: read_external_identity_with_user_def split: prod.splits sum.splits option.splits
        dest: pg_trip_Ok(2))
  from read_identity_delivered [OF assms(1) this] assms(2) show ?thesis by auto
qed

lemma linked_Ok:
  assumes "pg E = P" "read_external_identity_with_user E provider subject p = (Ok found, p')"
    and "linked_user found = Some (Ok u)"
  shows "identities (committed (database p')) (provider, subject) = Some u \<and> users (committed (database p')) u = Some True"
proof -
  have "found = Some (u, Some True)" using assms(3) by (simp add: linked_user_Ok)
  with read_identity_Ok [OF assms(1,2)] show ?thesis
    by (cases "identities (committed (pg_arrival E p)) (provider, subject)") auto
qed

lemma trip_keeps:
  assumes "alone E" "\<And>d. committed (snd (stmt d)) = committed d"
  shows "committed (database (snd (pg_trip E stmt p))) = committed (database p)"
  using pg_trip_database [of E stmt p] assms by (auto simp: alone_arrival)

lemma read_keeps:
  assumes "alone E"
  shows "committed (database (snd (read_external_identity_with_user E provider subject p))) = committed (database p)"
proof -
  have "snd (read_external_identity_with_user E provider subject p) =
      snd (pg_trip E (fetch_optional (\<lambda>d. q_identities (pg E) d provider subject)) p)"
    by (auto simp: read_external_identity_with_user_def split: prod.splits sum.splits option.splits)
  then show ?thesis by (simp add: trip_keeps [OF assms] fetch_optional_def)
qed

lemma authenticate_delivered:
  assumes "crypto_lib C" "pg E = P" "pg_network E (statements p) = Delivered"
  shows "authenticate_service C E service_id secret p =
    ((case services (committed (pg_arrival E p)) service_id of
        None \<Rightarrow> Err ServiceNotFound
      | Some r \<Rightarrow>
          if \<not> row_is_enabled r then Err ServiceDisabled
          else if length (row_service_secret_sha256 r) \<noteq> 32 then Err StoredSecretInvalidLength
          else if row_service_secret_sha256 r \<noteq> sha256 C secret then Err ServiceSecretMismatch
          else Ok \<lparr>asv_service_id = service_id, asv_login_callback_uri = row_login_callback_uri r,
                   asv_logout_return_uri = row_logout_return_uri r\<rparr>),
     \<lparr>database = pg_arrival E p, statements = Suc (statements p)\<rparr>)"
  using assms(2,3)
  by (auto simp: authenticate_service_def read_registered_service_def pg_trip_def Let_def fetch_optional_def
      q_services service_columns_def stored_secret_digest_def sha256_digest_eq_def
      sha256_digest_def crypto_lib.ct_eq_iff [OF assms(1)] split: option.splits)

lemma authenticate_Ok:
  assumes "crypto_lib C" "pg E = P" "authenticate_service C E sid secret p = (Ok svc, p')"
  shows "\<exists>r. services (committed (pg_arrival E p)) sid = Some r \<and> row_is_enabled r
    \<and> row_service_secret_sha256 r = sha256 C secret"
proof -
  have "pg_network E (statements p) = Delivered"
    using assms(3) by (auto simp: authenticate_service_def read_registered_service_def
        split: prod.splits sum.splits option.splits dest: pg_trip_Ok(2))
  from authenticate_delivered [OF assms(1,2) this, of sid secret] assms(3) show ?thesis
    by (auto split: option.splits if_splits)
qed

lemma uris_delivered:
  assumes "pg E = P" "pg_network E (statements p) = Delivered"
  shows "lookup_login_callback_uri E service_id p =
      ((case services (committed (pg_arrival E p)) service_id of
         None \<Rightarrow> Err ServiceNotFound
       | Some r \<Rightarrow> if row_is_enabled r then Ok (row_login_callback_uri r) else Err ServiceDisabled),
       \<lparr>database = pg_arrival E p, statements = Suc (statements p)\<rparr>)"
    "lookup_logout_return_uri E service_id p =
      ((case services (committed (pg_arrival E p)) service_id of
         None \<Rightarrow> Err ServiceNotFound
       | Some r \<Rightarrow> if row_is_enabled r then Ok (row_logout_return_uri r) else Err ServiceDisabled),
       \<lparr>database = pg_arrival E p, statements = Suc (statements p)\<rparr>)"
  using assms
  by (auto simp: lookup_login_callback_uri_def lookup_logout_return_uri_def pg_trip_def Let_def fetch_optional_def
      q_services service_columns_def split: option.splits)

lemma uris_Ok:
  assumes "pg E = P"
  shows "lookup_login_callback_uri E sid p = (Ok uri, p') \<Longrightarrow> \<exists>r. services (committed (pg_arrival E p)) sid = Some r
      \<and> row_is_enabled r \<and> row_login_callback_uri r = uri \<and> database p' = pg_arrival E p"
    "lookup_logout_return_uri E sid p = (Ok uri, p') \<Longrightarrow> \<exists>r. services (committed (pg_arrival E p)) sid = Some r
      \<and> row_is_enabled r \<and> row_logout_return_uri r = uri \<and> database p' = pg_arrival E p"
proof -
  have "lookup_login_callback_uri E sid p = (Ok uri, p') \<Longrightarrow> pg_network E (statements p) = Delivered"
    "lookup_logout_return_uri E sid p = (Ok uri, p') \<Longrightarrow> pg_network E (statements p) = Delivered"
    by (auto simp: lookup_login_callback_uri_def lookup_logout_return_uri_def
        split: prod.splits sum.splits option.splits dest: pg_trip_Ok(2))
  note delivered = this
  show "\<exists>r. services (committed (pg_arrival E p)) sid = Some r
      \<and> row_is_enabled r \<and> row_login_callback_uri r = uri \<and> database p' = pg_arrival E p"
    if "lookup_login_callback_uri E sid p = (Ok uri, p')"
    using that uris_delivered(1) [OF assms delivered(1) [OF that], of sid] by (auto split: option.splits if_splits)
  show "\<exists>r. services (committed (pg_arrival E p)) sid = Some r
      \<and> row_is_enabled r \<and> row_logout_return_uri r = uri \<and> database p' = pg_arrival E p"
    if "lookup_logout_return_uri E sid p = (Ok uri, p')"
    using that uris_delivered(2) [OF assms delivered(2) [OF that], of sid] by (auto split: option.splits if_splits)
qed

lemma user_enabled_delivered:
  assumes "pg E = P" "pg_network E (statements p) = Delivered"
  shows "read_internal_user_enabled E u p = (Ok (users (committed (pg_arrival E p)) u),
     \<lparr>database = pg_arrival E p, statements = Suc (statements p)\<rparr>)"
  using assms
  by (auto simp: read_internal_user_enabled_def pg_trip_def Let_def fetch_optional_def q_users split: option.splits)

lemma user_enabled_Ok:
  assumes "pg E = P" "read_internal_user_enabled E u p = (Ok x, p')"
  shows "users (committed (pg_arrival E p)) u = x"
proof -
  have "pg_network E (statements p) = Delivered"
    using assms(2) by (auto simp: read_internal_user_enabled_def split: prod.splits sum.splits option.splits
        dest: pg_trip_Ok(2))
  from user_enabled_delivered [OF assms(1) this, of u] assms(2) show ?thesis by auto
qed

lemma staged_trip:
  assumes "isolated staged E" "staged (database p) t = Some x" "pg_trip E stmt p = (Ok a, p')"
  shows "staged (pg_arrival E p) t = Some x \<and> stmt (pg_arrival E p) = (Ok a, database p')"
  using assms pg_trip_Ok(1) [OF assms(3)] by (auto simp: isolated_def pg_arrival_def)

lemma finish_sound:
  assumes "pg E = P" "isolated staged E" "inserted = Ok () \<Longrightarrow> staged (database p) t = Some (us, ids)"
    and "us u = Some True" "ids (provider, subject) = Some u"
    and "finish_identity E provider subject t u inserted p = (Ok v, p')"
  shows "identities (committed (database p')) (provider, subject) = Some v \<and> users (committed (database p')) v = Some True"
proof (cases inserted)
  case (Inr unit)
  then obtain p1 where p1: "pg_trip E (plain (tx_commit P t)) p = (Ok (), p1)" "p' = p1" "v = u"
    using assms(1,6) by (auto simp: finish_identity_def split: prod.splits sum.splits)
  have "staged (pg_arrival E p) t = Some (us, ids)" "database p' = tx_commit P t (pg_arrival E p)"
    using staged_trip [OF assms(2) assms(3) p1(1)] p1(2) Inr by (auto simp: plain_def)
  then show ?thesis using commit assms(4,5) p1(3) by (simp add: map_add_Some_iff)
next
  case (Inl e)
  then obtain p1 found where "read_external_identity_with_user E provider subject p1 = (Ok found, p')"
    "linked_user found = Some (Ok v)"
    using assms(6) by (auto simp: finish_identity_def split: prod.splits sum.splits if_splits option.splits)
  then show ?thesis by (rule linked_Ok [OF assms(1)])
qed

lemma create_sound:
  assumes "pg E = P" "isolated staged E"
    and "create_external_identity E provider subject p = (Ok v, p')"
  shows "identities (committed (database p')) (provider, subject) = Some v \<and> users (committed (database p')) v = Some True"
proof -
  obtain t p1 row p2 u inserted p3 where
    p1: "pg_trip E (\<lambda>d. case tx_begin P d of (t, d') \<Rightarrow> (Ok t, d')) p = (Ok t, p1)" and
    p2: "pg_trip E (tx_insert_user P t) p1 = (Ok row, p2)" and
    u: "as_int (row ''internal_user_id'') = Some u" and
    p3: "pg_trip E (tx_insert_identity P t provider subject u) p2 = (inserted, p3)" and
    fin: "finish_identity E provider subject t u inserted p3 = (Ok v, p')"
    using assms(1,3) by (auto simp: create_external_identity_def split: prod.splits sum.splits option.splits)
  have s1: "staged (database p1) t = Some (Map.empty, Map.empty)"
    using pg_trip_Ok(1) [OF p1] begin_tx by (auto split: prod.splits)
  have s2: "staged (database p2) t = Some ([u \<mapsto> True], Map.empty)"
    using staged_trip [OF assms(2) s1 p2] insert_user_Ok u by fastforce
  have s3: "inserted = Ok () \<Longrightarrow> staged (database p3) t = Some ([u \<mapsto> True], [(provider, subject) \<mapsto> u])"
    using staged_trip [OF assms(2) s2] p3 insert_identity_Ok by fastforce
  show ?thesis by (rule finish_sound [OF assms(1,2) s3 _ _ fin]) simp_all
qed

lemma resolve_sound:
  assumes "pg E = P" "isolated staged E"
    and "resolve_external_identity E provider subject p = (Ok v, p')"
  shows "identities (committed (database p')) (provider, subject) = Some v \<and> users (committed (database p')) v = Some True"
proof -
  obtain found p1 where found: "read_external_identity_with_user E provider subject p = (Ok found, p1)"
    using assms(3) by (auto simp: resolve_external_identity_def split: prod.splits sum.splits)
  show ?thesis
  proof (cases "linked_user found")
    case None
    with found assms(3) have "create_external_identity E provider subject p1 = (Ok v, p')"
      by (simp add: resolve_external_identity_def)
    then show ?thesis by (rule create_sound [OF assms(1,2)])
  next
    case (Some r)
    with found assms(3) have "r = Ok v" "p1 = p'" by (simp_all add: resolve_external_identity_def)
    with Some found show ?thesis by (intro linked_Ok [OF assms(1)]) simp_all
  qed
qed

text \<open>
  With no other client, whatever is lost on the network: a new user and its identity are
  committed together or not at all.
\<close>

lemma finish_atomic:
  assumes "pg E = P" "alone E"
    and "inserted = Ok () \<Longrightarrow> staged (database p) t = Some ([u \<mapsto> True], [(provider, subject) \<mapsto> u])"
    and "finish_identity E provider subject t u inserted p = (res, p')"
  shows "(committed (database p') = committed (database p) \<and> (\<forall>v. res \<noteq> Ok v \<or> identities (committed (database p)) (provider, subject) = Some v))
    \<or> (inserted = Ok () \<and> (res = Ok u \<or> res = Err DatabaseFailure) \<and> committed (database p') = (committed (database p))\<lparr>
         users := (users (committed (database p)))(u \<mapsto> True),
         identities := (identities (committed (database p)))((provider, subject) \<mapsto> u)\<rparr>)"
proof (cases inserted)
  case (Inr unit)
  then have stg: "staged (database p) t = Some ([u \<mapsto> True], [(provider, subject) \<mapsto> u])" using assms(3) by simp
  have "database p' = pg_arrival E p \<and> res = Err DatabaseFailure
      \<or> database p' = tx_commit P t (pg_arrival E p) \<and> (res = Ok u \<or> res = Err DatabaseFailure)"
    using assms(1,4) Inr by (auto simp: finish_identity_def plain_def pg_trip_def Let_def split: fault.splits)
  then show ?thesis using commit [OF stg] Inr by (auto simp: alone_arrival [OF assms(2)])
next
  case (Inl e)
  obtain r p1 where p1: "pg_trip E (plain (tx_rollback P t)) p = (r, p1)"
    by (cases "pg_trip E (plain (tx_rollback P t)) p")
  have c1: "committed (database p1) = committed (database p)"
    using trip_keeps [OF assms(2), of "plain (tx_rollback P t)" p] p1 by (simp add: plain_def rollback)
  obtain q p2 where p2: "read_external_identity_with_user E provider subject p1 = (q, p2)"
    by (cases "read_external_identity_with_user E provider subject p1")
  have c2: "committed (database p2) = committed (database p)"
    using read_keeps [OF assms(2), of provider subject p1] p2 c1 by simp
  have "identities (committed (database p2)) (provider, subject) = Some v"
    if "q = Ok found" "linked_user found = Some (Ok v)" for found v
    using linked_Ok [OF assms(1) p2 [unfolded that(1)] that(2)] by simp
  then show ?thesis
    using assms(1,4) Inl p1 p2 c1 c2
    by (auto simp: finish_identity_def split: sum.splits if_splits option.splits)
qed

lemma create_atomic:
  assumes "pg E = P" "alone E" "identities (committed (database p)) (provider, subject) = None"
    and "create_external_identity E provider subject p = (res, p')"
  shows "(committed (database p') = committed (database p) \<and> (\<forall>v. res \<noteq> Ok v))
    \<or> (\<exists>u. users (committed (database p)) u = None \<and> (res = Ok u \<or> res = Err DatabaseFailure)
         \<and> committed (database p') = (committed (database p))\<lparr>
         users := (users (committed (database p)))(u \<mapsto> True),
         identities := (identities (committed (database p)))((provider, subject) \<mapsto> u)\<rparr>)"
proof -
  have iso: "isolated staged E" using assms(2) by (simp add: alone_def isolated_def)
  let ?start = "\<lambda>d. case tx_begin P d of (t, d') \<Rightarrow> (Ok t, d')"
  obtain b p1 where p1: "pg_trip E ?start p = (b, p1)" by (cases "pg_trip E ?start p")
  have c1: "committed (database p1) = committed (database p)"
    using trip_keeps [OF assms(2), of ?start p] begin_tx p1 by (auto split: prod.splits)
  show ?thesis
  proof (cases b)
    case (Inl e)
    with p1 c1 assms(1,4) show ?thesis by (auto simp: create_external_identity_def)
  next
    case (Inr t)
    obtain r p2 where p2: "pg_trip E (tx_insert_user P t) p1 = (r, p2)" by (cases "pg_trip E (tx_insert_user P t) p1")
    have c2: "committed (database p2) = committed (database p)"
      using trip_keeps [OF assms(2), of "tx_insert_user P t" p1] insert_user_keeps p2 c1 by simp
    have rb: "committed (database (snd (pg_trip E (plain (tx_rollback P t)) p2))) = committed (database p)"
      using trip_keeps [OF assms(2), of "plain (tx_rollback P t)" p2] by (simp add: plain_def rollback c2)
    show ?thesis
    proof (cases "\<exists>row u. r = Ok row \<and> as_int (row ''internal_user_id'') = Some u")
      case False
      with p1 p2 Inr assms(1,4) rb show ?thesis
        by (cases r) (auto simp: create_external_identity_def split: option.splits)
    next
      case True
      then obtain row u where row: "r = Ok row" "as_int (row ''internal_user_id'') = Some u" by blast
      obtain inserted p3 where p3: "pg_trip E (tx_insert_identity P t provider subject u) p2 = (inserted, p3)"
        by (cases "pg_trip E (tx_insert_identity P t provider subject u) p2")
      have c3: "committed (database p3) = committed (database p)"
        using trip_keeps [OF assms(2), of "tx_insert_identity P t provider subject u" p2] insert_identity_keeps p3 c2 by simp
      have s1: "staged (database p1) t = Some (Map.empty, Map.empty)"
        using pg_trip_Ok(1) [OF p1 [unfolded Inr]] begin_tx by (auto split: prod.splits)
      have s2: "staged (database p2) t = Some ([u \<mapsto> True], Map.empty) \<and> users (committed (database p1)) u = None"
        using staged_trip [OF iso s1 p2 [unfolded row(1)]] insert_user_Ok row(2) alone_arrival [OF assms(2)] by fastforce
      have s3: "inserted = Ok () \<Longrightarrow> staged (database p3) t = Some ([u \<mapsto> True], [(provider, subject) \<mapsto> u])"
        using staged_trip [OF iso conjunct1 [OF s2]] p3 insert_identity_Ok by fastforce
      have "finish_identity E provider subject t u inserted p3 = (res, p')"
        using assms(1,4) p1 p2 p3 Inr row by (simp add: create_external_identity_def)
      from finish_atomic [OF assms(1,2) s3 this] show ?thesis using c1 c3 s2 assms(3) by auto
    qed
  qed
qed

end

section \<open>Sample database\<close>

definition sample_service :: service_row where
  "sample_service = \<lparr>row_is_enabled = True, row_login_callback_uri = ''https://service.example/auth/callback'',
     row_logout_return_uri = ''https://service.example/logout'',
     row_service_secret_sha256 = sha256 ref_crypto ''service-secret''\<rparr>"

definition sample_db :: mem_pg_state where
  "sample_db = \<lparr>pg_tables = \<lparr>services = [''service'' \<mapsto> sample_service], users = [42 \<mapsto> True],
     identities = [(''google'', ''subject-42'') \<mapsto> 42]\<rparr>, pg_staged = Map.empty, pg_next_tx = 0, pg_next_user = 43\<rparr>"

definition sample_pool :: "mem_pg_state pool" where
  "sample_pool = \<lparr>database = sample_db, statements = 0\<rparr>"

definition sample_pg_env :: "mem_pg_state pg_env" where
  "sample_pg_env = \<lparr>pg = mem_pg, pg_interference = (\<lambda>_ d. d), pg_network = (\<lambda>_. Delivered)\<rparr>"

text \<open>Another client links the identity to a user of its own just before the fourth statement.\<close>

definition racing_pg_env :: "mem_pg_state pg_env" where
  "racing_pg_env = sample_pg_env\<lparr>pg_interference := (\<lambda>n d. if n = 3 then
     d\<lparr>pg_tables := (pg_tables d)\<lparr>users := (users (pg_tables d))(77 \<mapsto> True),
        identities := (identities (pg_tables d))((''google'', ''new-subject'') \<mapsto> 77)\<rparr>\<rparr> else d)\<rparr>"

lemmas sample_pg_defs = sample_service_def sample_db_def sample_pool_def sample_pg_env_def racing_pg_env_def

lemma sample_pg_simps [simp]: "pg sample_pg_env = mem_pg" "pg racing_pg_env = mem_pg"
  "pg_network sample_pg_env n = Delivered" "pg_arrival sample_pg_env q = database q"
  "database sample_pool = sample_db" "alone sample_pg_env" "pg_quiet sample_pg_env"
  by (simp_all add: sample_pg_defs pg_arrival_def alone_def pg_quiet_def fun_eq_iff)

lemma sample_tables [simp]:
  "services (pg_tables sample_db) ''service'' = Some sample_service"
  "identities (pg_tables sample_db) (''google'', ''subject-42'') = Some 42"
  "identities (pg_tables sample_db) (''google'', ''new-subject'') = None"
  "users (pg_tables sample_db) 42 = Some True"
  by (simp_all add: sample_db_def)

section \<open>Properties\<close>



text \<open>
  The callback and return addresses handed out are the registered ones of an enabled
  service; a service that is unknown or disabled gets its own error.
\<close>

theorem registered_uris_spec:
  assumes "postgres_db P committed staged" "pg E = P" "pg_network E (statements p) = Delivered"
  shows "fst (lookup_login_callback_uri E service_id p) =
      (case services (committed (pg_arrival E p)) service_id of
         None \<Rightarrow> Err ServiceNotFound
       | Some r \<Rightarrow> if row_is_enabled r then Ok (row_login_callback_uri r) else Err ServiceDisabled)
    \<and> fst (lookup_logout_return_uri E service_id p) =
      (case services (committed (pg_arrival E p)) service_id of
         None \<Rightarrow> Err ServiceNotFound
       | Some r \<Rightarrow> if row_is_enabled r then Ok (row_logout_return_uri r) else Err ServiceDisabled)"
  by (simp add: postgres_db.uris_delivered [OF assms])

theorem registered_uris_spec_witness:
  "fst (lookup_login_callback_uri sample_pg_env ''service'' sample_pool) = Ok ''https://service.example/auth/callback''
   \<and> fst (lookup_logout_return_uri sample_pg_env ''service'' sample_pool) = Ok ''https://service.example/logout''"
  using registered_uris_spec [OF mem_db.postgres_db_axioms sample_pg_simps(1,3),
      where p = sample_pool and service_id = "''service''"]
  by (simp add: sample_service_def)

text \<open>
  C19: when \<open>resolve_external_identity\<close> answers with a user, that identity is committed as
  linked to that user and the user is enabled, whatever other clients committed meanwhile (in
  particular when another login of the same identity won the race for the primary key).
\<close>

theorem resolve_external_identity_sound:
  assumes "postgres_db P committed staged" "pg E = P" "isolated staged E"
    and "resolve_external_identity E provider subject p = (Ok u, p')"
  shows "identities (committed (database p')) (provider, subject) = Some u
    \<and> users (committed (database p')) u = Some True"
  using assms by (rule postgres_db.resolve_sound)

lemma race_run:
  "\<exists>p'. resolve_external_identity racing_pg_env ''google'' ''new-subject'' sample_pool = (Ok 77, p')"
  by (simp add: resolve_external_identity_def read_external_identity_with_user_def create_external_identity_def
      finish_identity_def pg_trip_def pg_arrival_def sample_pg_defs mem_pg_def fetch_optional_def plain_def
      mem_insert_user_def mem_insert_identity_def identity_columns_def Let_def)

theorem resolve_external_identity_sound_witness:
  "\<exists>p'. resolve_external_identity racing_pg_env ''google'' ''new-subject'' sample_pool = (Ok 77, p')
    \<and> identities (pg_tables (database p')) (''google'', ''new-subject'') = Some 77"
proof -
  obtain p' where p': "resolve_external_identity racing_pg_env ''google'' ''new-subject'' sample_pool = (Ok 77, p')"
    using race_run by blast
  have "isolated pg_staged racing_pg_env" by (simp add: isolated_def sample_pg_defs)
  from resolve_external_identity_sound [OF mem_db.postgres_db_axioms sample_pg_simps(2) this p'] p'
  show ?thesis by blast
qed



end
