(* ===== verification/Auth_Handlers.thy ===== *)
theory Auth_Handlers
  imports Auth_Service Redis_Contracts Postgres_Properties
begin

text \<open>
  Reasoning about the handlers: the statuses a handler may answer with, and what a handler that
  runs to its end has done on the way.
\<close>

section \<open>Statuses\<close>

abbreviation stops_with :: "nat set \<Rightarrow> ('w, 'a) step \<Rightarrow> bool" where
  "stops_with S h \<equiv> stops_in (\<lambda>r w'. resp_status r \<in> S) h"

abbreviation answers :: "nat set \<Rightarrow> ('w, response) step \<Rightarrow> bool" where
  "answers S h \<equiv> answers_in (\<lambda>r w'. resp_status r \<in> S) h"

lemma stops_quit [status_intros]: "(\<And>w. P (finish st) w) \<Longrightarrow> stops_in P (quit st)"
  by (simp add: stops_in_def quit_def)

lemma stops_fail [status_intros]: "(\<And>w. P (finish st) w) \<Longrightarrow> stops_in P (fail msg st)"
  by (simp add: stops_in_def fail_def)

section \<open>Running to the end\<close>

lemma never_ok [simp]:
  "quit st w \<noteq> (Inr a, w')" "fail msg st w \<noteq> (Inr a, w')" "early h w \<noteq> (Inr a, w')"
  by (simp_all add: quit_def fail_def early_def split: prod.splits)

lemma on_redis_eq: "on_redis f w = (r, w') \<longleftrightarrow> (\<exists>c. f (conn w) = (r, c) \<and> w' = w\<lparr>conn := c\<rparr>)"
  by (auto simp: on_redis_def split: prod.splits)

lemma on_postgres_eq: "on_postgres f w = (r, w') \<longleftrightarrow> (\<exists>p. f (pool_of w) = (r, p) \<and> w' = w\<lparr>pool_of := p\<rparr>)"
  by (auto simp: on_postgres_def split: prod.splits)

lemma draw_Ok: "draw C E w = (Ok v, w') \<longleftrightarrow>
    (\<exists>bs. rng E (draws w) = Some bs \<and> v = b64url_encode C bs) \<and> w' = w\<lparr>draws := Suc (draws w)\<rparr>"
  by (auto simp: draw_def generate_reference_value_def split: option.splits)

lemma read_clock_Ok: "read_clock E w = (Ok now, w') \<longleftrightarrow>
    unix_seconds (clock E (ticks w)) = Ok now \<and> w' = w\<lparr>ticks := Suc (ticks w)\<rparr>"
  by (auto simp: read_clock_def)

lemma get_connection_Ok: "get_connection E w = (Ok (), w') \<longleftrightarrow> redis_up E (trips (conn w)) \<and> w' = w"
  by (auto simp: get_connection_def)

lemmas step_eqs = on_redis_eq on_postgres_eq draw_Ok read_clock_Ok get_connection_Ok pure_eq

lemma run_handler_end:
  assumes "stops_with S h" "run_handler h w = (r, w')" "resp_status r \<notin> S"
  shows "h w = (Inr r, w')"
  using assms by (cases "h w") (auto simp: run_handler_def stops_in_def split: sum.splits)

section \<open>Exchange\<close>

lemma exchange_statuses: "stops_with {400, 401, 403, 503} (exchange_auth_handoff C E request body)"
  unfolding exchange_auth_handoff_def by (intro status_intros; simp)

lemma exchange_end:
  assumes "exchange_auth_handoff C E request body w = (Inr r, w')"
  obtains sid secret svc p challenge res where
    "validate_fixed_reference_value (hxr_code body) = Ok ()"
    "basic_credentials C request = Some (sid, secret)" "validate_service_id sid = Ok ()"
    "authenticate_service C (postgres_at E) sid secret (pool_of w) = (Ok svc, p)"
    "pkce_s256_challenge C (hxr_code_verifier body) = Ok challenge"
    "exchange_handoff C (redis_at E) (hxr_code body) sid challenge (conn w) = (Ok res, conn w')"
    "w' = w\<lparr>pool_of := p, conn := conn w'\<rparr>"
    "r = json_response 200 (handoff_exchange_response (her_internal_user_id res) (her_authenticated_at res))"
  using assms unfolding exchange_auth_handoff_def
  by (auto simp: hbind_Ok ensure_Ok or_else_Ok step_eqs is_err_iff_not_Ok is_ok_unit_iff split: option.splits if_splits)

section \<open>Logout\<close>

lemma logout_post_statuses: "stops_with {400, 403, 503} (logout_post C E request form)"
  unfolding logout_post_def Let_def by (intro status_intros; simp)

lemma logout_post_end:
  assumes "logout_post C E request form w = (Inr r, w')"
  obtains sref uri where
    "request_cookie (rq_cookies request) AUTH_SESSION_COOKIE_NAME = Some sref"
    "validate_fixed_reference_value sref = Ok ()"
    "validate_fixed_reference_value (lgf_logout_reference form) = Ok ()"
    "validate_fixed_reference_value (lgf_csrf_token form) = Ok ()"
    "complete_common_logout C (redis_at E) (lgf_logout_reference form) sref
       (reference_value_lookup C (lgf_csrf_token form)) (conn w) = (Ok uri, conn w')"
    "w' = w\<lparr>conn := conn w'\<rparr>"
    "r = append_header ''location'' uri (with_cookie build_deleted_common_auth_cookie (finish 303))"
  using assms unfolding logout_post_def Let_def
  by (auto simp: hbind_Ok ensure_Ok or_else_Ok step_eqs is_err_iff_not_Ok is_ok_unit_iff split: option.splits if_splits)

lemma logout_get_statuses: "stops_with {400, 403, 500, 503} (logout_get C E request query)"
  unfolding logout_get_def Let_def by (intro status_intros; simp)

lemma logout_get_end:
  assumes "logout_get C E request query w = (Inr r, w')" "resp_status r = 200"
  obtains uri p sref bs1 bs2 now expires_at where
    "validate_service_id (lgq_service_id query) = Ok ()"
    "lookup_logout_return_uri (postgres_at E) (lgq_service_id query) (pool_of w) = (Ok uri, p)"
    "valid_callback_url (urls E) uri \<noteq> None"
    "request_cookie (rq_cookies request) AUTH_SESSION_COOKIE_NAME = Some sref"
    "rng E (draws w) = Some bs1" "rng E (Suc (draws w)) = Some bs2"
    "unix_seconds (clock E (ticks w)) = Ok now"
    "checked_expires_at now COMMON_LOGOUT_TRANSACTION_TTL_SECONDS = Ok expires_at"
    "write_logout C (redis_at E) (b64url_encode C bs1) \<lparr>lgo_service_id = lgq_service_id query,
       lgo_logout_return_uri = uri, lgo_csrf_lookup = reference_value_lookup C (b64url_encode C bs2),
       lgo_created_at = now, lgo_expires_at = expires_at, lgo_status = Unused\<rparr> now (conn w) = (Ok (), conn w')"
    "resp_body r = Html (logout_page (b64url_encode C bs1) (b64url_encode C bs2))"
  using assms unfolding logout_get_def Let_def
  by (auto simp: hbind_Ok ensure_Ok or_else_Ok step_eqs is_err_iff_not_Ok is_ok_unit_iff split: option.splits if_splits)

section \<open>Google login\<close>

lemma start_google_statuses: "stops_with {503} (start_google_login C E cfg query now)"
  unfolding start_google_login_def Let_def by (intro status_intros; simp)

lemma start_google_end:
  assumes "start_google_login C E cfg query now w = (Inr r, w')"
  obtains bs expires_at where "rng E (draws w) = Some bs"
    "checked_expires_at now EXTERNAL_AUTH_TRANSACTION_TTL_SECONDS = Ok expires_at"
    "write_external C (redis_at E) (b64url_encode C bs) \<lparr>ext_service_id = lq_service_id query,
       ext_service_state = lq_state query, ext_handoff_code_challenge = lq_code_challenge query,
       ext_provider = ''google'', ext_provider_verification_data = '''', ext_created_at = now,
       ext_expires_at = expires_at, ext_status = Waiting\<rparr> now (conn w) = (Ok (), conn w')"
    "w' = w\<lparr>draws := Suc (draws w), conn := conn w'\<rparr>"
    "r = with_header ''location'' (authorize_url E GOOGLE_AUTHORIZATION_URL cfg (b64url_encode C bs)
       [''email'', ''profile'']) (finish 302)"
  using assms unfolding start_google_login_def Let_def
  by (auto simp: hbind_Ok or_else_Ok step_eqs)

lemma callback_claim_statuses: "stops_with {400, 403, 500, 503} (callback_claim C E query)"
  unfolding callback_claim_def by (intro status_intros; simp)

lemma callback_identity_statuses: "stops_with {502} (callback_identity E cfg code)"
  unfolding callback_identity_def by (intro status_intros; simp)

lemma callback_session_statuses: "stops_with {403, 500, 503} (callback_session C E t url i)"
  unfolding callback_session_def Let_def by (intro status_intros; simp)

lemma google_auth_callback_statuses:
  "stops_with {400, 403, 500, 502, 503} (google_auth_callback C E cfg query)"
  unfolding google_auth_callback_def
  by (intro status_intros stops_mono [OF callback_claim_statuses] stops_mono [OF callback_identity_statuses]
      stops_mono [OF callback_session_statuses]) auto

lemma callback_claim_end:
  assumes "callback_claim C E query w = (Inr (t, url), w')"
  obtains c p uri where "validate_fixed_reference_value (cq_state query) = Ok ()"
    "claim_external_callback C (redis_at E) (cq_state query) (conn w) = (Ok t, c)"
    "lookup_login_callback_uri (postgres_at E) (ext_service_id t) (pool_of w) = (Ok uri, p)"
    "valid_callback_url (urls E) uri = Some url" "w' = w\<lparr>conn := c, pool_of := p\<rparr>"
  using assms unfolding callback_claim_def
  by (auto simp: hbind_Ok ensure_Ok or_else_Ok step_eqs is_err_iff_not_Ok is_ok_unit_iff split: option.splits if_splits)

lemma callback_identity_end:
  assumes "callback_identity E cfg code w = (Inr i, w')"
  shows "w' = w \<and> identity_validate i = Ok () \<and> nei_provider i = ''google''"
  using assms unfolding callback_identity_def
  by (auto simp: normalize_google_user_info_def Let_def split: option.splits if_splits sum.splits prod.splits)

lemma callback_session_end:
  assumes "callback_session C E t url i w = (Inr r, w')"
  obtains now u p bs1 bs2 ses_exp hnd_exp where
    "unix_seconds (clock E (ticks w)) = Ok now"
    "resolve_external_identity (postgres_at E) (nei_provider i) (nei_subject i) (pool_of w) = (Ok u, p)"
    "rng E (draws w) = Some bs1" "rng E (Suc (draws w)) = Some bs2"
    "checked_expires_at now COMMON_SESSION_TTL_SECONDS = Ok ses_exp"
    "checked_expires_at now AUTHENTICATION_HANDOFF_TTL_SECONDS = Ok hnd_exp"
    "create_session_and_handoff C (redis_at E) (b64url_encode C bs1)
       \<lparr>ses_internal_user_id = u, ses_authenticated_at = now, ses_created_at = now, ses_expires_at = ses_exp\<rparr>
       (b64url_encode C bs2)
       \<lparr>hnd_service_id = ext_service_id t, hnd_internal_user_id = u,
         hnd_common_session_lookup = reference_value_lookup C (b64url_encode C bs1),
         hnd_code_challenge = ext_handoff_code_challenge t, hnd_authenticated_at = now, hnd_issued_at = now,
         hnd_expires_at = hnd_exp, hnd_status = Unused\<rparr> (conn w) = (Ok (), conn w')"
    "pool_of w' = p"
    "r = with_header ''location'' (url_to_string (urls E) (url_append_pairs (urls E)
           [(''code'', b64url_encode C bs2), (''state'', ext_service_state t)] (url_clear_query (urls E) url)))
         (with_cookie (auth_session_cookie (b64url_encode C bs1)) (finish 302))"
  using assms unfolding callback_session_def Let_def
  by (auto simp: hbind_Ok or_else_Ok step_eqs)

section \<open>Single sign-on\<close>

lemma start_google_answers: "answers {302, 503} (start_google_login C E cfg query now)"
  by (rule answersI) (auto intro: stops_mono [OF start_google_statuses] elim!: start_google_end)

lemma start_google_stops: "stops_with {302, 400, 403, 503} (start_google_login C E cfg query now)"
  by (rule stops_mono [OF start_google_statuses]) simp

lemma login_session_statuses: "stops_with {302, 400, 403, 503} (login_session C E (start_google_login C E cfg query now) sref t)"
  unfolding login_session_def
  by (intro status_intros; (rule answers_mono [OF start_google_answers])?; auto)

lemma login_statuses: "stops_with {302, 400, 403, 503} (login C E cfg request query)"
  unfolding login_def Let_def
  by (intro status_intros start_google_stops login_session_statuses;
      (rule answers_mono [OF start_google_answers])?; auto)

lemma login_session_end:
  assumes "login_session C E g sref now w = (Inr ses, w')"
  obtains c p where "read_session C (redis_at E) sref now (conn w) = (Ok ses, c)"
    "read_internal_user_enabled (postgres_at E) (ses_internal_user_id ses) (pool_of w) = (Ok (Some True), p)"
    "w' = w\<lparr>conn := c, pool_of := p\<rparr>"
  using assms unfolding login_session_def
  by (auto simp: hbind_Ok ensure_Ok or_else_Ok step_eqs split: if_splits)

definition sso_handoff :: "'c crypto_scheme \<Rightarrow> login_query \<Rightarrow> string \<Rightarrow> common_session \<Rightarrow> u64 \<Rightarrow> u64 \<Rightarrow> authentication_handoff" where
  "sso_handoff C query sref ses now expires_at = \<lparr>hnd_service_id = lq_service_id query,
     hnd_internal_user_id = ses_internal_user_id ses, hnd_common_session_lookup = reference_value_lookup C sref,
     hnd_code_challenge = lq_code_challenge query, hnd_authenticated_at = ses_authenticated_at ses,
     hnd_issued_at = now, hnd_expires_at = expires_at, hnd_status = Unused\<rparr>"

text \<open>Whether the request carries a session reference of the right shape decides which way login goes.\<close>

definition session_reference :: "request \<Rightarrow> string option" where
  "session_reference request = (case request_cookie (rq_cookies request) AUTH_SESSION_COOKIE_NAME of
      None \<Rightarrow> None | Some v \<Rightarrow> if validate_fixed_reference_value v = Ok () then Some v else None)"

lemma login_google_end:
  assumes "login C E cfg request query w = (Inr r, w')" "session_reference request = None"
  obtains now w1 where "login_input_is_valid query" "start_google_login C E cfg query now w1 = (Inr r, w')"
  using assms unfolding login_def Let_def session_reference_def
  by (auto simp: hbind_Ok ensure_Ok or_else_Ok step_eqs is_err_iff_not_Ok is_ok_unit_iff split: option.splits if_splits)

lemma login_sso_end:
  assumes "login C E cfg request query w = (Inr r, w')" "session_reference request = Some sref"
  obtains uri p now url ses w3 bs expires_at where "login_input_is_valid query"
      "lookup_login_callback_uri (postgres_at E) (lq_service_id query) (pool_of w) = (Ok uri, p)"
      "unix_seconds (clock E (ticks w)) = Ok now" "valid_callback_url (urls E) uri = Some url"
      "login_session C E (start_google_login C E cfg query now) sref now (w\<lparr>pool_of := p, ticks := Suc (ticks w)\<rparr>) = (Inr ses, w3)"
      "rng E (draws w3) = Some bs" "checked_expires_at now AUTHENTICATION_HANDOFF_TTL_SECONDS = Ok expires_at"
      "issue_sso_handoff C (redis_at E) sref (b64url_encode C bs) (sso_handoff C query sref ses now expires_at) (conn w3) =
         (Ok (), conn w')"
      "r = with_header ''location'' (url_to_string (urls E) (url_append_pairs (urls E)
           [(''code'', b64url_encode C bs), (''state'', lq_state query)] url)) (finish 302)"
  using assms unfolding login_def Let_def sso_handoff_def session_reference_def
  by (auto simp: hbind_Ok ensure_Ok or_else_Ok step_eqs is_err_iff_not_Ok is_ok_unit_iff split: option.splits if_splits)

text \<open>An early answer of login is an error or what the Google login answered.\<close>

lemma login_early:
  "stops_in (\<lambda>r w'. resp_status r \<in> {400, 403, 503} \<or> (\<exists>now w1. run_handler (start_google_login C E cfg query now) w1 = (r, w')))
     (login C E cfg request query)"
  unfolding login_def login_session_def Let_def
  by (intro status_intros stops_mono [OF start_google_statuses]) (auto simp: answers_in_def)

end
