(* ===== verification/Redis_Properties.thy ===== *)
theory Redis_Properties
  imports Redis_Contracts Crypto_Reference
begin

text \<open>
  The properties of \<open>redis_state.rs\<close>, with the fixtures of its unit tests as sample states.
  The witnesses run on the in-memory server and the reference cryptography.
\<close>

section \<open>Fixtures\<close>

definition lookup_fixture :: string where
  "lookup_fixture = reference_value_lookup ref_crypto ''common-session-reference''"

definition external_fixture :: external_auth_transaction where
  "external_fixture = \<lparr>ext_service_id = ''service'', ext_service_state = ''state'',
     ext_handoff_code_challenge = ''challenge'', ext_provider = ''google'',
     ext_provider_verification_data = ''verification'', ext_created_at = 100, ext_expires_at = 700,
     ext_status = Waiting\<rparr>"

definition session_fixture :: common_session where
  "session_fixture = \<lparr>ses_internal_user_id = 42, ses_authenticated_at = 101, ses_created_at = 100,
     ses_expires_at = 28900\<rparr>"

definition handoff_fixture :: "usage_status \<Rightarrow> authentication_handoff" where
  "handoff_fixture status = \<lparr>hnd_service_id = ''service'', hnd_internal_user_id = 42,
     hnd_common_session_lookup = lookup_fixture, hnd_code_challenge = ''challenge'',
     hnd_authenticated_at = 101, hnd_issued_at = 102, hnd_expires_at = 222, hnd_status = status\<rparr>"

definition logout_fixture :: common_logout_transaction where
  "logout_fixture = \<lparr>lgo_service_id = ''service'',
     lgo_logout_return_uri = ''https://service.example/logout'',
     lgo_csrf_lookup = reference_value_lookup ref_crypto ''csrf-token'',
     lgo_created_at = 100, lgo_expires_at = 700, lgo_status = Unused\<rparr>"

lemmas fixture_defs = lookup_fixture_def external_fixture_def session_fixture_def handoff_fixture_def
  logout_fixture_def

text \<open>A server at time 150 that holds the four fixtures, and a connection to it.\<close>

definition sample_server :: mem where
  "sample_server = \<lparr>mem_time = 150, mem_data = [
     external_key ref_crypto ''external-reference'' \<mapsto> MHash (encode_external external_fixture),
     session_key ref_crypto ''common-session-reference'' \<mapsto> MHash (encode_session session_fixture),
     handoff_key ref_crypto ''handoff-reference'' \<mapsto> MHash (encode_handoff (handoff_fixture Unused)),
     logout_key ref_crypto ''logout-reference'' \<mapsto> MHash (encode_logout logout_fixture)]\<rparr>"

definition sample_env :: "mem redis_env" where
  "sample_env = \<lparr>server_cmds = mem_redis, interference = (\<lambda>_ s. s), network = (\<lambda>_. Delivered),
     client_error = (\<lambda>_. \<lparr>err_kind = ''IoError'', err_code = None\<rparr>)\<rparr>"

definition sample_conn :: "mem connection" where
  "sample_conn = \<lparr>server = sample_server, trips = 0, log_lines = []\<rparr>"

definition empty_conn :: "mem connection" where
  "empty_conn = \<lparr>server = \<lparr>mem_time = 150, mem_data = Map.empty\<rparr>, trips = 0, log_lines = []\<rparr>"

definition session_conn :: "mem connection" where
  "session_conn = \<lparr>server = \<lparr>mem_time = 150, mem_data = [session_key ref_crypto ''common-session-reference''
     \<mapsto> MHash (encode_session session_fixture)]\<rparr>, trips = 0, log_lines = []\<rparr>"

lemma session_conn_view:
  "mem_view (server session_conn) (session_key ref_crypto ''common-session-reference'') =
     Some (RHash (map_of (encode_session session_fixture)))"
  "mem_view (server session_conn) (handoff_key ref_crypto r) = None"
  "r_time mem_redis (server session_conn) = 150"
  by (simp_all add: session_conn_def mem_view_def session_codec.encode_not_Nil mem_redis_def)

lemma sample_env_simps [simp]:
  "server_cmds sample_env = mem_redis" "quiet sample_env n" "interference sample_env n s = s"
  "arrival sample_env c = server c"
  by (simp_all add: sample_env_def quiet_def arrival_def fun_eq_iff)

lemma sample_conn_simps [simp]:
  "server sample_conn = sample_server" "trips sample_conn = 0"
  "mem_view (server empty_conn) k = None" "trips empty_conn = 0"
  by (simp_all add: sample_conn_def empty_conn_def mem_view_def)

lemma sample_time [simp]:
  "r_time mem_redis sample_server = 150" "r_time mem_redis (server empty_conn) = 150"
  by (simp_all add: mem_redis_def sample_server_def empty_conn_def)

lemma sample_view:
  "mem_view sample_server (external_key ref_crypto ''external-reference'') =
     Some (RHash (map_of (encode_external external_fixture)))"
  "mem_view sample_server (session_key ref_crypto ''common-session-reference'') =
     Some (RHash (map_of (encode_session session_fixture)))"
  "mem_view sample_server (session_key_text lookup_fixture) =
     Some (RHash (map_of (encode_session session_fixture)))"
  "mem_view sample_server (handoff_key ref_crypto ''handoff-reference'') =
     Some (RHash (map_of (encode_handoff (handoff_fixture Unused))))"
  "mem_view sample_server (logout_key ref_crypto ''logout-reference'') =
     Some (RHash (map_of (encode_logout logout_fixture)))"
  by (simp_all add: mem_view_def sample_server_def external_codec.encode_not_Nil
      session_codec.encode_not_Nil handoff_codec.encode_not_Nil logout_codec.encode_not_Nil
      lookup_fixture_def session_key_eq_text [symmetric])

lemma fixture_lookups: "is_lookup lookup_fixture" "is_lookup (lgo_csrf_lookup logout_fixture)"
  by (simp_all add: fixture_defs reference_value_lookup_is_lookup reference.crypto_lib_axioms)

lemma fixtures_ready:
  "claimable 150 (map_of (encode_external external_fixture))"
  "session_live 150 (map_of (encode_session session_fixture))"
  "exchangeable 150 (map_of (encode_handoff (handoff_fixture Unused))) (map_of (encode_session session_fixture))
     ''service'' ''challenge'' lookup_fixture"
  "logout_ready 150 (map_of (encode_logout logout_fixture)) (lgo_csrf_lookup logout_fixture)"
  using fixture_lookups
  by (simp_all add: claimable_encoded session_live_encoded exchangeable_encoded handoff_live_encoded
      logout_ready_encoded lua_uint_max_def)
    (simp_all add: fixture_defs)

lemma fixture_handoff_of: "handoff_of ref_crypto ''common-session-reference'' session_fixture (handoff_fixture Unused)"
  by (simp add: handoff_of_def fixture_defs)

lemma fixture_handoff_live: "handoff_live 150 (map_of (encode_handoff (handoff_fixture Unused)))"
  using fixtures_ready(3) by (simp add: exchangeable_def)

lemma fixtures_storable:
  "wf_external external_fixture" "wf_session session_fixture" "wf_handoff (handoff_fixture st)"
  "wf_logout logout_fixture"
  using fixture_lookups
  by (simp_all add: wf_external_def wf_session_def wf_handoff_def wf_logout_def)
    (simp_all add: fixture_defs is_ascii_byte_def)

text \<open>The fixture's handoff is exchanged twice, whatever the two replies are.\<close>

definition exchange_op_fixture :: server_op where
  "exchange_op_fixture = ExchangeHandoff ''handoff-reference'' ''service'' ''challenge'' lookup_fixture"

definition exchange_twice :: "mem \<Rightarrow> server_event list" where
  "exchange_twice s =
     (let (r1, s1) = run_op ref_crypto mem_redis exchange_op_fixture s;
          (r2, s2) = run_op ref_crypto mem_redis exchange_op_fixture s1
      in [Op exchange_op_fixture r1, Op exchange_op_fixture r2])"

lemma exchange_twice_run:
  "server_run ref_crypto mem_redis mem_view s (exchange_twice s)
     (snd (run_op ref_crypto mem_redis exchange_op_fixture
        (snd (run_op ref_crypto mem_redis exchange_op_fixture s))))"
  by (auto simp: exchange_twice_def Let_def split: prod.splits intro!: server_run.intros server_step.op)

lemma first_exchange_consumes:
  "consumed ref_crypto (handoff_key ref_crypto ''handoff-reference'') (hd (exchange_twice sample_server))"
  using mem_server.exchange_outcome [of sample_server ref_crypto "''handoff-reference''" lookup_fixture
        "''service''" "''challenge''"] fixtures_ready(3)
  by (auto simp: exchange_twice_def Let_def case_prod_unfold exchange_op_fixture_def succeeded_def sample_view)

section \<open>Properties\<close>

text \<open>
  C1: across every interleaving of the operations of any number of service instances, with
  time passing and keys expiring in between, a login transaction is claimed, a handoff is
  exchanged and a logout transaction is completed at most once, as long as the key is not
  written anew.
\<close>

theorem one_shot_consumption:
  assumes "redis_server R view" "server_run C R view s evs t" "\<forall>e \<in> set evs. \<not> renewed C k e"
  shows "length (filter (consumed C k) evs) \<le> 1"
  using assms by (rule redis_server.consumed_at_most_once)

theorem one_shot_consumption_witness:
  "consumed ref_crypto (handoff_key ref_crypto ''handoff-reference'') (hd (exchange_twice sample_server))
   \<and> length (filter (consumed ref_crypto (handoff_key ref_crypto ''handoff-reference''))
       (exchange_twice sample_server)) \<le> 1"
proof
  show "consumed ref_crypto (handoff_key ref_crypto ''handoff-reference'') (hd (exchange_twice sample_server))"
    by (rule first_exchange_consumes)
  show "length (filter (consumed ref_crypto (handoff_key ref_crypto ''handoff-reference''))
      (exchange_twice sample_server)) \<le> 1"
    by (rule one_shot_consumption [OF mem_server.redis_server_axioms exchange_twice_run])
      (simp add: exchange_twice_def Let_def case_prod_unfold exchange_op_fixture_def)
qed

text \<open>
  C3: the operations implement the abstract store.  Whatever the instances run, every run of the
  server is a path of the abstract store from the stored keys to the stored keys, in which states
  only move from waiting to processing and from unused to used; each success is such a move of the
  key it consumes, and a key is only written by an operation that is meant to write it.
\<close>

theorem server_refines_store:
  assumes "redis_server R view" "server_run C R view s evs t"
  shows "\<exists>es. store_path (view s) es (view t)
    \<and> (\<forall>k. length (filter (consumed C k) evs) \<le> length (filter (advances k) es))
    \<and> (\<forall>k. (\<exists>x \<in> set es. renews k x) \<longrightarrow> (\<exists>e \<in> set evs. renewed C k e))"
  using assms by (rule redis_server.server_run_path)

text \<open>Exchanging the fixture's handoff is a move of its key from unused to used.\<close>

theorem server_refines_store_witness:
  "\<exists>es t. store_path (mem_view sample_server) es (mem_view t)
    \<and> (\<exists>x \<in> set es. advances (handoff_key ref_crypto ''handoff-reference'') x)"
proof -
  let ?k = "handoff_key ref_crypto ''handoff-reference''"
  obtain es t where es: "store_path (mem_view sample_server) es (mem_view t)"
    "length (filter (consumed ref_crypto ?k) (exchange_twice sample_server)) \<le> length (filter (advances ?k) es)"
    using server_refines_store [OF mem_server.redis_server_axioms exchange_twice_run] by blast
  have "0 < length (filter (consumed ref_crypto ?k) (exchange_twice sample_server))"
    using first_exchange_consumes by (simp add: exchange_twice_def Let_def case_prod_unfold)
  with es(2) have "filter (advances ?k) es \<noteq> []" by auto
  then have "\<exists>x \<in> set es. advances ?k x" unfolding filter_empty_conv by blast
  with es(1) show ?thesis by blast
qed

text \<open>
  C4: if \<open>exchange_handoff\<close> answers with a user, then when its script ran the handoff was
  unexpired and unused, belonged to that service, carried that PKCE challenge and pointed to an
  unexpired common session of the same user and authentication time; the answer is that user
  and time, and the only change to the store is that the handoff is now used.
\<close>

theorem exchange_handoff_sound:
  assumes "redis_server R view" "server_cmds E = R"
    and "exchange_handoff C E hr service challenge c = (Ok x, c')"
  shows "\<exists>c2 h g l. trips c2 = trips c + 2
    \<and> view (arrival E c2) (handoff_key C hr) = Some (RHash h)
    \<and> view (arrival E c2) (session_key_text l) = Some (RHash g)
    \<and> exchangeable (r_time R (arrival E c2)) h g service challenge l
    \<and> sint (her_internal_user_id x) = tonumber (g ''internal_user_id'')
    \<and> int (unat (her_authenticated_at x)) = tonumber (g ''authenticated_at'')
    \<and> view (server c') = (view (arrival E c2))(handoff_key C hr \<mapsto> RHash (h(''status'' \<mapsto> ''used'')))"
  using assms by (rule redis_server.exchange_sound)

lemma sample_exchange:
  "\<exists>x c'. exchange_handoff ref_crypto sample_env ''handoff-reference'' ''service'' ''challenge'' sample_conn =
      (Ok x, c') \<and> sint (her_internal_user_id x) = 42"
  using mem_server.exchange_quiet [of sample_env sample_conn ref_crypto "''handoff-reference''"
      "map_of (encode_handoff (handoff_fixture Unused))" lookup_fixture
      "map_of (encode_session session_fixture)" "''service''" "''challenge''"] fixtures_ready(3)
  by (auto simp: sample_view encode_handoff_def handoff_fixture_def tonumber_i32)

theorem exchange_handoff_sound_witness:
  "\<exists>x c' c2. exchange_handoff ref_crypto sample_env ''handoff-reference'' ''service'' ''challenge'' sample_conn =
      (Ok x, c') \<and> trips (c2 :: mem connection) = 2 \<and> (\<exists>h. mem_view (server c2) (handoff_key ref_crypto ''handoff-reference'') = Some (RHash h)
      \<and> h ''status'' = Some ''unused'')"
proof -
  obtain x c' where ex: "exchange_handoff ref_crypto sample_env ''handoff-reference'' ''service'' ''challenge''
      sample_conn = (Ok x, c')" using sample_exchange by blast
  from exchange_handoff_sound [OF mem_server.redis_server_axioms sample_env_simps(1) this]
  obtain c2 :: "mem connection" and h where "trips c2 = 2" "h ''status'' = Some ''unused''"
    "mem_view (server c2) (handoff_key ref_crypto ''handoff-reference'') = Some (RHash h)"
    by (auto simp: exchangeable_def numeral_2_eq_2)
  with ex show ?thesis by blast
qed

text \<open>
  When no message is lost and nothing interferes, an unused handoff whose service, PKCE
  challenge and session are the stored ones is exchanged for its user, and a second exchange of
  the same handoff answers \<open>AlreadyUsed\<close> and changes nothing.
\<close>

theorem exchange_handoff_once:
  assumes "redis_server R view" "server_cmds E = R" "quiet E (trips c)"
    and "view (server c) (handoff_key C hr) = Some (RHash (map_of (encode_handoff h)))"
    and "view (server c) (session_key_text (hnd_common_session_lookup h)) = Some (RHash (map_of (encode_session ses)))"
    and "exchangeable (r_time R (server c)) (map_of (encode_handoff h)) (map_of (encode_session ses))
      service challenge (hnd_common_session_lookup h)"
  shows "\<exists>c1 c2. exchange_handoff C E hr service challenge c =
      (Ok \<lparr>her_internal_user_id = ses_internal_user_id ses, her_authenticated_at = ses_authenticated_at ses\<rparr>, c1)
    \<and> exchange_handoff C E hr service challenge c1 = (Err AlreadyUsed, c2) \<and> server c2 = server c1"
proof -
  let ?h = "map_of (encode_handoff h)"
  obtain x c1 where x: "exchange_handoff C E hr service challenge c = (Ok x, c1)"
    "sint (her_internal_user_id x) = tonumber (?h ''internal_user_id'')"
    "int (unat (her_authenticated_at x)) = tonumber (?h ''authenticated_at'')" "trips c1 = trips c + 3"
    "r_time R (server c1) = r_time R (server c)"
    "view (server c1) = (view (server c))(handoff_key C hr \<mapsto> RHash (?h(''status'' \<mapsto> ''used'')))"
    using redis_server.exchange_quiet [OF assms] by blast
  have "tonumber (?h ''internal_user_id'') = sint (hnd_internal_user_id h)"
    "tonumber (?h ''authenticated_at'') = int (unat (hnd_authenticated_at h))"
    by (simp_all add: encode_handoff_def tonumber_i32 tonumber_u64 del: of_nat_unat)
  then have "her_internal_user_id x = ses_internal_user_id ses" "her_authenticated_at x = ses_authenticated_at ses"
    using x(2,3) assms(6) by (auto simp: exchangeable_encoded simp del: of_nat_unat intro: unsigned_word_eqI signed_word_eqI)
  moreover have "exchange_handoff C E hr service challenge c1 = (Err AlreadyUsed, c1\<lparr>trips := trips c1 + 3\<rparr>)"
    using assms(3) status_used_live(1) [OF assms(6)]
    by (intro redis_server.exchange_used [OF assms(1,2), where h = "?h(''status'' \<mapsto> ''used'')"])
      (simp_all add: x(4-6) quiet_def)
  ultimately show ?thesis
    using x(1) by (cases x) auto
qed

theorem exchange_handoff_once_witness:
  "\<exists>c1 c2. exchange_handoff ref_crypto sample_env ''handoff-reference'' ''service'' ''challenge'' sample_conn =
      (Ok \<lparr>her_internal_user_id = 42, her_authenticated_at = 101\<rparr>, c1)
    \<and> exchange_handoff ref_crypto sample_env ''handoff-reference'' ''service'' ''challenge'' c1 = (Err AlreadyUsed, c2)
    \<and> server c2 = server c1"
proof -
  have "hnd_common_session_lookup (handoff_fixture Unused) = lookup_fixture" by (simp add: handoff_fixture_def)
  then show ?thesis
    using exchange_handoff_once [OF mem_server.redis_server_axioms sample_env_simps(1), of sample_conn ref_crypto
        "''handoff-reference''" "handoff_fixture Unused" session_fixture "''service''" "''challenge''"]
      fixtures_ready(3) by (simp add: sample_view session_fixture_def)
qed

text \<open>
  C5: \<open>write_external\<close> followed by \<open>claim_external_callback\<close> gives back the transaction that
  was written, now in status \<open>Processing\<close>, and a second claim answers \<open>AlreadyClaimed\<close>
  (no message lost, nothing else happening, the transaction not expired on either clock).
\<close>

theorem write_then_claim_once:
  assumes "redis_server R view" "server_cmds E = R" "quiet E (trips c)"
    and "view (server c) (external_key C r) = None" "wf_external t" "ext_status t = Waiting"
    and "is_unexpired now (ext_expires_at t)" "r_time R (server c) < unat (ext_expires_at t)"
    and "unat (ext_created_at t) \<le> lua_uint_max" "unat (ext_expires_at t) \<le> lua_uint_max"
  shows "\<exists>c1 c2 c3. write_external C E r t now c = (Ok (), c1)
    \<and> claim_external_callback C E r c1 = (Ok (t\<lparr>ext_status := Processing\<rparr>), c2)
    \<and> claim_external_callback C E r c2 = (Err AlreadyClaimed, c3) \<and> server c3 = server c2"
proof -
  let ?h = "map_of (encode_external t)"
  have "unat (ext_expires_at t) \<le> expireat_max" using assms(10) lua_uint_max_le by simp
  then obtain c1 where c1: "write_external C E r t now c = (Ok (), c1)" "trips c1 = trips c + 2"
    "r_time R (server c1) = r_time R (server c)"
    "view (server c1) = (view (server c))(external_key C r \<mapsto> RHash ?h)"
    using redis_server.write_quiet [OF assms(1-4), of "encode_external t" now "ext_expires_at t"] assms(7,8)
    by (auto simp: write_external_def external_codec.encode_not_Nil external_codec.encode_names)
  have q1: "quiet E (trips c1)" using assms(3) by (simp add: quiet_def c1(2))
  have claimable: "claimable (r_time R (server c1)) ?h"
    using assms by (simp add: claimable_encoded c1(3))
  have "view (server c1) (external_key C r) = Some (RHash ?h)" by (simp add: c1(4))
  from redis_server.claim_quiet [OF assms(1,2) q1 this claimable] obtain c2 where
    c2: "claim_external_callback C E r c1 = (claim_reply (VInt 0 # claim_values ?h), c2)"
    "trips c2 = Suc (trips c1)" "r_time R (server c2) = r_time R (server c1)"
    "view (server c2) = (view (server c1))(external_key C r \<mapsto> RHash (?h(''status'' \<mapsto> ''processing'')))"
    by blast
  have "claim_external_callback C E r c2 = (Err AlreadyClaimed, c2\<lparr>trips := Suc (trips c2)\<rparr>)"
    using claimable q1 by (intro redis_server.claim_processing [OF assms(1,2)])
      (simp_all add: c2 quiet_def)
  with c1(1) c2(1) show ?thesis by (auto simp: claim_reply_encoded [OF assms(5)])
qed

theorem write_then_claim_once_witness:
  "\<exists>c1 c2 c3. write_external ref_crypto sample_env ''external-reference'' external_fixture 100 empty_conn = (Ok (), c1)
    \<and> claim_external_callback ref_crypto sample_env ''external-reference'' c1 =
        (Ok (external_fixture\<lparr>ext_status := Processing\<rparr>), c2)
    \<and> claim_external_callback ref_crypto sample_env ''external-reference'' c2 = (Err AlreadyClaimed, c3)
    \<and> server c3 = server c2"
  using write_then_claim_once [OF mem_server.redis_server_axioms sample_env_simps(1), of empty_conn ref_crypto
      "''external-reference''" external_fixture 100] fixtures_storable(1)
  by (simp add: external_fixture_def is_unexpired_def lua_uint_max_def)

text \<open>
  C6: if \<open>claim_external_callback\<close> answers with a transaction, then when its script ran the
  stored transaction was unexpired and waiting, the answer carries its service, service state,
  PKCE challenge and provider, and the only change is that it is now processing.
\<close>

theorem claim_external_callback_sound:
  assumes "redis_server R view" "server_cmds E = R"
    and "claim_external_callback C E r c = (Ok t, c')"
  shows "\<exists>h. view (arrival E c) (external_key C r) = Some (RHash h)
    \<and> h ''status'' = Some ''waiting'' \<and> int (r_time R (arrival E c)) < tonumber (h ''expires_at'')
    \<and> h ''service_id'' = Some (ext_service_id t) \<and> h ''service_state'' = Some (ext_service_state t)
    \<and> h ''handoff_code_challenge'' = Some (ext_handoff_code_challenge t)
    \<and> h ''provider'' = Some (ext_provider t) \<and> ext_status t = Processing
    \<and> view (server c') = (view (arrival E c))(external_key C r \<mapsto> RHash (h(''status'' \<mapsto> ''processing'')))"
proof -
  obtain h where h: "view (arrival E c) (external_key C r) = Some (RHash h)"
    "claimable (r_time R (arrival E c)) h" "claim_reply (VInt 0 # claim_values h) = Ok t"
    "view (server c') = (view (arrival E c))(external_key C r \<mapsto> RHash (h(''status'' \<mapsto> ''processing'')))"
    using redis_server.claim_sound [OF assms] by blast
  from claim_reply_values [OF h(2,3)] h(2) have "h ''status'' = Some ''waiting''"
    "int (r_time R (arrival E c)) < tonumber (h ''expires_at'')"
    by (simp_all add: claimable_def)
  with claim_reply_values [OF h(2,3)] h(1,4) show ?thesis by blast
qed

theorem claim_external_callback_sound_witness:
  "\<exists>t c'. claim_external_callback ref_crypto sample_env ''external-reference'' sample_conn = (Ok t, c')
    \<and> (\<exists>h. mem_view sample_server (external_key ref_crypto ''external-reference'') = Some (RHash h)
       \<and> h ''service_id'' = Some (ext_service_id t))"
proof -
  obtain c' where c': "claim_external_callback ref_crypto sample_env ''external-reference'' sample_conn =
      (Ok (external_fixture\<lparr>ext_status := Processing\<rparr>), c')"
    using mem_server.claim_quiet [of sample_env sample_conn ref_crypto "''external-reference''"]
      fixtures_ready(1) claim_reply_encoded [OF fixtures_storable(1)]
    by (auto simp: sample_view)
  from claim_external_callback_sound [OF mem_server.redis_server_axioms sample_env_simps(1) this] c'
  show ?thesis by (simp only: sample_env_simps sample_conn_simps) blast
qed

text \<open>
  C7: if \<open>complete_common_logout\<close> answers with a return address, then when its script ran
  the logout transaction was unexpired and unused, its CSRF lookup was the presented one and the
  address is the stored one; the transaction is now used and the presented common session is
  gone, and nothing else has changed.
\<close>

theorem complete_common_logout_sound:
  assumes "redis_server R view" "server_cmds E = R"
    and "complete_common_logout C E lr sr csrf c = (Ok uri, c')"
  shows "\<exists>h. view (arrival E c) (logout_key C lr) = Some (RHash h)
    \<and> int (r_time R (arrival E c)) < tonumber (h ''expires_at'') \<and> h ''status'' = Some ''unused''
    \<and> h ''csrf_lookup'' = Some csrf \<and> h ''logout_return_uri'' = Some uri
    \<and> view (server c') (logout_key C lr) = Some (RHash (h(''status'' \<mapsto> ''used'')))
    \<and> view (server c') (session_key C sr) = None
    \<and> (\<forall>k. k \<noteq> logout_key C lr \<longrightarrow> k \<noteq> session_key C sr \<longrightarrow> view (server c') k = view (arrival E c) k)"
proof -
  obtain h where h: "view (arrival E c) (logout_key C lr) = Some (RHash h)"
    "logout_ready (r_time R (arrival E c)) h csrf" "h ''logout_return_uri'' = Some uri"
    "view (server c') = (view (arrival E c))(logout_key C lr \<mapsto> RHash (h(''status'' \<mapsto> ''used'')),
        session_key C sr := None)"
    using redis_server.logout_sound [OF assms] by blast
  from h(2) have "int (r_time R (arrival E c)) < tonumber (h ''expires_at'')" "h ''status'' = Some ''unused''"
    "h ''csrf_lookup'' = Some csrf" by (simp_all add: logout_ready_def)
  with h(1,3,4) show ?thesis by auto
qed

theorem complete_common_logout_sound_witness:
  "\<exists>c'. complete_common_logout ref_crypto sample_env ''logout-reference'' ''common-session-reference''
      (lgo_csrf_lookup logout_fixture) sample_conn = (Ok ''https://service.example/logout'', c')
    \<and> mem_view sample_server (session_key ref_crypto ''common-session-reference'') \<noteq> None
    \<and> mem_view (server c') (session_key ref_crypto ''common-session-reference'') = None"
proof -
  obtain c' where c': "complete_common_logout ref_crypto sample_env ''logout-reference'' ''common-session-reference''
      (lgo_csrf_lookup logout_fixture) sample_conn = (Ok ''https://service.example/logout'', c')"
    using mem_server.logout_quiet [of sample_env sample_conn ref_crypto "''logout-reference''"
        "map_of (encode_logout logout_fixture)" "lgo_csrf_lookup logout_fixture" "''https://service.example/logout''"
        "''common-session-reference''"] fixtures_ready(4)
    by (auto simp: sample_view encode_logout_def logout_fixture_def is_ascii_byte_def)
  from complete_common_logout_sound [OF mem_server.redis_server_axioms sample_env_simps(1) this] c'
  show ?thesis by (auto simp: sample_view)
qed

text \<open>
  C8: \<open>create_session_and_handoff\<close> is all or nothing, whatever its result: either both keys
  were absent and now hold the session and the handoff as encoded (and the result is success,
  or the reply was lost), or the store is as the script found it and the result is an error.
\<close>

theorem create_session_and_handoff_atomic:
  assumes "redis_server R view" "server_cmds E = R"
    and "create_session_and_handoff C E sr ses hr h c = (res, c')"
  shows "(view (server c') = (view (arrival E c))(session_key C sr \<mapsto> RHash (map_of (encode_session ses)),
             handoff_key C hr \<mapsto> RHash (map_of (encode_handoff h)))
      \<and> view (arrival E c) (session_key C sr) = None \<and> view (arrival E c) (handoff_key C hr) = None
      \<and> (res = Ok () \<or> res = Err RedisFailure \<and> network E (trips c) = ReplyLost))
    \<or> (view (server c') = view (arrival E c) \<and> res \<noteq> Ok ())"
  using assms by (rule redis_server.create_effect)

theorem create_session_and_handoff_atomic_witness:
  "\<exists>res c'. create_session_and_handoff ref_crypto sample_env ''common-session-reference'' session_fixture
      ''handoff-reference'' (handoff_fixture Unused) sample_conn = (res, c')
    \<and> mem_view (server c') = mem_view sample_server \<and> res \<noteq> Ok ()"
proof -
  obtain res c' where c': "create_session_and_handoff ref_crypto sample_env ''common-session-reference'' session_fixture
      ''handoff-reference'' (handoff_fixture Unused) sample_conn = (res, c')"
    by (cases "create_session_and_handoff ref_crypto sample_env ''common-session-reference'' session_fixture
      ''handoff-reference'' (handoff_fixture Unused) sample_conn") auto
  from create_session_and_handoff_atomic [OF mem_server.redis_server_axioms sample_env_simps(1) this] c'
  show ?thesis by (auto simp: sample_view)
qed

text \<open>
  A successful \<open>issue_sso_handoff\<close> found an unexpired common session of the user and
  authentication time that the handoff names, and a free handoff key, and stored the handoff
  there, leaving every other key as it was.
\<close>

theorem issue_sso_handoff_sound:
  assumes "redis_server R view" "server_cmds E = R"
    and "issue_sso_handoff C E sr hr h c = (Ok (), c')"
  shows "\<exists>g. view (arrival E c) (session_key C sr) = Some (RHash g)
    \<and> session_live (r_time R (arrival E c)) g
    \<and> view (arrival E c) (handoff_key C hr) = None
    \<and> sint (hnd_internal_user_id h) = tonumber (g ''internal_user_id'')
    \<and> int (unat (hnd_authenticated_at h)) = tonumber (g ''authenticated_at'')
    \<and> view (server c') = (view (arrival E c))(handoff_key C hr \<mapsto> RHash (map_of (encode_handoff h)))"
  using assms by (rule redis_server.issue_sound)

theorem issue_sso_handoff_sound_witness:
  "\<exists>c'. issue_sso_handoff ref_crypto sample_env ''common-session-reference'' ''handoff-reference''
        (handoff_fixture Unused) session_conn = (Ok (), c')
    \<and> mem_view (server c') (handoff_key ref_crypto ''handoff-reference'') =
        Some (RHash (map_of (encode_handoff (handoff_fixture Unused))))"
proof -
  obtain c' where c': "issue_sso_handoff ref_crypto sample_env ''common-session-reference'' ''handoff-reference''
        (handoff_fixture Unused) session_conn = (Ok (), c')"
    using mem_server.issue_quiet [OF reference.crypto_lib_axioms, of sample_env session_conn
        "''common-session-reference''" session_fixture "''handoff-reference''" "handoff_fixture Unused"]
      fixtures_ready(2) fixture_handoff_of fixture_handoff_live by (auto simp: session_conn_view)
  from issue_sso_handoff_sound [OF mem_server.redis_server_axioms sample_env_simps(1) this] c'
  show ?thesis by auto
qed

text \<open>
  A state written with \<open>write_state\<close> and read back with \<open>read_state\<close> before it expires
  is the same state, for every state type whose codec keeps the codec contract.
\<close>

theorem write_then_read:
  assumes "redis_server R view" "server_cmds E = R" "quiet E (trips c)" "view (server c) key = None"
    and "state_codec encode decode names storable" "storable x"
    and "is_unexpired now (expiry x)" "is_unexpired later (expiry x)"
    and "r_time R (server c) < unat (expiry x)" "unat (expiry x) \<le> expireat_max"
  shows "\<exists>c1 c2. write_state E family key (encode x) (expiry x) now c = (Ok (), c1)
    \<and> read_state E key decode expiry later c1 = (Ok x, c2) \<and> server c2 = server c1"
proof -
  have enc: "encode x \<noteq> []" "distinct (map fst (encode x))"
    using assms(5) by (auto simp: state_codec.encode_not_Nil state_codec.encode_names state_codec.names_distinct)
  obtain c1 where c1: "write_state E family key (encode x) (expiry x) now c = (Ok (), c1)" "trips c1 = trips c + 2"
    "view (server c1) = (view (server c))(key \<mapsto> RHash (map_of (encode x)))"
    using redis_server.write_quiet [OF assms(1-4) enc assms(7,9,10)] by blast
  have "quiet E (trips c1)" "view (server c1) key = Some (RHash (map_of (encode x)))"
    using assms(3) by (simp_all add: quiet_def c1)
  from redis_server.read_quiet [where expiry = expiry and now = later, OF assms(1,5,6,2) this assms(8)] c1(1) show ?thesis by auto
qed

theorem write_then_read_witness:
  "\<exists>c1 c2. write_session ref_crypto sample_env ''common-session-reference'' session_fixture 100 empty_conn = (Ok (), c1)
    \<and> read_session ref_crypto sample_env ''common-session-reference'' 200 c1 = (Ok session_fixture, c2)
    \<and> server c2 = server c1"
  using write_then_read [OF mem_server.redis_server_axioms sample_env_simps(1), of empty_conn
      "session_key ref_crypto ''common-session-reference''" encode_session decode_session SESSION_FIELDS wf_session
      session_fixture 100 ses_expires_at 200 "''session''"] fixtures_storable(2) session_codec.state_codec_axioms
  by (simp add: write_session_def read_session_def session_fixture_def is_unexpired_def expireat_max_def)

text \<open>
  \<open>read_session\<close> never answers with an expired session: what it returns is unexpired at
  the caller's time, is what the stored hash decodes to, and reading changed nothing.
\<close>

theorem read_session_unexpired:
  assumes "redis_server R view" "server_cmds E = R" "read_session C E r now c = (Ok ses, c')"
  shows "now < ses_expires_at ses \<and> server c' = arrival E c
    \<and> (\<exists>fs. view (arrival E c) (session_key C r) = Some (RHash (map_of fs)) \<and> distinct (map fst fs)
        \<and> decode_session fs = Ok ses)"
  using redis_server.read_sound [OF assms(1,2), of "session_key C r" decode_session ses_expires_at now c ses c'] assms(3)
  by (auto simp: read_session_def is_unexpired_def)

theorem read_session_unexpired_witness:
  "\<exists>c'. read_session ref_crypto sample_env ''common-session-reference'' 200 sample_conn = (Ok session_fixture, c')
    \<and> (200 :: u64) < ses_expires_at session_fixture \<and> server c' = sample_server"
proof -
  obtain c' where c': "read_session ref_crypto sample_env ''common-session-reference'' 200 sample_conn = (Ok session_fixture, c')"
    using mem_server.read_quiet [OF session_codec.state_codec_axioms fixtures_storable(2), of sample_env sample_conn
        "session_key ref_crypto ''common-session-reference''" 200 ses_expires_at]
    by (auto simp: read_session_def sample_view is_unexpired_def session_fixture_def)
  from read_session_unexpired [OF mem_server.redis_server_axioms sample_env_simps(1) this] c'
  show ?thesis by simp
qed

text \<open>
  C9: whatever code the Redis client reports, what \<open>safe_redis_error_code\<close> puts in the log
  is between 1 and 64 characters of \<open>A-Z\<close>, \<open>0-9\<close>, \<open>_\<close>, \<open>-\<close>, or the word \<open>none\<close>.
\<close>

theorem safe_redis_error_code_bounded:
  "safe_redis_error_code code = ''none''
   \<or> (1 \<le> length (safe_redis_error_code code) \<and> length (safe_redis_error_code code) \<le> 64
      \<and> list_all (\<lambda>b. is_upper b \<or> is_digit b \<or> b = CHR ''_'' \<or> b = CHR ''-'') (safe_redis_error_code code)
      \<and> code = Some (safe_redis_error_code code))"
  by (cases code) (auto simp: safe_redis_error_code_def Suc_le_eq)

end
