(* ===== verification/Auth_Properties.thy ===== *)
theory Auth_Properties
  imports Auth_Handlers Redis_Properties
begin

text \<open>
  The properties of the authentication foundation's handlers, over every Redis server, database
  and URL library that keeps its contract, with witnesses on the in-memory ones.
\<close>

section \<open>Basic credentials\<close>

lemma b64_byte_header: "b64_byte c \<Longrightarrow> header_byte c"
  by (auto simp: b64_byte_def header_byte_def byte_class_defs less_eq_char_def)

text \<open>The header \<open>reqwest\<close>'s \<open>basic_auth\<close> sends.\<close>

definition basic_auth :: "'c crypto_scheme \<Rightarrow> string \<Rightarrow> string \<Rightarrow> bytes" where
  "basic_auth C user password = ''Basic '' @ b64_encode C (user @ '':'' @ password)"

lemma basic_credentials_basic_auth:
  assumes "crypto_lib C" "sid \<noteq> []" "CHR '':'' \<notin> set sid" "utf8_valid (sid @ '':'' @ secret)"
    and "length (basic_auth C sid secret) \<le> 8192"
    and "get_all ''authorization'' (rq_headers request) = [basic_auth C sid secret]"
  shows "basic_credentials C request = Some (sid, secret)"
proof -
  have "list_all header_byte (basic_auth C sid secret)"
    using crypto_lib.b64_alphabet [OF assms(1), of "sid @ '':'' @ secret"] b64_byte_header
    by (auto simp: basic_auth_def list_all_iff header_byte_def byte_in_def)
  moreover have "strip_prefix ''Basic '' (basic_auth C sid secret) = Some (b64_encode C (sid @ '':'' @ secret))"
    by (simp add: strip_prefix_def basic_auth_def)
  moreover have "split_once (CHR '':'') (sid @ '':'' @ secret) = Some (sid, secret)"
    using split_once_append [OF assms(3)] by simp
  ultimately show ?thesis
    using assms
    by (simp add: basic_credentials_def to_str_def crypto_lib.b64_roundtrip from_utf8_def del: append_Cons)
qed

section \<open>A sample environment\<close>

definition sample_auth_env :: "(mem, mem_pg_state, simple_url) auth_env" where
  "sample_auth_env = \<lparr>redis_at = sample_env, redis_up = (\<lambda>_. True), postgres_at = sample_pg_env,
     urls = simple_urls, rng = (\<lambda>n. Some (replicate 32 (char_of n))), clock = (\<lambda>_. 150000000000),
     authorize_url = (\<lambda>base cfg state scopes. base @ ''?state='' @ state),
     google_token = (\<lambda>cfg code. Some code),
     google_userinfo = (\<lambda>url token. Some (200, Some (JObject [(''id'', JStr ''subject-42'')])))\<rparr>"

definition sample_code :: string where "sample_code = replicate 43 (CHR ''c'')"
definition sample_session_reference :: string where "sample_session_reference = replicate 43 (CHR ''s'')"
definition sample_verifier :: string where "sample_verifier = replicate 43 (CHR ''v'')"

definition sample_handoff :: authentication_handoff where
  "sample_handoff = \<lparr>hnd_service_id = ''service'', hnd_internal_user_id = 42,
     hnd_common_session_lookup = reference_value_lookup ref_crypto sample_session_reference,
     hnd_code_challenge = b64url_encode ref_crypto (sha256 ref_crypto sample_verifier),
     hnd_authenticated_at = 101, hnd_issued_at = 102, hnd_expires_at = 222, hnd_status = Unused\<rparr>"

definition sample_world :: "(string \<rightharpoonup> mem_object) \<Rightarrow> (mem, mem_pg_state) world" where
  "sample_world data = \<lparr>conn = \<lparr>server = \<lparr>mem_time = 150, mem_data = data\<rparr>, trips = 0, log_lines = []\<rparr>,
     pool_of = sample_pool, draws = 0, ticks = 0, errors = []\<rparr>"

lemma sample_auth_env_simps [simp]:
  "redis_at sample_auth_env = sample_env" "redis_up sample_auth_env n" "postgres_at sample_auth_env = sample_pg_env"
  "urls sample_auth_env = simple_urls" "rng sample_auth_env n = Some (replicate 32 (char_of n))"
  "unix_seconds (clock sample_auth_env n) = Ok 150"
  by (simp_all add: sample_auth_env_def unix_seconds_def)

lemma sample_world_simps [simp]:
  "trips (conn (sample_world data)) = 0" "pool_of (sample_world data) = sample_pool" "draws (sample_world data) = 0"
  "ticks (sample_world data) = 0" "statements sample_pool = 0"
  "r_time mem_redis (server (conn (sample_world data))) = 150"
  by (simp_all add: sample_world_def mem_redis_def sample_pool_def)

lemma sample_world_view: "mem_view (server (conn (sample_world data))) k =
    (case data k of None \<Rightarrow> None | Some (MHash ps) \<Rightarrow> if ps = [] then None else Some (RHash (map_of ps))
     | Some MString \<Rightarrow> Some (ROther ''string''))"
  by (simp add: sample_world_def mem_view_def)

lemma sample_references [simp]:
  "validate_fixed_reference_value sample_code = Ok ()" "validate_fixed_reference_value sample_session_reference = Ok ()"
  "is_ascii sample_verifier" "length sample_verifier = 43" "sample_verifier \<noteq> []"
  by (simp_all add: validate_fixed_reference_value_Ok sample_code_def sample_session_reference_def sample_verifier_def
      b64url_byte_def is_ascii_def byte_class_defs list_all_iff)

section \<open>Handoff exchange\<close>

lemma exchange_complete_state:
  assumes "redis_server R view" "server_cmds (redis_at E) = R" "quiet (redis_at E) (trips (conn w))"
    and "redis_up E (trips (conn w))" "postgres_db P committed staged" "pg (postgres_at E) = P"
    and "pg_network (postgres_at E) (statements (pool_of w)) = Delivered" "crypto_lib C"
    and "services (committed (pg_arrival (postgres_at E) (pool_of w))) sid = Some svc" "row_is_enabled svc"
      "row_service_secret_sha256 svc = sha256 C secret"
    and "basic_credentials C request = Some (sid, secret)" "validate_service_id sid = Ok ()"
    and "validate_fixed_reference_value (hxr_code body) = Ok ()"
    and "pkce_s256_challenge C (hxr_code_verifier body) = Ok challenge"
    and "view (server (conn w)) (handoff_key C (hxr_code body)) = Some (RHash (map_of (encode_handoff h)))"
    and "view (server (conn w)) (session_key_text (hnd_common_session_lookup h)) = Some (RHash (map_of (encode_session ses)))"
    and "exchangeable (r_time R (server (conn w))) (map_of (encode_handoff h)) (map_of (encode_session ses))
      sid challenge (hnd_common_session_lookup h)"
  shows "\<exists>w'. run_handler (exchange_auth_handoff C E request body) w =
    (json_response 200 (handoff_exchange_response (ses_internal_user_id ses) (ses_authenticated_at ses)), w')
    \<and> view (server (conn w')) = (view (server (conn w)))
        (handoff_key C (hxr_code body) \<mapsto> RHash ((map_of (encode_handoff h))(''status'' \<mapsto> ''used'')))
    \<and> r_time R (server (conn w')) = r_time R (server (conn w))
    \<and> database (pool_of w') = pg_arrival (postgres_at E) (pool_of w) \<and> draws w' = draws w"
proof -
  let ?h = "map_of (encode_handoff h)"
  obtain x c1 where x: "exchange_handoff C (redis_at E) (hxr_code body) sid challenge (conn w) = (Ok x, c1)"
    "sint (her_internal_user_id x) = tonumber (?h ''internal_user_id'')"
    "int (unat (her_authenticated_at x)) = tonumber (?h ''authenticated_at'')"
    "r_time R (server c1) = r_time R (server (conn w))"
    "view (server c1) = (view (server (conn w)))(handoff_key C (hxr_code body) \<mapsto> RHash (?h(''status'' \<mapsto> ''used'')))"
    using redis_server.exchange_quiet [OF assms(1-3,16-18)] by blast
  have "tonumber (?h ''internal_user_id'') = sint (hnd_internal_user_id h)"
    "tonumber (?h ''authenticated_at'') = int (unat (hnd_authenticated_at h))"
    by (simp_all add: encode_handoff_def tonumber_i32 tonumber_u64 del: of_nat_unat)
  then have user: "her_internal_user_id x = ses_internal_user_id ses" "her_authenticated_at x = ses_authenticated_at ses"
    using x(2,3) assms(18)
    by (auto simp: exchangeable_encoded simp del: of_nat_unat intro: unsigned_word_eqI signed_word_eqI)
  have "hxr_code_verifier body \<noteq> []" using assms(15) by (auto simp: pkce_s256_challenge_Ok_iff)
  then show ?thesis
    using assms x(1,4,5) user postgres_db.authenticate_delivered [OF assms(5,8,6,7), of sid secret]
      crypto_lib.sha256_length [OF assms(8)]
    by (simp add: run_handler_def exchange_auth_handoff_def hbind_def or_else_def on_postgres_def on_redis_def
        get_connection_def pure_def)
qed

lemma exchange_complete:
  assumes "redis_server R view" "server_cmds (redis_at E) = R" "quiet (redis_at E) (trips (conn w))"
    and "redis_up E (trips (conn w))" "postgres_db P committed staged" "pg (postgres_at E) = P"
    and "pg_network (postgres_at E) (statements (pool_of w)) = Delivered" "crypto_lib C"
    and "services (committed (pg_arrival (postgres_at E) (pool_of w))) sid = Some svc" "row_is_enabled svc"
      "row_service_secret_sha256 svc = sha256 C secret"
    and "basic_credentials C request = Some (sid, secret)" "validate_service_id sid = Ok ()"
    and "validate_fixed_reference_value (hxr_code body) = Ok ()"
    and "pkce_s256_challenge C (hxr_code_verifier body) = Ok challenge"
    and "view (server (conn w)) (handoff_key C (hxr_code body)) = Some (RHash (map_of (encode_handoff h)))"
    and "view (server (conn w)) (session_key_text (hnd_common_session_lookup h)) = Some (RHash (map_of (encode_session ses)))"
    and "exchangeable (r_time R (server (conn w))) (map_of (encode_handoff h)) (map_of (encode_session ses))
      sid challenge (hnd_common_session_lookup h)"
  shows "\<exists>w'. run_handler (exchange_auth_handoff C E request body) w =
    (json_response 200 (handoff_exchange_response (ses_internal_user_id ses) (ses_authenticated_at ses)), w')"
  using exchange_complete_state [OF assms] by blast

definition exchange_world :: "(mem, mem_pg_state) world" where
  "exchange_world = sample_world [
     handoff_key ref_crypto sample_code \<mapsto> MHash (encode_handoff sample_handoff),
     session_key ref_crypto sample_session_reference \<mapsto> MHash (encode_session session_fixture)]"

definition exchange_request_fixture :: request where
  "exchange_request_fixture = \<lparr>rq_headers = [(''authorization'', basic_auth ref_crypto ''service'' ''service-secret'')],
     rq_cookies = None\<rparr>"

definition exchange_body_fixture :: handoff_exchange_request where
  "exchange_body_fixture = \<lparr>hxr_code = sample_code, hxr_code_verifier = sample_verifier\<rparr>"

lemma fixture_credentials: "basic_credentials ref_crypto exchange_request_fixture = Some (''service'', ''service-secret'')"
proof -
  have "length (basic_auth ref_crypto ''service'' ''service-secret'') \<le> 8192"
    by (simp add: basic_auth_def ref_crypto_def rfc_b64_encode_def byte_vals_def b64_padding_def)
  then show ?thesis
    by (intro basic_credentials_basic_auth [OF reference.crypto_lib_axioms])
      (simp_all add: exchange_request_fixture_def get_all_def is_ascii_byte_def)
qed

lemma exchange_world_facts:
  shows "mem_view (server (conn exchange_world)) (handoff_key ref_crypto sample_code) =
      Some (RHash (map_of (encode_handoff sample_handoff)))"
    "mem_view (server (conn exchange_world)) (session_key_text (hnd_common_session_lookup sample_handoff)) =
      Some (RHash (map_of (encode_session session_fixture)))"
    "exchangeable 150 (map_of (encode_handoff sample_handoff)) (map_of (encode_session session_fixture))
      ''service'' (b64url_encode ref_crypto (sha256 ref_crypto sample_verifier)) (hnd_common_session_lookup sample_handoff)"
  by (simp_all add: exchange_world_def sample_world_view handoff_codec.encode_not_Nil session_codec.encode_not_Nil
      sample_handoff_def session_key_eq_text [symmetric] exchangeable_encoded handoff_live_encoded session_live_encoded
      reference_value_lookup_is_lookup reference.crypto_lib_axioms session_fixture_def lua_uint_max_def)

lemma exchange_world_simps:
  "trips (conn exchange_world) = 0" "pool_of exchange_world = sample_pool"
  "r_time mem_redis (server (conn exchange_world)) = 150"
  by (simp_all add: exchange_world_def)

lemma fixture_challenge:
  "pkce_s256_challenge ref_crypto sample_verifier = Ok (b64url_encode ref_crypto (sha256 ref_crypto sample_verifier))"
  by (simp add: pkce_s256_challenge_Ok_iff)

lemmas exchange_fixture_facts = exchange_world_facts exchange_world_simps fixture_challenge fixture_credentials

lemma exchange_fixture_run:
  "\<exists>w'. run_handler (exchange_auth_handoff ref_crypto sample_auth_env exchange_request_fixture exchange_body_fixture)
      exchange_world = (json_response 200 (handoff_exchange_response (ses_internal_user_id session_fixture)
        (ses_authenticated_at session_fixture)), w')"
  by (rule exchange_complete [where R = mem_redis and view = mem_view and P = mem_pg and committed = pg_tables
        and staged = pg_staged and sid = "''service''" and secret = "''service-secret''" and h = sample_handoff
        and svc = sample_service and challenge = "b64url_encode ref_crypto (sha256 ref_crypto sample_verifier)"])
    (simp_all add: exchange_fixture_facts exchange_body_fixture_def mem_server.redis_server_axioms
      mem_db.postgres_db_axioms reference.crypto_lib_axioms,
     simp_all add: sample_service_def validate_service_id_def is_service_id_rest_byte_def byte_in_def foundation_bounds)

lemma exchange_200:
  assumes "redis_server R view" "server_cmds (redis_at E) = R"
    and "postgres_db P committed staged" "pg (postgres_at E) = P" "crypto_lib C"
    and "run_handler (exchange_auth_handoff C E request body) w = (r, w')" "resp_status r = 200"
  obtains sid secret svc c2 h g l and res :: handoff_exchange_result where "basic_credentials C request = Some (sid, secret)"
    "services (committed (pg_arrival (postgres_at E) (pool_of w))) sid = Some svc"
    "row_is_enabled svc" "row_service_secret_sha256 svc = sha256 C secret"
    "view (arrival (redis_at E) c2) (handoff_key C (hxr_code body)) = Some (RHash h)"
    "view (arrival (redis_at E) c2) (session_key_text l) = Some (RHash g)"
    "exchangeable (r_time R (arrival (redis_at E) c2)) h g sid (b64url_encode C (sha256 C (hxr_code_verifier body))) l"
    "sint (her_internal_user_id res) = tonumber (g ''internal_user_id'')"
    "int (unat (her_authenticated_at res)) = tonumber (g ''authenticated_at'')"
    "r = json_response 200 (handoff_exchange_response (her_internal_user_id res) (her_authenticated_at res))"
    "view (server (conn w')) = (view (arrival (redis_at E) c2))
        (handoff_key C (hxr_code body) \<mapsto> RHash (h(''status'' \<mapsto> ''used'')))"
proof -
  have "exchange_auth_handoff C E request body w = (Inr r, w')"
    using assms(7) by (intro run_handler_end [OF exchange_statuses assms(6)]) simp
  then obtain sid secret svc p challenge res where e:
    "basic_credentials C request = Some (sid, secret)"
    "authenticate_service C (postgres_at E) sid secret (pool_of w) = (Ok svc, p)"
    "pkce_s256_challenge C (hxr_code_verifier body) = Ok challenge"
    "exchange_handoff C (redis_at E) (hxr_code body) sid challenge (conn w) = (Ok res, conn w')"
    "r = json_response 200 (handoff_exchange_response (her_internal_user_id res) (her_authenticated_at res))"
    by (rule exchange_end)
  have challenge: "challenge = b64url_encode C (sha256 C (hxr_code_verifier body))"
    using e(3) by (simp add: pkce_s256_challenge_Ok_iff)
  obtain row where row: "services (committed (pg_arrival (postgres_at E) (pool_of w))) sid = Some row" "row_is_enabled row"
    "row_service_secret_sha256 row = sha256 C secret"
    using postgres_db.authenticate_Ok [OF assms(3,5,4) e(2)] by blast
  from redis_server.exchange_sound [OF assms(1,2) e(4)] show ?thesis
    unfolding challenge by (elim exE conjE) (rule that [OF e(1) row _ _ _ _ _ e(5)])
qed

text \<open>
  C10: if the exchange endpoint answers 200, then the request carried exactly one Basic
  credential whose secret has the registered digest of an enabled service, and when the script
  ran the presented code was an unexpired, unused handoff of that very service whose stored
  PKCE challenge is the S256 challenge of the presented verifier, tied to a live common
  session; the body names that session's user and authentication time, and the handoff is used
  up.
\<close>

theorem exchange_auth_handoff_sound:
  assumes "redis_server R view" "server_cmds (redis_at E) = R"
    and "postgres_db P committed staged" "pg (postgres_at E) = P" "crypto_lib C"
    and "run_handler (exchange_auth_handoff C E request body) w = (r, w')" "resp_status r = 200"
  shows "\<exists>sid secret svc c2 h g l.
    basic_credentials C request = Some (sid, secret)
    \<and> services (committed (pg_arrival (postgres_at E) (pool_of w))) sid = Some svc
    \<and> row_is_enabled svc \<and> row_service_secret_sha256 svc = sha256 C secret
    \<and> view (arrival (redis_at E) c2) (handoff_key C (hxr_code body)) = Some (RHash h)
    \<and> view (arrival (redis_at E) c2) (session_key_text l) = Some (RHash g)
    \<and> exchangeable (r_time R (arrival (redis_at E) c2)) h g sid
        (b64url_encode C (sha256 C (hxr_code_verifier body))) l
    \<and> resp_body r = Json (JObject [(''internal_user_id'', JNum (tonumber (g ''internal_user_id''))),
        (''authenticated_at'', JNum (tonumber (g ''authenticated_at'')))])
    \<and> view (server (conn w')) = (view (arrival (redis_at E) c2))
        (handoff_key C (hxr_code body) \<mapsto> RHash (h(''status'' \<mapsto> ''used'')))"
  using assms by (rule exchange_200) (simp add: handoff_exchange_response_def, blast)

theorem exchange_auth_handoff_sound_witness:
  "\<exists>r w' sid secret. run_handler (exchange_auth_handoff ref_crypto sample_auth_env exchange_request_fixture
      exchange_body_fixture) exchange_world = (r, w') \<and> resp_status r = 200
    \<and> basic_credentials ref_crypto exchange_request_fixture = Some (sid, secret)
    \<and> services (pg_tables sample_db) sid \<noteq> None"
proof -
  obtain w' where run: "run_handler (exchange_auth_handoff ref_crypto sample_auth_env exchange_request_fixture
      exchange_body_fixture) exchange_world = (json_response 200 (handoff_exchange_response
      (ses_internal_user_id session_fixture) (ses_authenticated_at session_fixture)), w')"
    using exchange_fixture_run by blast
  have "\<exists>sid secret. basic_credentials ref_crypto exchange_request_fixture = Some (sid, secret)
      \<and> services (pg_tables sample_db) sid \<noteq> None"
    using exchange_auth_handoff_sound [OF mem_server.redis_server_axioms _ mem_db.postgres_db_axioms _
        reference.crypto_lib_axioms run] by (auto simp: exchange_world_simps)
  with run show ?thesis by fastforce
qed

text \<open>
  A registered service that presents its own unused handoff code with the verifier of its
  challenge gets 200 with the session's user and authentication time (no message lost, nothing
  interfering).
\<close>

theorem exchange_auth_handoff_completes:
  assumes "redis_server R view" "server_cmds (redis_at E) = R" "quiet (redis_at E) (trips (conn w))"
    and "redis_up E (trips (conn w))" "postgres_db P committed staged" "pg (postgres_at E) = P"
    and "pg_network (postgres_at E) (statements (pool_of w)) = Delivered" "crypto_lib C"
    and "services (committed (pg_arrival (postgres_at E) (pool_of w))) sid = Some svc" "row_is_enabled svc"
      "row_service_secret_sha256 svc = sha256 C secret"
    and "basic_credentials C request = Some (sid, secret)" "validate_service_id sid = Ok ()"
    and "validate_fixed_reference_value (hxr_code body) = Ok ()"
    and "pkce_s256_challenge C (hxr_code_verifier body) = Ok challenge"
    and "view (server (conn w)) (handoff_key C (hxr_code body)) = Some (RHash (map_of (encode_handoff h)))"
    and "view (server (conn w)) (session_key_text (hnd_common_session_lookup h)) = Some (RHash (map_of (encode_session ses)))"
    and "exchangeable (r_time R (server (conn w))) (map_of (encode_handoff h)) (map_of (encode_session ses))
      sid challenge (hnd_common_session_lookup h)"
  shows "\<exists>w'. run_handler (exchange_auth_handoff C E request body) w =
    (json_response 200 (handoff_exchange_response (ses_internal_user_id ses) (ses_authenticated_at ses)), w')"
  using assms by (rule exchange_complete)

theorem exchange_auth_handoff_completes_witness:
  "\<exists>w'. run_handler (exchange_auth_handoff ref_crypto sample_auth_env exchange_request_fixture exchange_body_fixture)
      exchange_world = (json_response 200 (handoff_exchange_response (ses_internal_user_id session_fixture)
        (ses_authenticated_at session_fixture)), w')"
  by (rule exchange_auth_handoff_completes [where R = mem_redis and view = mem_view and P = mem_pg and committed = pg_tables
        and staged = pg_staged and sid = "''service''" and secret = "''service-secret''" and h = sample_handoff
        and svc = sample_service and challenge = "b64url_encode ref_crypto (sha256 ref_crypto sample_verifier)"])
    (simp_all add: exchange_fixture_facts exchange_body_fixture_def mem_server.redis_server_axioms
      mem_db.postgres_db_axioms reference.crypto_lib_axioms,
     simp_all add: sample_service_def validate_service_id_def is_service_id_rest_byte_def byte_in_def foundation_bounds)

text \<open>
  The Basic credential that the portal's HTTP client sends for a service identifier without
  a colon is read back as that identifier and secret.
\<close>

theorem basic_credentials_roundtrip:
  assumes "crypto_lib C" "validate_service_id sid = Ok ()" "utf8_valid secret"
    and "length (basic_auth C sid secret) \<le> 8192"
    and "get_all ''authorization'' (rq_headers request) = [basic_auth C sid secret]"
  shows "basic_credentials C request = Some (sid, secret)"
proof (rule basic_credentials_basic_auth [OF assms(1) _ _ _ assms(4,5)])
  show "sid \<noteq> []" "CHR '':'' \<notin> set sid" using validate_service_id_bytes [OF assms(2)]
    by (auto simp: list_all_iff is_service_id_rest_byte_def byte_in_def)
  have "is_ascii (sid @ '':'')" using validate_service_id_ascii [OF assms(2)] by (simp add: is_ascii_def is_ascii_byte_def)
  then show "utf8_valid (sid @ '':'' @ secret)" using utf8_valid_ascii_append [of "sid @ '':''" secret] assms(3) by simp
qed

theorem basic_credentials_roundtrip_witness:
  "basic_credentials ref_crypto exchange_request_fixture = Some (''service'', ''service-secret'')"
  by (rule basic_credentials_roundtrip [OF reference.crypto_lib_axioms])
    (simp_all add: exchange_request_fixture_def get_all_def is_ascii_byte_def validate_service_id_def
      is_service_id_rest_byte_def byte_in_def foundation_bounds basic_auth_def ref_crypto_def rfc_b64_encode_def
      byte_vals_def b64_padding_def)

section \<open>Logout\<close>

text \<open>
  C13: if the logout form is answered 303, then the presented CSRF token hashes to the lookup
  stored with an unexpired and unused logout transaction, the redirect goes to the return address
  stored in it, the transaction is used up, the session named by the cookie is deleted, nothing
  else changes, and the session cookie is expired in the browser.
\<close>

theorem logout_post_sound:
  assumes "redis_server R view" "server_cmds (redis_at E) = R"
    and "run_handler (logout_post C E request form) w = (r, w')" "resp_status r = 303"
  shows "\<exists>sref h uri s.
    request_cookie (rq_cookies request) AUTH_SESSION_COOKIE_NAME = Some sref
    \<and> s = arrival (redis_at E) (conn w)
    \<and> view s (logout_key C (lgf_logout_reference form)) = Some (RHash h)
    \<and> int (r_time R s) < tonumber (h ''expires_at'') \<and> h ''status'' = Some ''unused''
    \<and> h ''csrf_lookup'' = Some (reference_value_lookup C (lgf_csrf_token form))
    \<and> h ''logout_return_uri'' = Some uri \<and> location r = Some uri
    \<and> resp_cookies r = [build_deleted_common_auth_cookie]
    \<and> view (server (conn w')) = (view s)(logout_key C (lgf_logout_reference form) \<mapsto> RHash (h(''status'' \<mapsto> ''used'')),
        session_key C sref := None)"
proof -
  have "logout_post C E request form w = (Inr r, w')"
    using assms(4) by (intro run_handler_end [OF logout_post_statuses assms(3)]) simp
  then obtain sref uri where e:
    "request_cookie (rq_cookies request) AUTH_SESSION_COOKIE_NAME = Some sref"
    "complete_common_logout C (redis_at E) (lgf_logout_reference form) sref
       (reference_value_lookup C (lgf_csrf_token form)) (conn w) = (Ok uri, conn w')"
    "r = append_header ''location'' uri (with_cookie build_deleted_common_auth_cookie (finish 303))"
    by (rule logout_post_end)
  have "location r = Some uri" "resp_cookies r = [build_deleted_common_auth_cookie]"
    using assms(4) by (simp_all add: e(3) location_def append_header_def split: if_splits)
  then show ?thesis
    using redis_server.logout_sound [OF assms(1,2) e(2)] e(1) by (auto simp: logout_ready_def)
qed

definition logout_world :: "(mem, mem_pg_state) world" where
  "logout_world = sample_world [
     logout_key ref_crypto sample_code \<mapsto> MHash (encode_logout (logout_fixture\<lparr>lgo_csrf_lookup :=
       reference_value_lookup ref_crypto sample_verifier\<rparr>)),
     session_key ref_crypto sample_session_reference \<mapsto> MHash (encode_session session_fixture)]"

definition logout_request_fixture :: request where
  "logout_request_fixture = \<lparr>rq_headers = [],
     rq_cookies = Some [(AUTH_SESSION_COOKIE_NAME, sample_session_reference)]\<rparr>"

definition logout_form_fixture :: logout_form where
  "logout_form_fixture = \<lparr>lgf_logout_reference = sample_code, lgf_csrf_token = sample_verifier\<rparr>"

lemma sample_verifier_reference [simp]: "validate_fixed_reference_value sample_verifier = Ok ()"
  by (simp add: validate_fixed_reference_value_Ok sample_verifier_def b64url_byte_def byte_class_defs list_all_iff)

lemma logout_fixture_run:
  "\<exists>w'. run_handler (logout_post ref_crypto sample_auth_env logout_request_fixture logout_form_fixture) logout_world =
     (with_header ''location'' ''https://service.example/logout'' (with_cookie build_deleted_common_auth_cookie (finish 303)), w')"
proof -
  let ?t = "logout_fixture\<lparr>lgo_csrf_lookup := reference_value_lookup ref_crypto sample_verifier\<rparr>"
  have "mem_view (server (conn logout_world)) (logout_key ref_crypto sample_code) = Some (RHash (map_of (encode_logout ?t)))"
    by (simp add: logout_world_def sample_world_view logout_codec.encode_not_Nil)
  moreover have "logout_ready 150 (map_of (encode_logout ?t)) (reference_value_lookup ref_crypto sample_verifier)"
    by (simp add: logout_ready_encoded reference_value_lookup_is_lookup reference.crypto_lib_axioms lua_uint_max_def)
      (simp add: logout_fixture_def)
  moreover have "map_of (encode_logout ?t) ''logout_return_uri'' = Some ''https://service.example/logout''"
    by (simp add: encode_logout_def logout_fixture_def)
  ultimately obtain c' where "complete_common_logout ref_crypto sample_env sample_code sample_session_reference
      (reference_value_lookup ref_crypto sample_verifier) (conn logout_world) = (Ok ''https://service.example/logout'', c')"
    using mem_server.logout_quiet [of sample_env "conn logout_world" ref_crypto sample_code "map_of (encode_logout ?t)"
        "reference_value_lookup ref_crypto sample_verifier" "''https://service.example/logout''" sample_session_reference]
    by (auto simp: logout_world_def is_ascii_byte_def)
  then show ?thesis
    by (simp add: run_handler_def logout_post_def hbind_def or_else_def on_redis_def get_connection_def Let_def
        logout_request_fixture_def logout_form_fixture_def request_cookie_def append_header_def header_value_def
        header_value_byte_def)
qed

theorem logout_post_sound_witness:
  "\<exists>r w'. run_handler (logout_post ref_crypto sample_auth_env logout_request_fixture logout_form_fixture) logout_world = (r, w')
    \<and> location r = Some ''https://service.example/logout''
    \<and> mem_view (server (conn logout_world)) (session_key ref_crypto sample_session_reference) \<noteq> None
    \<and> mem_view (server (conn w')) (session_key ref_crypto sample_session_reference) = None"
proof -
  obtain w' where run: "run_handler (logout_post ref_crypto sample_auth_env logout_request_fixture logout_form_fixture)
      logout_world = (with_header ''location'' ''https://service.example/logout''
        (with_cookie build_deleted_common_auth_cookie (finish 303)), w')"
    using logout_fixture_run by blast
  have "mem_view (server (conn w')) (session_key ref_crypto sample_session_reference) = None"
    using logout_post_sound [OF mem_server.redis_server_axioms _ run]
    by (auto simp: logout_request_fixture_def request_cookie_def)
  moreover have "mem_view (server (conn logout_world)) (session_key ref_crypto sample_session_reference) \<noteq> None"
    by (simp add: logout_world_def sample_world_view session_codec.encode_not_Nil)
  ultimately show ?thesis using run by (auto simp: location_def)
qed

text \<open>
  C14: opening the logout page and submitting its form logs the user out: when the page is served
  (200) its two hidden values, submitted with the same session cookie before the transaction
  expires, are answered 303 to the registered return address and the common session is gone (no
  message lost, nothing interfering).
\<close>

theorem logout_page_then_form:
  assumes "redis_server R view" "server_cmds (redis_at E) = R" "quiet (redis_at E) (trips (conn w))"
    and "\<And>n. redis_up E n" "postgres_db P committed staged" "pg (postgres_at E) = P" "crypto_lib C"
    and "\<And>n bs. rng E n = Some bs \<Longrightarrow> length bs = 32"
    and "run_handler (logout_get C E request query) w = (r, w')" "resp_status r = 200"
    and "\<And>k. view (server (conn w)) (logout_key C k) = None"
    and "\<And>sid svc. services (committed (pg_arrival (postgres_at E) (pool_of w))) sid = Some svc \<Longrightarrow>
      utf8_valid (row_logout_return_uri svc) \<and> header_value (row_logout_return_uri svc)"
    and "unix_seconds (clock E (ticks w)) = Ok now" "unat now + 600 \<le> lua_uint_max"
    and "r_time R (server (conn w)) < unat now + 600"
    and "request_cookie (rq_cookies request) AUTH_SESSION_COOKIE_NAME = Some sref"
    and "validate_fixed_reference_value sref = Ok ()"
  shows "\<exists>svc form r2 w2. services (committed (pg_arrival (postgres_at E) (pool_of w))) (lgq_service_id query) = Some svc
    \<and> row_is_enabled svc
    \<and> resp_body r = Html (logout_page (lgf_logout_reference form) (lgf_csrf_token form))
    \<and> run_handler (logout_post C E request form) w' = (r2, w2) \<and> resp_status r2 = 303
    \<and> location r2 = Some (row_logout_return_uri svc) \<and> view (server (conn w2)) (session_key C sref) = None"
proof -
  have "logout_get C E request query w = (Inr r, w')"
    using assms(10) by (intro run_handler_end [OF logout_get_statuses assms(9)]) simp
  then obtain uri p bs1 bs2 now' expires_at where g:
    "validate_service_id (lgq_service_id query) = Ok ()"
    "lookup_logout_return_uri (postgres_at E) (lgq_service_id query) (pool_of w) = (Ok uri, p)"
    "rng E (draws w) = Some bs1" "rng E (Suc (draws w)) = Some bs2" "unix_seconds (clock E (ticks w)) = Ok now'"
    "checked_expires_at now' COMMON_LOGOUT_TRANSACTION_TTL_SECONDS = Ok expires_at"
    "write_logout C (redis_at E) (b64url_encode C bs1) \<lparr>lgo_service_id = lgq_service_id query,
       lgo_logout_return_uri = uri, lgo_csrf_lookup = reference_value_lookup C (b64url_encode C bs2),
       lgo_created_at = now', lgo_expires_at = expires_at, lgo_status = Unused\<rparr> now' (conn w) = (Ok (), conn w')"
    "resp_body r = Html (logout_page (b64url_encode C bs1) (b64url_encode C bs2))"
    by (rule logout_get_end [OF _ assms(10)])
  have now: "now' = now" using g(5) assms(13) by simp
  have exp: "unat expires_at = unat now + 600"
    using g(6) by (simp add: now checked_expires_at_Ok_iff COMMON_LOGOUT_TRANSACTION_TTL_SECONDS_def)
  then have unexpired: "is_unexpired now expires_at" by (simp add: is_unexpired_def word_less_nat_alt)
  obtain svc where svc: "services (committed (pg_arrival (postgres_at E) (pool_of w))) (lgq_service_id query) = Some svc"
    "row_is_enabled svc" "row_logout_return_uri svc = uri"
    using postgres_db.uris_Ok(2) [OF assms(5,6) g(2)] by blast
  define t where "t = \<lparr>lgo_service_id = lgq_service_id query,
       lgo_logout_return_uri = uri, lgo_csrf_lookup = reference_value_lookup C (b64url_encode C bs2),
       lgo_created_at = now, lgo_expires_at = expires_at, lgo_status = Unused\<rparr>"
  define lr where "lr = b64url_encode C bs1"
  define csrf where "csrf = b64url_encode C bs2"
  have refs: "validate_fixed_reference_value lr = Ok ()" "validate_fixed_reference_value csrf = Ok ()"
    using generated_reference_valid [OF assms(7)] assms(8) g(3,4) by (simp_all add: lr_def csrf_def)
  obtain c2 where c2: "complete_common_logout C (redis_at E) lr sref (reference_value_lookup C csrf) (conn w') = (Ok uri, c2)"
    "view (server c2) (session_key C sref) = None"
    using redis_server.write_then_logout [OF assms(1-3) assms(11), of t now lr sref] g(7) unexpired exp assms(14,15)
      assms(12) [OF svc(1)] svc(3)
    by (auto simp: t_def lr_def csrf_def now reference_value_lookup_is_lookup [OF assms(7)])
  define form where "form = \<lparr>lgf_logout_reference = lr, lgf_csrf_token = csrf\<rparr>"
  have "run_handler (logout_post C E request form) w' =
      (with_header ''location'' uri (with_cookie build_deleted_common_auth_cookie (finish 303)), w'\<lparr>conn := c2\<rparr>)"
    using assms(4,16,17) refs c2(1) assms(12) [OF svc(1)] svc(3)
    by (simp add: append_header_def run_handler_def logout_post_def hbind_def or_else_def on_redis_def get_connection_def Let_def form_def)
  then show ?thesis
    using svc g(8) c2(2)
    by (intro exI [of _ svc] exI [of _ form] exI) (auto simp: form_def lr_def csrf_def location_def)
qed

definition logout_page_world :: "(mem, mem_pg_state) world" where
  "logout_page_world = sample_world Map.empty"

lemma logout_page_run:
  "\<exists>r w'. run_handler (logout_get ref_crypto sample_auth_env logout_request_fixture \<lparr>lgq_service_id = ''service''\<rparr>)
     logout_page_world = (r, w') \<and> resp_status r = 200"
proof -
  let ?lr = "b64url_encode ref_crypto (replicate 32 (char_of (0 :: nat)))"
  let ?t = "\<lparr>lgo_service_id = ''service'', lgo_logout_return_uri = ''https://service.example/logout'',
      lgo_csrf_lookup = reference_value_lookup ref_crypto (b64url_encode ref_crypto (replicate 32 (char_of (1 :: nat)))),
      lgo_created_at = 150, lgo_expires_at = 750, lgo_status = Unused\<rparr>"
  have "lookup_logout_return_uri sample_pg_env ''service'' sample_pool =
      (Ok ''https://service.example/logout'', \<lparr>database = sample_db, statements = 1\<rparr>)"
    by (simp add: mem_db.uris_delivered sample_service_def)
  moreover have "simple_parse ''https://service.example/logout'' \<noteq> None" "valid_callback_url simple_urls ''https://service.example/logout'' \<noteq> None"
    by (simp_all add: valid_callback_url_def simple_urls_def simple_parse_def simple_mk_def strip_prefix_def)
  moreover obtain c1 where "write_logout ref_crypto sample_env ?lr ?t 150 (conn logout_page_world) = (Ok (), c1)"
    using mem_server.write_then_logout [of sample_env "conn logout_page_world" ref_crypto ?lr ?t 150]
    by (auto simp: logout_page_world_def sample_world_view is_unexpired_def lua_uint_max_def is_ascii_byte_def
        reference_value_lookup_is_lookup reference.crypto_lib_axioms)
  moreover have "validate_service_id ''service'' = Ok ()" "checked_expires_at 150 COMMON_LOGOUT_TRANSACTION_TTL_SECONDS = Ok 750"
    by (simp_all add: validate_service_id_def is_service_id_rest_byte_def byte_in_def foundation_bounds
        checked_expires_at_Ok_iff COMMON_LOGOUT_TRANSACTION_TTL_SECONDS_def)
  ultimately show ?thesis
    by (simp add: run_handler_def logout_get_def hbind_def or_else_def on_redis_def on_postgres_def get_connection_def
        Let_def pure_def draw_def read_clock_def generate_reference_value_def logout_request_fixture_def
        request_cookie_def logout_page_world_def)
qed

theorem logout_page_then_form_witness:
  "\<exists>r w' form r2 w2. run_handler (logout_get ref_crypto sample_auth_env logout_request_fixture \<lparr>lgq_service_id = ''service''\<rparr>)
      logout_page_world = (r, w')
    \<and> run_handler (logout_post ref_crypto sample_auth_env logout_request_fixture form) w' = (r2, w2)
    \<and> location r2 = Some ''https://service.example/logout''"
proof -
  obtain r w' where run: "run_handler (logout_get ref_crypto sample_auth_env logout_request_fixture
      \<lparr>lgq_service_id = ''service''\<rparr>) logout_page_world = (r, w')" "resp_status r = 200"
    using logout_page_run by blast
  have utf8: "services (pg_tables sample_db) sid = Some svc \<Longrightarrow> utf8_valid (row_logout_return_uri svc)
      \<and> header_value (row_logout_return_uri svc)" for sid svc
    by (auto simp: sample_db_def sample_service_def is_ascii_byte_def header_value_def header_value_byte_def split: if_splits)
  have "\<exists>svc form r2 w2. services (pg_tables sample_db) ''service'' = Some svc
      \<and> run_handler (logout_post ref_crypto sample_auth_env logout_request_fixture form) w' = (r2, w2)
      \<and> location r2 = Some (row_logout_return_uri svc)"
    using logout_page_then_form [OF mem_server.redis_server_axioms _ _ _ mem_db.postgres_db_axioms _
        reference.crypto_lib_axioms _ run, of 150 sample_session_reference] utf8
    by (simp add: logout_page_world_def sample_world_view lua_uint_max_def logout_request_fixture_def request_cookie_def) blast
  then show ?thesis using run(1) by (auto simp: sample_service_def)
qed

end
