(* ===== verification/Auth_Login.thy ===== *)
theory Auth_Login
  imports Auth_Properties
begin

text \<open>
  The properties of the two handlers that log a user in (\<open>login\<close> and \<open>google_auth_callback\<close> of
  \<open>rust-auth0-service/src/main.rs\<close>) and of the application around all handlers.
\<close>

section \<open>Google callback\<close>

text \<open>The subject Google names for a code: what the token and user-info requests answer.\<close>

definition google_subject :: "('s, 'd, 'u) auth_env \<Rightarrow> google_callback_config \<Rightarrow> string \<Rightarrow> string option" where
  "google_subject E cfg code =
     Option.bind (google_token E cfg code) (\<lambda>token.
     Option.bind (google_userinfo E (gcc_userinfo_url cfg) token) (\<lambda>(st, content).
     Option.bind (if 200 \<le> st \<and> st < 300 then content else None) (\<lambda>j.
     map_option gui_id (decode_google_user_info j))))"

lemma callback_identity_subject:
  assumes "callback_identity E cfg code w = (Inr i, w')"
  shows "google_subject E cfg code = Some (nei_subject i)"
  using assms unfolding callback_identity_def google_subject_def
  by (auto simp: normalize_google_user_info_def Let_def split: option.splits if_splits sum.splits prod.splits)

lemma google_auth_callback_end:
  assumes "google_auth_callback C E cfg query w = (Inr r, w')"
  obtains t url i w1 where "callback_claim C E query w = (Inr (t, url), w1)"
    "nei_provider i = ''google''" "google_subject E cfg (cq_code query) = Some (nei_subject i)"
    "callback_session C E t url i w1 = (Inr r, w')"
proof -
  obtain t url i w1 w2 where e: "callback_claim C E query w = (Inr (t, url), w1)"
    "callback_identity E cfg (cq_code query) w1 = (Inr i, w2)" "callback_session C E t url i w2 = (Inr r, w')"
    using assms unfolding google_auth_callback_def by (auto simp: hbind_Ok)
  then show ?thesis
    using callback_identity_end [OF e(2)] callback_identity_subject [OF e(2)] by (intro that) auto
qed

lemma valid_callback_url_Some: "valid_callback_url U s = Some url \<longleftrightarrow>
    url_parse U s = Some url \<and> (url_scheme U url = ''http'' \<or> url_scheme U url = ''https'') \<and> url_host U url \<noteq> None"
  by (auto simp: valid_callback_url_def split: option.splits)

lemma created_pair:
  assumes "redis_server R view" "server_cmds E = R" "create_session_and_handoff C E sr ses hr h c = (Ok (), c')"
  shows "view (server c') (session_key C sr) = Some (RHash (map_of (encode_session ses)))
    \<and> view (server c') (handoff_key C hr) = Some (RHash (map_of (encode_handoff h)))"
  using redis_server.create_effect [OF assms] by auto

text \<open>What a redirect to a service carries: the handoff code and the service's state, appended to its callback URL.\<close>

definition hands_over :: "'u url_ops \<Rightarrow> ('u \<Rightarrow> (string \<times> string) list) \<Rightarrow> ('u \<Rightarrow> string) \<Rightarrow> (string \<times> string) list
    \<Rightarrow> 'u \<Rightarrow> string \<Rightarrow> string \<Rightarrow> response \<Rightarrow> bool" where
  "hands_over U pairs path ps url code st r \<longleftrightarrow> (\<exists>target. location r = Some (url_to_string U target)
     \<and> pairs target = ps @ [(''code'', code), (''state'', st)]
     \<and> url_scheme U target = url_scheme U url \<and> url_host U target = url_host U url \<and> path target = path url)"

lemma hands_over_append:
  assumes "url_lib U pairs path raw_query"
    and "location r = Some (url_to_string U (url_append_pairs U [(''code'', code), (''state'', st)] url))"
  shows "hands_over U pairs path (pairs url) url code st r"
  using assms(2) unfolding hands_over_def
  by (intro exI [of _ "url_append_pairs U [(''code'', code), (''state'', st)] url"])
    (simp add: url_lib.append_pairs [OF assms(1)] url_lib.append_path [OF assms(1)]
      url_lib.append_host [OF assms(1)] url_lib.append_scheme [OF assms(1)])

lemma hands_over_cleared:
  assumes "url_lib U pairs path raw_query"
    and "location r = Some (url_to_string U (url_append_pairs U [(''code'', code), (''state'', st)] (url_clear_query U url)))"
  shows "hands_over U pairs path [] url code st r"
  using hands_over_append [OF assms] unfolding hands_over_def
  by (simp add: url_lib.clear_pairs [OF assms(1)] url_lib.clear_path [OF assms(1)]
      url_lib.clear_host [OF assms(1)] url_lib.clear_scheme [OF assms(1)])

lemma callback_claim_sound:
  assumes "redis_server R view" "server_cmds (redis_at E) = R" "postgres_db P committed staged" "pg (postgres_at E) = P"
    and "callback_claim C E query w = (Inr (t, url), w1)"
  obtains h svc where "view (arrival (redis_at E) (conn w)) (external_key C (cq_state query)) = Some (RHash h)"
    "claimable (r_time R (arrival (redis_at E) (conn w))) h"
    "h ''service_id'' = Some (ext_service_id t)" "h ''service_state'' = Some (ext_service_state t)"
    "h ''handoff_code_challenge'' = Some (ext_handoff_code_challenge t)"
    "services (committed (pg_arrival (postgres_at E) (pool_of w))) (ext_service_id t) = Some svc" "row_is_enabled svc"
    "valid_callback_url (urls E) (row_login_callback_uri svc) = Some url" "ticks w1 = ticks w"
proof -
  from assms(5) obtain c p uri where claim:
    "claim_external_callback C (redis_at E) (cq_state query) (conn w) = (Ok t, c)"
    "lookup_login_callback_uri (postgres_at E) (ext_service_id t) (pool_of w) = (Ok uri, p)"
    "valid_callback_url (urls E) uri = Some url" "w1 = w\<lparr>conn := c, pool_of := p\<rparr>"
    by (rule callback_claim_end)
  obtain h where h: "view (arrival (redis_at E) (conn w)) (external_key C (cq_state query)) = Some (RHash h)"
    "claimable (r_time R (arrival (redis_at E) (conn w))) h" "claim_reply (VInt 0 # claim_values h) = Ok t"
    using redis_server.claim_sound [OF assms(1,2) claim(1)] by blast
  show ?thesis
    using postgres_db.uris_Ok(1) [OF assms(3,4) claim(2)] h(1,2) claim(3,4) claim_reply_values [OF h(2,3)]
    by (auto intro: that)
qed

lemma callback_session_sound:
  assumes "redis_server R view" "server_cmds (redis_at E) = R" "postgres_db P committed staged"
    and "pg (postgres_at E) = P" "isolated staged (postgres_at E)" "url_lib (urls E) pairs path raw_query"
    and "callback_session C E t url i w = (Inr r, w')"
  obtains u now sref ses code hnd where
    "identities (committed (database (pool_of w'))) (nei_provider i, nei_subject i) = Some u"
    "users (committed (database (pool_of w'))) u = Some True" "unix_seconds (clock E (ticks w)) = Ok now"
    "view (server (conn w')) (session_key C sref) = Some (RHash (map_of (encode_session ses)))"
    "ses_internal_user_id ses = u" "ses_authenticated_at ses = now"
    "checked_expires_at now COMMON_SESSION_TTL_SECONDS = Ok (ses_expires_at ses)"
    "view (server (conn w')) (handoff_key C code) = Some (RHash (map_of (encode_handoff hnd)))"
    "handoff_of C sref ses hnd" "hnd_service_id hnd = ext_service_id t" "hnd_code_challenge hnd = ext_handoff_code_challenge t"
    "checked_expires_at now AUTHENTICATION_HANDOFF_TTL_SECONDS = Ok (hnd_expires_at hnd)"
    "resp_cookies r = [auth_session_cookie sref]" "hands_over (urls E) pairs path [] url code (ext_service_state t) r"
  using assms(7)
proof (rule callback_session_end)
  fix now u p bs1 bs2 ses_exp hnd_exp
  let ?ses = "\<lparr>ses_internal_user_id = u, ses_authenticated_at = now, ses_created_at = now, ses_expires_at = ses_exp\<rparr>"
  let ?hnd = "\<lparr>hnd_service_id = ext_service_id t, hnd_internal_user_id = u,
      hnd_common_session_lookup = reference_value_lookup C (b64url_encode C bs1),
      hnd_code_challenge = ext_handoff_code_challenge t, hnd_authenticated_at = now, hnd_issued_at = now,
      hnd_expires_at = hnd_exp, hnd_status = Unused\<rparr>"
  assume s: "unix_seconds (clock E (ticks w)) = Ok now"
    "resolve_external_identity (postgres_at E) (nei_provider i) (nei_subject i) (pool_of w) = (Ok u, p)"
    "checked_expires_at now COMMON_SESSION_TTL_SECONDS = Ok ses_exp"
    "checked_expires_at now AUTHENTICATION_HANDOFF_TTL_SECONDS = Ok hnd_exp"
    "create_session_and_handoff C (redis_at E) (b64url_encode C bs1) ?ses (b64url_encode C bs2) ?hnd (conn w) = (Ok (), conn w')"
    "pool_of w' = p"
    "r = with_header ''location'' (url_to_string (urls E) (url_append_pairs (urls E)
           [(''code'', b64url_encode C bs2), (''state'', ext_service_state t)] (url_clear_query (urls E) url)))
         (with_cookie (auth_session_cookie (b64url_encode C bs1)) (finish 302))"
  have "hands_over (urls E) pairs path [] url (b64url_encode C bs2) (ext_service_state t) r"
    by (rule hands_over_cleared [OF assms(6)]) (simp add: s(7) location_def)
  then show ?thesis
    using postgres_db.resolve_sound [OF assms(3-5) s(2)] created_pair [OF assms(1,2) s(5)] s(1,3,4,6)
    by (intro that [of u now "b64url_encode C bs1" ?ses "b64url_encode C bs2" ?hnd]) (simp_all add: handoff_of_def s(7))
qed

text \<open>
  C15: if the Google callback is answered 302, then the state named an unexpired transaction that
  was still waiting; its service is registered and enabled; Google named a subject for the code
  and that identity is linked to an enabled user; a session of that user and a handoff of that
  session, for the transaction's service and PKCE challenge, are stored, both authenticated now
  and with their fixed lifetimes; the cookie carries the session's reference, and the redirect goes
  to the registered callback URL with exactly the handoff code and the service's own state.
\<close>

theorem google_auth_callback_sound:
  assumes "redis_server R view" "server_cmds (redis_at E) = R" "postgres_db P committed staged"
    and "pg (postgres_at E) = P" "isolated staged (postgres_at E)" "url_lib (urls E) pairs path raw_query"
    and "run_handler (google_auth_callback C E cfg query) w = (r, w')" "resp_status r = 302"
  shows "\<exists>h sid st svc url subject u now sref ses code hnd.
      view (arrival (redis_at E) (conn w)) (external_key C (cq_state query)) = Some (RHash h)
    \<and> claimable (r_time R (arrival (redis_at E) (conn w))) h
    \<and> h ''service_id'' = Some sid \<and> h ''service_state'' = Some st
    \<and> h ''handoff_code_challenge'' = Some (hnd_code_challenge hnd)
    \<and> services (committed (pg_arrival (postgres_at E) (pool_of w))) sid = Some svc \<and> row_is_enabled svc
    \<and> valid_callback_url (urls E) (row_login_callback_uri svc) = Some url
    \<and> google_subject E cfg (cq_code query) = Some subject
    \<and> identities (committed (database (pool_of w'))) (''google'', subject) = Some u
    \<and> users (committed (database (pool_of w'))) u = Some True
    \<and> unix_seconds (clock E (ticks w)) = Ok now
    \<and> view (server (conn w')) (session_key C sref) = Some (RHash (map_of (encode_session ses)))
    \<and> ses_internal_user_id ses = u \<and> ses_authenticated_at ses = now
    \<and> checked_expires_at now COMMON_SESSION_TTL_SECONDS = Ok (ses_expires_at ses)
    \<and> view (server (conn w')) (handoff_key C code) = Some (RHash (map_of (encode_handoff hnd)))
    \<and> handoff_of C sref ses hnd \<and> hnd_service_id hnd = sid
    \<and> checked_expires_at now AUTHENTICATION_HANDOFF_TTL_SECONDS = Ok (hnd_expires_at hnd)
    \<and> resp_cookies r = [auth_session_cookie sref]
    \<and> hands_over (urls E) pairs path [] url code st r"
proof -
  have "google_auth_callback C E cfg query w = (Inr r, w')"
    using assms(8) by (intro run_handler_end [OF google_auth_callback_statuses assms(7)]) simp
  then obtain t url i w1 where e: "callback_claim C E query w = (Inr (t, url), w1)"
    "nei_provider i = ''google''" "google_subject E cfg (cq_code query) = Some (nei_subject i)"
    "callback_session C E t url i w1 = (Inr r, w')"
    by (rule google_auth_callback_end)
  obtain h svc where claim: "view (arrival (redis_at E) (conn w)) (external_key C (cq_state query)) = Some (RHash h)"
    "claimable (r_time R (arrival (redis_at E) (conn w))) h"
    "h ''service_id'' = Some (ext_service_id t)" "h ''service_state'' = Some (ext_service_state t)"
    "h ''handoff_code_challenge'' = Some (ext_handoff_code_challenge t)"
    "services (committed (pg_arrival (postgres_at E) (pool_of w))) (ext_service_id t) = Some svc" "row_is_enabled svc"
    "valid_callback_url (urls E) (row_login_callback_uri svc) = Some url" "ticks w1 = ticks w"
    using e(1) by (rule callback_claim_sound [OF assms(1-4)])
  show ?thesis
    using e(4)
    by (rule callback_session_sound [OF assms(1-6)], unfold e(2) claim(9)) (use claim e(3) in metis)
qed

definition callback_world :: "(mem, mem_pg_state) world" where
  "callback_world = sample_world [external_key ref_crypto sample_code \<mapsto> MHash (encode_external external_fixture)]"

definition callback_config_fixture :: google_callback_config where
  "callback_config_fixture = \<lparr>gcc_client_id = ''client'', gcc_client_secret = ''secret'',
     gcc_auth_url = GOOGLE_AUTHORIZATION_URL, gcc_token_url = GOOGLE_TOKEN_URL,
     gcc_redirect_uri = ''https://auth.example/auth/google/callback'', gcc_userinfo_url = GOOGLE_USERINFO_URL\<rparr>"

definition callback_query_fixture :: callback_query where
  "callback_query_fixture = \<lparr>cq_code = ''google-code'', cq_state = sample_code\<rparr>"

definition service_url :: simple_url where
  "service_url = \<lparr>su_scheme = ''https'', su_host = ''service.example'', su_path = ''/auth/callback'', su_query = []\<rparr>"

lemma valid_service_url: "valid_callback_url simple_urls ''https://service.example/auth/callback'' = Some service_url"
  by (simp add: valid_callback_url_def simple_urls_def simple_parse_def simple_mk_def strip_prefix_def service_url_def
      form_parse.simps)

lemma callback_claim_fixture:
  "\<exists>c. callback_claim ref_crypto sample_auth_env callback_query_fixture callback_world =
     (Inr (external_fixture\<lparr>ext_status := Processing\<rparr>, service_url),
      callback_world\<lparr>conn := c, pool_of := \<lparr>database = sample_db, statements = 1\<rparr>\<rparr>)
    \<and> mem_view (server c) (session_key ref_crypto sr) = None \<and> mem_view (server c) (handoff_key ref_crypto hr) = None
    \<and> r_time mem_redis (server c) = 150"
proof -
  have "mem_view (server (conn callback_world)) (external_key ref_crypto sample_code) = Some (RHash (map_of (encode_external external_fixture)))"
    by (simp add: callback_world_def sample_world_view external_codec.encode_not_Nil)
  then obtain c where c: "claim_external_callback ref_crypto sample_env sample_code (conn callback_world) =
      (Ok (external_fixture\<lparr>ext_status := Processing\<rparr>), c)"
    "r_time mem_redis (server c) = 150"
    "mem_view (server c) = (mem_view (server (conn callback_world)))(external_key ref_crypto sample_code \<mapsto>
       RHash ((map_of (encode_external external_fixture))(''status'' \<mapsto> ''processing'')))"
    using mem_server.claim_quiet [of sample_env "conn callback_world" ref_crypto sample_code] fixtures_ready(1)
      claim_reply_encoded [OF fixtures_storable(1)] by (auto simp: callback_world_def)
  have "lookup_login_callback_uri sample_pg_env ''service'' sample_pool =
      (Ok ''https://service.example/auth/callback'', \<lparr>database = sample_db, statements = 1\<rparr>)"
    by (simp add: mem_db.uris_delivered sample_service_def)
  moreover have "ext_service_id external_fixture = ''service''" by (simp add: external_fixture_def)
  moreover have "\<not> is_err (validate_max_bytes ''google-code'' OAUTH_CODE_MAX_BYTES)"
    by (simp add: validate_max_bytes_def OAUTH_CODE_MAX_BYTES_def)
  ultimately show ?thesis
    using c
    by (intro exI [of _ c]) (simp add: callback_claim_def hbind_def or_else_def on_redis_def on_postgres_def get_connection_def
        callback_query_fixture_def valid_service_url callback_world_def sample_world_view)
qed

abbreviation drawn :: "nat \<Rightarrow> string" where
  "drawn n \<equiv> b64url_encode ref_crypto (replicate 32 (char_of n))"

lemma callback_identity_fixture:
  "\<exists>i. callback_identity sample_auth_env callback_config_fixture ''google-code'' w = (Inr i, w)
    \<and> nei_provider i = ''google'' \<and> nei_subject i = ''subject-42''"
  by (simp add: callback_identity_def sample_auth_env_def decode_google_user_info_def json_field_def
      normalize_google_user_info_def Let_def identity_validate_def option_filter_def validate_nonempty_max_bytes_def
      validate_max_bytes_def PROVIDER_MAX_BYTES_def SUBJECT_MAX_BYTES_def)

lemma callback_session_fixture:
  assumes "mem_view (server (conn w)) (session_key ref_crypto (drawn 0)) = None"
    "mem_view (server (conn w)) (handoff_key ref_crypto (drawn 1)) = None" "r_time mem_redis (server (conn w)) = 150"
    and "pool_of w = \<lparr>database = sample_db, statements = 1\<rparr>" "draws w = 0" "ticks w = 0"
    and "nei_provider i = ''google''" "nei_subject i = ''subject-42''"
  shows "\<exists>r w'. callback_session ref_crypto sample_auth_env t url i w = (Inr r, w') \<and> resp_status r = 302"
proof -
  let ?ses = "\<lparr>ses_internal_user_id = 42, ses_authenticated_at = 150, ses_created_at = 150, ses_expires_at = 28950\<rparr>"
  let ?hnd = "\<lparr>hnd_service_id = ext_service_id t, hnd_internal_user_id = 42,
      hnd_common_session_lookup = reference_value_lookup ref_crypto (drawn 0),
      hnd_code_challenge = ext_handoff_code_challenge t, hnd_authenticated_at = 150, hnd_issued_at = 150,
      hnd_expires_at = 270, hnd_status = Unused\<rparr>"
  have user: "resolve_external_identity sample_pg_env ''google'' ''subject-42'' (pool_of w) =
      (Ok 42, \<lparr>database = sample_db, statements = 2\<rparr>)"
    by (simp add: resolve_external_identity_def mem_db.read_identity_delivered assms(4))
  have "session_live 150 (map_of (encode_session ?ses))" "handoff_live 150 (map_of (encode_handoff ?hnd))"
    "handoff_of ref_crypto (drawn 0) ?ses ?hnd"
    by (simp_all add: session_live_encoded handoff_live_encoded handoff_of_def reference_value_lookup_is_lookup
        reference.crypto_lib_axioms lua_uint_max_def)
  then obtain c where c: "create_session_and_handoff ref_crypto sample_env (drawn 0) ?ses (drawn 1) ?hnd (conn w) = (Ok (), c)"
    using mem_server.create_quiet [OF reference.crypto_lib_axioms, of sample_env "conn w" "drawn 0" "drawn 1" ?ses ?hnd] assms(1-3)
    by auto
  have "checked_expires_at 150 COMMON_SESSION_TTL_SECONDS = Ok 28950"
    "checked_expires_at 150 AUTHENTICATION_HANDOFF_TTL_SECONDS = Ok 270"
    by (simp_all add: checked_expires_at_Ok_iff COMMON_SESSION_TTL_SECONDS_def AUTHENTICATION_HANDOFF_TTL_SECONDS_def)
  with user c show ?thesis
    by (simp add: callback_session_def hbind_def or_else_def on_redis_def on_postgres_def Let_def pure_def draw_def
        read_clock_def generate_reference_value_def assms)
qed

lemma callback_fixture_run:
  "\<exists>r w'. run_handler (google_auth_callback ref_crypto sample_auth_env callback_config_fixture callback_query_fixture)
     callback_world = (r, w') \<and> resp_status r = 302"
proof -
  obtain c where c: "callback_claim ref_crypto sample_auth_env callback_query_fixture callback_world =
     (Inr (external_fixture\<lparr>ext_status := Processing\<rparr>, service_url),
      callback_world\<lparr>conn := c, pool_of := \<lparr>database = sample_db, statements = 1\<rparr>\<rparr>)"
    "mem_view (server c) (session_key ref_crypto (drawn 0)) = None" "mem_view (server c) (handoff_key ref_crypto (drawn 1)) = None"
    "r_time mem_redis (server c) = 150"
    using callback_claim_fixture by blast
  let ?w = "callback_world\<lparr>conn := c, pool_of := \<lparr>database = sample_db, statements = 1\<rparr>\<rparr>"
  obtain i where i: "callback_identity sample_auth_env callback_config_fixture ''google-code'' ?w = (Inr i, ?w)"
    "nei_provider i = ''google''" "nei_subject i = ''subject-42''"
    using callback_identity_fixture by blast
  obtain r w' where "callback_session ref_crypto sample_auth_env (external_fixture\<lparr>ext_status := Processing\<rparr>) service_url i ?w =
      (Inr r, w')" "resp_status r = 302"
    using callback_session_fixture [of ?w i "external_fixture\<lparr>ext_status := Processing\<rparr>" service_url] c i
    by (auto simp: callback_world_def)
  with c(1) i(1) show ?thesis
    by (simp add: run_handler_def google_auth_callback_def hbind_def callback_query_fixture_def)
qed

lemma sample_pg_isolated: "isolated pg_staged sample_pg_env"
  by (simp add: isolated_def sample_pg_env_def)

theorem google_auth_callback_sound_witness:
  "\<exists>r w' h u sref. run_handler (google_auth_callback ref_crypto sample_auth_env callback_config_fixture callback_query_fixture)
      callback_world = (r, w')
    \<and> mem_view (server (conn callback_world)) (external_key ref_crypto sample_code) = Some (RHash h) \<and> claimable 150 h
    \<and> identities (pg_tables (database (pool_of w'))) (''google'', ''subject-42'') = Some u
    \<and> resp_cookies r = [auth_session_cookie sref]"
proof -
  obtain r w' where run: "run_handler (google_auth_callback ref_crypto sample_auth_env callback_config_fixture callback_query_fixture)
      callback_world = (r, w')" "resp_status r = 302"
    using callback_fixture_run by blast
  have "google_subject sample_auth_env callback_config_fixture ''google-code'' = Some ''subject-42''"
    by (simp add: google_subject_def sample_auth_env_def decode_google_user_info_def json_field_def)
  then show ?thesis
    using google_auth_callback_sound [OF mem_server.redis_server_axioms _ mem_db.postgres_db_axioms _ _
        simple.url_lib_axioms [folded sample_auth_env_simps(4)] run] run(1) sample_pg_isolated
    by (auto simp: callback_query_fixture_def callback_world_def)
qed

section \<open>Login\<close>

lemma run_handler_Ok: "h w = (Inr r, w') \<Longrightarrow> run_handler h w = (r, w')"
  by (simp add: run_handler_def)

lemma login_google_sound:
  assumes "run_handler (start_google_login C E cfg query now) w = (r, w')" "resp_status r = 302"
  obtains bs expires_at where
    "checked_expires_at now EXTERNAL_AUTH_TRANSACTION_TTL_SECONDS = Ok expires_at"
    "write_external C (redis_at E) (b64url_encode C bs) \<lparr>ext_service_id = lq_service_id query,
       ext_service_state = lq_state query, ext_handoff_code_challenge = lq_code_challenge query,
       ext_provider = ''google'', ext_provider_verification_data = '''', ext_created_at = now,
       ext_expires_at = expires_at, ext_status = Waiting\<rparr> now (conn w) = (Ok (), conn w')"
    "location r = Some (authorize_url E GOOGLE_AUTHORIZATION_URL cfg (b64url_encode C bs) [''email'', ''profile''])"
    "resp_cookies r = []"
proof -
  have "start_google_login C E cfg query now w = (Inr r, w')"
    using assms(2) by (intro run_handler_end [OF start_google_statuses assms(1)]) simp
  then show ?thesis by (rule start_google_end) (auto intro: that simp: location_def)
qed

text \<open>A login that redirects has either started a Google login or issued a handoff for the session.\<close>

lemma login_cases:
  assumes "run_handler (login C E cfg request query) w = (r, w')" "resp_status r = 302"
  obtains (google) now w1 where "run_handler (start_google_login C E cfg query now) w1 = (r, w')"
  | (sso) sref where "session_reference request = Some sref" "login C E cfg request query w = (Inr r, w')"
proof (cases "login C E cfg request query w")
  case (Pair x w2)
  show ?thesis
  proof (cases x)
    case (Inl e)
    then have "login C E cfg request query w = (Inl r, w')" using assms(1) Pair by (simp add: run_handler_def)
    with login_early [of C E cfg query request] assms(2) google show ?thesis
      unfolding stops_in_def by fastforce
  next
    case (Inr a)
    then have run: "login C E cfg request query w = (Inr r, w')" using assms(1) Pair by (simp add: run_handler_def)
    show ?thesis
    proof (cases "session_reference request")
      case None
      from run this show ?thesis
        by (rule login_google_end) (rule google, erule run_handler_Ok)
    qed (use run sso in blast)
  qed
qed

lemma login_guards:
  assumes "run_handler (login C E cfg request query) w = (r, w')" "resp_status r = 302"
  obtains uri p where "login_input_is_valid query"
    "lookup_login_callback_uri (postgres_at E) (lq_service_id query) (pool_of w) = (Ok uri, p)"
  using assms
  by (auto simp: run_handler_def login_def hbind_def ensure_def fail_def or_else_def on_postgres_def quit_def reply_def
      split: if_splits prod.splits sum.splits)

lemma login_sso_sound:
  assumes "redis_server R view" "server_cmds (redis_at E) = R" "postgres_db P committed staged" "pg (postgres_at E) = P"
    and "url_lib (urls E) pairs path raw_query"
    and "login C E cfg request query w = (Inr r, w')" "session_reference request = Some sref"
  obtains svc p url now ses c1 g code expires_at where
    "services (committed (pg_arrival (postgres_at E) (pool_of w))) (lq_service_id query) = Some svc"
    "valid_callback_url (urls E) (row_login_callback_uri svc) = Some url"
    "unix_seconds (clock E (ticks w)) = Ok now"
    "read_session C (redis_at E) sref now (conn w) = (Ok ses, c1)" "is_unexpired now (ses_expires_at ses)"
    "p = snd (lookup_login_callback_uri (postgres_at E) (lq_service_id query) (pool_of w))"
    "users (committed (pg_arrival (postgres_at E) p)) (ses_internal_user_id ses) = Some True"
    "view (arrival (redis_at E) c1) (session_key C sref) = Some (RHash g)"
    "session_live (r_time R (arrival (redis_at E) c1)) g"
    "tonumber (g ''internal_user_id'') = sint (ses_internal_user_id ses)"
    "checked_expires_at now AUTHENTICATION_HANDOFF_TTL_SECONDS = Ok expires_at"
    "view (arrival (redis_at E) c1) (handoff_key C code) = None"
    "view (server (conn w')) = (view (arrival (redis_at E) c1))(handoff_key C code \<mapsto>
       RHash (map_of (encode_handoff (sso_handoff C query sref ses now expires_at))))"
    "hands_over (urls E) pairs path (pairs url) url code (lq_state query) r" "resp_cookies r = []"
  using assms(6,7)
proof (rule login_sso_end)
  fix uri p now url ses w3 bs expires_at
  assume s: "lookup_login_callback_uri (postgres_at E) (lq_service_id query) (pool_of w) = (Ok uri, p)"
      "unix_seconds (clock E (ticks w)) = Ok now" "valid_callback_url (urls E) uri = Some url"
      "login_session C E (start_google_login C E cfg query now) sref now (w\<lparr>pool_of := p, ticks := Suc (ticks w)\<rparr>) = (Inr ses, w3)"
      "checked_expires_at now AUTHENTICATION_HANDOFF_TTL_SECONDS = Ok expires_at"
      "issue_sso_handoff C (redis_at E) sref (b64url_encode C bs) (sso_handoff C query sref ses now expires_at) (conn w3) =
         (Ok (), conn w')"
      "r = with_header ''location'' (url_to_string (urls E) (url_append_pairs (urls E)
           [(''code'', b64url_encode C bs), (''state'', lq_state query)] url)) (finish 302)"
  from s(4) obtain c1 p1 where ses: "read_session C (redis_at E) sref now (conn w) = (Ok ses, c1)"
    "read_internal_user_enabled (postgres_at E) (ses_internal_user_id ses) p = (Ok (Some True), p1)" "conn w3 = c1"
    by (rule login_session_end) auto
  have "hands_over (urls E) pairs path (pairs url) url (b64url_encode C bs) (lq_state query) r"
    by (rule hands_over_append [OF assms(5)]) (simp add: s(7) location_def)
  then show ?thesis
    using postgres_db.uris_Ok(1) [OF assms(3,4) s(1)] s(1-3,5) ses(1) postgres_db.user_enabled_Ok [OF assms(3,4) ses(2)]
      redis_server.read_sound [OF assms(1,2) ses(1) [unfolded read_session_def]]
      redis_server.issue_sound [OF assms(1,2) s(6) [unfolded ses(3)]]
    by (auto simp: s(7) sso_handoff_def intro: that)
qed

text \<open>
  C16: if login is answered 302, then its input is well formed and its service is registered and
  enabled, and no cookie is set.  Either a Google login was started: a waiting transaction with
  the service, its state and its PKCE challenge was written under a drawn state, which the
  redirect to Google carries.  Or the request's cookie named a session: it was read unexpired, its
  user was enabled, it was still alive when the handoff was issued, the handoff (of that session,
  for this service and challenge) is all that changed in the store, and the redirect adds exactly
  its code and the service's state to the registered callback URL.
\<close>

theorem login_sound:
  assumes "redis_server R view" "server_cmds (redis_at E) = R" "postgres_db P committed staged" "pg (postgres_at E) = P"
    and "url_lib (urls E) pairs path raw_query"
    and "run_handler (login C E cfg request query) w = (r, w')" "resp_status r = 302"
  shows "\<exists>svc. login_input_is_valid query \<and> resp_cookies r = []
    \<and> services (committed (pg_arrival (postgres_at E) (pool_of w))) (lq_service_id query) = Some svc \<and> row_is_enabled svc
    \<and> ((\<exists>c bs now expires_at.
          checked_expires_at now EXTERNAL_AUTH_TRANSACTION_TTL_SECONDS = Ok expires_at
        \<and> write_external C (redis_at E) (b64url_encode C bs) \<lparr>ext_service_id = lq_service_id query,
            ext_service_state = lq_state query, ext_handoff_code_challenge = lq_code_challenge query,
            ext_provider = ''google'', ext_provider_verification_data = '''', ext_created_at = now,
            ext_expires_at = expires_at, ext_status = Waiting\<rparr> now c = (Ok (), conn w')
        \<and> location r = Some (authorize_url E GOOGLE_AUTHORIZATION_URL cfg (b64url_encode C bs) [''email'', ''profile'']))
      \<or> (\<exists>sref p url now ses c1 g code expires_at.
          session_reference request = Some sref
        \<and> valid_callback_url (urls E) (row_login_callback_uri svc) = Some url
        \<and> unix_seconds (clock E (ticks w)) = Ok now
        \<and> read_session C (redis_at E) sref now (conn w) = (Ok ses, c1) \<and> is_unexpired now (ses_expires_at ses)
        \<and> p = snd (lookup_login_callback_uri (postgres_at E) (lq_service_id query) (pool_of w))
        \<and> users (committed (pg_arrival (postgres_at E) p)) (ses_internal_user_id ses) = Some True
        \<and> view (arrival (redis_at E) c1) (session_key C sref) = Some (RHash g)
        \<and> session_live (r_time R (arrival (redis_at E) c1)) g
        \<and> tonumber (g ''internal_user_id'') = sint (ses_internal_user_id ses)
        \<and> checked_expires_at now AUTHENTICATION_HANDOFF_TTL_SECONDS = Ok expires_at
        \<and> view (arrival (redis_at E) c1) (handoff_key C code) = None
        \<and> view (server (conn w')) = (view (arrival (redis_at E) c1))(handoff_key C code \<mapsto>
            RHash (map_of (encode_handoff (sso_handoff C query sref ses now expires_at))))
        \<and> hands_over (urls E) pairs path (pairs url) url code (lq_state query) r))"
proof -
  obtain uri p where guards: "login_input_is_valid query"
    "lookup_login_callback_uri (postgres_at E) (lq_service_id query) (pool_of w) = (Ok uri, p)"
    using assms(6,7) by (rule login_guards)
  obtain svc where svc: "services (committed (pg_arrival (postgres_at E) (pool_of w))) (lq_service_id query) = Some svc"
    "row_is_enabled svc"
    using postgres_db.uris_Ok(1) [OF assms(3,4) guards(2)] by blast
  from assms(6,7) show ?thesis
  proof (cases rule: login_cases)
    case google
    from google assms(7) show ?thesis by (rule login_google_sound) (use guards(1) svc in blast)
  next
    case sso
    from sso(2,1) show ?thesis
      by (rule login_sso_sound [OF assms(1-5)]) (use guards(1) svc sso(1) in \<open>simp, blast\<close>)
  qed
qed

definition login_world :: "(mem, mem_pg_state) world" where
  "login_world = sample_world [session_key ref_crypto sample_session_reference \<mapsto> MHash (encode_session session_fixture)]"

definition login_query_fixture :: login_query where
  "login_query_fixture = \<lparr>lq_service_id = ''service'', lq_state = ''state'', lq_code_challenge = sample_verifier,
     lq_code_challenge_method = ''S256''\<rparr>"

definition authorization_config_fixture :: google_authorization_config where
  "authorization_config_fixture = \<lparr>gac_client_id = ''client'', gac_redirect_uri = ''https://auth.example/auth/google/callback''\<rparr>"

lemma login_fixture_valid: "login_input_is_valid login_query_fixture"
  by (simp add: login_input_is_valid_def login_query_fixture_def validate_service_id_def is_service_id_rest_byte_def
      byte_in_def validate_max_bytes_def foundation_bounds)

lemma login_session_fixture:
  "\<exists>c. read_session ref_crypto sample_env sample_session_reference 150 (conn login_world) = (Ok session_fixture, c)
    \<and> server c = server (conn login_world)"
  using mem_server.read_quiet [OF session_codec.state_codec_axioms fixtures_storable(2), of sample_env "conn login_world"
      "session_key ref_crypto sample_session_reference" 150 ses_expires_at]
  by (auto simp: read_session_def login_world_def sample_world_view session_codec.encode_not_Nil is_unexpired_def
      session_fixture_def)

lemma login_handoff_fixture:
  assumes "server c = server (conn login_world)"
  shows "\<exists>c'. issue_sso_handoff ref_crypto sample_env sample_session_reference (drawn 0)
    (sso_handoff ref_crypto login_query_fixture sample_session_reference session_fixture 150 270) c = (Ok (), c')"
proof -
  let ?h = "sso_handoff ref_crypto login_query_fixture sample_session_reference session_fixture 150 270"
  have "handoff_of ref_crypto sample_session_reference session_fixture ?h" "handoff_live 150 (map_of (encode_handoff ?h))"
    by (simp_all add: handoff_of_def handoff_live_encoded sso_handoff_def reference_value_lookup_is_lookup
        reference.crypto_lib_axioms lua_uint_max_def session_fixture_def)
  then show ?thesis
    using mem_server.issue_quiet [OF reference.crypto_lib_axioms, of sample_env c sample_session_reference session_fixture
        "drawn 0" ?h] fixtures_ready(2) assms
    by (auto simp: login_world_def sample_world_view session_codec.encode_not_Nil)
qed

lemma login_fixture_run:
  "\<exists>r w'. run_handler (login ref_crypto sample_auth_env authorization_config_fixture logout_request_fixture login_query_fixture)
     login_world = (r, w') \<and> resp_status r = 302 \<and> (\<forall>st scopes. location r \<noteq> Some (authorize_url sample_auth_env
       GOOGLE_AUTHORIZATION_URL authorization_config_fixture st scopes))"
proof -
  obtain c where c: "read_session ref_crypto sample_env sample_session_reference 150 (conn login_world) = (Ok session_fixture, c)"
    "server c = server (conn login_world)"
    using login_session_fixture by blast
  obtain c' where c': "issue_sso_handoff ref_crypto sample_env sample_session_reference (drawn 0)
      (sso_handoff ref_crypto login_query_fixture sample_session_reference session_fixture 150 270) c = (Ok (), c')"
    using login_handoff_fixture [OF c(2)] by blast
  have "lookup_login_callback_uri sample_pg_env ''service'' sample_pool =
      (Ok ''https://service.example/auth/callback'', \<lparr>database = sample_db, statements = 1\<rparr>)"
    by (simp add: mem_db.uris_delivered sample_service_def)
  moreover have "read_internal_user_enabled sample_pg_env 42 \<lparr>database = sample_db, statements = 1\<rparr> =
      (Ok (Some True), \<lparr>database = sample_db, statements = 2\<rparr>)"
    by (simp add: mem_db.user_enabled_delivered)
  moreover have "ses_internal_user_id session_fixture = 42" by (simp add: session_fixture_def)
  moreover have "lq_service_id login_query_fixture = ''service''" by (simp add: login_query_fixture_def)
  moreover have "request_cookie (rq_cookies logout_request_fixture) AUTH_SESSION_COOKIE_NAME = Some sample_session_reference"
    by (simp add: logout_request_fixture_def request_cookie_def)
  moreover have "checked_expires_at 150 AUTHENTICATION_HANDOFF_TTL_SECONDS = Ok 270"
    by (simp add: checked_expires_at_Ok_iff AUTHENTICATION_HANDOFF_TTL_SECONDS_def)
  ultimately have "\<exists>w'. run_handler (login ref_crypto sample_auth_env authorization_config_fixture logout_request_fixture
      login_query_fixture) login_world = (with_header ''location'' (url_to_string simple_urls (url_append_pairs simple_urls
        [(''code'', drawn 0), (''state'', lq_state login_query_fixture)] service_url)) (finish 302), w')"
    using c(1) c' login_fixture_valid
    by (simp add: run_handler_def login_def login_session_def hbind_def or_else_def on_redis_def on_postgres_def Let_def
        pure_def draw_def read_clock_def get_connection_def generate_reference_value_def valid_service_url sso_handoff_def
        login_world_def)
  moreover have "location (with_header ''location'' (url_to_string simple_urls (url_append_pairs simple_urls ps service_url)) (finish 302))
      \<noteq> Some (authorize_url sample_auth_env GOOGLE_AUTHORIZATION_URL authorization_config_fixture st scopes)" for ps st scopes
    by (simp add: location_def simple_urls_def simple_to_string_def service_url_def sample_auth_env_def
        GOOGLE_AUTHORIZATION_URL_def header_value_byte_def)
  ultimately show ?thesis by fastforce
qed

theorem login_sound_witness:
  "\<exists>r w' g. run_handler (login ref_crypto sample_auth_env authorization_config_fixture logout_request_fixture login_query_fixture)
      login_world = (r, w')
    \<and> mem_view (server (conn login_world)) (session_key ref_crypto sample_session_reference) = Some (RHash g)
    \<and> session_live 150 g
    \<and> (\<exists>code url. hands_over simple_urls su_query su_path (su_query url) url code ''state'' r)"
proof -
  obtain r w' where run: "run_handler (login ref_crypto sample_auth_env authorization_config_fixture logout_request_fixture
      login_query_fixture) login_world = (r, w')" "resp_status r = 302"
    "\<And>st scopes. location r \<noteq> Some (authorize_url sample_auth_env GOOGLE_AUTHORIZATION_URL
       authorization_config_fixture st scopes)"
    using login_fixture_run by blast
  have sref: "session_reference logout_request_fixture = Some sref \<longleftrightarrow> sref = sample_session_reference" for sref
    by (auto simp: session_reference_def logout_request_fixture_def request_cookie_def)
  obtain c where c: "read_session ref_crypto sample_env sample_session_reference 150 (conn login_world) = (Ok session_fixture, c)"
    "server c = server (conn login_world)"
    using login_session_fixture by blast
  show ?thesis
    using login_sound [OF mem_server.redis_server_axioms _ mem_db.postgres_db_axioms _
        simple.url_lib_axioms [folded sample_auth_env_simps(4)] run(1,2)] run(1,3) c
    by (auto simp: sref login_query_fixture_def login_world_def)
qed

end
