(* ===== verification/Redis_Revocation.thy ===== *)
theory Redis_Revocation
  imports Redis_Properties
begin

text \<open>
  Logging out takes effect: over runs of the server machine, once a common logout has deleted a
  session, nothing that needs the session succeeds until the session is created anew.
\<close>

section \<open>Keys that are gone\<close>

lemma gone_step: "store_step v e w \<Longrightarrow> \<not> renews k e \<Longrightarrow> v k = None \<Longrightarrow> w k = None"
  by (induction rule: store_step.induct) auto

lemma gone_path: "store_path v es w \<Longrightarrow> \<forall>e \<in> set es. \<not> renews k e \<Longrightarrow> v k = None \<Longrightarrow> w k = None"
  by (induction rule: store_path.induct) (auto dest: gone_step)

lemma server_run_append:
  "server_run C R view s (as @ bs) u \<Longrightarrow> \<exists>t. server_run C R view s as t \<and> server_run C R view t bs u"
proof (induction as arbitrary: s)
  case (Cons a as)
  from Cons.prems obtain t where t: "server_step C R view s a t" "server_run C R view t (as @ bs) u"
    by (auto elim: server_run_ConsE)
  from Cons.IH [OF t(2)] t(1) show ?case by (blast intro: server_run.run_Cons)
qed (auto intro: server_run.run_Nil)

text \<open>The session an operation needs: the session a handoff is issued for, or was issued for.\<close>

fun op_session :: "'c crypto_scheme \<Rightarrow> server_op \<Rightarrow> string option" where
  "op_session C (IssueHandoff sr hr h) = Some (session_key C sr)"
| "op_session C (ExchangeHandoff hr service challenge lookup) = Some (session_key_text lookup)"
| "op_session C _ = None"

context redis_server
begin

lemma gone_run:
  assumes "server_run C R view s evs t" "\<forall>e \<in> set evs. \<not> renewed C k e" "view s k = None"
  shows "view t k = None"
proof -
  obtain es where "store_path (view s) es (view t)" "\<forall>x \<in> set es. \<not> renews k x"
    using server_run_path [OF assms(1)] assms(2) by blast
  then show ?thesis using assms(3) by (rule gone_path)
qed

lemma logout_deletes:
  assumes "run_op C R (CompleteLogout lr sr csrf) s = (r, t)" "succeeded r"
  shows "view t (session_key C sr) = None"
  using logout_outcome [of s C lr csrf sr] assms by (auto dest: refusal_not_succeeded)

lemma needs_session:
  assumes "run_op C R op s = (r, t)" "op_session C op = Some k" "view s k = None"
  shows "\<not> succeeded r"
proof (cases op)
  case (IssueHandoff sr hr h)
  with assms issue_outcome [of s C sr hr h] show ?thesis by (auto dest: refusal_not_succeeded)
next
  case (ExchangeHandoff hr service challenge lookup)
  with assms exchange_outcome [of s C hr lookup service challenge] show ?thesis by (auto dest: refusal_not_succeeded)
qed (use assms in auto)

lemma revoked:
  assumes "server_run C R view s (as @ [Op (CompleteLogout lr sr csrf) r1] @ bs @ [Op op r2] @ cs) t"
    and "succeeded r1" "op_session C op = Some (session_key C sr)"
    and "\<forall>e \<in> set bs. \<not> renewed C (session_key C sr) e"
  shows "\<not> succeeded r2"
proof -
  obtain s1 where "server_run C R view s1 ([Op (CompleteLogout lr sr csrf) r1] @ bs @ [Op op r2] @ cs) t"
    using server_run_append [OF assms(1)] by blast
  then obtain s2 where s2: "run_op C R (CompleteLogout lr sr csrf) s1 = (r1, s2)"
    "server_run C R view s2 (bs @ [Op op r2] @ cs) t"
    by (auto elim!: server_run_ConsE server_step_OpE)
  obtain s3 where s3: "server_run C R view s2 bs s3" "server_run C R view s3 ([Op op r2] @ cs) t"
    using server_run_append [OF s2(2)] by blast
  then obtain s4 where s4: "run_op C R op s3 = (r2, s4)" by (auto elim!: server_run_ConsE server_step_OpE)
  have "view s3 (session_key C sr) = None"
    by (rule gone_run [OF s3(1) assms(4) logout_deletes [OF s2(1) assms(2)]])
  then show ?thesis by (rule needs_session [OF s4 assms(3)])
qed

end

section \<open>Property\<close>

text \<open>
  C2: logging out revokes.  In every run of any number of instances, after a common logout has
  succeeded with a session, no handoff issued for that session is exchanged and none is issued for
  it, whatever happens in between, unless the session is created anew.
\<close>

theorem logout_revokes:
  assumes "redis_server R view"
    and "server_run C R view s (as @ [Op (CompleteLogout lr sr csrf) r1] @ bs @ [Op op r2] @ cs) t"
    and "succeeded r1" "op_session C op = Some (session_key C sr)"
    and "\<forall>e \<in> set bs. \<not> renewed C (session_key C sr) e"
  shows "\<not> succeeded r2"
  using assms by (rule redis_server.revoked)

text \<open>
  On the sample server the handoff of the session can be exchanged; after the logout it cannot,
  though it is neither used nor expired.
\<close>

definition logout_op_fixture :: server_op where
  "logout_op_fixture = CompleteLogout ''logout-reference'' ''common-session-reference'' (lgo_csrf_lookup logout_fixture)"

lemma logout_fixture_succeeds: "succeeded (fst (run_op ref_crypto mem_redis logout_op_fixture sample_server))"
  using mem_server.logout_outcome [of sample_server ref_crypto "''logout-reference''" "lgo_csrf_lookup logout_fixture"
      "''common-session-reference''"] fixtures_ready(4)
  by (auto simp: logout_op_fixture_def succeeded_def sample_view)

lemma exchange_fixture_succeeds: "succeeded (fst (run_op ref_crypto mem_redis exchange_op_fixture sample_server))"
  using first_exchange_consumes by (simp add: exchange_twice_def Let_def case_prod_unfold)

theorem logout_revokes_witness:
  "succeeded (fst (run_op ref_crypto mem_redis exchange_op_fixture sample_server))
   \<and> \<not> succeeded (fst (run_op ref_crypto mem_redis exchange_op_fixture
       (snd (run_op ref_crypto mem_redis logout_op_fixture sample_server))))"
proof -
  let ?s1 = "snd (run_op ref_crypto mem_redis logout_op_fixture sample_server)"
  have run: "server_run ref_crypto mem_redis mem_view sample_server
      ([] @ [Op logout_op_fixture (fst (run_op ref_crypto mem_redis logout_op_fixture sample_server))]
       @ [] @ [Op exchange_op_fixture (fst (run_op ref_crypto mem_redis exchange_op_fixture ?s1))] @ [])
      (snd (run_op ref_crypto mem_redis exchange_op_fixture ?s1))"
    by (auto intro!: server_run.intros server_step.op)
  have "op_session ref_crypto exchange_op_fixture = Some (session_key ref_crypto ''common-session-reference'')"
    by (simp add: exchange_op_fixture_def lookup_fixture_def session_key_eq_text)
  from logout_revokes [OF mem_server.redis_server_axioms run [unfolded logout_op_fixture_def]
      logout_fixture_succeeds [unfolded logout_op_fixture_def] this]
  show ?thesis using exchange_fixture_succeeds by (simp add: logout_op_fixture_def)
qed

end
