(* ===== verification/Auth_Flow.thy ===== *)
theory Auth_Flow
  imports Auth_Login Redis_Revocation
begin

text \<open>
  Whole logins through the authentication service: that the steps, each of which is sound on its
  own, also lead to the end when nothing goes wrong.  The locale \<open>calm_service\<close> says what that
  means of the environment: the stores answer, nobody interferes, and the clock stands still.
\<close>

lemma service_id_ascii: "validate_service_id sid = Ok () \<Longrightarrow> is_ascii sid"
  by (cases sid) (auto simp: validate_service_id_def is_service_id_rest_byte_def is_ascii_def list_all_iff byte_in_def
      is_ascii_byte_def less_eq_char_def split: if_splits)

lemma valid_reference_ascii: "validate_fixed_reference_value v = Ok () \<Longrightarrow> is_ascii v"
  by (auto simp: validate_fixed_reference_value_Ok is_ascii_def list_all_iff b64url_byte_ascii)

section \<open>A calm environment\<close>

text \<open>The \<open>n\<close>-th reference value drawn, and the service registered under an identifier and enabled.\<close>

definition drawn_ref :: "'c crypto_scheme \<Rightarrow> ('s, 'd, 'u) auth_env \<Rightarrow> nat \<Rightarrow> string" where
  "drawn_ref C E n = b64url_encode C (the (rng E n))"

definition google_transaction :: "login_query \<Rightarrow> u64 \<Rightarrow> external_auth_transaction" where
  "google_transaction q now = \<lparr>ext_service_id = lq_service_id q, ext_service_state = lq_state q,
     ext_handoff_code_challenge = lq_code_challenge q, ext_provider = ''google'', ext_provider_verification_data = '''',
     ext_created_at = now, ext_expires_at = now + EXTERNAL_AUTH_TRANSACTION_TTL_SECONDS, ext_status = Waiting\<rparr>"

lemma google_transaction_simps [simp]:
  "ext_service_id (google_transaction q now) = lq_service_id q"
  "ext_service_state (google_transaction q now) = lq_state q"
  "ext_handoff_code_challenge (google_transaction q now) = lq_code_challenge q"
  by (simp_all add: google_transaction_def)

definition callback_session_of :: "i32 \<Rightarrow> u64 \<Rightarrow> common_session" where
  "callback_session_of u now = \<lparr>ses_internal_user_id = u, ses_authenticated_at = now, ses_created_at = now,
     ses_expires_at = now + COMMON_SESSION_TTL_SECONDS\<rparr>"

definition callback_handoff_of :: "'c crypto_scheme \<Rightarrow> external_auth_transaction \<Rightarrow> string \<Rightarrow> i32 \<Rightarrow> u64 \<Rightarrow> authentication_handoff" where
  "callback_handoff_of C t sref u now = \<lparr>hnd_service_id = ext_service_id t, hnd_internal_user_id = u,
     hnd_common_session_lookup = reference_value_lookup C sref, hnd_code_challenge = ext_handoff_code_challenge t,
     hnd_authenticated_at = now, hnd_issued_at = now, hnd_expires_at = now + AUTHENTICATION_HANDOFF_TTL_SECONDS,
     hnd_status = Unused\<rparr>"

lemma ttls: "unat EXTERNAL_AUTH_TRANSACTION_TTL_SECONDS = 600" "unat COMMON_SESSION_TTL_SECONDS = 28800"
  "unat AUTHENTICATION_HANDOFF_TTL_SECONDS = 120"
  by (simp_all add: EXTERNAL_AUTH_TRANSACTION_TTL_SECONDS_def COMMON_SESSION_TTL_SECONDS_def
      AUTHENTICATION_HANDOFF_TTL_SECONDS_def)

locale calm_service = redis_server R view + postgres_db P committed staged + crypto_lib C
  for R :: "'s redis" and view and P :: "'d postgres" and committed and staged and C :: "'c crypto_scheme" +
  fixes E :: "('s, 'd, 'u) auth_env" and now :: u64
  assumes redis_commands: "server_cmds (redis_at E) = R" and redis_quiet: "quiet (redis_at E) n"
    and redis_reachable: "redis_up E n"
    and postgres_statements: "pg (postgres_at E) = P" and postgres_quiet: "pg_quiet (postgres_at E)"
    and clock_stands: "unix_seconds (clock E n) = Ok now"
    and draws_succeed: "\<exists>bs. rng E n = Some bs \<and> length bs = 32"
    and now_bound: "unat now + 28800 \<le> lua_uint_max"
begin

lemma postgres_calm: "pg_arrival (postgres_at E) p = database p" "pg_network (postgres_at E) n = Delivered"
  using postgres_quiet by (simp_all add: pg_quiet_def pg_arrival_def)

lemma drawn: "draw C E w = (Ok (drawn_ref C E (draws w)), w\<lparr>draws := Suc (draws w)\<rparr>)"
  using draws_succeed [of "draws w"] by (auto simp: draw_def drawn_ref_def generate_reference_value_def)

lemma drawn_ref_valid: "validate_fixed_reference_value (drawn_ref C E n) = Ok ()"
  using draws_succeed [of n] generated_reference_valid [OF crypto_lib_axioms] by (auto simp: drawn_ref_def)

lemma clock_read: "read_clock E w = (Ok now, w\<lparr>ticks := Suc (ticks w)\<rparr>)"
  by (simp add: read_clock_def clock_stands)

lemma expiry:
  assumes "unat ttl \<le> 28800"
  shows "checked_expires_at now ttl = Ok (now + ttl)" "unat (now + ttl) = unat now + unat ttl"
proof -
  have "unat now + unat ttl < 2 ^ 64" using assms now_bound by (simp add: lua_uint_max_def)
  then show "unat (now + ttl) = unat now + unat ttl" by (simp add: unat_word_ariths)
  then show "checked_expires_at now ttl = Ok (now + ttl)"
    using assms now_bound by (simp add: checked_expires_at_Ok_iff)
qed

lemmas calm_simps = hbind_def or_else_def on_redis_def on_postgres_def Let_def pure_def drawn clock_read
  get_connection_def redis_reachable postgres_calm

lemma start_google_completes:
  assumes "view (server (conn w)) (external_key C (drawn_ref C E (draws w))) = None"
    and "r_time R (server (conn w)) < unat now + 600"
  obtains c where "start_google_login C E cfg q now w =
      (Inr (with_header ''location'' (authorize_url E GOOGLE_AUTHORIZATION_URL cfg (drawn_ref C E (draws w))
         [''email'', ''profile'']) (finish 302)), w\<lparr>draws := Suc (draws w), conn := c\<rparr>)"
    "view (server c) = (view (server (conn w)))(external_key C (drawn_ref C E (draws w)) \<mapsto>
       RHash (map_of (encode_external (google_transaction q now))))"
    "r_time R (server c) = r_time R (server (conn w))"
proof -
  let ?t = "google_transaction q now"
  have t: "unat (ext_expires_at ?t) = unat now + 600" using expiry(2) [of EXTERNAL_AUTH_TRANSACTION_TTL_SECONDS]
    by (simp add: google_transaction_def ttls)
  have "is_unexpired now (ext_expires_at ?t)" by (simp add: is_unexpired_def word_less_nat_alt t)
  moreover have "unat (ext_expires_at ?t) \<le> expireat_max" using t now_bound lua_uint_max_le by simp
  ultimately obtain c where c: "write_external C (redis_at E) (drawn_ref C E (draws w)) ?t now (conn w) = (Ok (), c)"
    "r_time R (server c) = r_time R (server (conn w))"
    "view (server c) = (view (server (conn w)))(external_key C (drawn_ref C E (draws w)) \<mapsto> RHash (map_of (encode_external ?t)))"
    using write_quiet [OF redis_commands redis_quiet assms(1), of "encode_external ?t" now "ext_expires_at ?t"] assms(2) t
    by (auto simp: write_external_def external_codec.encode_not_Nil external_codec.encode_names)
  show ?thesis
  proof (rule that [OF _ c(3,2)])
    show "start_google_login C E cfg q now w =
      (Inr (with_header ''location'' (authorize_url E GOOGLE_AUTHORIZATION_URL cfg (drawn_ref C E (draws w))
         [''email'', ''profile'']) (finish 302)), w\<lparr>draws := Suc (draws w), conn := c\<rparr>)"
      using c(1) by (simp add: start_google_login_def calm_simps expiry(1) ttls google_transaction_def)
  qed
qed

lemma login_completes:
  assumes "login_input_is_valid q" "session_reference request = None"
    and "services (committed (database (pool_of w))) (lq_service_id q) = Some svc" "row_is_enabled svc"
    and "view (server (conn w)) (external_key C (drawn_ref C E (draws w))) = None"
    and "r_time R (server (conn w)) < unat now + 600"
  obtains r w' where "run_handler (login C E cfg request q) w = (r, w')" "resp_status r = 302"
    "location r = Some (authorize_url E GOOGLE_AUTHORIZATION_URL cfg (drawn_ref C E (draws w)) [''email'', ''profile''])"
    "view (server (conn w')) = (view (server (conn w)))(external_key C (drawn_ref C E (draws w)) \<mapsto>
       RHash (map_of (encode_external (google_transaction q now))))"
    "r_time R (server (conn w')) = r_time R (server (conn w))" "database (pool_of w') = database (pool_of w)"
    "draws w' = Suc (draws w)"
proof -
  let ?w1 = "w\<lparr>pool_of := \<lparr>database = database (pool_of w), statements = Suc (statements (pool_of w))\<rparr>,
     ticks := Suc (ticks w)\<rparr>"
  obtain c where c: "start_google_login C E cfg q now ?w1 =
      (Inr (with_header ''location'' (authorize_url E GOOGLE_AUTHORIZATION_URL cfg (drawn_ref C E (draws w))
         [''email'', ''profile'']) (finish 302)), ?w1\<lparr>draws := Suc (draws w), conn := c\<rparr>)"
    "view (server c) = (view (server (conn w)))(external_key C (drawn_ref C E (draws w)) \<mapsto>
       RHash (map_of (encode_external (google_transaction q now))))"
    "r_time R (server c) = r_time R (server (conn w))"
    using start_google_completes [of ?w1 cfg q] assms(5,6) by auto
  have "lookup_login_callback_uri (postgres_at E) (lq_service_id q) (pool_of w) = (Ok (row_login_callback_uri svc),
      \<lparr>database = database (pool_of w), statements = Suc (statements (pool_of w))\<rparr>)"
    by (simp add: uris_delivered [OF postgres_statements] postgres_calm assms(3,4))
  then have run: "run_handler (login C E cfg request q) w = (with_header ''location'' (authorize_url E GOOGLE_AUTHORIZATION_URL cfg
      (drawn_ref C E (draws w)) [''email'', ''profile'']) (finish 302), ?w1\<lparr>draws := Suc (draws w), conn := c\<rparr>)"
    using assms(1,2) c(1)
    by (auto simp: run_handler_def login_def calm_simps session_reference_def is_err_iff_not_Ok split: option.splits if_splits)
  show ?thesis by (rule that [OF run]) (simp_all add: c location_def)
qed

lemma callback_claim_completes:
  assumes "view (server (conn w)) (external_key C (cq_state cq)) = Some (RHash (map_of (encode_external t)))"
    and "wf_external t" "claimable (r_time R (server (conn w))) (map_of (encode_external t))"
    and "validate_fixed_reference_value (cq_state cq) = Ok ()"
    and "cq_code cq \<noteq> []" "validate_max_bytes (cq_code cq) OAUTH_CODE_MAX_BYTES = Ok ()"
    and "services (committed (database (pool_of w))) (ext_service_id t) = Some svc" "row_is_enabled svc"
    and "valid_callback_url (urls E) (row_login_callback_uri svc) = Some url"
  obtains c where "callback_claim C E cq w = (Inr (t\<lparr>ext_status := Processing\<rparr>, url),
      w\<lparr>conn := c, pool_of := \<lparr>database = database (pool_of w), statements = Suc (statements (pool_of w))\<rparr>\<rparr>)"
    "r_time R (server c) = r_time R (server (conn w))"
    "\<And>k. k \<noteq> external_key C (cq_state cq) \<Longrightarrow> view (server c) k = view (server (conn w)) k"
proof -
  obtain c where c: "claim_external_callback C (redis_at E) (cq_state cq) (conn w) = (Ok (t\<lparr>ext_status := Processing\<rparr>), c)"
    "r_time R (server c) = r_time R (server (conn w))"
    "\<And>k. k \<noteq> external_key C (cq_state cq) \<Longrightarrow> view (server c) k = view (server (conn w)) k"
    using claim_quiet [OF redis_commands redis_quiet assms(1,3)] claim_reply_encoded [OF assms(2)] by auto
  have "lookup_login_callback_uri (postgres_at E) (ext_service_id t) (pool_of w) = (Ok (row_login_callback_uri svc),
      \<lparr>database = database (pool_of w), statements = Suc (statements (pool_of w))\<rparr>)"
    by (simp add: uris_delivered [OF postgres_statements] postgres_calm assms(7,8))
  with c show ?thesis
    by (intro that [of c]) (simp_all add: callback_claim_def calm_simps assms(4-6,9))
qed

lemma callback_records_live:
  assumes "time < unat now + 120"
  shows "session_live time (map_of (encode_session (callback_session_of u now)))"
    "handoff_live time (map_of (encode_handoff (callback_handoff_of C t sref u now)))"
    "handoff_of C sref (callback_session_of u now) (callback_handoff_of C t sref u now)"
  using assms now_bound expiry(2) [of COMMON_SESSION_TTL_SECONDS] expiry(2) [of AUTHENTICATION_HANDOFF_TTL_SECONDS]
  by (auto simp: session_live_encoded handoff_live_encoded callback_session_of_def callback_handoff_of_def ttls
      handoff_of_def reference_value_lookup_is_lookup crypto_lib_axioms)

lemma callback_session_completes:
  assumes "identities (committed (database (pool_of w))) (nei_provider i, nei_subject i) = Some u"
    and "users (committed (database (pool_of w))) u = Some True"
    and "view (server (conn w)) (session_key C (drawn_ref C E (draws w))) = None"
    and "view (server (conn w)) (handoff_key C (drawn_ref C E (Suc (draws w)))) = None"
    and "r_time R (server (conn w)) < unat now + 120"
  obtains r w' where "callback_session C E t url i w = (Inr r, w')" "resp_status r = 302"
    "resp_cookies r = [auth_session_cookie (drawn_ref C E (draws w))]"
    "location r = Some (url_to_string (urls E) (url_append_pairs (urls E)
        [(''code'', drawn_ref C E (Suc (draws w))), (''state'', ext_service_state t)] (url_clear_query (urls E) url)))"
    "view (server (conn w')) = (view (server (conn w)))
       (session_key C (drawn_ref C E (draws w)) \<mapsto> RHash (map_of (encode_session (callback_session_of u now))),
        handoff_key C (drawn_ref C E (Suc (draws w))) \<mapsto>
          RHash (map_of (encode_handoff (callback_handoff_of C t (drawn_ref C E (draws w)) u now))))"
    "r_time R (server (conn w')) = r_time R (server (conn w))" "database (pool_of w') = database (pool_of w)"
    "draws w' = Suc (Suc (draws w))"
proof -
  let ?sr = "drawn_ref C E (draws w)" let ?hr = "drawn_ref C E (Suc (draws w))"
  let ?ses = "callback_session_of u now" let ?hnd = "callback_handoff_of C t ?sr u now"
  obtain c where c: "create_session_and_handoff C (redis_at E) ?sr ?ses ?hr ?hnd (conn w) = (Ok (), c)"
    "view (server c) = (view (server (conn w)))(session_key C ?sr \<mapsto> RHash (map_of (encode_session ?ses)),
        handoff_key C ?hr \<mapsto> RHash (map_of (encode_handoff ?hnd)))"
    "r_time R (server c) = r_time R (server (conn w))"
    using create_quiet [OF crypto_lib_axioms redis_commands redis_quiet assms(3,4)] callback_records_live [OF assms(5)]
    by blast
  have user: "resolve_external_identity (postgres_at E) (nei_provider i) (nei_subject i) (pool_of w) =
      (Ok u, \<lparr>database = database (pool_of w), statements = Suc (statements (pool_of w))\<rparr>)"
    by (simp add: resolve_external_identity_def read_identity_delivered [OF postgres_statements] postgres_calm assms(1,2))
  show ?thesis
  proof (rule that)
    show "callback_session C E t url i w = (Inr (with_header ''location'' (url_to_string (urls E) (url_append_pairs (urls E)
        [(''code'', ?hr), (''state'', ext_service_state t)] (url_clear_query (urls E) url)))
        (with_cookie (auth_session_cookie ?sr) (finish 302))),
      w\<lparr>ticks := Suc (ticks w), pool_of := \<lparr>database = database (pool_of w), statements = Suc (statements (pool_of w))\<rparr>,
        draws := Suc (Suc (draws w)), conn := c\<rparr>)"
      using c(1) by (simp add: callback_session_def calm_simps user expiry(1) ttls callback_session_of_def callback_handoff_of_def)
  qed (simp_all add: c(2,3) location_def)
qed

lemma google_callback_completes:
  assumes "view (server (conn w)) (external_key C st) = Some (RHash (map_of (encode_external t)))"
    and "wf_external t" "claimable (r_time R (server (conn w))) (map_of (encode_external t))"
    and "validate_fixed_reference_value st = Ok ()"
    and "code \<noteq> []" "validate_max_bytes code OAUTH_CODE_MAX_BYTES = Ok ()"
    and "services (committed (database (pool_of w))) (ext_service_id t) = Some svc" "row_is_enabled svc"
    and "valid_callback_url (urls E) (row_login_callback_uri svc) = Some url"
    and "\<And>w :: ('s, 'd) world. callback_identity E cfg code w = (Inr i, w)"
    and "identities (committed (database (pool_of w))) (nei_provider i, nei_subject i) = Some u"
    and "users (committed (database (pool_of w))) u = Some True"
    and "view (server (conn w)) (session_key C (drawn_ref C E (draws w))) = None"
    and "view (server (conn w)) (handoff_key C (drawn_ref C E (Suc (draws w)))) = None"
    and "r_time R (server (conn w)) < unat now + 120"
  obtains r w' where "run_handler (google_auth_callback C E cfg \<lparr>cq_code = code, cq_state = st\<rparr>) w = (r, w')" "resp_status r = 302"
    "resp_cookies r = [auth_session_cookie (drawn_ref C E (draws w))]"
    "location r = Some (url_to_string (urls E) (url_append_pairs (urls E)
        [(''code'', drawn_ref C E (Suc (draws w))), (''state'', ext_service_state t)] (url_clear_query (urls E) url)))"
    "view (server (conn w')) (session_key C (drawn_ref C E (draws w))) =
       Some (RHash (map_of (encode_session (callback_session_of u now))))"
    "view (server (conn w')) (handoff_key C (drawn_ref C E (Suc (draws w)))) =
       Some (RHash (map_of (encode_handoff (callback_handoff_of C t (drawn_ref C E (draws w)) u now))))"
    "r_time R (server (conn w')) = r_time R (server (conn w))" "database (pool_of w') = database (pool_of w)"
    "draws w' = Suc (Suc (draws w))"
proof (rule callback_claim_completes [of w "\<lparr>cq_code = code, cq_state = st\<rparr>" t svc url])
  fix c
  let ?w1 = "w\<lparr>conn := c, pool_of := \<lparr>database = database (pool_of w), statements = Suc (statements (pool_of w))\<rparr>\<rparr>"
  assume c: "callback_claim C E \<lparr>cq_code = code, cq_state = st\<rparr> w = (Inr (t\<lparr>ext_status := Processing\<rparr>, url), ?w1)"
    "r_time R (server c) = r_time R (server (conn w))"
    "\<And>k. k \<noteq> external_key C (cq_state \<lparr>cq_code = code, cq_state = st\<rparr>) \<Longrightarrow> view (server c) k = view (server (conn w)) k"
  have "view (server (conn ?w1)) (session_key C (drawn_ref C E (draws ?w1))) = None"
    "view (server (conn ?w1)) (handoff_key C (drawn_ref C E (Suc (draws ?w1)))) = None"
    using c(3) assms(13,14) by simp_all
  moreover have "r_time R (server (conn ?w1)) < unat now + 120" by (simp add: c(2) assms(15))
  ultimately obtain r w' where s: "callback_session C E (t\<lparr>ext_status := Processing\<rparr>) url i ?w1 = (Inr r, w')"
    "resp_status r = 302" "resp_cookies r = [auth_session_cookie (drawn_ref C E (draws w))]"
    "location r = Some (url_to_string (urls E) (url_append_pairs (urls E)
        [(''code'', drawn_ref C E (Suc (draws w))), (''state'', ext_service_state t)] (url_clear_query (urls E) url)))"
    "view (server (conn w')) = (view (server c))
       (session_key C (drawn_ref C E (draws w)) \<mapsto> RHash (map_of (encode_session (callback_session_of u now))),
        handoff_key C (drawn_ref C E (Suc (draws w))) \<mapsto>
          RHash (map_of (encode_handoff (callback_handoff_of C (t\<lparr>ext_status := Processing\<rparr>) (drawn_ref C E (draws w)) u now))))"
    "r_time R (server (conn w')) = r_time R (server c)" "database (pool_of w') = database (pool_of w)"
    "draws w' = Suc (Suc (draws w))"
    using callback_session_completes [of ?w1 i u "t\<lparr>ext_status := Processing\<rparr>" url] assms(11,12) by auto
  have "run_handler (google_auth_callback C E cfg \<lparr>cq_code = code, cq_state = st\<rparr>) w = (r, w')"
    using c(1) s(1) by (simp add: run_handler_def google_auth_callback_def hbind_def assms(10))
  with s show ?thesis
    by (intro that [of r w']) (simp_all add: c(2) callback_handoff_of_def)
qed (simp_all add: assms)

lemma exchange_flow_completes:
  assumes "view (server (conn w)) (handoff_key C hc) = Some (RHash (map_of (encode_handoff hnd)))"
    and "view (server (conn w)) (session_key C sref) = Some (RHash (map_of (encode_session ses)))"
    and "handoff_of C sref ses hnd"
    and "session_live (r_time R (server (conn w))) (map_of (encode_session ses))"
    and "handoff_live (r_time R (server (conn w))) (map_of (encode_handoff hnd))"
    and "services (committed (database (pool_of w))) (hnd_service_id hnd) = Some svc" "row_is_enabled svc"
    and "row_service_secret_sha256 svc = sha256 C secret"
    and "basic_credentials C request = Some (hnd_service_id hnd, secret)" "validate_service_id (hnd_service_id hnd) = Ok ()"
    and "validate_fixed_reference_value hc = Ok ()" "pkce_s256_challenge C v = Ok (hnd_code_challenge hnd)"
  shows "\<exists>w'. run_handler (exchange_auth_handoff C E request \<lparr>hxr_code = hc, hxr_code_verifier = v\<rparr>) w =
    (json_response 200 (handoff_exchange_response (ses_internal_user_id ses) (ses_authenticated_at ses)), w')
    \<and> view (server (conn w')) = (view (server (conn w)))
        (handoff_key C hc \<mapsto> RHash ((map_of (encode_handoff hnd))(''status'' \<mapsto> ''used'')))
    \<and> r_time R (server (conn w')) = r_time R (server (conn w)) \<and> database (pool_of w') = database (pool_of w)
    \<and> draws w' = draws w"
  using exchange_complete_state [OF redis_server_axioms redis_commands redis_quiet redis_reachable postgres_db_axioms
        postgres_statements postgres_calm(2) crypto_lib_axioms _ assms(7,8,9,10), where h = hnd and ses = ses
        and challenge = "hnd_code_challenge hnd" and body = "\<lparr>hxr_code = hc, hxr_code_verifier = v\<rparr>"] assms
  by (simp add: postgres_calm exchangeable_encoded handoff_of_def session_key_eq_text [symmetric])

lemma google_login_and_callback:
  assumes "url_lib (urls E) pairs path raw_query"
    and "login_input_is_valid q" "utf8_valid (lq_state q)" "session_reference request = None"
    and "services (committed (database (pool_of w))) (lq_service_id q) = Some svc" "row_is_enabled svc"
    and "valid_callback_url (urls E) (row_login_callback_uri svc) = Some url"
    and "view (server (conn w)) (external_key C (drawn_ref C E (draws w))) = None"
    and "view (server (conn w)) (session_key C (drawn_ref C E (Suc (draws w)))) = None"
    and "view (server (conn w)) (handoff_key C (drawn_ref C E (Suc (Suc (draws w))))) = None"
    and "r_time R (server (conn w)) < unat now + 120"
    and "code \<noteq> []" "validate_max_bytes code OAUTH_CODE_MAX_BYTES = Ok ()"
    and "\<And>w :: ('s, 'd) world. callback_identity E gcc code w = (Inr i, w)"
    and "identities (committed (database (pool_of w))) (nei_provider i, nei_subject i) = Some u"
    and "users (committed (database (pool_of w))) u = Some True"
  obtains st r1 w1 sref hc r2 w2 where
    "run_handler (login C E gac request q) w = (r1, w1)"
    "location r1 = Some (authorize_url E GOOGLE_AUTHORIZATION_URL gac st [''email'', ''profile''])"
    "run_handler (google_auth_callback C E gcc \<lparr>cq_code = code, cq_state = st\<rparr>) w1 = (r2, w2)"
    "resp_cookies r2 = [auth_session_cookie sref]" "hands_over (urls E) pairs path [] url hc (lq_state q) r2"
    "view (server (conn w2)) (session_key C sref) = Some (RHash (map_of (encode_session (callback_session_of u now))))"
    "view (server (conn w2)) (handoff_key C hc) =
       Some (RHash (map_of (encode_handoff (callback_handoff_of C (google_transaction q now) sref u now))))"
    "r_time R (server (conn w2)) = r_time R (server (conn w))" "database (pool_of w2) = database (pool_of w)"
    "validate_fixed_reference_value sref = Ok ()" "validate_fixed_reference_value hc = Ok ()"
proof -
  let ?t = "google_transaction q now" let ?st = "drawn_ref C E (draws w)"
  let ?sr = "drawn_ref C E (Suc (draws w))" let ?hc = "drawn_ref C E (Suc (Suc (draws w)))"
  have time: "r_time R (server (conn w)) < unat now + 600" using assms(11) by simp
  obtain r1 w1 where l: "run_handler (login C E gac request q) w = (r1, w1)"
    "location r1 = Some (authorize_url E GOOGLE_AUTHORIZATION_URL gac ?st [''email'', ''profile''])"
    "view (server (conn w1)) = (view (server (conn w)))(external_key C ?st \<mapsto> RHash (map_of (encode_external ?t)))"
    "r_time R (server (conn w1)) = r_time R (server (conn w))" "database (pool_of w1) = database (pool_of w)"
    "draws w1 = Suc (draws w)"
    using assms(2,4-6,8) time by (rule login_completes)
  have valid: "validate_service_id (lq_service_id q) = Ok ()" "validate_fixed_reference_value (lq_code_challenge q) = Ok ()"
    using assms(2) by (simp_all add: login_input_is_valid_def is_ok_unit_iff)
  have wf: "wf_external ?t"
    using valid assms(3) by (auto simp: wf_external_def google_transaction_def is_ascii_utf8_valid service_id_ascii
        valid_reference_ascii is_ascii_byte_def)
  have claimable: "claimable (r_time R (server (conn w1))) (map_of (encode_external ?t))"
    using time now_bound expiry(2) [of EXTERNAL_AUTH_TRANSACTION_TTL_SECONDS]
    by (simp add: claimable_encoded google_transaction_def ttls l(4))
  have keys: "view (server (conn w1)) (external_key C ?st) = Some (RHash (map_of (encode_external ?t)))"
    "view (server (conn w1)) (session_key C (drawn_ref C E (draws w1))) = None"
    "view (server (conn w1)) (handoff_key C (drawn_ref C E (Suc (draws w1)))) = None"
    "r_time R (server (conn w1)) < unat now + 120" "services (committed (database (pool_of w1))) (ext_service_id ?t) = Some svc"
    using assms(5,9-11) by (simp_all add: l)
  note user = assms(15,16) [folded l(5)]
  obtain r2 w2 where c: "run_handler (google_auth_callback C E gcc \<lparr>cq_code = code, cq_state = ?st\<rparr>) w1 = (r2, w2)"
    "resp_status r2 = 302" "resp_cookies r2 = [auth_session_cookie (drawn_ref C E (draws w1))]"
    "location r2 = Some (url_to_string (urls E) (url_append_pairs (urls E)
        [(''code'', drawn_ref C E (Suc (draws w1))), (''state'', ext_service_state ?t)] (url_clear_query (urls E) url)))"
    "view (server (conn w2)) (session_key C (drawn_ref C E (draws w1))) =
       Some (RHash (map_of (encode_session (callback_session_of u now))))"
    "view (server (conn w2)) (handoff_key C (drawn_ref C E (Suc (draws w1)))) =
       Some (RHash (map_of (encode_handoff (callback_handoff_of C ?t (drawn_ref C E (draws w1)) u now))))"
    "r_time R (server (conn w2)) = r_time R (server (conn w1))" "database (pool_of w2) = database (pool_of w1)"
    by (rule google_callback_completes [OF keys(1) wf claimable drawn_ref_valid assms(12,13) keys(5) assms(6,7,14) user keys(2-4)])
  note c = c(1,3-8) [unfolded l(6)]
  have "hands_over (urls E) pairs path [] url ?hc (lq_state q) r2"
    using hands_over_cleared [OF assms(1)] c(3) by simp
  then show ?thesis
    using that [OF l(1,2) c(1,2)] c(4-7) l(4,5) drawn_ref_valid by simp
qed

lemma google_flow:
  assumes "url_lib (urls E) pairs path raw_query"
    and "login_input_is_valid q" "utf8_valid (lq_state q)" "session_reference request = None"
    and "services (committed (database (pool_of w))) (lq_service_id q) = Some svc" "row_is_enabled svc"
    and "valid_callback_url (urls E) (row_login_callback_uri svc) = Some url"
    and "view (server (conn w)) (external_key C (drawn_ref C E (draws w))) = None"
    and "view (server (conn w)) (session_key C (drawn_ref C E (Suc (draws w)))) = None"
    and "view (server (conn w)) (handoff_key C (drawn_ref C E (Suc (Suc (draws w))))) = None"
    and "r_time R (server (conn w)) < unat now + 120"
    and "code \<noteq> []" "validate_max_bytes code OAUTH_CODE_MAX_BYTES = Ok ()"
    and "\<And>w :: ('s, 'd) world. callback_identity E gcc code w = (Inr i, w)"
    and "identities (committed (database (pool_of w))) (nei_provider i, nei_subject i) = Some u"
    and "users (committed (database (pool_of w))) u = Some True"
    and "row_service_secret_sha256 svc = sha256 C secret" "basic_credentials C xreq = Some (lq_service_id q, secret)"
    and "pkce_s256_challenge C v = Ok (lq_code_challenge q)"
  obtains st r1 w1 sref hc r2 w2 w3 where
    "run_handler (login C E gac request q) w = (r1, w1)"
    "location r1 = Some (authorize_url E GOOGLE_AUTHORIZATION_URL gac st [''email'', ''profile''])"
    "run_handler (google_auth_callback C E gcc \<lparr>cq_code = code, cq_state = st\<rparr>) w1 = (r2, w2)"
    "resp_cookies r2 = [auth_session_cookie sref]" "hands_over (urls E) pairs path [] url hc (lq_state q) r2"
    "run_handler (exchange_auth_handoff C E xreq \<lparr>hxr_code = hc, hxr_code_verifier = v\<rparr>) w2 =
       (json_response 200 (handoff_exchange_response u now), w3)"
    "view (server (conn w3)) (session_key C sref) = Some (RHash (map_of (encode_session (callback_session_of u now))))"
    "r_time R (server (conn w3)) = r_time R (server (conn w))" "database (pool_of w3) = database (pool_of w)"
    "validate_fixed_reference_value sref = Ok ()"
  using assms(1-16)
proof (rule google_login_and_callback)
  fix st r1 w1 sref hc r2 w2
  let ?hnd = "callback_handoff_of C (google_transaction q now) sref u now" let ?ses = "callback_session_of u now"
  assume c: "run_handler (login C E gac request q) w = (r1, w1)"
    "location r1 = Some (authorize_url E GOOGLE_AUTHORIZATION_URL gac st [''email'', ''profile''])"
    "run_handler (google_auth_callback C E gcc \<lparr>cq_code = code, cq_state = st\<rparr>) w1 = (r2, w2)"
    "resp_cookies r2 = [auth_session_cookie sref]" "hands_over (urls E) pairs path [] url hc (lq_state q) r2"
    "view (server (conn w2)) (session_key C sref) = Some (RHash (map_of (encode_session ?ses)))"
    "view (server (conn w2)) (handoff_key C hc) = Some (RHash (map_of (encode_handoff ?hnd)))"
    "r_time R (server (conn w2)) = r_time R (server (conn w))" "database (pool_of w2) = database (pool_of w)"
    "validate_fixed_reference_value sref = Ok ()" "validate_fixed_reference_value hc = Ok ()"
  have "r_time R (server (conn w2)) < unat now + 120" using assms(11) by (simp add: c(8))
  note live = callback_records_live [OF this]
  have "validate_service_id (lq_service_id q) = Ok ()"
    using assms(2) by (simp add: login_input_is_valid_def is_ok_unit_iff)
  then obtain w3 where "run_handler (exchange_auth_handoff C E xreq \<lparr>hxr_code = hc, hxr_code_verifier = v\<rparr>) w2 =
      (json_response 200 (handoff_exchange_response u now), w3)"
    "view (server (conn w3)) (session_key C sref) = view (server (conn w2)) (session_key C sref)"
    "r_time R (server (conn w3)) = r_time R (server (conn w2))" "database (pool_of w3) = database (pool_of w2)"
    using exchange_flow_completes [OF c(7,6) live(3,1,2), where svc = svc and secret = secret and request = xreq and v = v] assms(5,6,17-19) c(9,11)
    by (auto simp: callback_handoff_of_def callback_session_of_def)
  then show ?thesis using that [OF c(1-5)] c(6,8-10) by simp
qed

lemma sso_handoff_live:
  assumes "session_live time (map_of (encode_session ses))" "time < unat now + 120"
  shows "handoff_of C sref ses (sso_handoff C q sref ses now (now + AUTHENTICATION_HANDOFF_TTL_SECONDS))"
    "handoff_live time (map_of (encode_handoff (sso_handoff C q sref ses now (now + AUTHENTICATION_HANDOFF_TTL_SECONDS))))"
  using assms now_bound expiry(2) [of AUTHENTICATION_HANDOFF_TTL_SECONDS]
  by (auto simp: session_live_encoded handoff_live_encoded sso_handoff_def ttls handoff_of_def
      reference_value_lookup_is_lookup crypto_lib_axioms)

lemma sso_login_completes:
  assumes "url_lib (urls E) pairs path raw_query"
    and "login_input_is_valid q" "session_reference request = Some sref"
    and "services (committed (database (pool_of w))) (lq_service_id q) = Some svc" "row_is_enabled svc"
    and "valid_callback_url (urls E) (row_login_callback_uri svc) = Some url"
    and "view (server (conn w)) (session_key C sref) = Some (RHash (map_of (encode_session ses)))"
    and "session_live (r_time R (server (conn w))) (map_of (encode_session ses))" "now < ses_expires_at ses"
    and "users (committed (database (pool_of w))) (ses_internal_user_id ses) = Some True"
    and "view (server (conn w)) (handoff_key C (drawn_ref C E (draws w))) = None"
    and "r_time R (server (conn w)) < unat now + 120"
  obtains r w' where "run_handler (login C E cfg request q) w = (r, w')"
    "hands_over (urls E) pairs path (pairs url) url (drawn_ref C E (draws w)) (lq_state q) r"
    "view (server (conn w')) = (view (server (conn w)))(handoff_key C (drawn_ref C E (draws w)) \<mapsto>
       RHash (map_of (encode_handoff (sso_handoff C q sref ses now (now + AUTHENTICATION_HANDOFF_TTL_SECONDS)))))"
    "r_time R (server (conn w')) = r_time R (server (conn w))" "database (pool_of w') = database (pool_of w)"
proof -
  let ?hc = "drawn_ref C E (draws w)" let ?hnd = "sso_handoff C q sref ses now (now + AUTHENTICATION_HANDOFF_TTL_SECONDS)"
  let ?p1 = "\<lparr>database = database (pool_of w), statements = Suc (statements (pool_of w))\<rparr>"
  let ?c1 = "(conn w)\<lparr>trips := Suc (trips (conn w))\<rparr>"
  have session: "read_session C (redis_at E) sref now (conn w) = (Ok ses, ?c1)"
    using read_quiet [OF session_codec.state_codec_axioms _ redis_commands redis_quiet assms(7), of now ses_expires_at] assms(9)
    by (simp add: read_session_def is_unexpired_def wf_session_def)
  have "handoff_of C sref ses ?hnd" "handoff_live (r_time R (server ?c1)) (map_of (encode_handoff ?hnd))"
    using sso_handoff_live [OF assms(8,12)] by simp_all
  then obtain c where c: "issue_sso_handoff C (redis_at E) sref ?hc ?hnd ?c1 = (Ok (), c)"
    "view (server c) = (view (server (conn w)))(handoff_key C ?hc \<mapsto> RHash (map_of (encode_handoff ?hnd)))"
    "r_time R (server c) = r_time R (server (conn w))"
    using issue_quiet [OF crypto_lib_axioms redis_commands redis_quiet, of ?c1 sref ses ?hc ?hnd] assms(7,8,11) by auto
  have "lookup_login_callback_uri (postgres_at E) (lq_service_id q) (pool_of w) = (Ok (row_login_callback_uri svc), ?p1)"
    "read_internal_user_enabled (postgres_at E) (ses_internal_user_id ses) ?p1 =
       (Ok (Some True), \<lparr>database = database (pool_of w), statements = Suc (Suc (statements (pool_of w)))\<rparr>)"
    by (simp_all add: uris_delivered [OF postgres_statements] user_enabled_delivered [OF postgres_statements]
        postgres_calm assms(4,5,10))
  then have "\<exists>w'. run_handler (login C E cfg request q) w = (with_header ''location'' (url_to_string (urls E)
      (url_append_pairs (urls E) [(''code'', ?hc), (''state'', lq_state q)] url)) (finish 302), w')
      \<and> conn w' = c \<and> database (pool_of w') = database (pool_of w)"
    using assms(2,3,6) session c(1)
    by (auto simp: run_handler_def login_def login_session_def calm_simps session_reference_def is_err_iff_not_Ok
        expiry(1) ttls sso_handoff_def split: option.splits if_splits)
  then show ?thesis
    using hands_over_append [OF assms(1)] that c(2,3) by (auto simp: location_def)
qed

lemma sso_flow:
  assumes "url_lib (urls E) pairs path raw_query"
    and "login_input_is_valid q" "session_reference request = Some sref"
    and "services (committed (database (pool_of w))) (lq_service_id q) = Some svc" "row_is_enabled svc"
    and "valid_callback_url (urls E) (row_login_callback_uri svc) = Some url"
    and "view (server (conn w)) (session_key C sref) = Some (RHash (map_of (encode_session ses)))"
    and "session_live (r_time R (server (conn w))) (map_of (encode_session ses))" "now < ses_expires_at ses"
    and "users (committed (database (pool_of w))) (ses_internal_user_id ses) = Some True"
    and "view (server (conn w)) (handoff_key C (drawn_ref C E (draws w))) = None"
    and "r_time R (server (conn w)) < unat now + 120"
    and "row_service_secret_sha256 svc = sha256 C secret" "basic_credentials C xreq = Some (lq_service_id q, secret)"
    and "pkce_s256_challenge C v = Ok (lq_code_challenge q)"
  shows "\<exists>r1 w1 hc w2. run_handler (login C E cfg request q) w = (r1, w1)
    \<and> hands_over (urls E) pairs path (pairs url) url hc (lq_state q) r1
    \<and> run_handler (exchange_auth_handoff C E xreq \<lparr>hxr_code = hc, hxr_code_verifier = v\<rparr>) w1 =
        (json_response 200 (handoff_exchange_response (ses_internal_user_id ses) (ses_authenticated_at ses)), w2)"
  using assms(1-12)
proof (rule sso_login_completes [where cfg = cfg])
  fix r w'
  let ?hc = "drawn_ref C E (draws w)" let ?hnd = "sso_handoff C q sref ses now (now + AUTHENTICATION_HANDOFF_TTL_SECONDS)"
  assume l: "run_handler (login C E cfg request q) w = (r, w')"
    "hands_over (urls E) pairs path (pairs url) url ?hc (lq_state q) r"
    "view (server (conn w')) = (view (server (conn w)))(handoff_key C ?hc \<mapsto> RHash (map_of (encode_handoff ?hnd)))"
    "r_time R (server (conn w')) = r_time R (server (conn w))" "database (pool_of w') = database (pool_of w)"
  have stored: "view (server (conn w')) (handoff_key C ?hc) = Some (RHash (map_of (encode_handoff ?hnd)))"
    "view (server (conn w')) (session_key C sref) = Some (RHash (map_of (encode_session ses)))"
    using assms(7) by (simp_all add: l(3))
  note live = sso_handoff_live [OF assms(8,12), folded l(4)]
  have "validate_service_id (lq_service_id q) = Ok ()"
    using assms(2) by (simp add: login_input_is_valid_def is_ok_unit_iff)
  then obtain w2 where "run_handler (exchange_auth_handoff C E xreq \<lparr>hxr_code = ?hc, hxr_code_verifier = v\<rparr>) w' =
      (json_response 200 (handoff_exchange_response (ses_internal_user_id ses) (ses_authenticated_at ses)), w2)"
    using exchange_flow_completes [OF stored live(1) assms(8) [folded l(4)] live(2), where svc = svc and secret = secret
        and request = xreq and v = v] assms(4,5,13-15) drawn_ref_valid
    by (auto simp: sso_handoff_def l(5))
  with l(1,2) show ?thesis by blast
qed

end

section \<open>Properties\<close>

text \<open>
  C11: a whole login at Google completes.  In a calm environment a browser without a session that
  starts a valid login at a registered service, comes back from Google with the state it was sent
  with and a code of an enabled linked user, and whose service then presents its secret and the
  verifier of its challenge: the browser is sent to Google, then to exactly the registered callback
  with a code and the service's state, the service is answered that user and the current time,
  and the session the cookie names is stored for single sign-on.
\<close>

theorem google_login_completes:
  assumes "calm_service R view P committed staged C E now" "url_lib (urls E) pairs path raw_query"
    and "login_input_is_valid q" "utf8_valid (lq_state q)" "session_reference request = None"
    and "services (committed (database (pool_of w))) (lq_service_id q) = Some svc" "row_is_enabled svc"
    and "valid_callback_url (urls E) (row_login_callback_uri svc) = Some url"
    and "view (server (conn w)) (external_key C (drawn_ref C E (draws w))) = None"
    and "view (server (conn w)) (session_key C (drawn_ref C E (Suc (draws w)))) = None"
    and "view (server (conn w)) (handoff_key C (drawn_ref C E (Suc (Suc (draws w))))) = None"
    and "r_time R (server (conn w)) < unat now + 120"
    and "code \<noteq> []" "validate_max_bytes code OAUTH_CODE_MAX_BYTES = Ok ()"
    and "\<And>w :: ('s, 'd) world. callback_identity E gcc code w = (Inr i, w)"
    and "identities (committed (database (pool_of w))) (nei_provider i, nei_subject i) = Some u"
    and "users (committed (database (pool_of w))) u = Some True"
    and "row_service_secret_sha256 svc = sha256 C secret" "basic_credentials C xreq = Some (lq_service_id q, secret)"
    and "pkce_s256_challenge C v = Ok (lq_code_challenge q)"
  shows "\<exists>st r1 w1 sref hc r2 w2 w3 ses.
      run_handler (login C E gac request q) w = (r1, w1)
    \<and> location r1 = Some (authorize_url E GOOGLE_AUTHORIZATION_URL gac st [''email'', ''profile''])
    \<and> run_handler (google_auth_callback C E gcc \<lparr>cq_code = code, cq_state = st\<rparr>) w1 = (r2, w2)
    \<and> resp_cookies r2 = [auth_session_cookie sref] \<and> hands_over (urls E) pairs path [] url hc (lq_state q) r2
    \<and> run_handler (exchange_auth_handoff C E xreq \<lparr>hxr_code = hc, hxr_code_verifier = v\<rparr>) w2 =
        (json_response 200 (handoff_exchange_response u now), w3)
    \<and> view (server (conn w3)) (session_key C sref) = Some (RHash (map_of (encode_session ses)))
    \<and> session_live (r_time R (server (conn w3))) (map_of (encode_session ses)) \<and> now < ses_expires_at ses
    \<and> ses_internal_user_id ses = u \<and> validate_fixed_reference_value sref = Ok ()"
  using assms(2-)
proof (rule calm_service.google_flow [OF assms(1), where gac = gac])
  fix st r1 w1 sref hc r2 w2 w3
  assume f: "run_handler (login C E gac request q) w = (r1, w1)"
    "location r1 = Some (authorize_url E GOOGLE_AUTHORIZATION_URL gac st [''email'', ''profile''])"
    "run_handler (google_auth_callback C E gcc \<lparr>cq_code = code, cq_state = st\<rparr>) w1 = (r2, w2)"
    "resp_cookies r2 = [auth_session_cookie sref]" "hands_over (urls E) pairs path [] url hc (lq_state q) r2"
    "run_handler (exchange_auth_handoff C E xreq \<lparr>hxr_code = hc, hxr_code_verifier = v\<rparr>) w2 =
       (json_response 200 (handoff_exchange_response u now), w3)"
    "view (server (conn w3)) (session_key C sref) = Some (RHash (map_of (encode_session (callback_session_of u now))))"
    "r_time R (server (conn w3)) = r_time R (server (conn w))" "validate_fixed_reference_value sref = Ok ()"
  have "unat now < unat (ses_expires_at (callback_session_of u now))"
    using calm_service.expiry(2) [OF assms(1), of COMMON_SESSION_TTL_SECONDS] by (simp add: callback_session_of_def ttls)
  then show ?thesis
    using f calm_service.callback_records_live(1) [OF assms(1,12), of u]
    by (intro exI conjI) (assumption | simp add: word_less_nat_alt callback_session_of_def)+
qed

text \<open>
  C12: single sign-on completes.  With the cookie of a live session of an enabled user, a valid
  login at any enabled registered service is answered at once by a redirect to its registered
  callback with a code and its state, and the service's exchange of that code is answered the
  user and the authentication time of the session.
\<close>

theorem single_sign_on_completes:
  assumes "calm_service R view P committed staged C E now" "url_lib (urls E) pairs path raw_query"
    and "login_input_is_valid q" "session_reference request = Some sref"
    and "services (committed (database (pool_of w))) (lq_service_id q) = Some svc" "row_is_enabled svc"
    and "valid_callback_url (urls E) (row_login_callback_uri svc) = Some url"
    and "view (server (conn w)) (session_key C sref) = Some (RHash (map_of (encode_session ses)))"
    and "session_live (r_time R (server (conn w))) (map_of (encode_session ses))" "now < ses_expires_at ses"
    and "users (committed (database (pool_of w))) (ses_internal_user_id ses) = Some True"
    and "view (server (conn w)) (handoff_key C (drawn_ref C E (draws w))) = None"
    and "r_time R (server (conn w)) < unat now + 120"
    and "row_service_secret_sha256 svc = sha256 C secret" "basic_credentials C xreq = Some (lq_service_id q, secret)"
    and "pkce_s256_challenge C v = Ok (lq_code_challenge q)"
  shows "\<exists>r1 w1 hc w2. run_handler (login C E cfg request q) w = (r1, w1)
    \<and> hands_over (urls E) pairs path (pairs url) url hc (lq_state q) r1
    \<and> run_handler (exchange_auth_handoff C E xreq \<lparr>hxr_code = hc, hxr_code_verifier = v\<rparr>) w1 =
        (json_response 200 (handoff_exchange_response (ses_internal_user_id ses) (ses_authenticated_at ses)), w2)"
  using calm_service.sso_flow [OF assms(1-16)] .

section \<open>Witnesses\<close>

interpretation sample_service: calm_service mem_redis mem_view mem_pg pg_tables pg_staged ref_crypto sample_auth_env 150
  by unfold_locales (simp_all add: lua_uint_max_def)

definition flow_query_fixture :: login_query where
  "flow_query_fixture = login_query_fixture\<lparr>lq_code_challenge := b64url_encode ref_crypto (sha256 ref_crypto sample_verifier)\<rparr>"

lemma flow_query_valid:
  "login_input_is_valid flow_query_fixture" "lq_service_id flow_query_fixture = ''service''"
  "lq_state flow_query_fixture = ''state''"
  "pkce_s256_challenge ref_crypto sample_verifier = Ok (lq_code_challenge flow_query_fixture)"
proof -
  have "validate_fixed_reference_value (b64url_encode ref_crypto (sha256 ref_crypto sample_verifier)) = Ok ()"
    by (rule generated_reference_valid [OF reference.crypto_lib_axioms reference.sha256_length])
  then show "login_input_is_valid flow_query_fixture"
    using login_fixture_valid by (simp add: login_input_is_valid_def flow_query_fixture_def)
qed (simp_all add: flow_query_fixture_def login_query_fixture_def fixture_challenge)

definition cookieless_request :: request where
  "cookieless_request = \<lparr>rq_headers = [], rq_cookies = Some []\<rparr>"

definition google_identity_fixture :: normalized_external_identity where
  "google_identity_fixture = \<lparr>nei_provider = ''google'', nei_subject = ''subject-42'', nei_email = None,
     nei_email_verification = Unknown, nei_display_name = None, nei_picture_url = None\<rparr>"

lemma google_identity_answered:
  "callback_identity sample_auth_env callback_config_fixture ''google-code'' w = (Inr google_identity_fixture, w)"
  by (simp add: callback_identity_def sample_auth_env_def decode_google_user_info_def json_field_def
      normalize_google_user_info_def Let_def identity_validate_def option_filter_def validate_nonempty_max_bytes_def
      validate_max_bytes_def PROVIDER_MAX_BYTES_def SUBJECT_MAX_BYTES_def google_identity_fixture_def)

lemma sample_service_facts:
  "row_is_enabled sample_service" "row_service_secret_sha256 sample_service = sha256 ref_crypto ''service-secret''"
  "valid_callback_url (urls sample_auth_env) (row_login_callback_uri sample_service) = Some service_url"
  using valid_service_url by (simp_all add: sample_service_def)

theorem google_login_completes_witness:
  "\<exists>st r1 w1 r2 w2 hc w3.
      run_handler (login ref_crypto sample_auth_env authorization_config_fixture cookieless_request flow_query_fixture)
        (sample_world Map.empty) = (r1, w1)
    \<and> run_handler (google_auth_callback ref_crypto sample_auth_env callback_config_fixture
        \<lparr>cq_code = ''google-code'', cq_state = st\<rparr>) w1 = (r2, w2)
    \<and> run_handler (exchange_auth_handoff ref_crypto sample_auth_env exchange_request_fixture
        \<lparr>hxr_code = hc, hxr_code_verifier = sample_verifier\<rparr>) w2 =
        (json_response 200 (handoff_exchange_response 42 150), w3)"
proof -
  have "session_reference cookieless_request = None" "utf8_valid (lq_state flow_query_fixture)"
    "validate_max_bytes ''google-code'' OAUTH_CODE_MAX_BYTES = Ok ()"
    by (simp_all add: session_reference_def cookieless_request_def request_cookie_def flow_query_valid(3) is_ascii_byte_def
        validate_max_bytes_def OAUTH_CODE_MAX_BYTES_def)
  then show ?thesis
    using google_login_completes [OF sample_service.calm_service_axioms simple.url_lib_axioms [folded sample_auth_env_simps(4)]
        flow_query_valid(1), of cookieless_request "sample_world Map.empty" sample_service service_url "''google-code''"
        callback_config_fixture google_identity_fixture 42 "''service-secret''" exchange_request_fixture sample_verifier
        authorization_config_fixture] google_identity_answered fixture_credentials sample_service_facts
    by (simp add: flow_query_valid(2-4) sample_world_view google_identity_fixture_def) blast
qed

theorem single_sign_on_completes_witness:
  "\<exists>r1 w1 hc w2. run_handler (login ref_crypto sample_auth_env authorization_config_fixture logout_request_fixture
      flow_query_fixture) login_world = (r1, w1)
    \<and> run_handler (exchange_auth_handoff ref_crypto sample_auth_env exchange_request_fixture
        \<lparr>hxr_code = hc, hxr_code_verifier = sample_verifier\<rparr>) w1 =
        (json_response 200 (handoff_exchange_response 42 101), w2)"
proof -
  have "session_reference logout_request_fixture = Some sample_session_reference"
    by (simp add: session_reference_def logout_request_fixture_def request_cookie_def)
  moreover have "mem_view (server (conn login_world)) (session_key ref_crypto sample_session_reference) =
      Some (RHash (map_of (encode_session session_fixture)))"
    "mem_view (server (conn login_world)) (handoff_key ref_crypto k) = None" "r_time mem_redis (server (conn login_world)) = 150"
    "pool_of login_world = sample_pool" for k
    by (simp_all add: login_world_def sample_world_view session_codec.encode_not_Nil)
  moreover have "ses_internal_user_id session_fixture = 42" "ses_authenticated_at session_fixture = 101"
    "150 < ses_expires_at session_fixture"
    by (simp_all add: session_fixture_def)
  ultimately show ?thesis
    using single_sign_on_completes [OF sample_service.calm_service_axioms simple.url_lib_axioms [folded sample_auth_env_simps(4)]
        flow_query_valid(1), of logout_request_fixture sample_session_reference login_world sample_service service_url
        session_fixture "''service-secret''" exchange_request_fixture sample_verifier authorization_config_fixture]
      fixture_credentials sample_service_facts fixtures_ready(2)
    by (simp add: flow_query_valid(2-4)) blast
qed

end
