(* ===== verification/Auth_App.thy ===== *)
theory Auth_App
  imports Auth_Login
begin

text \<open>
  The application of \<open>rust-auth0-service/src/main.rs\<close> as a whole: which statuses each route
  answers, on every path of every handler, and the headers its middleware adds.
\<close>

text \<open>The statuses a route answers once the framework has parsed its input.\<close>

fun allowed_statuses :: "auth_route \<Rightarrow> nat set" where
  "allowed_statuses RouteLogin = {302, 400, 403, 503}"
| "allowed_statuses RouteGoogleCallback = {302, 400, 403, 500, 502, 503}"
| "allowed_statuses RouteExchange = {200, 400, 401, 403, 503}"
| "allowed_statuses RouteLogoutGet = {200, 302, 400, 403, 500, 503}"
| "allowed_statuses RouteLogoutPost = {303, 400, 403, 500, 503}"

text \<open>The answer of the framework itself, where it does not call the handler.\<close>

definition rejection :: "('a, response) result \<Rightarrow> response option" where
  "rejection x = (case x of Inl r \<Rightarrow> Some r | Inr _ \<Rightarrow> None)"

fun framework_answer :: "auth_route option \<Rightarrow> incoming \<Rightarrow> response option" where
  "framework_answer None i = Some (in_no_route i)"
| "framework_answer (Some RouteLogin) i = rejection (in_login i)"
| "framework_answer (Some RouteGoogleCallback) i = rejection (in_callback i)"
| "framework_answer (Some RouteExchange) i = rejection (in_exchange i)"
| "framework_answer (Some RouteLogoutGet) i = rejection (in_logout_query i)"
| "framework_answer (Some RouteLogoutPost) i = rejection (in_logout_form i)"

definition served :: "nat set \<Rightarrow> response \<Rightarrow> 'w \<Rightarrow> bool" where
  "served S r w \<longleftrightarrow> resp_status r \<in> S \<and> map_of (resp_headers r) ''cache-control'' = None
     \<and> map_of (resp_headers r) ''referrer-policy'' = None"

lemma served_simps [simp]:
  "served S (finish st) w \<longleftrightarrow> st \<in> S"
  "k \<noteq> ''cache-control'' \<Longrightarrow> k \<noteq> ''referrer-policy'' \<Longrightarrow> served S (with_header k v r) w \<longleftrightarrow> served S r w"
  "served S (with_cookie ck r) w \<longleftrightarrow> served S r w" "served S (with_body b r) w \<longleftrightarrow> served S r w"
  "served S (json_response st j) w \<longleftrightarrow> st \<in> S"
  by (auto simp: served_def map_add_def split: option.splits)

lemma served_append_header [simp]:
  "k \<noteq> ''cache-control'' \<Longrightarrow> k \<noteq> ''referrer-policy'' \<Longrightarrow> 500 \<in> S \<Longrightarrow> served S r w \<Longrightarrow> served S (append_header k v r) w"
  by (simp add: append_header_def)

lemma answers_quit [answer_intros]: "(\<And>w. P (finish st) w) \<Longrightarrow> answers_in P (quit st)"
  by (simp add: answers_in_def run_handler_def quit_def)

lemma answers_fail [answer_intros]: "(\<And>w. P (finish st) w) \<Longrightarrow> answers_in P (fail msg st)"
  by (simp add: answers_in_def run_handler_def fail_def)

lemma start_google_served: "answers_in (served (allowed_statuses RouteLogin)) (start_google_login C E cfg query now)"
  unfolding start_google_login_def Let_def by (intro answer_intros status_intros; simp)

lemma login_served: "answers_in (served (allowed_statuses RouteLogin)) (login C E cfg request query)"
  unfolding login_def login_session_def Let_def
  by (intro start_google_served answer_intros status_intros; simp)

lemma callback_served: "answers_in (served (allowed_statuses RouteGoogleCallback)) (google_auth_callback C E cfg query)"
  unfolding google_auth_callback_def callback_claim_def callback_identity_def callback_session_def Let_def
  by (intro answer_intros status_intros; simp)

lemma exchange_served: "answers_in (served (allowed_statuses RouteExchange)) (exchange_auth_handoff C E request body)"
  unfolding exchange_auth_handoff_def by (intro answer_intros status_intros; simp)

lemma logout_get_served: "answers_in (served (allowed_statuses RouteLogoutGet)) (logout_get C E request query)"
  unfolding logout_get_def Let_def by (intro answer_intros status_intros; simp)

lemma logout_post_served: "answers_in (served (allowed_statuses RouteLogoutPost)) (logout_post C E request form)"
  unfolding logout_post_def Let_def by (intro answer_intros status_intros; simp)

lemmas handlers_served = login_served callback_served exchange_served logout_get_served logout_post_served

lemma default_header_simps [simp]:
  "resp_status (default_header k v r) = resp_status r" "resp_cookies (default_header k v r) = resp_cookies r"
  "resp_body (default_header k v r) = resp_body r"
  "map_of (resp_headers (default_header k v r)) k' =
     (if k' = k then Some (case map_of (resp_headers r) k of None \<Rightarrow> v | Some u \<Rightarrow> u) else map_of (resp_headers r) k')"
  by (auto simp: default_header_def map_add_def split: option.splits)

lemma security_headers_simps [simp]:
  "resp_status (auth_security_headers r) = resp_status r" "resp_cookies (auth_security_headers r) = resp_cookies r"
  "resp_body (auth_security_headers r) = resp_body r" "location (auth_security_headers r) = location r"
  by (simp_all add: auth_security_headers_def location_def)

lemma run_reply: "run_handler (reply r) w = (r, w)"
  by (simp add: run_handler_def)

lemma extracted_rejected: "rejection x = Some r \<Longrightarrow> run_handler (extracted x h) w = (r, w)"
  by (auto simp: rejection_def extracted_def run_handler_def split: sum.splits)

lemma extracted_answers:
  assumes "rejection x = None" "\<And>a. answers_in P (h a)"
  shows "answers_in P (extracted x h)"
  using assms by (auto simp: rejection_def extracted_def split: sum.splits)

text \<open>The handler of a route, on the input the framework parsed.\<close>

fun routed :: "'c crypto_scheme \<Rightarrow> ('s, 'd, 'u) auth_env \<Rightarrow> google_authorization_config \<Rightarrow> google_callback_config
    \<Rightarrow> incoming \<Rightarrow> auth_route \<Rightarrow> (('s, 'd) world, response) step" where
  "routed C E gac gcc i RouteLogin = extracted (in_login i) (login C E gac (in_request i))"
| "routed C E gac gcc i RouteGoogleCallback = extracted (in_callback i) (google_auth_callback C E gcc)"
| "routed C E gac gcc i RouteExchange = extracted (in_exchange i) (exchange_auth_handoff C E (in_request i))"
| "routed C E gac gcc i RouteLogoutGet = extracted (in_logout_query i) (logout_get C E (in_request i))"
| "routed C E gac gcc i RouteLogoutPost = extracted (in_logout_form i) (logout_post C E (in_request i))"

lemma auth_app_eq: "auth_app C E gac gcc method path i w =
    apfst auth_security_headers (run_handler (case configure_auth_routes method path of
       None \<Rightarrow> reply (in_no_route i) | Some route \<Rightarrow> routed C E gac gcc i route) w)"
  by (auto simp: auth_app_def Let_def split: option.splits auth_route.splits prod.splits)

lemma routed_rejected: "framework_answer (Some route) i = Some r \<Longrightarrow> run_handler (routed C E gac gcc i route) w = (r, w)"
  by (cases route) (simp_all add: extracted_rejected)

lemma routed_served: "framework_answer (Some route) i = None \<Longrightarrow>
    answers_in (served (allowed_statuses route)) (routed C E gac gcc i route)"
  by (cases route) (simp_all only: routed.simps framework_answer.simps extracted_answers handlers_served)

text \<open>
  C17: whatever the request, the stores, the network and Google do, a request is answered either
  by the framework, with no handler run and nothing changed, or by the handler of its route, with
  one of the statuses of that route, and then never cached and without a referrer.
\<close>

theorem auth_app_answers:
  "case auth_app C E gac gcc method path i w of (r, w') \<Rightarrow>
     (case framework_answer (configure_auth_routes method path) i of
        Some r' \<Rightarrow> r = auth_security_headers r' \<and> w' = w
      | None \<Rightarrow> (\<exists>route. configure_auth_routes method path = Some route \<and> resp_status r \<in> allowed_statuses route)
          \<and> map_of (resp_headers r) ''cache-control'' = Some ''no-store''
          \<and> map_of (resp_headers r) ''referrer-policy'' = Some ''no-referrer'')"
proof (cases "framework_answer (configure_auth_routes method path) i")
  case (Some r)
  then show ?thesis
    by (cases "configure_auth_routes method path") (simp_all add: auth_app_eq routed_rejected run_reply)
next
  case None
  then obtain route where route: "configure_auth_routes method path = Some route"
    by (cases "configure_auth_routes method path") auto
  obtain r w' where run: "run_handler (routed C E gac gcc i route) w = (r, w')" by fastforce
  have "served (allowed_statuses route) r w'"
    using routed_served [OF None [unfolded route], of C E gac gcc] run unfolding answers_in_def by blast
  then show ?thesis
    using None route run by (simp add: auth_app_eq served_def) (simp add: auth_security_headers_def)
qed

end
