(* ===== verification/Portal_Config.thy ===== *)
theory Portal_Config
  imports Http Environment
begin

text \<open>
  Model of the configuration of \<open>portal_backend/src/main.rs\<close>: the environment variables it
  reads, their checks and the order in which they are made.  \<open>usize\<close> has 64 bits.
\<close>

type_synonym usize = "64 word"

record 'u app_config =
  ac_service_id :: string
  ac_service_secret :: string
  ac_auth_foundation_base_url :: 'u
  ac_login_start_capacity :: usize
  ac_local_session_capacity :: usize

datatype config_error = MissingEnvironment string | InvalidEnvironment string

fun config_error_fmt :: "config_error \<Rightarrow> string" where
  "config_error_fmt (MissingEnvironment name) = ''required environment variable '' @ name @ '' is not set''"
| "config_error_fmt (InvalidEnvironment name) = ''invalid environment variable '' @ name"

definition required_env :: "environ \<Rightarrow> string \<Rightarrow> (string, config_error) result" where
  "required_env env name = ok_or (var_ok (env name)) (MissingEnvironment name)"

definition portal_service_id_byte :: "char \<Rightarrow> bool" where
  "portal_service_id_byte b \<longleftrightarrow>
     byte_in CHR ''a'' CHR ''z'' b \<or> byte_in CHR ''0'' CHR ''9'' b \<or> b = CHR ''_'' \<or> b = CHR ''-''"

definition portal_validate_service_id :: "string \<Rightarrow> (unit, config_error) result" where
  "portal_validate_service_id value =
     (let valid = (1 \<le> length value \<and> length value \<le> 64
            \<and> (case value of [] \<Rightarrow> False
               | b # _ \<Rightarrow> byte_in CHR ''a'' CHR ''z'' b \<or> byte_in CHR ''0'' CHR ''9'' b)
            \<and> list_all portal_service_id_byte value)
      in if valid then Ok () else Err (InvalidEnvironment ''PORTAL_SERVICE_ID''))"

definition validate_service_secret :: "string \<Rightarrow> (unit, config_error) result" where
  "validate_service_secret value =
     (if value \<noteq> [] then Ok () else Err (InvalidEnvironment ''PORTAL_SERVICE_SECRET''))"

definition parse_auth_foundation_base_url :: "'u url_ops \<Rightarrow> string \<Rightarrow> ('u, config_error) result" where
  "parse_auth_foundation_base_url U value =
     and_then (ok_or (url_parse U value) (InvalidEnvironment ''PORTAL_AUTH_FOUNDATION_BASE_URL'')) (\<lambda>url.
     if (url_scheme U url = ''http'' \<or> url_scheme U url = ''https'') \<and> url_host U url \<noteq> None then Ok url
     else Err (InvalidEnvironment ''PORTAL_AUTH_FOUNDATION_BASE_URL''))"

definition parse_capacity :: "string option \<Rightarrow> string \<Rightarrow> usize \<Rightarrow> (usize, config_error) result" where
  "parse_capacity value name default_capacity =
     (case value of
        Some v \<Rightarrow> (case parse_uint_str v of
                     None \<Rightarrow> Err (InvalidEnvironment name)
                   | Some capacity \<Rightarrow> if capacity > 0 then Ok capacity else Err (InvalidEnvironment name))
      | None \<Rightarrow> Ok default_capacity)"

definition capacity_from_env :: "environ \<Rightarrow> string \<Rightarrow> usize \<Rightarrow> (usize, config_error) result" where
  "capacity_from_env env name default_capacity =
     (case env name of
        Present value \<Rightarrow> parse_capacity (Some value) name default_capacity
      | NotPresent \<Rightarrow> Ok default_capacity
      | NotUnicode \<Rightarrow> Err (InvalidEnvironment name))"

definition app_config_from_env :: "'u url_ops \<Rightarrow> environ \<Rightarrow> ('u app_config, config_error) result" where
  "app_config_from_env U env =
     and_then (required_env env ''PORTAL_SERVICE_ID'') (\<lambda>service_id.
     and_then (portal_validate_service_id service_id) (\<lambda>_.
     and_then (required_env env ''PORTAL_SERVICE_SECRET'') (\<lambda>service_secret.
     and_then (validate_service_secret service_secret) (\<lambda>_.
     and_then (required_env env ''PORTAL_AUTH_FOUNDATION_BASE_URL'') (\<lambda>base_url.
     and_then (parse_auth_foundation_base_url U base_url) (\<lambda>auth_foundation_base_url.
     and_then (capacity_from_env env ''PORTAL_LOGIN_START_CAPACITY'' 10000) (\<lambda>login_start_capacity.
     and_then (capacity_from_env env ''PORTAL_LOCAL_SESSION_CAPACITY'' 50000) (\<lambda>local_session_capacity.
     Ok \<lparr>ac_service_id = service_id, ac_service_secret = service_secret,
         ac_auth_foundation_base_url = auth_foundation_base_url,
         ac_login_start_capacity = login_start_capacity,
         ac_local_session_capacity = local_session_capacity\<rparr>))))))))"

section \<open>Which environments are accepted\<close>

text \<open>A capacity variable that yields the capacity: unset with the default, or a positive decimal number.\<close>

definition capacity_setting :: "env_var \<Rightarrow> usize \<Rightarrow> usize \<Rightarrow> bool" where
  "capacity_setting v default_capacity capacity \<longleftrightarrow>
     (case v of NotPresent \<Rightarrow> capacity = default_capacity | NotUnicode \<Rightarrow> False
      | Present t \<Rightarrow> 0 < capacity \<and> parse_nat t = Some (unat capacity))"

definition http_url :: "'u url_ops \<Rightarrow> 'u \<Rightarrow> bool" where
  "http_url U url \<longleftrightarrow> url_scheme U url \<in> {''http'', ''https''} \<and> url_host U url \<noteq> None"

lemma capacity_from_env_Ok: "capacity_from_env env name d = Ok c \<longleftrightarrow> capacity_setting (env name) d c"
  by (cases "env name") (auto simp: capacity_from_env_def capacity_setting_def parse_capacity_def
      parse_uint_str_range [symmetric] split: option.splits)

lemma required_env_Ok: "required_env env name = Ok v \<longleftrightarrow> env name = Present v"
  by (auto simp: required_env_def ok_or_eq_Ok_iff var_ok_iff)

lemma base_url_Ok: "parse_auth_foundation_base_url U s = Ok url \<longleftrightarrow> url_parse U s = Some url \<and> http_url U url"
  by (auto simp: parse_auth_foundation_base_url_def and_then_Ok_iff ok_or_eq_Ok_iff http_url_def split: if_splits)

lemma validate_service_secret_Ok: "validate_service_secret s = Ok () \<longleftrightarrow> s \<noteq> []"
  by (simp add: validate_service_secret_def)

lemma app_config_from_env_Ok:
  "app_config_from_env U env = Ok cfg \<longleftrightarrow>
     env ''PORTAL_SERVICE_ID'' = Present (ac_service_id cfg) \<and> portal_validate_service_id (ac_service_id cfg) = Ok ()
     \<and> env ''PORTAL_SERVICE_SECRET'' = Present (ac_service_secret cfg) \<and> ac_service_secret cfg \<noteq> []
     \<and> (\<exists>t. env ''PORTAL_AUTH_FOUNDATION_BASE_URL'' = Present t
          \<and> url_parse U t = Some (ac_auth_foundation_base_url cfg))
     \<and> http_url U (ac_auth_foundation_base_url cfg)
     \<and> capacity_setting (env ''PORTAL_LOGIN_START_CAPACITY'') 10000 (ac_login_start_capacity cfg)
     \<and> capacity_setting (env ''PORTAL_LOCAL_SESSION_CAPACITY'') 50000 (ac_local_session_capacity cfg)"
  by (cases cfg) (auto simp: app_config_from_env_def and_then_Ok_iff required_env_Ok base_url_Ok
      capacity_from_env_Ok validate_service_secret_Ok)

lemma capacity_setting_positive: "capacity_setting v d c \<Longrightarrow> 0 < d \<Longrightarrow> 0 < c"
  by (auto simp: capacity_setting_def split: env_var.splits)

lemma capacities_positive:
  "app_config_from_env U env = Ok cfg \<Longrightarrow> 0 < ac_login_start_capacity cfg \<and> 0 < ac_local_session_capacity cfg"
  by (auto simp: app_config_from_env_Ok dest: capacity_setting_positive)

lemma app_config_errors:
  "app_config_from_env U env = Err e \<Longrightarrow> \<exists>name \<in> {''PORTAL_SERVICE_ID'', ''PORTAL_SERVICE_SECRET'',
     ''PORTAL_AUTH_FOUNDATION_BASE_URL'', ''PORTAL_LOGIN_START_CAPACITY'', ''PORTAL_LOCAL_SESSION_CAPACITY''}.
     e = InvalidEnvironment name \<or> e = MissingEnvironment name \<and> (\<forall>v. env name \<noteq> Present v)"
  by (auto simp: app_config_from_env_def and_then_Err_iff required_env_def ok_or_def var_ok_def
      portal_validate_service_id_def Let_def validate_service_secret_def parse_auth_foundation_base_url_def
      capacity_from_env_def parse_capacity_def split: option.splits env_var.splits if_splits)


definition portal_sample_environ :: environ where
  "portal_sample_environ = (\<lambda>_. NotPresent)(''PORTAL_SERVICE_ID'' := Present ''portal-dev'',
     ''PORTAL_SERVICE_SECRET'' := Present ''secret'', ''PORTAL_AUTH_FOUNDATION_BASE_URL'' := Present ''https://auth.example'',
     ''PORTAL_LOGIN_START_CAPACITY'' := Present ''2'')"

definition portal_sample_config :: "simple_url app_config" where
  "portal_sample_config = \<lparr>ac_service_id = ''portal-dev'', ac_service_secret = ''secret'',
     ac_auth_foundation_base_url = \<lparr>su_scheme = ''https'', su_host = ''auth.example'', su_path = ''/'', su_query = []\<rparr>,
     ac_login_start_capacity = 2, ac_local_session_capacity = 50000\<rparr>"

lemma portal_sample_from_env: "app_config_from_env simple_urls portal_sample_environ = Ok portal_sample_config"
  by (simp add: app_config_from_env_Ok portal_sample_environ_def portal_sample_config_def portal_validate_service_id_def
      portal_service_id_byte_def byte_in_def simple_urls_def simple_parse_def strip_prefix_def simple_mk_def
      form_parse.simps http_url_def capacity_setting_def parse_nat_def parse_digits_def is_digit_def digit_value_def)


end
