(* ===== verification/Portal_State.thy ===== *)
theory Portal_State
  imports Crypto Portal_Config
begin

text \<open>
  Model of \<open>PortalLocalState\<close> of \<open>portal_backend/src/main.rs\<close>: the login starts and the
  local sessions that the portal keeps in memory behind one mutex.  A \<open>HashMap\<close> is an
  association list with distinct keys (its order is never observed).  The random source is a
  stream of 32-byte draws; a draw that fails makes the program panic, and the loops that look for
  a fresh reference may draw for ever, so an operation is \<open>Done\<close>, \<open>Panicked\<close> or \<open>Hanging\<close>.
\<close>

section \<open>Constants and data\<close>

definition LOGIN_START_TTL_SECONDS :: u64 where
  "LOGIN_START_TTL_SECONDS = 600"

definition LOCAL_SESSION_TTL_SECONDS :: u64 where
  "LOCAL_SESSION_TTL_SECONDS = 28800"

definition LOCAL_STATE_CLEANUP_INTERVAL_SECONDS :: u64 where
  "LOCAL_STATE_CLEANUP_INTERVAL_SECONDS = 60"

definition REFERENCE_RANDOM_BYTES :: nat where
  "REFERENCE_RANDOM_BYTES = 32"

definition PORTAL_POST_LOGIN_PATH_MAX_BYTES :: nat where
  "PORTAL_POST_LOGIN_PATH_MAX_BYTES = 2048"

record login_start =
  lst_browser_context_reference :: string
  lst_code_verifier :: string
  lst_post_login_path :: string
  lst_created_at :: u64
  lst_expires_at :: u64

record created_login_start =
  cls_state :: string
  cls_browser_context_reference :: string
  cls_code_challenge :: string

record local_session =
  loc_internal_user_id :: i32
  loc_authenticated_at :: u64
  loc_created_at :: u64
  loc_expires_at :: u64
  loc_csrf_lookup :: bytes

datatype local_state_error =
    CapacityReached | LocalNotFound | LocalExpired | BrowserContextMismatch | InvalidPostLoginPath | ExpiryOverflow

record portal_local_state =
  login_starts :: "(string \<times> login_start) list"
  local_sessions :: "(string \<times> local_session) list"
  login_start_capacity :: usize
  local_session_capacity :: usize

datatype 'a run = Done 'a | Panicked | Hanging

section \<open>References\<close>

text \<open>\<open>random_reference\<close> of one draw; \<open>OsRng.fill_bytes\<close> panics when the source fails.\<close>

definition random_reference :: "'c crypto_scheme \<Rightarrow> bytes option \<Rightarrow> string option" where
  "random_reference C drawn = map_option (b64url_encode C) drawn"

definition portal_sha256_digest :: "'c crypto_scheme \<Rightarrow> bytes \<Rightarrow> bytes" where
  "portal_sha256_digest C value = sha256 C value"

definition sha256_base64url :: "'c crypto_scheme \<Rightarrow> bytes \<Rightarrow> string" where
  "sha256_base64url C value = b64url_encode C (portal_sha256_digest C value)"

text \<open>
  \<open>loop { let r = random_reference(); if table.contains_key(&r) { continue; } ... }\<close> from the
  draw number \<open>n\<close>: the fresh reference (or a panic) and the next draw number, or no result when
  every draw is taken.
\<close>

partial_function (option) fresh_reference ::
    "'c crypto_scheme \<Rightarrow> (nat \<Rightarrow> bytes option) \<Rightarrow> (string \<times> 'r) list \<Rightarrow> nat \<Rightarrow> (string option \<times> nat) option" where
  "fresh_reference C rng table n =
     (case random_reference C (rng n) of
        None \<Rightarrow> Some (None, Suc n)
      | Some r \<Rightarrow>
          if map_of table r \<noteq> None then fresh_reference C rng table (Suc n)
          else Some (Some r, Suc n))"

definition validate_post_login_path :: "string \<Rightarrow> (unit, local_state_error) result" where
  "validate_post_login_path value =
     (if value = [] \<or> length value > PORTAL_POST_LOGIN_PATH_MAX_BYTES \<or> \<not> starts_with ''/'' value
         \<or> starts_with ''//'' value \<or> CHR 0x5C \<in> set value
      then Err InvalidPostLoginPath else Ok ())"

section \<open>Operations\<close>

definition new_local_state :: "usize \<Rightarrow> usize \<Rightarrow> portal_local_state" where
  "new_local_state starts sessions =
     \<lparr>login_starts = [], local_sessions = [], login_start_capacity = starts, local_session_capacity = sessions\<rparr>"

definition cleanup_expired :: "u64 \<Rightarrow> portal_local_state \<Rightarrow> portal_local_state" where
  "cleanup_expired now st = st\<lparr>
     login_starts := filter (\<lambda>(_, record). lst_expires_at record > now) (login_starts st),
     local_sessions := filter (\<lambda>(_, record). loc_expires_at record > now) (local_sessions st)\<rparr>"

definition create_login_start ::
    "'c crypto_scheme \<Rightarrow> (nat \<Rightarrow> bytes option) \<Rightarrow> string \<Rightarrow> u64 \<Rightarrow> portal_local_state \<times> nat
     \<Rightarrow> (created_login_start, local_state_error) result run \<times> portal_local_state \<times> nat" where
  "create_login_start C rng post_login_path now = (\<lambda>(st0, n).
     case validate_post_login_path post_login_path of
       Inl e \<Rightarrow> (Done (Err e), st0, n)
     | Inr _ \<Rightarrow>
     let st = cleanup_expired now st0 in
     if length (login_starts st) \<ge> unat (login_start_capacity st) then (Done (Err CapacityReached), st, n)
     else case checked_add now LOGIN_START_TTL_SECONDS of
       None \<Rightarrow> (Done (Err ExpiryOverflow), st, n)
     | Some expires_at \<Rightarrow>
     case fresh_reference C rng (login_starts st) n of
       None \<Rightarrow> (Hanging, st, n)
     | Some (None, n1) \<Rightarrow> (Panicked, st, n1)
     | Some (Some state, n1) \<Rightarrow>
     case random_reference C (rng n1) of
       None \<Rightarrow> (Panicked, st, Suc n1)
     | Some browser_context_reference \<Rightarrow>
     case random_reference C (rng (Suc n1)) of
       None \<Rightarrow> (Panicked, st, Suc (Suc n1))
     | Some code_verifier \<Rightarrow>
         (Done (Ok \<lparr>cls_state = state, cls_browser_context_reference = browser_context_reference,
                   cls_code_challenge = sha256_base64url C code_verifier\<rparr>),
          st\<lparr>login_starts := AList.update state
               \<lparr>lst_browser_context_reference = browser_context_reference, lst_code_verifier = code_verifier,
                lst_post_login_path = post_login_path, lst_created_at = now, lst_expires_at = expires_at\<rparr>
               (login_starts st)\<rparr>,
          Suc (Suc n1)))"

definition claim_login_start ::
    "string \<Rightarrow> string \<Rightarrow> u64 \<Rightarrow> portal_local_state \<Rightarrow> (login_start, local_state_error) result \<times> portal_local_state" where
  "claim_login_start state browser_context_reference now st =
     (case map_of (login_starts st) state of
        None \<Rightarrow> (Err LocalNotFound, st)
      | Some record \<Rightarrow>
          if lst_expires_at record \<le> now
          then (Err LocalExpired, st\<lparr>login_starts := AList.delete state (login_starts st)\<rparr>)
          else if lst_browser_context_reference record \<noteq> browser_context_reference
          then (Err BrowserContextMismatch, st)
          else (ok_or (map_of (login_starts st) state) LocalNotFound,
                st\<lparr>login_starts := AList.delete state (login_starts st)\<rparr>))"

definition create_local_session ::
    "'c crypto_scheme \<Rightarrow> (nat \<Rightarrow> bytes option) \<Rightarrow> i32 \<Rightarrow> u64 \<Rightarrow> u64 \<Rightarrow> portal_local_state \<times> nat
     \<Rightarrow> (string \<times> string, local_state_error) result run \<times> portal_local_state \<times> nat" where
  "create_local_session C rng internal_user_id authenticated_at now = (\<lambda>(st0, n).
     let st = cleanup_expired now st0 in
     if length (local_sessions st) \<ge> unat (local_session_capacity st) then (Done (Err CapacityReached), st, n)
     else case checked_add now LOCAL_SESSION_TTL_SECONDS of
       None \<Rightarrow> (Done (Err ExpiryOverflow), st, n)
     | Some expires_at \<Rightarrow>
     case fresh_reference C rng (local_sessions st) n of
       None \<Rightarrow> (Hanging, st, n)
     | Some (None, n1) \<Rightarrow> (Panicked, st, n1)
     | Some (Some reference, n1) \<Rightarrow>
     case random_reference C (rng n1) of
       None \<Rightarrow> (Panicked, st, Suc n1)
     | Some csrf_plaintext \<Rightarrow>
         (Done (Ok (reference, csrf_plaintext)),
          st\<lparr>local_sessions := AList.update reference
               \<lparr>loc_internal_user_id = internal_user_id, loc_authenticated_at = authenticated_at,
                loc_created_at = now, loc_expires_at = expires_at,
                loc_csrf_lookup = portal_sha256_digest C csrf_plaintext\<rparr>
               (local_sessions st)\<rparr>,
          Suc n1))"

definition get_local_session ::
    "string \<Rightarrow> u64 \<Rightarrow> portal_local_state \<Rightarrow> local_session option \<times> portal_local_state" where
  "get_local_session reference now st =
     (if (case map_of (local_sessions st) reference of None \<Rightarrow> False | Some record \<Rightarrow> loc_expires_at record \<le> now)
      then (None, st\<lparr>local_sessions := AList.delete reference (local_sessions st)\<rparr>)
      else (map_of (local_sessions st) reference, st))"

definition remove_local_session ::
    "string \<Rightarrow> portal_local_state \<Rightarrow> local_session option \<times> portal_local_state" where
  "remove_local_session reference st =
     (map_of (local_sessions st) reference, st\<lparr>local_sessions := AList.delete reference (local_sessions st)\<rparr>)"

end
