(* ===== verification/Portal_Backend.thy ===== *)
theory Portal_Backend
  imports Portal_State
begin

text \<open>
  Model of the request handlers, the routes and \<open>main\<close> of \<open>portal_backend/src/main.rs\<close>.  A
  handler is a step over the portal's world: the local state behind its mutex, the random source,
  the clock, and the authentication service it calls (a state of its own).  It answers \<open>Done\<close>
  with a response, or panics, or hangs.
\<close>

section \<open>Cookies\<close>

definition PORTAL_LOGIN_CONTEXT_COOKIE_NAME :: string where
  "PORTAL_LOGIN_CONTEXT_COOKIE_NAME = ''__Host-portal_login_ctx''"

definition PORTAL_SESSION_COOKIE_NAME :: string where
  "PORTAL_SESSION_COOKIE_NAME = ''__Host-portal_session''"

definition PORTAL_CSRF_COOKIE_NAME :: string where
  "PORTAL_CSRF_COOKIE_NAME = ''__Host-portal_csrf''"

definition login_context_cookie :: "string \<Rightarrow> cookie" where
  "login_context_cookie value = \<lparr>ck_name = PORTAL_LOGIN_CONTEXT_COOKIE_NAME, ck_value = value, ck_path = Some ''/'',
     ck_max_age = None, ck_secure = True, ck_http_only = True, ck_same_site = Some Lax\<rparr>"

definition portal_session_cookie :: "string \<Rightarrow> cookie" where
  "portal_session_cookie value = \<lparr>ck_name = PORTAL_SESSION_COOKIE_NAME, ck_value = value, ck_path = Some ''/'',
     ck_max_age = None, ck_secure = True, ck_http_only = True, ck_same_site = Some Lax\<rparr>"

definition portal_csrf_cookie :: "string \<Rightarrow> cookie" where
  "portal_csrf_cookie value = \<lparr>ck_name = PORTAL_CSRF_COOKIE_NAME, ck_value = value, ck_path = Some ''/'',
     ck_max_age = None, ck_secure = True, ck_http_only = False, ck_same_site = Some Lax\<rparr>"

definition delete_login_context_cookie :: cookie where
  "delete_login_context_cookie = \<lparr>ck_name = PORTAL_LOGIN_CONTEXT_COOKIE_NAME, ck_value = '''', ck_path = Some ''/'',
     ck_max_age = Some 0, ck_secure = True, ck_http_only = True, ck_same_site = Some Lax\<rparr>"

definition delete_portal_session_cookie :: cookie where
  "delete_portal_session_cookie = \<lparr>ck_name = PORTAL_SESSION_COOKIE_NAME, ck_value = '''', ck_path = Some ''/'',
     ck_max_age = Some 0, ck_secure = True, ck_http_only = True, ck_same_site = Some Lax\<rparr>"

definition delete_portal_csrf_cookie :: cookie where
  "delete_portal_csrf_cookie = \<lparr>ck_name = PORTAL_CSRF_COOKIE_NAME, ck_value = '''', ck_path = Some ''/'',
     ck_max_age = Some 0, ck_secure = True, ck_http_only = False, ck_same_site = Some Lax\<rparr>"

section \<open>Input parsing\<close>

definition is_fixed_reference :: "string \<Rightarrow> bool" where
  "is_fixed_reference value \<longleftrightarrow>
     length value = 43 \<and> list_all (\<lambda>b. is_alphanumeric b \<or> b = CHR ''_'' \<or> b = CHR ''-'') value"

text \<open>\<open>Cookie::split_parse\<close> is a parameter: the cookies of a header, each a name and value or a parse error.\<close>

type_synonym split_parse = "string \<Rightarrow> (string \<times> string, unit) result list"

text \<open>The loop over the cookies of one header: the one value found so far, or an error.\<close>

fun scan_cookies :: "string \<Rightarrow> (string \<times> string, unit) result list \<Rightarrow> string option \<Rightarrow> (string option, unit) result" where
  "scan_cookies name [] found = Ok found"
| "scan_cookies name (Inl _ # rest) found = Err ()"
| "scan_cookies name (Inr (n, v) # rest) found =
     (if n = name then
        if found \<noteq> None \<or> \<not> is_fixed_reference v then Err () else scan_cookies name rest (Some v)
      else scan_cookies name rest found)"

fun scan_headers :: "split_parse \<Rightarrow> string \<Rightarrow> bytes list \<Rightarrow> string option \<Rightarrow> (string option, unit) result" where
  "scan_headers parse name [] found = Ok found"
| "scan_headers parse name (h # hs) found =
     (case to_str h of
        None \<Rightarrow> Err ()
      | Some cookie_header \<Rightarrow> and_then (scan_cookies name (parse cookie_header) found) (scan_headers parse name hs))"

definition fixed_reference_cookie_from_headers ::
    "split_parse \<Rightarrow> (string \<times> bytes) list \<Rightarrow> string \<Rightarrow> (string, unit) result" where
  "fixed_reference_cookie_from_headers parse headers name =
     and_then (scan_headers parse name (get_all ''cookie'' headers) None) (\<lambda>value. ok_or value ())"

definition csrf_header_from_headers :: "(string \<times> bytes) list \<Rightarrow> (string, unit) result" where
  "csrf_header_from_headers headers =
     (case get_all ''x-csrf-token'' headers of
        [] \<Rightarrow> Err ()
      | v # rest \<Rightarrow>
          and_then (ok_or (to_str v) ()) (\<lambda>value.
          if rest \<noteq> [] \<or> \<not> is_fixed_reference value then Err () else Ok value))"

record portal_callback_query =
  pcq_code :: string
  pcq_state :: string

fun scan_query :: "(string \<times> string) list \<Rightarrow> string option \<Rightarrow> string option \<Rightarrow> (portal_callback_query, unit) result" where
  "scan_query [] code state =
     (case (code, state) of (Some c, Some s) \<Rightarrow> Ok \<lparr>pcq_code = c, pcq_state = s\<rparr> | _ \<Rightarrow> Err ())"
| "scan_query ((name, value) # rest) code state =
     (if name = ''code'' then
        if code \<noteq> None \<or> \<not> is_fixed_reference value then Err () else scan_query rest (Some value) state
      else if name = ''state'' then
        if state \<noteq> None \<or> \<not> is_fixed_reference value then Err () else scan_query rest code (Some value)
      else Err ())"

definition parse_callback_query :: "'u url_ops \<Rightarrow> string \<Rightarrow> (portal_callback_query, unit) result" where
  "parse_callback_query U raw_query = scan_query (url_form_parse U raw_query) None None"

definition login_context_from_cookie_header :: "split_parse \<Rightarrow> string option \<Rightarrow> (string, unit) result" where
  "login_context_from_cookie_header parse cookie_header =
     and_then (ok_or cookie_header ()) (\<lambda>header.
     and_then (scan_cookies PORTAL_LOGIN_CONTEXT_COOKIE_NAME (parse header) None) (\<lambda>value. ok_or value ()))"

section \<open>Outgoing requests and responses\<close>

definition auth_foundation_endpoint :: "'u url_ops \<Rightarrow> 'u \<Rightarrow> string \<Rightarrow> 'u" where
  "auth_foundation_endpoint U base_url path = url_clear_fragment U (url_clear_query U (url_set_path U path base_url))"

record http_client =
  hc_connect_timeout :: nat
  hc_timeout :: nat
  hc_retries :: bool
  hc_follows_redirects :: bool
  hc_pool_max_idle :: nat

definition build_http_client :: http_client where
  "build_http_client = \<lparr>hc_connect_timeout = 3, hc_timeout = 10, hc_retries = False, hc_follows_redirects = False,
     hc_pool_max_idle = 0\<rparr>"

text \<open>\<open>expect\<close> panics where a header value is not valid; only the value of a cookie varies.\<close>

definition empty_response :: "nat \<Rightarrow> response" where
  "empty_response st = finish st"

definition append_cookie :: "cookie \<Rightarrow> response \<Rightarrow> response run" where
  "append_cookie ck r = (if header_value (ck_value ck) then Done (with_cookie ck r) else Panicked)"

definition redirect_response :: "string \<Rightarrow> response run" where
  "redirect_response target =
     (if header_value target then Done (with_header ''location'' target (empty_response 302)) else Panicked)"

definition portal_exchange_request :: "string \<Rightarrow> string \<Rightarrow> json" where
  "portal_exchange_request code code_verifier = JObject [(''code'', JStr code), (''code_verifier'', JStr code_verifier)]"

text \<open>\<open>response.json::<HandoffExchangeResponse>()\<close>: an \<open>i32\<close> and a \<open>u64\<close>.\<close>

definition decode_exchange_response :: "json \<Rightarrow> (i32 \<times> u64) option" where
  "decode_exchange_response j =
     (case struct_fields [''internal_user_id'', ''authenticated_at''] j of
        Some [Some (JNum a), Some (JNum b)] \<Rightarrow>
          (case (i32_try_from a, u64_try_from b) of (Some internal_user_id, Some authenticated_at) \<Rightarrow>
             Some (internal_user_id, authenticated_at) | _ \<Rightarrow> None)
      | _ \<Rightarrow> None)"

definition me_response :: "i32 \<Rightarrow> json" where
  "me_response internal_user_id =
     JObject [(''authenticated'', JBool True), (''internal_user_id'', JNum (sint internal_user_id))]"

definition health_response :: "string \<Rightarrow> json" where
  "health_response timestamp = JObject [(''status'', JStr ''OK''), (''timestamp'', JStr timestamp)]"

section \<open>The environment\<close>

text \<open>
  \<open>others n\<close> is what other requests and the cleanup task did to the local state before the
  mutex is acquired for the \<open>n\<close>-th time.  \<open>post\<close> sends a request with Basic credentials and a
  JSON body; it gives a status and the JSON body of the response, or no response.
\<close>

record ('u, 'r) portal_env =
  pe_config :: "'u app_config"
  pe_client :: http_client
  pe_urls :: "'u url_ops"
  pe_rng :: "nat \<Rightarrow> bytes option"
  pe_clock :: "nat \<Rightarrow> int"
  pe_timestamp :: "nat \<Rightarrow> string"
  pe_split_parse :: split_parse
  pe_others :: "nat \<Rightarrow> portal_local_state \<Rightarrow> portal_local_state"
  pe_post :: "http_client \<Rightarrow> 'u \<Rightarrow> string \<times> string \<Rightarrow> json \<Rightarrow> 'r \<Rightarrow> (nat \<times> json option) option \<times> 'r"

record 'r portal_world =
  pw_local :: portal_local_state
  pw_draws :: nat
  pw_ticks :: nat
  pw_locks :: nat
  pw_remote :: 'r

type_synonym ('r, 'a) portal_step = "('r portal_world, response run, 'a) fallible"

text \<open>The result of something that may panic or hang.\<close>

definition perform :: "'a run \<Rightarrow> ('r, 'a) portal_step" where
  "perform x = (case x of Done a \<Rightarrow> proceed a | Panicked \<Rightarrow> reply Panicked | Hanging \<Rightarrow> reply Hanging)"

definition answer :: "response \<Rightarrow> ('r, 'a) portal_step" where
  "answer r = reply (Done r)"

definition respond :: "response \<Rightarrow> ('r, response run) portal_step" where
  "respond r = proceed (Done r)"

text \<open>\<open>unix_epoch_seconds()\<close>: the clock in nanoseconds since the Unix epoch.\<close>

definition unix_epoch_seconds :: "int \<Rightarrow> u64 run" where
  "unix_epoch_seconds time = (if time < 0 then Panicked else Done (word_of_int (time div 1000000000)))"

definition portal_now :: "('u, 'r) portal_env \<Rightarrow> ('r, u64) portal_step" where
  "portal_now E w = perform (unix_epoch_seconds (pe_clock E (pw_ticks w))) (w\<lparr>pw_ticks := Suc (pw_ticks w)\<rparr>)"

text \<open>\<open>state.local_state.lock().await\<close>, and an operation on the locked state.\<close>

definition lock :: "('u, 'r) portal_env \<Rightarrow> ('r, unit) portal_step" where
  "lock E w = (Inr (), w\<lparr>pw_local := pe_others E (pw_locks w) (pw_local w), pw_locks := Suc (pw_locks w)\<rparr>)"

definition drawing ::
    "(portal_local_state \<times> nat \<Rightarrow> 'a run \<times> portal_local_state \<times> nat) \<Rightarrow> ('r, 'a) portal_step" where
  "drawing f w = (case f (pw_local w, pw_draws w) of (res, st, n) \<Rightarrow> perform res (w\<lparr>pw_local := st, pw_draws := n\<rparr>))"

definition on_local :: "(portal_local_state \<Rightarrow> 'a \<times> portal_local_state) \<Rightarrow> ('r, 'a) portal_step" where
  "on_local f w = (case f (pw_local w) of (a, st) \<Rightarrow> (Inr a, w\<lparr>pw_local := st\<rparr>))"

text \<open>An empty response that also deletes the login context cookie.\<close>

definition refuse_login :: "nat \<Rightarrow> ('r, 'a) portal_step" where
  "refuse_login st = hbind (perform (append_cookie delete_login_context_cookie (empty_response st))) answer"

section \<open>Login\<close>

definition portal_login :: "'c crypto_scheme \<Rightarrow> ('u, 'r) portal_env \<Rightarrow> ('r, response run) portal_step" where
  "portal_login C E =
     (let U = pe_urls E; config = pe_config E;
          login_url = auth_foundation_endpoint U (ac_auth_foundation_base_url config) ''/auth/login'' in
     hbind (portal_now E) (\<lambda>now.
     hbind (lock E) (\<lambda>_.
     hbind (drawing (create_login_start C (pe_rng E) ''/'' now)) (\<lambda>result.
     case result of
       Inl e \<Rightarrow> if e = CapacityReached then answer (empty_response 503) else answer (empty_response 500)
     | Inr created \<Rightarrow>
     let login_url = url_append_pairs U
           [(''service_id'', ac_service_id config), (''state'', cls_state created),
            (''code_challenge'', cls_code_challenge created), (''code_challenge_method'', ''S256'')] login_url in
     hbind (perform (redirect_response (url_to_string U login_url))) (\<lambda>response.
     hbind (perform (append_cookie (login_context_cookie (cls_browser_context_reference created)) response)) respond)))))"

section \<open>Callback\<close>

text \<open>The exchange of the handoff code at the authentication service.\<close>

definition exchange_code :: "('u, 'r) portal_env \<Rightarrow> string \<Rightarrow> string \<Rightarrow> ('r, i32 \<times> u64) portal_step" where
  "exchange_code E code code_verifier w =
     (let config = pe_config E;
          exchange_url = auth_foundation_endpoint (pe_urls E) (ac_auth_foundation_base_url config) ''/auth/handoffs/exchange'';
          (exchange, remote) = pe_post E (pe_client E) exchange_url (ac_service_id config, ac_service_secret config)
            (portal_exchange_request code code_verifier) (pw_remote w);
          w1 = w\<lparr>pw_remote := remote\<rparr>
      in case exchange of
           Some (st, content) \<Rightarrow>
             if st = 200 then
               (case (case content of None \<Rightarrow> None | Some j \<Rightarrow> decode_exchange_response j) of
                  Some handoff \<Rightarrow> proceed handoff w1
                | None \<Rightarrow> refuse_login 502 w1)
             else refuse_login 502 w1
         | None \<Rightarrow> refuse_login 502 w1)"

text \<open>The local session of the user, and the response that carries it.\<close>

definition open_session ::
    "'c crypto_scheme \<Rightarrow> ('u, 'r) portal_env \<Rightarrow> string \<Rightarrow> i32 \<Rightarrow> u64 \<Rightarrow> ('r, response run) portal_step" where
  "open_session C E post_login_path internal_user_id authenticated_at =
     hbind (lock E) (\<lambda>_.
     hbind (portal_now E) (\<lambda>now.
     hbind (drawing (create_local_session C (pe_rng E) internal_user_id authenticated_at now)) (\<lambda>session.
     case session of
       Inl e \<Rightarrow> if e = CapacityReached then refuse_login 503 else refuse_login 500
     | Inr (session_reference, csrf_plaintext) \<Rightarrow>
     hbind (perform (redirect_response post_login_path)) (\<lambda>r0.
     hbind (perform (append_cookie (portal_session_cookie session_reference) r0)) (\<lambda>r1.
     hbind (perform (append_cookie (portal_csrf_cookie csrf_plaintext) r1)) (\<lambda>r2.
     hbind (perform (append_cookie delete_login_context_cookie r2)) respond))))))"

definition portal_callback ::
    "'c crypto_scheme \<Rightarrow> ('u, 'r) portal_env \<Rightarrow> string \<Rightarrow> string option \<Rightarrow> ('r, response run) portal_step" where
  "portal_callback C E raw_query cookie_header =
     (case parse_callback_query (pe_urls E) raw_query of
        Inl _ \<Rightarrow> answer (empty_response 400)
      | Inr query \<Rightarrow>
     case login_context_from_cookie_header (pe_split_parse E) cookie_header of
        Inl _ \<Rightarrow> answer (empty_response 400)
      | Inr browser_context_reference \<Rightarrow>
     hbind (portal_now E) (\<lambda>now.
     hbind (lock E) (\<lambda>_.
     hbind (on_local (claim_login_start (pcq_state query) browser_context_reference now)) (\<lambda>claimed.
     case claimed of
       Inl e \<Rightarrow> if e = LocalNotFound \<or> e = LocalExpired \<or> e = BrowserContextMismatch
                then answer (empty_response 400) else answer (empty_response 500)
     | Inr login_start \<Rightarrow>
     hbind (exchange_code E (pcq_code query) (lst_code_verifier login_start)) (\<lambda>(internal_user_id, authenticated_at).
     open_session C E (lst_post_login_path login_start) internal_user_id authenticated_at)))))"

section \<open>Session queries and logout\<close>

definition get_me ::
    "('u, 'r) portal_env \<Rightarrow> (string \<times> bytes) list \<Rightarrow> ('r, response run) portal_step" where
  "get_me E headers =
     (case fixed_reference_cookie_from_headers (pe_split_parse E) headers PORTAL_SESSION_COOKIE_NAME of
        Inl _ \<Rightarrow> answer (empty_response 401)
      | Inr reference \<Rightarrow>
     hbind (lock E) (\<lambda>_.
     hbind (portal_now E) (\<lambda>now.
     hbind (on_local (get_local_session reference now)) (\<lambda>session.
     case map_option loc_internal_user_id session of
       Some internal_user_id \<Rightarrow> respond (json_response 200 (me_response internal_user_id))
     | None \<Rightarrow> answer (empty_response 401)))))"

definition portal_logout ::
    "'c crypto_scheme \<Rightarrow> ('u, 'r) portal_env \<Rightarrow> (string \<times> bytes) list \<Rightarrow> ('r, response run) portal_step" where
  "portal_logout C E headers =
     (case fixed_reference_cookie_from_headers (pe_split_parse E) headers PORTAL_SESSION_COOKIE_NAME of
        Inl _ \<Rightarrow> answer (empty_response 403)
      | Inr session_reference \<Rightarrow>
     case fixed_reference_cookie_from_headers (pe_split_parse E) headers PORTAL_CSRF_COOKIE_NAME of
        Inl _ \<Rightarrow> answer (empty_response 403)
      | Inr csrf_cookie \<Rightarrow>
     case csrf_header_from_headers headers of
        Inl _ \<Rightarrow> answer (empty_response 403)
      | Inr csrf_header \<Rightarrow>
     hbind (lock E) (\<lambda>_.
     hbind (portal_now E) (\<lambda>now.
     hbind (on_local (get_local_session session_reference now)) (\<lambda>session.
     case session of
       None \<Rightarrow> answer (empty_response 403)
     | Some session \<Rightarrow>
     if \<not> ct_eq C csrf_cookie csrf_header then answer (empty_response 403)
     else if \<not> ct_eq C (portal_sha256_digest C csrf_cookie) (loc_csrf_lookup session) then answer (empty_response 403)
     else
     hbind (on_local (remove_local_session session_reference)) (\<lambda>removed.
     if removed = None then answer (empty_response 403)
     else
     hbind (perform (append_cookie delete_portal_session_cookie (empty_response 204))) (\<lambda>r.
     hbind (perform (append_cookie delete_portal_csrf_cookie r)) respond))))))"

definition health :: "('u, 'r) portal_env \<Rightarrow> ('r, response run) portal_step" where
  "health E w = respond (json_response 200 (health_response (pe_timestamp E (pw_ticks w)))) (w\<lparr>pw_ticks := Suc (pw_ticks w)\<rparr>)"

section \<open>Routes and startup\<close>

record portal_request =
  prq_method :: http_method
  prq_path :: string
  prq_query :: "string option"
  prq_headers :: "(string \<times> bytes) list"

text \<open>A path with its segments, as \<open>warp::path!\<close> matches it: one trailing slash is ignored.\<close>

definition path_is :: "string \<Rightarrow> portal_request \<Rightarrow> bool" where
  "path_is p request \<longleftrightarrow> prq_path request = p \<or> prq_path request = p @ ''/''"

text \<open>
  The routes; None is a rejection (no such route or method, a callback without a query string, a
  cookie header that is not a string), which the framework answers.
\<close>

definition routes ::
    "'c crypto_scheme \<Rightarrow> ('u, 'r) portal_env \<Rightarrow> portal_request \<Rightarrow> ('r, response run) portal_step option" where
  "routes C E request =
     (if path_is ''/health'' request \<and> prq_method request = GET then Some (health E)
      else if path_is ''/login'' request \<and> prq_method request = GET then Some (portal_login C E)
      else if path_is ''/auth/callback'' request \<and> prq_method request = GET then
        (case prq_query request of
           None \<Rightarrow> None
         | Some raw_query \<Rightarrow>
             (case get_all ''cookie'' (prq_headers request) of
                [] \<Rightarrow> Some (portal_callback C E raw_query None)
              | v # _ \<Rightarrow> (case to_str v of None \<Rightarrow> None
                            | Some cookie_header \<Rightarrow> Some (portal_callback C E raw_query (Some cookie_header)))))
      else if path_is ''/api/me'' request \<and> prq_method request = GET then Some (get_me E (prq_headers request))
      else if path_is ''/logout'' request \<and> prq_method request = POST then Some (portal_logout C E (prq_headers request))
      else None)"

text \<open>One iteration of the cleanup task.\<close>

definition cleanup_task :: "('u, 'r) portal_env \<Rightarrow> ('r, unit) portal_step" where
  "cleanup_task E =
     hbind (lock E) (\<lambda>_. hbind (portal_now E) (\<lambda>now. on_local (\<lambda>st. ((), cleanup_expired now st))))"

datatype 'u portal_startup =
    PortalExits string
  | PortalServes "'u app_config" http_client portal_local_state u64 u16

text \<open>
  \<open>main\<close>: the messages printed when it returns early, or what the server runs with (its
  configuration, client, initial state, cleanup interval and port).  \<open>client_error\<close> is what
  building the HTTP client reports, if anything.
\<close>

definition portal_main :: "'u url_ops \<Rightarrow> environ \<Rightarrow> string option \<Rightarrow> 'u portal_startup" where
  "portal_main U env client_error =
     (case app_config_from_env U env of
        Inl e \<Rightarrow> PortalExits (''Portal configuration error: '' @ config_error_fmt e)
      | Inr config \<Rightarrow>
     case client_error of
        Some message \<Rightarrow> PortalExits (''Portal HTTP client configuration error: '' @ message)
      | None \<Rightarrow>
     let state = new_local_state (ac_login_start_capacity config) (ac_local_session_capacity config);
         port_text = (case var_ok (env ''PORT'') of None \<Rightarrow> ''3000'' | Some v \<Rightarrow> v);
         port = (case parse_uint_str port_text of None \<Rightarrow> 3000 | Some p \<Rightarrow> p)
     in PortalServes config build_http_client state LOCAL_STATE_CLEANUP_INTERVAL_SECONDS port)"

end
