(* ===== verification/Portal_Machine.thy ===== *)
theory Portal_Machine
  imports Portal_Store
begin

text \<open>
  The portal's local state as a machine.  The abstract state holds only what is alive; every
  operation of the code refines one of its operations.  \<open>local_step\<close> is one critical section
  of the mutex, \<open>local_run\<close> any sequence of them, from any requests and the cleanup task in any
  order.
\<close>

section \<open>Refinement of a store without expired entries\<close>

record portal_spec =
  sp_starts :: "string \<rightharpoonup> login_start"
  sp_sessions :: "string \<rightharpoonup> local_session"
  sp_start_capacity :: nat
  sp_session_capacity :: nat

definition spec_put_start :: "string \<Rightarrow> login_start \<Rightarrow> portal_spec \<Rightarrow> portal_spec option" where
  "spec_put_start k r a = (if card (dom (sp_starts a)) \<ge> sp_start_capacity a then None
     else Some (a\<lparr>sp_starts := (sp_starts a)(k \<mapsto> r)\<rparr>))"

definition spec_claim :: "string \<Rightarrow> string \<Rightarrow> portal_spec \<Rightarrow> login_start option \<times> portal_spec" where
  "spec_claim k ctx a = (case sp_starts a k of
      Some r \<Rightarrow> if lst_browser_context_reference r = ctx then (Some r, a\<lparr>sp_starts := (sp_starts a)(k := None)\<rparr>) else (None, a)
    | None \<Rightarrow> (None, a))"

definition spec_put_session :: "string \<Rightarrow> local_session \<Rightarrow> portal_spec \<Rightarrow> portal_spec option" where
  "spec_put_session k r a = (if card (dom (sp_sessions a)) \<ge> sp_session_capacity a then None
     else Some (a\<lparr>sp_sessions := (sp_sessions a)(k \<mapsto> r)\<rparr>))"

definition spec_drop_session :: "string \<Rightarrow> portal_spec \<Rightarrow> portal_spec" where
  "spec_drop_session k a = a\<lparr>sp_sessions := (sp_sessions a)(k := None)\<rparr>"

definition portal_abs :: "u64 \<Rightarrow> portal_local_state \<Rightarrow> portal_spec" where
  "portal_abs now st = \<lparr>sp_starts = start_alive now st, sp_sessions = session_alive now st,
     sp_start_capacity = unat (login_start_capacity st), sp_session_capacity = unat (local_session_capacity st)\<rparr>"

lemma live_table: "distinct (map fst t) \<Longrightarrow> map_of (filter (\<lambda>(k, r). expiry r > now) t) = live expiry now t"
  by (rule ext) (simp add: live_def map_of_filter_distinct)

lemma length_live:
  "distinct (map fst t) \<Longrightarrow> length (filter (\<lambda>(k, r). expiry r > now) t) = card (dom (live expiry now t))"
proof -
  assume d: "distinct (map fst t)"
  let ?t = "filter (\<lambda>(k, r). expiry r > now) t"
  have "length ?t = card (set (map fst ?t))" using distinct_card [OF distinct_filter_fst [OF d]] by (simp only: length_map)
  also have "set (map fst ?t) = dom (map_of ?t)" by (simp add: dom_map_of_conv_image_fst)
  finally show ?thesis using d by (simp add: live_table)
qed

lemma swept_sizes:
  assumes "tables_distinct st"
  shows "length (login_starts (cleanup_expired now st)) = card (dom (start_alive now st))"
    "length (local_sessions (cleanup_expired now st)) = card (dom (session_alive now st))"
  using assms by (simp_all add: live_defs length_live)

lemma swept_tables:
  assumes "tables_distinct st"
  shows "map_of (login_starts (cleanup_expired now st)) = start_alive now st"
    "map_of (local_sessions (cleanup_expired now st)) = session_alive now st"
  using assms by (simp_all add: live_defs live_table)

lemma frame_simps [simp]:
  "session_alive now (put_start k r st) = session_alive now st" "session_alive now (drop_start k st) = session_alive now st"
  "start_alive now (put_session k s st) = start_alive now st" "start_alive now (drop_session k st) = start_alive now st"
  "login_start_capacity (put_start k r st) = login_start_capacity st"
  "login_start_capacity (drop_start k st) = login_start_capacity st"
  "login_start_capacity (put_session k s st) = login_start_capacity st"
  "login_start_capacity (drop_session k st) = login_start_capacity st"
  "local_session_capacity (put_start k r st) = local_session_capacity st"
  "local_session_capacity (drop_start k st) = local_session_capacity st"
  "local_session_capacity (put_session k s st) = local_session_capacity st"
  "local_session_capacity (drop_session k st) = local_session_capacity st"
  by (simp_all add: live_defs)

lemma portal_abs_sweep: "tables_distinct st \<Longrightarrow> t \<le> now \<Longrightarrow> portal_abs now (cleanup_expired t st) = portal_abs now st"
  by (simp add: portal_abs_def starts.alive_sweep sessions.alive_sweep)

lemma claim_start_refines:
  "claim_login_start k ctx now st = (res, st') \<Longrightarrow>
     spec_claim k ctx (portal_abs now st) = (ok_of res, portal_abs now st')"
  by (cases res) (auto simp: claim_login_start_Ok spec_claim_def portal_abs_def starts.alive_discard
      dest!: claim_login_start_Err split: option.splits)

lemma get_refines:
  "get_local_session k now st = (res, st') \<Longrightarrow>
     res = sp_sessions (portal_abs now st) k \<and> portal_abs now st' = portal_abs now st"
  by (drule get_local_session_eq) (auto simp: portal_abs_def sessions.alive_discard fun_upd_idem)

lemma remove_refines: "snd (remove_local_session k st) = drop_session k st"
    "portal_abs now (drop_session k st) = spec_drop_session k (portal_abs now st)"
  by (simp_all add: remove_local_session_def drop_session_def [symmetric] portal_abs_def spec_drop_session_def
      sessions.alive_discard)

lemma create_start_refines:
  assumes "tables_distinct st" "create_login_start C rng path now (st, n) = (Done (Ok c), st', n')"
  shows "\<exists>r. sp_starts (portal_abs now st) (cls_state c) = None
    \<and> spec_put_start (cls_state c) r (portal_abs now st) = Some (portal_abs now st')"
proof -
  from assms(2) obtain r where r: "length (login_starts (cleanup_expired now st)) < unat (login_start_capacity st)"
    "map_of (login_starts (cleanup_expired now st)) (cls_state c) = None"
    "st' = put_start (cls_state c) r (cleanup_expired now st)" "unat (lst_expires_at r) = unat now + 600"
    by (rule create_login_start_Ok)
  from r(4) have "now < lst_expires_at r" by (simp add: word_less_nat_alt)
  then have "portal_abs now st' = (portal_abs now st)\<lparr>sp_starts := (start_alive now st)(cls_state c \<mapsto> r)\<rparr>"
    by (simp add: r(3) portal_abs_def starts.alive_store starts.alive_sweep sessions.alive_sweep assms(1))
  then show ?thesis
    using r(1,2) by (auto simp: swept_sizes swept_tables assms(1) spec_put_start_def portal_abs_def intro!: exI [of _ r])
qed

lemma create_session_refines:
  assumes "tables_distinct st" "create_local_session C rng user at now (st, n) = (Done (Ok (k, csrf)), st', n')"
  shows "\<exists>r. sp_sessions (portal_abs now st) k = None
    \<and> spec_put_session k r (portal_abs now st) = Some (portal_abs now st')
    \<and> loc_internal_user_id r = user \<and> loc_csrf_lookup r = sha256 C csrf"
proof -
  from assms(2) obtain r where r: "length (local_sessions (cleanup_expired now st)) < unat (local_session_capacity st)"
    "map_of (local_sessions (cleanup_expired now st)) k = None"
    "st' = put_session k r (cleanup_expired now st)" "loc_internal_user_id r = user" "loc_csrf_lookup r = sha256 C csrf"
    "unat (loc_expires_at r) = unat now + 28800"
    by (rule create_local_session_Ok)
  from r(6) have "now < loc_expires_at r" by (simp add: word_less_nat_alt)
  then have "portal_abs now st' = (portal_abs now st)\<lparr>sp_sessions := (session_alive now st)(k \<mapsto> r)\<rparr>"
    by (simp add: r(3) portal_abs_def sessions.alive_store starts.alive_sweep sessions.alive_sweep assms(1))
  then show ?thesis
    using r by (auto simp: swept_sizes swept_tables assms(1) spec_put_session_def portal_abs_def intro!: exI [of _ r])
qed

lemma create_refused_refines:
  assumes "tables_distinct st"
  shows "create_login_start C rng path now (st, n) = (Done (Err CapacityReached), st', n') \<Longrightarrow>
      spec_put_start k r (portal_abs now st) = None \<and> portal_abs now st' = portal_abs now st"
    "create_local_session C rng user at now (st, n) = (Done (Err CapacityReached), st', n') \<Longrightarrow>
      spec_put_session k s (portal_abs now st) = None \<and> portal_abs now st' = portal_abs now st"
  using assms unfolding create_login_start_def create_local_session_def Let_def spec_put_start_def spec_put_session_def
  by (auto simp: swept_sizes portal_abs_sweep validate_post_login_path_def portal_abs_def starts.alive_sweep
      sessions.alive_sweep split: if_splits option.splits prod.splits sum.splits)

section \<open>Critical sections\<close>

datatype local_event =
    StartCreated string login_start | StartClaimed string login_start
  | SessionCreated string local_session | SessionRemoved string local_session | Internal

text \<open>\<open>draws_ok\<close>: a draw of the random source has 32 bytes.\<close>

definition draws_ok :: "(nat \<Rightarrow> bytes option) \<Rightarrow> bool" where
  "draws_ok rng \<longleftrightarrow> (\<forall>m bs. rng m = Some bs \<longrightarrow> length bs = REFERENCE_RANDOM_BYTES)"

inductive local_step :: "'c crypto_scheme \<Rightarrow> portal_local_state \<Rightarrow> local_event \<Rightarrow> portal_local_state \<Rightarrow> bool"
  for C where
  Sweep: "local_step C st Internal (cleanup_expired now st)"
| Create_start: "create_login_start C rng path now (st, n) = (Done (Ok c), st', n') \<Longrightarrow> draws_ok rng \<Longrightarrow>
    map_of (login_starts st') (cls_state c) = Some r \<Longrightarrow> local_step C st (StartCreated (cls_state c) r) st'"
| Create_start_fails: "create_login_start C rng path now (st, n) = (res, st', n') \<Longrightarrow> \<forall>c. res \<noteq> Done (Ok c) \<Longrightarrow>
    local_step C st Internal st'"
| Claim: "claim_login_start k ctx now st = (Ok r, st') \<Longrightarrow> local_step C st (StartClaimed k r) st'"
| Claim_fails: "claim_login_start k ctx now st = (Err e, st') \<Longrightarrow> local_step C st Internal st'"
| Create_session: "create_local_session C rng user at now (st, n) = (Done (Ok (k, csrf)), st', n') \<Longrightarrow> draws_ok rng \<Longrightarrow>
    map_of (local_sessions st') k = Some s \<Longrightarrow> local_step C st (SessionCreated k s) st'"
| Create_session_fails: "create_local_session C rng user at now (st, n) = (res, st', n') \<Longrightarrow> \<forall>c. res \<noteq> Done (Ok c) \<Longrightarrow>
    local_step C st Internal st'"
| Get: "get_local_session k now st = (res, st') \<Longrightarrow> local_step C st Internal st'"
| Get_and_remove: "get_local_session k now st = (Some s, st1) \<Longrightarrow> remove_local_session k st1 = (Some s', st') \<Longrightarrow>
    local_step C st (SessionRemoved k s') st'"

inductive local_run :: "'c crypto_scheme \<Rightarrow> portal_local_state \<Rightarrow> local_event list \<Rightarrow> portal_local_state \<Rightarrow> bool"
  for C where
  Nil: "local_run C st [] st"
| Snoc: "local_run C st es st1 \<Longrightarrow> local_step C st1 e st2 \<Longrightarrow> local_run C st (es @ [e]) st2"

lemma local_run_append: "local_run C st es st1 \<Longrightarrow> local_run C st1 fs st2 \<Longrightarrow> local_run C st (es @ fs) st2"
  by (rotate_tac, induction rule: local_run.induct) (auto intro: local_run.Snoc simp: append_assoc [symmetric] simp del: append_assoc)

text \<open>Seen from outside, a critical section is one of five changes.\<close>

definition reference :: "string \<Rightarrow> bool" where
  "reference v \<longleftrightarrow> length v = 43 \<and> list_all b64url_byte v"

definition start_ok :: "string \<Rightarrow> login_start \<Rightarrow> bool" where
  "start_ok k r \<longleftrightarrow> reference k \<and> reference (lst_browser_context_reference r) \<and> reference (lst_code_verifier r)
     \<and> validate_post_login_path (lst_post_login_path r) = Ok () \<and> unat (lst_expires_at r) = unat (lst_created_at r) + 600"

definition session_ok :: "string \<Rightarrow> local_session \<Rightarrow> bool" where
  "session_ok k s \<longleftrightarrow> reference k \<and> length (loc_csrf_lookup s) = 32
     \<and> unat (loc_expires_at s) = unat (loc_created_at s) + 28800"

inductive change :: "portal_local_state \<Rightarrow> local_event \<Rightarrow> portal_local_state \<Rightarrow> bool" where
  Stay: "change st Internal st"
| Swept: "change st Internal (cleanup_expired now st)"
| Put_start: "change st (StartCreated k r) (put_start k r (cleanup_expired now st))"
    if "start_ok k r" "length (login_starts (cleanup_expired now st)) < unat (login_start_capacity st)"
| Put_session: "change st (SessionCreated k s) (put_session k s (cleanup_expired now st))"
    if "session_ok k s" "length (local_sessions (cleanup_expired now st)) < unat (local_session_capacity st)"
| Drop_start: "change st Internal (drop_start k st)"
| Take_start: "change st (StartClaimed k r) (drop_start k st)" if "map_of (login_starts st) k = Some r"
| Drop_session: "change st Internal (drop_session k st)"
| Take_session: "change st (SessionRemoved k s) (drop_session k st)" if "map_of (local_sessions st) k = Some s"

lemma random_reference_ok: "crypto_lib C \<Longrightarrow> draws_ok rng \<Longrightarrow> random_reference C (rng k) = Some v \<Longrightarrow> reference v"
  by (auto simp: draws_ok_def random_reference_def reference_def REFERENCE_RANDOM_BYTES_def crypto_lib.b64url_length
      crypto_lib.b64url_alphabet)

lemma put_start_lookup [simp]: "map_of (login_starts (put_start k r st)) k = Some r"
  by (simp add: put_start_def update_conv')

lemma put_session_lookup [simp]: "map_of (local_sessions (put_session k s st)) k = Some s"
  by (simp add: put_session_def update_conv')

lemma step_change:
  assumes "crypto_lib C" "local_step C st e st'"
  shows "change st e st'"
  using assms(2)
proof cases
  case (Create_start rng path now n c n' r)
  then obtain r' where r': "validate_post_login_path path = Ok ()"
    "length (login_starts (cleanup_expired now st)) < unat (login_start_capacity st)"
    "st' = put_start (cls_state c) r' (cleanup_expired now st)"
    "lst_browser_context_reference r' = cls_browser_context_reference c"
    "lst_post_login_path r' = path" "lst_created_at r' = now" "unat (lst_expires_at r') = unat now + 600"
    "\<exists>k\<ge>n. n' = Suc (Suc (Suc k)) \<and> random_reference C (rng k) = Some (cls_state c)
       \<and> random_reference C (rng (Suc k)) = Some (cls_browser_context_reference c)
       \<and> random_reference C (rng (Suc (Suc k))) = Some (lst_code_verifier r')"
    by (blast elim: create_login_start_Ok)
  then have "start_ok (cls_state c) r'"
    using random_reference_ok [OF assms(1) Create_start(3)] by (auto simp: start_ok_def)
  with r' Create_start show ?thesis by (auto intro: Put_start)
next
  case (Create_session rng user at now n k csrf n' s)
  then obtain s' where s': "length (local_sessions (cleanup_expired now st)) < unat (local_session_capacity st)"
    "st' = put_session k s' (cleanup_expired now st)" "loc_csrf_lookup s' = sha256 C csrf"
    "loc_created_at s' = now" "unat (loc_expires_at s') = unat now + 28800"
    "\<exists>i\<ge>n. n' = Suc (Suc i) \<and> random_reference C (rng i) = Some k \<and> random_reference C (rng (Suc i)) = Some csrf"
    by (blast elim: create_local_session_Ok)
  then have "session_ok k s'"
    using random_reference_ok [OF assms(1) Create_session(3)] crypto_lib.sha256_length [OF assms(1)]
    by (auto simp: session_ok_def)
  with s' Create_session show ?thesis by (auto intro: Put_session)
next
  case (Get_and_remove k now s st1 s')
  then have "map_of (local_sessions st) k = Some s'" "st' = drop_session k st"
    by (auto simp: remove_local_session_def drop_session_def session_alive_def live_Some dest!: get_local_session_eq)
  with Get_and_remove show ?thesis by (simp add: Take_session)
qed (auto dest!: create_login_start_other create_local_session_other claim_login_start_Err get_local_session_eq
    simp: claim_login_start_Ok start_alive_def live_Some intro: change.intros)

section \<open>The invariant\<close>

definition portal_inv :: "portal_local_state \<Rightarrow> bool" where
  "portal_inv st \<longleftrightarrow> tables_distinct st
     \<and> length (login_starts st) \<le> unat (login_start_capacity st)
     \<and> length (local_sessions st) \<le> unat (local_session_capacity st)
     \<and> (\<forall>(k, r) \<in> set (login_starts st). start_ok k r) \<and> (\<forall>(k, s) \<in> set (local_sessions st). session_ok k s)"

lemma set_update_subset: "set (AList.update k v t) \<subseteq> insert (k, v) (set t)"
  by (induction t) (auto split: if_splits)

lemma length_update: "length (AList.update k v t) \<le> Suc (length t)"
  by (induction t) auto

lemma set_delete_subset: "set (AList.delete k t) \<subseteq> set t"
  by (induction t) auto

lemma length_delete: "length (AList.delete k t) \<le> length t"
  by (induction t) auto

lemma portal_inv_new: "portal_inv (new_local_state a b)"
  by (simp add: portal_inv_def new_local_state_def tables_distinct_def)

lemma portal_inv_cleanup: "portal_inv st \<Longrightarrow> portal_inv (cleanup_expired now st)"
  by (auto simp: portal_inv_def starts.wf_sweep cleanup_expired_def tables_distinct_def distinct_filter_fst
      intro: le_trans [OF length_filter_le])

lemma portal_inv_drop: "portal_inv st \<Longrightarrow> portal_inv (drop_start k st)" "portal_inv st \<Longrightarrow> portal_inv (drop_session k st)"
  using set_delete_subset [of k "login_starts st"] set_delete_subset [of k "local_sessions st"]
  by (auto simp: portal_inv_def drop_start_def drop_session_def tables_distinct_def distinct_delete
      intro: le_trans [OF length_delete])

lemma portal_inv_put:
  "portal_inv st \<Longrightarrow> start_ok k r \<Longrightarrow> length (login_starts st) < unat (login_start_capacity st) \<Longrightarrow> portal_inv (put_start k r st)"
  "portal_inv st \<Longrightarrow> session_ok k s \<Longrightarrow> length (local_sessions st) < unat (local_session_capacity st) \<Longrightarrow>
     portal_inv (put_session k s st)"
  using set_update_subset [of k r "login_starts st"] set_update_subset [of k s "local_sessions st"]
  by (auto simp: portal_inv_def put_start_def put_session_def tables_distinct_def distinct_update
      intro: le_trans [OF length_update])

lemma portal_inv_change: "change st e st' \<Longrightarrow> portal_inv st \<Longrightarrow> portal_inv st'"
  by (induction rule: change.induct) (auto intro!: portal_inv_cleanup portal_inv_drop portal_inv_put)

lemma portal_inv_run:
  assumes "crypto_lib C" "local_run C st es st'" "portal_inv st"
  shows "portal_inv st'"
  using assms(2,3) by (induction rule: local_run.induct) (auto dest: step_change [OF assms(1)] portal_inv_change)

section \<open>A login start is claimed once\<close>

text \<open>No key appears in the tables except by the event that creates it.\<close>

lemma change_absent:
  assumes "change st e st'" "tables_distinct st"
  shows "map_of (login_starts st) k = None \<Longrightarrow> (\<And>r. e \<noteq> StartCreated k r) \<Longrightarrow> map_of (login_starts st') k = None"
    "map_of (local_sessions st) k = None \<Longrightarrow> (\<And>s. e \<noteq> SessionCreated k s) \<Longrightarrow> map_of (local_sessions st') k = None"
  using assms
  by (induction rule: change.induct)
    (auto simp: cleanup_expired_def put_start_def put_session_def drop_start_def drop_session_def update_conv'
      delete_conv' map_of_filter_distinct tables_distinct_def split: option.splits)

lemma change_taken:
  "change st (StartClaimed k r) st' \<Longrightarrow> map_of (login_starts st) k = Some r \<and> map_of (login_starts st') k = None"
  "change st (SessionRemoved k s) st' \<Longrightarrow> map_of (local_sessions st) k = Some s \<and> map_of (local_sessions st') k = None"
  by (auto elim: change.cases simp: drop_start_def drop_session_def delete_conv')

inductive changes :: "portal_local_state \<Rightarrow> local_event list \<Rightarrow> portal_local_state \<Rightarrow> bool" where
  Changes_Nil: "changes st [] st"
| Changes_Cons: "change st e st1 \<Longrightarrow> changes st1 es st2 \<Longrightarrow> changes st (e # es) st2"

inductive_simps changes_Cons_iff: "changes st (e # es) st2"
inductive_simps changes_Nil_iff: "changes st [] st2"

lemma changes_append: "changes st (as @ bs) st2 \<longleftrightarrow> (\<exists>st1. changes st as st1 \<and> changes st1 bs st2)"
  by (induction as arbitrary: st) (auto simp: changes_Cons_iff changes_Nil_iff)

lemma changes_inv: "changes st es st' \<Longrightarrow> portal_inv st \<Longrightarrow> portal_inv st'"
  by (induction rule: changes.induct) (auto intro: portal_inv_change)

lemma run_changes: "crypto_lib C \<Longrightarrow> local_run C st es st' \<Longrightarrow> changes st es st'"
  by (rotate_tac, induction rule: local_run.induct)
    (auto simp: changes_append changes_Cons_iff changes_Nil_iff dest: step_change)

lemma portal_inv_distinct: "portal_inv st \<Longrightarrow> tables_distinct st"
  by (simp add: portal_inv_def)

lemma changes_absent:
  assumes "changes st es st'" "portal_inv st"
  shows "map_of (login_starts st) k = None \<Longrightarrow> (\<And>r. StartCreated k r \<notin> set es) \<Longrightarrow> map_of (login_starts st') k = None"
    "map_of (local_sessions st) k = None \<Longrightarrow> (\<And>s. SessionCreated k s \<notin> set es) \<Longrightarrow> map_of (local_sessions st') k = None"
  using assms
proof (induction rule: changes.induct)
  case (Changes_Cons st e st1 es st2)
  note inv = portal_inv_change [OF Changes_Cons.hyps(1)]
  {
    case 1
    have "map_of (login_starts st1) k = None"
      by (rule change_absent(1) [OF Changes_Cons.hyps(1) portal_inv_distinct [OF 1(3)] 1(1)]) (use 1(2) in auto)
    then show ?case by (rule Changes_Cons.IH(1)) (use 1(2) inv [OF 1(3)] in auto)
  next
    case 2
    have "map_of (local_sessions st1) k = None"
      by (rule change_absent(2) [OF Changes_Cons.hyps(1) portal_inv_distinct [OF 2(3)] 2(1)]) (use 2(2) in auto)
    then show ?case by (rule Changes_Cons.IH(2)) (use 2(2) inv [OF 2(3)] in auto)
  }
qed auto

lemma taken_once:
  assumes "changes st (as @ [e1] @ bs @ [e2] @ cs) st'" "portal_inv st"
  shows "e1 = StartClaimed k r1 \<Longrightarrow> e2 = StartClaimed k r2 \<Longrightarrow> \<exists>r. StartCreated k r \<in> set bs"
    "e1 = SessionRemoved k s1 \<Longrightarrow> e2 = SessionRemoved k s2 \<Longrightarrow> \<exists>s. SessionCreated k s \<in> set bs"
proof -
  obtain st1 st2 st3 st4 where s: "changes st as st1" "change st1 e1 st2" "changes st2 bs st3" "change st3 e2 st4"
    using assms(1) by (auto simp: changes_append changes_Cons_iff)
  have inv: "portal_inv st2" using assms(2) changes_inv [OF s(1)] portal_inv_change [OF s(2)] by blast
  show "e1 = StartClaimed k r1 \<Longrightarrow> e2 = StartClaimed k r2 \<Longrightarrow> \<exists>r. StartCreated k r \<in> set bs"
    using changes_absent(1) [OF s(3) inv, of k] change_taken(1) s(2,4) by fastforce
  show "e1 = SessionRemoved k s1 \<Longrightarrow> e2 = SessionRemoved k s2 \<Longrightarrow> \<exists>s. SessionCreated k s \<in> set bs"
    using changes_absent(2) [OF s(3) inv, of k] change_taken(2) s(2,4) by fastforce
qed

end
