(* ===== verification/Portal_Handlers.thy ===== *)
theory Portal_Handlers
  imports Portal_Backend Portal_Machine
begin

text \<open>
  Reasoning about the portal's handlers: the statuses with which a handler may stop early, what a
  handler that runs to its end has done, and that every request is answered.
\<close>

section \<open>Steps\<close>

lemma perform_Ok: "perform x w = (Inr a, w') \<longleftrightarrow> x = Done a \<and> w' = w"
  by (cases x) (auto simp: perform_def)

lemma portal_now_Ok: "portal_now E w = (Inr t, w') \<longleftrightarrow>
    unix_epoch_seconds (pe_clock E (pw_ticks w)) = Done t \<and> w' = w\<lparr>pw_ticks := Suc (pw_ticks w)\<rparr>"
  by (auto simp: portal_now_def perform_Ok)

lemma lock_Ok: "lock E w = (Inr u, w') \<longleftrightarrow>
    w' = w\<lparr>pw_local := pe_others E (pw_locks w) (pw_local w), pw_locks := Suc (pw_locks w)\<rparr>"
  by (auto simp: lock_def)

lemma drawing_Ok: "drawing f w = (Inr a, w') \<longleftrightarrow>
    (\<exists>st n. f (pw_local w, pw_draws w) = (Done a, st, n) \<and> w' = w\<lparr>pw_local := st, pw_draws := n\<rparr>)"
  by (auto simp: drawing_def perform_Ok split: prod.splits)

lemma on_local_Ok: "on_local f w = (Inr a, w') \<longleftrightarrow> (\<exists>st. f (pw_local w) = (a, st) \<and> w' = w\<lparr>pw_local := st\<rparr>)"
  by (auto simp: on_local_def split: prod.splits)

lemma respond_Ok: "respond r w = (Inr x, w') \<longleftrightarrow> x = Done r \<and> w' = w"
  by (auto simp: respond_def)

lemma answer_not_Ok [simp]: "answer r w \<noteq> (Inr a, w')"
  by (simp add: answer_def)

lemma refuse_not_Ok [simp]: "refuse_login st w \<noteq> (Inr a, w')"
  by (simp add: refuse_login_def hbind_Ok)

lemma append_cookie_Done: "append_cookie ck r = Done r' \<longleftrightarrow> header_value (ck_value ck) \<and> r' = with_cookie ck r"
  by (auto simp: append_cookie_def)

lemma redirect_Done: "redirect_response s = Done r \<longleftrightarrow> header_value s \<and> r = with_header ''location'' s (empty_response 302)"
  by (auto simp: redirect_response_def)

lemmas portal_eqs = perform_Ok portal_now_Ok lock_Ok drawing_Ok on_local_Ok respond_Ok append_cookie_Done redirect_Done

lemma empty_simps [simp]: "resp_status (empty_response st) = st" "resp_headers (empty_response st) = []"
    "resp_cookies (empty_response st) = []" "resp_body (empty_response st) = NoBody"
  by (simp_all add: empty_response_def)

section \<open>Statuses\<close>

definition status_in :: "nat set \<Rightarrow> response run \<Rightarrow> bool" where
  "status_in S x \<longleftrightarrow> (case x of Done r \<Rightarrow> resp_status r \<in> S | _ \<Rightarrow> True)"

abbreviation refuses :: "nat set \<Rightarrow> ('r, 'a) portal_step \<Rightarrow> bool" where
  "refuses S h \<equiv> stops_in (\<lambda>x w'. status_in S x) h"

lemma status_in_simps [simp]: "status_in S (Done r) \<longleftrightarrow> resp_status r \<in> S" "status_in S Panicked" "status_in S Hanging"
  by (simp_all add: status_in_def)

lemma stops_answer [status_intros]: "(\<And>w. P (Done r) w) \<Longrightarrow> stops_in P (answer r)"
  by (simp add: stops_in_def answer_def)

lemma refuses_perform [status_intros]: "refuses S (perform x)"
  by (cases x) (auto simp: stops_in_def perform_def)

lemma refuses_now [status_intros]: "refuses S (portal_now E)"
  using refuses_perform by (fastforce simp: stops_in_def portal_now_def)

lemma stops_lock [status_intros]: "stops_in P (lock E)"
  by (simp add: stops_in_def lock_def)

lemma refuses_drawing [status_intros]: "refuses S (drawing f)"
  using refuses_perform by (fastforce simp: stops_in_def drawing_def split: prod.splits)

lemma stops_on_local [status_intros]: "stops_in P (on_local f)"
  by (simp add: stops_in_def on_local_def split: prod.splits)

lemma stops_respond [status_intros]: "stops_in P (respond r)"
  by (simp add: stops_in_def respond_def)

lemma refuses_refuse_login [status_intros]: "st \<in> S \<Longrightarrow> refuses S (refuse_login st)"
  by (auto simp: stops_in_def refuse_login_def append_cookie_def perform_def hbind_def answer_def)

lemma refuses_exchange [status_intros]: "502 \<in> S \<Longrightarrow> refuses S (exchange_code E code verifier)"
  using refuses_refuse_login [of 502 S]
  by (fastforce simp: stops_in_def exchange_code_def Let_def split: prod.splits option.splits if_splits)

lemma portal_run_end:
  assumes "refuses S h" "run_handler h w = (Done r, w')" "resp_status r \<notin> S"
  shows "h w = (Inr (Done r), w')"
  using assms by (cases "h w") (fastforce simp: run_handler_def stops_in_def split: sum.splits)

lemma login_refuses: "refuses {500, 503} (portal_login C E)"
  unfolding portal_login_def Let_def by (intro status_intros; simp)

lemma open_session_refuses: "refuses {400, 500, 502, 503} (open_session C E path user at)"
  unfolding open_session_def by (intro status_intros; simp)

lemma callback_refuses: "refuses {400, 500, 502, 503} (portal_callback C E raw_query cookie_header)"
  unfolding portal_callback_def by (intro status_intros open_session_refuses; simp)

lemma get_me_refuses: "refuses {401} (get_me E headers)"
  unfolding get_me_def by (intro status_intros; simp)

lemma logout_refuses: "refuses {403} (portal_logout C E headers)"
  unfolding portal_logout_def by (intro status_intros; simp)

section \<open>Running to the end\<close>

lemma login_end:
  assumes "portal_login C E w = (Inr x, w')"
  obtains now c st n where
    "unix_epoch_seconds (pe_clock E (pw_ticks w)) = Done now"
    "create_login_start C (pe_rng E) ''/'' now (pe_others E (pw_locks w) (pw_local w), pw_draws w) = (Done (Ok c), st, n)"
    "w' = w\<lparr>pw_ticks := Suc (pw_ticks w), pw_locks := Suc (pw_locks w), pw_local := st, pw_draws := n\<rparr>"
    "x = Done (with_cookie (login_context_cookie (cls_browser_context_reference c)) (with_header ''location''
       (url_to_string (pe_urls E) (url_append_pairs (pe_urls E)
          [(''service_id'', ac_service_id (pe_config E)), (''state'', cls_state c),
           (''code_challenge'', cls_code_challenge c), (''code_challenge_method'', ''S256'')]
          (auth_foundation_endpoint (pe_urls E) (ac_auth_foundation_base_url (pe_config E)) ''/auth/login'')))
       (empty_response 302)))"
  using assms unfolding portal_login_def Let_def
  by (auto simp: hbind_Ok portal_eqs case_Ok split: if_splits)

lemma exchange_code_Ok:
  "exchange_code E code verifier w = (Inr handoff, w') \<longleftrightarrow>
     (\<exists>j. pe_post E (pe_client E) (auth_foundation_endpoint (pe_urls E) (ac_auth_foundation_base_url (pe_config E))
            ''/auth/handoffs/exchange'') (ac_service_id (pe_config E), ac_service_secret (pe_config E))
            (portal_exchange_request code verifier) (pw_remote w) = (Some (200, Some j), pw_remote w')
        \<and> decode_exchange_response j = Some handoff \<and> w' = w\<lparr>pw_remote := pw_remote w'\<rparr>)"
  by (auto simp: exchange_code_def Let_def split: prod.splits option.splits if_splits)

lemma open_session_end:
  assumes "open_session C E path user at w = (Inr x, w')"
  obtains now k csrf n where
    "unix_epoch_seconds (pe_clock E (pw_ticks w)) = Done now"
    "create_local_session C (pe_rng E) user at now (pe_others E (pw_locks w) (pw_local w), pw_draws w) =
       (Done (Ok (k, csrf)), pw_local w', n)"
    "pw_remote w' = pw_remote w"
    "x = Done (with_cookie delete_login_context_cookie (with_cookie (portal_csrf_cookie csrf)
       (with_cookie (portal_session_cookie k) (with_header ''location'' path (empty_response 302)))))"
  using assms unfolding open_session_def by (auto simp: hbind_Ok portal_eqs case_Ok split: if_splits)

lemma callback_end:
  assumes "portal_callback C E raw_query cookie_header w = (Inr x, w')"
  obtains q ctx now start st1 user at w2 where
    "parse_callback_query (pe_urls E) raw_query = Ok q"
    "login_context_from_cookie_header (pe_split_parse E) cookie_header = Ok ctx"
    "unix_epoch_seconds (pe_clock E (pw_ticks w)) = Done now"
    "claim_login_start (pcq_state q) ctx now (pe_others E (pw_locks w) (pw_local w)) = (Ok start, st1)"
    "exchange_code E (pcq_code q) (lst_code_verifier start)
       (w\<lparr>pw_ticks := Suc (pw_ticks w), pw_locks := Suc (pw_locks w), pw_local := st1\<rparr>) = (Inr (user, at), w2)"
    "open_session C E (lst_post_login_path start) user at w2 = (Inr x, w')"
  using assms unfolding portal_callback_def
  by (auto simp: hbind_Ok portal_now_Ok lock_Ok on_local_Ok case_Ok split: if_splits)

lemma get_me_end:
  assumes "get_me E headers w = (Inr x, w')"
  obtains k now s where
    "fixed_reference_cookie_from_headers (pe_split_parse E) headers PORTAL_SESSION_COOKIE_NAME = Ok k"
    "unix_epoch_seconds (pe_clock E (pw_ticks w)) = Done now"
    "get_local_session k now (pe_others E (pw_locks w) (pw_local w)) = (Some s, pw_local w')"
    "x = Done (json_response 200 (me_response (loc_internal_user_id s)))"
  using assms unfolding get_me_def
  by (auto simp: hbind_Ok portal_eqs case_Ok)

lemma logout_end:
  assumes "portal_logout C E headers w = (Inr x, w')"
  obtains k csrf csrf' now s st1 where
    "fixed_reference_cookie_from_headers (pe_split_parse E) headers PORTAL_SESSION_COOKIE_NAME = Ok k"
    "fixed_reference_cookie_from_headers (pe_split_parse E) headers PORTAL_CSRF_COOKIE_NAME = Ok csrf"
    "csrf_header_from_headers headers = Ok csrf'" "ct_eq C csrf csrf'"
    "unix_epoch_seconds (pe_clock E (pw_ticks w)) = Done now"
    "get_local_session k now (pe_others E (pw_locks w) (pw_local w)) = (Some s, st1)"
    "ct_eq C (sha256 C csrf) (loc_csrf_lookup s)" "pw_local w' = snd (remove_local_session k st1)"
    "x = Done (with_cookie delete_portal_csrf_cookie (with_cookie delete_portal_session_cookie (empty_response 204)))"
  using assms unfolding portal_logout_def portal_sha256_digest_def
  by (auto simp: hbind_Ok portal_eqs case_Ok split: if_splits)

section \<open>What a completed request has done\<close>

lemma unix_epoch_Done: "unix_epoch_seconds t = Done now \<Longrightarrow> 0 \<le> t"
  by (auto simp: unix_epoch_seconds_def split: if_splits)

lemma local_callback_sound:
  assumes "run_handler (portal_callback C E raw_query cookie_header) w = (Done r, w')" "resp_status r = 302"
  obtains q ctx now start remote_json user at now2 k csrf s where
    "parse_callback_query (pe_urls E) raw_query = Ok q"
    "login_context_from_cookie_header (pe_split_parse E) cookie_header = Ok ctx"
    "unix_epoch_seconds (pe_clock E (pw_ticks w)) = Done now"
    "start_alive now (pe_others E (pw_locks w) (pw_local w)) (pcq_state q) = Some start"
    "lst_browser_context_reference start = ctx"
    "pe_post E (pe_client E) (auth_foundation_endpoint (pe_urls E) (ac_auth_foundation_base_url (pe_config E))
            ''/auth/handoffs/exchange'') (ac_service_id (pe_config E), ac_service_secret (pe_config E))
            (portal_exchange_request (pcq_code q) (lst_code_verifier start)) (pw_remote w) =
       (Some (200, Some remote_json), pw_remote w')"
    "decode_exchange_response remote_json = Some (user, at)"
    "location r = Some (lst_post_login_path start)"
    "resp_cookies r = [portal_session_cookie k, portal_csrf_cookie csrf, delete_login_context_cookie]"
    "pw_local w' = put_session k s (cleanup_expired now2 (pe_others E (Suc (pw_locks w))
       (drop_start (pcq_state q) (pe_others E (pw_locks w) (pw_local w)))))"
    "loc_internal_user_id s = user" "loc_authenticated_at s = at" "loc_csrf_lookup s = sha256 C csrf"
    "unat (loc_expires_at s) = unat now2 + 28800" "session_alive now2 (pw_local w') k = Some s"
    "unix_epoch_seconds (pe_clock E (Suc (pw_ticks w))) = Done now2"
proof -
  have "portal_callback C E raw_query cookie_header w = (Inr (Done r), w')"
    by (rule portal_run_end [OF callback_refuses assms(1)]) (simp add: assms(2))
  then obtain q ctx now start st1 user at w2 where c:
    "parse_callback_query (pe_urls E) raw_query = Ok q"
    "login_context_from_cookie_header (pe_split_parse E) cookie_header = Ok ctx"
    "unix_epoch_seconds (pe_clock E (pw_ticks w)) = Done now"
    "claim_login_start (pcq_state q) ctx now (pe_others E (pw_locks w) (pw_local w)) = (Ok start, st1)"
    and ex: "exchange_code E (pcq_code q) (lst_code_verifier start)
       (w\<lparr>pw_ticks := Suc (pw_ticks w), pw_locks := Suc (pw_locks w), pw_local := st1\<rparr>) = (Inr (user, at), w2)"
    and os: "open_session C E (lst_post_login_path start) user at w2 = (Inr (Done r), w')"
    by (rule callback_end)
  from c(4) have claimed: "start_alive now (pe_others E (pw_locks w) (pw_local w)) (pcq_state q) = Some start"
    "lst_browser_context_reference start = ctx" "st1 = drop_start (pcq_state q) (pe_others E (pw_locks w) (pw_local w))"
    by (simp_all add: claim_login_start_Ok)
  from ex obtain j where j: "pe_post E (pe_client E) (auth_foundation_endpoint (pe_urls E)
        (ac_auth_foundation_base_url (pe_config E)) ''/auth/handoffs/exchange'')
        (ac_service_id (pe_config E), ac_service_secret (pe_config E))
        (portal_exchange_request (pcq_code q) (lst_code_verifier start)) (pw_remote w) = (Some (200, Some j), pw_remote w2)"
      "decode_exchange_response j = Some (user, at)" "pw_local w2 = st1" "pw_locks w2 = Suc (pw_locks w)"
      "pw_ticks w2 = Suc (pw_ticks w)"
    by (auto simp: exchange_code_Ok) (metis portal_world.select_convs portal_world.surjective portal_world.update_convs)+
  from os obtain now2 k csrf n where o:
    "unix_epoch_seconds (pe_clock E (pw_ticks w2)) = Done now2"
    "create_local_session C (pe_rng E) user at now2 (pe_others E (pw_locks w2) (pw_local w2), pw_draws w2) =
       (Done (Ok (k, csrf)), pw_local w', n)" "pw_remote w' = pw_remote w2"
    "Done r = Done (with_cookie delete_login_context_cookie (with_cookie (portal_csrf_cookie csrf)
       (with_cookie (portal_session_cookie k) (with_header ''location'' (lst_post_login_path start) (empty_response 302)))))"
    by (rule open_session_end)
  from o(2) obtain s where s: "pw_local w' = put_session k s (cleanup_expired now2 (pe_others E (pw_locks w2) (pw_local w2)))"
    "loc_internal_user_id s = user" "loc_authenticated_at s = at" "loc_csrf_lookup s = sha256 C csrf"
    "unat (loc_expires_at s) = unat now2 + 28800"
    by (rule create_local_session_Ok)
  have "now2 < loc_expires_at s" using s(5) by (simp add: word_less_nat_alt)
  with s(1) have "session_alive now2 (pw_local w') k = Some s" by (simp add: sessions.alive_store)
  with c claimed j o s show ?thesis
    by (intro that [of q ctx now start j user at k csrf s now2]) (simp_all add: location_def)
qed

lemma local_logout_sound:
  assumes "crypto_lib C" "run_handler (portal_logout C E headers) w = (Done r, w')" "resp_status r = 204"
  obtains k csrf now s st1 where
    "fixed_reference_cookie_from_headers (pe_split_parse E) headers PORTAL_SESSION_COOKIE_NAME = Ok k"
    "fixed_reference_cookie_from_headers (pe_split_parse E) headers PORTAL_CSRF_COOKIE_NAME = Ok csrf"
    "csrf_header_from_headers headers = Ok csrf"
    "unix_epoch_seconds (pe_clock E (pw_ticks w)) = Done now"
    "session_alive now (pe_others E (pw_locks w) (pw_local w)) k = Some s" "loc_csrf_lookup s = sha256 C csrf"
    "pw_local w' = drop_session k (pe_others E (pw_locks w) (pw_local w))"
    "resp_cookies r = [delete_portal_session_cookie, delete_portal_csrf_cookie]"
proof -
  have "portal_logout C E headers w = (Inr (Done r), w')"
    by (rule portal_run_end [OF logout_refuses assms(2)]) (simp add: assms(3))
  then obtain k csrf csrf' now s st1 where l:
    "fixed_reference_cookie_from_headers (pe_split_parse E) headers PORTAL_SESSION_COOKIE_NAME = Ok k"
    "fixed_reference_cookie_from_headers (pe_split_parse E) headers PORTAL_CSRF_COOKIE_NAME = Ok csrf"
    "csrf_header_from_headers headers = Ok csrf'" "ct_eq C csrf csrf'"
    "unix_epoch_seconds (pe_clock E (pw_ticks w)) = Done now"
    "get_local_session k now (pe_others E (pw_locks w) (pw_local w)) = (Some s, st1)"
    "ct_eq C (sha256 C csrf) (loc_csrf_lookup s)" "pw_local w' = snd (remove_local_session k st1)"
    "Done r = Done (with_cookie delete_portal_csrf_cookie (with_cookie delete_portal_session_cookie (empty_response 204)))"
    by (rule logout_end)
  from get_local_session_eq [OF l(6)] have g: "session_alive now (pe_others E (pw_locks w) (pw_local w)) k = Some s"
    "st1 = pe_others E (pw_locks w) (pw_local w)" by auto
  with l show ?thesis
    by (intro that [of k csrf now s]) (simp_all add: crypto_lib.ct_eq_iff [OF assms(1)] remove_refines(1))
qed

section \<open>Every request is answered\<close>

text \<open>
  \<open>keeps I Q h\<close>: from a world that satisfies \<open>I\<close> the step neither panics nor hangs, and when it
  goes on its value satisfies \<open>Q\<close> and the world \<open>I\<close>.
\<close>

definition keeps :: "('r portal_world \<Rightarrow> bool) \<Rightarrow> ('a \<Rightarrow> bool) \<Rightarrow> ('r, 'a) portal_step \<Rightarrow> bool" where
  "keeps I Q h \<longleftrightarrow> (\<forall>w. I w \<longrightarrow> (\<forall>x w'. h w = (Inl x, w') \<longrightarrow> (\<exists>r. x = Done r))
     \<and> (\<forall>a w'. h w = (Inr a, w') \<longrightarrow> Q a \<and> I w'))"

named_theorems keeps_intros \<open>how a handler is seen to answer\<close>

lemma keeps_hbind: "keeps I Q m \<Longrightarrow> (\<And>a. Q a \<Longrightarrow> keeps I R (f a)) \<Longrightarrow> keeps I R (hbind m f)"
  unfolding keeps_def hbind_Ok hbind_Err by blast

lemma keeps_answer [keeps_intros]: "keeps I Q (answer r)"
  by (simp add: keeps_def answer_def)

lemma keeps_respond [keeps_intros]: "keeps I (\<lambda>x. \<exists>r. x = Done r) (respond r)"
  by (simp add: keeps_def respond_def)

lemma keeps_perform: "(\<exists>a. x = Done a \<and> Q a) \<Longrightarrow> keeps I Q (perform x)"
  by (auto simp: keeps_def perform_def)

lemma keeps_refuse [keeps_intros]: "keeps I Q (refuse_login st)"
  by (simp add: keeps_def refuse_login_def append_cookie_def delete_login_context_cookie_def header_value_def
      perform_def answer_def)

lemma keeps_run:
  "keeps I (\<lambda>x. \<exists>r. x = Done r) h \<Longrightarrow> I w \<Longrightarrow> \<exists>r. fst (run_handler h w) = Done r"
  by (fastforce simp: keeps_def run_handler_def split: prod.splits sum.splits)

text \<open>
  \<open>plentiful\<close>: no draw fails, and whatever references are taken, up to a number, a later draw is
  a different one.
\<close>

definition plentiful :: "'c crypto_scheme \<Rightarrow> (nat \<Rightarrow> bytes option) \<Rightarrow> nat \<Rightarrow> bool" where
  "plentiful C rng cap \<longleftrightarrow> (\<forall>m. rng m \<noteq> None)
     \<and> (\<forall>S n. finite S \<longrightarrow> card S \<le> cap \<longrightarrow> (\<exists>k\<ge>n. random_reference C (rng k) \<notin> Some ` S))"

definition root_paths :: "portal_local_state \<Rightarrow> bool" where
  "root_paths st \<longleftrightarrow> (\<forall>(k, r) \<in> set (login_starts st). lst_post_login_path r = ''/'')"

definition portal_ready :: "usize \<Rightarrow> usize \<Rightarrow> portal_local_state \<Rightarrow> bool" where
  "portal_ready a b st \<longleftrightarrow> portal_inv st \<and> root_paths st \<and> login_start_capacity st = a \<and> local_session_capacity st = b"

definition dependable :: "'c crypto_scheme \<Rightarrow> ('u, 'r) portal_env \<Rightarrow> usize \<Rightarrow> usize \<Rightarrow> bool" where
  "dependable C E a b \<longleftrightarrow> crypto_lib C \<and> (\<forall>n. 0 \<le> pe_clock E n) \<and> draws_ok (pe_rng E)
     \<and> plentiful C (pe_rng E) (unat a) \<and> plentiful C (pe_rng E) (unat b)
     \<and> (\<forall>n st. portal_ready a b st \<longrightarrow> portal_ready a b (pe_others E n st))
     \<and> (\<forall>u. header_value (url_to_string (pe_urls E) u))"

lemma b64url_header: "b64url_byte c \<Longrightarrow> header_value_byte c"
  by (auto simp: header_value_byte_def b64url_byte_def byte_class_defs
      intro: order_trans [of _ "CHR ''A''"] order_trans [of _ "CHR ''a''"] order_trans [of _ "CHR ''0''"])

lemma reference_header: "reference v \<Longrightarrow> header_value v"
  by (auto simp: reference_def header_value_def list_all_iff b64url_header)

lemma plentiful_fresh:
  assumes "plentiful C rng cap" "length table \<le> cap"
  shows "\<exists>r n'. fresh_reference C rng table n = Some (Some r, n')"
proof -
  have "card (set (map fst table)) \<le> cap" using assms(2) card_length [of "map fst table"] by simp
  then obtain k where "k \<ge> n" "random_reference C (rng k) \<notin> Some ` set (map fst table)"
    using assms(1) unfolding plentiful_def by (meson finite_set)
  moreover have "random_reference C (rng m) \<noteq> None" for m using assms(1) by (simp add: plentiful_def random_reference_def)
  ultimately have "\<not> taken C rng table k" by (auto simp: taken_def map_of_eq_None_iff)
  with \<open>k \<ge> n\<close> obtain res n' where f: "fresh_reference C rng table n = Some (res, n')"
    using fresh_reference_returns [of C rng table n] by auto
  show ?thesis
    using f fresh_reference_sound [OF f] \<open>\<And>m. random_reference C (rng m) \<noteq> None\<close> by (metis not_None_eq)
qed

lemma random_reference_plentiful: "plentiful C rng cap \<Longrightarrow> \<exists>v. random_reference C (rng m) = Some v"
  by (auto simp: plentiful_def random_reference_def)

lemma ready_cleanup: "portal_ready a b st \<Longrightarrow> portal_ready a b (cleanup_expired now st)"
  by (auto simp: portal_ready_def portal_inv_cleanup root_paths_def) (auto simp: cleanup_expired_def)

lemma ready_drop: "portal_ready a b st \<Longrightarrow> portal_ready a b (drop_start k st)"
    "portal_ready a b st \<Longrightarrow> portal_ready a b (drop_session k st)"
  using set_delete_subset [of k "login_starts st"]
  by (auto simp: portal_ready_def portal_inv_drop root_paths_def) (auto simp: drop_start_def drop_session_def)

lemma ready_put:
  "portal_ready a b st \<Longrightarrow> start_ok k r \<Longrightarrow> lst_post_login_path r = ''/'' \<Longrightarrow>
     length (login_starts st) < unat (login_start_capacity st) \<Longrightarrow> portal_ready a b (put_start k r st)"
  "portal_ready a b st \<Longrightarrow> session_ok k s \<Longrightarrow> length (local_sessions st) < unat (local_session_capacity st) \<Longrightarrow>
     portal_ready a b (put_session k s st)"
  using set_update_subset [of k r "login_starts st"]
  by (auto simp: portal_ready_def portal_inv_put root_paths_def) (auto simp: put_start_def put_session_def)

lemma create_start_ready:
  assumes "dependable C E a b" "portal_ready a b st"
    and "create_login_start C (pe_rng E) ''/'' now (st, n) = (res, st', n')"
  shows "portal_ready a b st' \<and> (\<exists>x. res = Done x \<and> (\<forall>c. x = Ok c \<longrightarrow> reference (cls_browser_context_reference c)))"
proof (cases "\<exists>c. res = Done (Ok c)")
  case True
  then obtain c where c: "res = Done (Ok c)" by blast
  from assms(3) [unfolded c] obtain r where r: "length (login_starts (cleanup_expired now st)) < unat (login_start_capacity st)"
    "st' = put_start (cls_state c) r (cleanup_expired now st)" "lst_browser_context_reference r = cls_browser_context_reference c"
    "lst_post_login_path r = ''/''" by (rule create_login_start_Ok)
  have "change st (StartCreated (cls_state c) r) st'"
    using step_change [OF _ Create_start [OF assms(3) [unfolded c], of r]] assms(1) r(2) by (simp add: dependable_def)
  then have "start_ok (cls_state c) r" by cases
  then show ?thesis
    using r ready_put(1) [OF ready_cleanup [OF assms(2)]] by (auto simp: c start_ok_def)
next
  case False
  have len: "length (login_starts (cleanup_expired now st)) \<le> unat a"
    using ready_cleanup [OF assms(2), of now] by (auto simp: portal_ready_def portal_inv_def)
  have "res \<noteq> Panicked \<and> res \<noteq> Hanging"
    using assms(1,3) plentiful_fresh [OF _ len, of C "pe_rng E" n] random_reference_plentiful [of C "pe_rng E" "unat a"]
    unfolding create_login_start_def Let_def dependable_def
    by (auto split: sum.splits if_splits option.splits prod.splits) (metis option.distinct(1))+
  with False show ?thesis
    using create_login_start_other [OF assms(3)] assms(2) ready_cleanup [OF assms(2)] by (cases res) auto
qed

lemma create_session_ready:
  assumes "dependable C E a b" "portal_ready a b st"
    and "create_local_session C (pe_rng E) user at now (st, n) = (res, st', n')"
  shows "portal_ready a b st' \<and> (\<exists>x. res = Done x \<and> (\<forall>k csrf. x = Ok (k, csrf) \<longrightarrow> reference k \<and> reference csrf))"
proof (cases "\<exists>c. res = Done (Ok c)")
  case True
  then obtain k csrf where c: "res = Done (Ok (k, csrf))" by auto
  from assms(3) [unfolded c] obtain s where s: "length (local_sessions (cleanup_expired now st)) < unat (local_session_capacity st)"
    "st' = put_session k s (cleanup_expired now st)"
    "\<exists>i\<ge>n. n' = Suc (Suc i) \<and> random_reference C (pe_rng E i) = Some k \<and> random_reference C (pe_rng E (Suc i)) = Some csrf"
    by (rule create_local_session_Ok)
  have "change st (SessionCreated k s) st'"
    using step_change [OF _ Create_session [OF assms(3) [unfolded c], of s]] assms(1) s(2) by (simp add: dependable_def)
  then have "session_ok k s" by cases
  moreover have "reference csrf" using s(3) assms(1) random_reference_ok by (auto simp: dependable_def)
  ultimately show ?thesis
    using s ready_put(2) [OF ready_cleanup [OF assms(2)]] by (auto simp: c session_ok_def)
next
  case False
  have len: "length (local_sessions (cleanup_expired now st)) \<le> unat b"
    using ready_cleanup [OF assms(2), of now] by (auto simp: portal_ready_def portal_inv_def)
  have "res \<noteq> Panicked \<and> res \<noteq> Hanging"
    using assms(1,3) plentiful_fresh [OF _ len, of C "pe_rng E" n] random_reference_plentiful [of C "pe_rng E" "unat b"]
    unfolding create_local_session_def Let_def dependable_def
    by (auto split: sum.splits if_splits option.splits prod.splits) (metis option.distinct(1))+
  with False show ?thesis
    using create_local_session_other [OF assms(3)] ready_cleanup [OF assms(2)] by (cases res) auto
qed

abbreviation ready_world :: "usize \<Rightarrow> usize \<Rightarrow> 'r portal_world \<Rightarrow> bool" where
  "ready_world a b w \<equiv> portal_ready a b (pw_local w)"

lemma keeps_seq [keeps_intros]: "keeps I (\<lambda>_. True) m \<Longrightarrow> (\<And>x. keeps I R (f x)) \<Longrightarrow> keeps I R (hbind m f)"
  by (rule keeps_hbind)

lemma keeps_redirect [keeps_intros]: "header_value s \<Longrightarrow> keeps I (\<lambda>_. True) (perform (redirect_response s))"
  by (rule keeps_perform) (simp add: redirect_response_def)

lemma keeps_cookie [keeps_intros]: "header_value (ck_value ck) \<Longrightarrow> keeps I (\<lambda>_. True) (perform (append_cookie ck r))"
  by (rule keeps_perform) (simp add: append_cookie_def)

lemma keeps_case_sum [keeps_intros]:
  "(\<And>e. x = Inl e \<Longrightarrow> keeps I Q (f e)) \<Longrightarrow> (\<And>v. x = Inr v \<Longrightarrow> keeps I Q (g v)) \<Longrightarrow>
     keeps I Q (case x of Inl e \<Rightarrow> f e | Inr v \<Rightarrow> g v)"
  by (cases x) auto

lemma keeps_case_option [keeps_intros]:
  "(x = None \<Longrightarrow> keeps I Q f) \<Longrightarrow> (\<And>v. x = Some v \<Longrightarrow> keeps I Q (g v)) \<Longrightarrow>
     keeps I Q (case x of None \<Rightarrow> f | Some v \<Rightarrow> g v)"
  by (cases x) auto

lemma keeps_case_prod [keeps_intros]: "(\<And>u v. x = (u, v) \<Longrightarrow> keeps I Q (g u v)) \<Longrightarrow> keeps I Q (case x of (u, v) \<Rightarrow> g u v)"
  by (cases x) auto

lemma keeps_if [keeps_intros]: "(c \<Longrightarrow> keeps I Q f) \<Longrightarrow> (\<not> c \<Longrightarrow> keeps I Q g) \<Longrightarrow> keeps I Q (if c then f else g)"
  by simp

lemma keeps_now: "dependable C E a b \<Longrightarrow> keeps (ready_world a b) (\<lambda>_. True) (portal_now E)"
  by (auto simp: keeps_def portal_now_def perform_def unix_epoch_seconds_def dependable_def not_less [symmetric])

lemma keeps_lock: "dependable C E a b \<Longrightarrow> keeps (ready_world a b) (\<lambda>_. True) (lock E)"
  by (auto simp: keeps_def lock_def dependable_def)

lemma keeps_on_local:
  assumes "\<And>st r st'. portal_ready a b st \<Longrightarrow> f st = (r, st') \<Longrightarrow> Q r \<and> portal_ready a b st'"
    and "\<And>x. Q x \<Longrightarrow> keeps (ready_world a b) R (g x)"
  shows "keeps (ready_world a b) R (hbind (on_local f) g)"
proof (rule keeps_hbind [where Q = Q])
  show "keeps (ready_world a b) Q (on_local f)"
    using assms(1) by (auto simp: keeps_def on_local_def split: prod.splits)
qed (rule assms(2))

lemma keeps_drawing:
  assumes "\<And>st n res st' n'. portal_ready a b st \<Longrightarrow> f (st, n) = (res, st', n') \<Longrightarrow>
      portal_ready a b st' \<and> (\<exists>x. res = Done x \<and> Q x)"
    and "\<And>x. Q x \<Longrightarrow> keeps (ready_world a b) R (g x)"
  shows "keeps (ready_world a b) R (hbind (drawing f) g)"
proof (rule keeps_hbind [where Q = Q])
  show "keeps (ready_world a b) Q (drawing f)"
    using assms(1) by (fastforce simp: keeps_def drawing_def perform_def split: prod.splits)
qed (rule assms(2))

lemma refuse_Done: "refuse_login st w = (Inl x, w') \<Longrightarrow> \<exists>r. x = Done r"
  using keeps_refuse [of "\<lambda>_. True" "\<lambda>_. True" st] unfolding keeps_def by blast

lemma keeps_exchange: "keeps (ready_world a b) (\<lambda>_. True) (exchange_code E code verifier)"
  by (auto simp: keeps_def exchange_code_def Let_def split: prod.splits option.splits if_splits intro: refuse_Done)

lemma keeps_login:
  assumes "dependable C E a b"
  shows "keeps (ready_world a b) (\<lambda>x. \<exists>r. x = Done r) (portal_login C E)"
proof -
  have url: "header_value (url_to_string (pe_urls E) u)" for u using assms by (simp add: dependable_def)
  show ?thesis
    unfolding portal_login_def Let_def
    by (intro keeps_drawing [where Q = "\<lambda>x. \<forall>c. x = Ok c \<longrightarrow> reference (cls_browser_context_reference c)"]
        keeps_intros keeps_now [OF assms] keeps_lock [OF assms])
      (auto dest: create_start_ready [OF assms] simp: url login_context_cookie_def reference_header)
qed

lemma keeps_open_session:
  assumes "dependable C E a b" "header_value path"
  shows "keeps (ready_world a b) (\<lambda>x. \<exists>r. x = Done r) (open_session C E path user at)"
  unfolding open_session_def
  by (intro keeps_drawing [where Q = "\<lambda>x. \<forall>k csrf. x = Ok (k, csrf) \<longrightarrow> reference k \<and> reference csrf"]
      keeps_intros keeps_now [OF assms(1)] keeps_lock [OF assms(1)])
    (auto dest: create_session_ready [OF assms(1)] simp: assms(2) portal_session_cookie_def portal_csrf_cookie_def
      delete_login_context_cookie_def reference_header, auto simp: header_value_def)

lemma claim_ready:
  assumes "portal_ready a b st" "claim_login_start k ctx now st = (res, st')"
  shows "portal_ready a b st' \<and> (\<forall>r. res = Ok r \<longrightarrow> lst_post_login_path r = ''/'')"
proof (cases res)
  case (Inl e)
  with assms show ?thesis using claim_login_start_Err [of k ctx now st e st'] ready_drop(1) [of a b st k] by auto
next
  case (Inr r)
  with assms(2) have "map_of (login_starts st) k = Some r" "st' = drop_start k st"
    by (auto simp: claim_login_start_Ok start_alive_def live_Some)
  with assms(1) Inr show ?thesis
    by (auto simp: ready_drop(1)) (auto simp: portal_ready_def root_paths_def dest!: map_of_SomeD)
qed

lemma get_ready: "portal_ready a b st \<Longrightarrow> get_local_session k now st = (res, st') \<Longrightarrow> portal_ready a b st'"
  using get_local_session_eq ready_drop(2) by blast

lemma remove_ready: "portal_ready a b st \<Longrightarrow> remove_local_session k st = (res, st') \<Longrightarrow> portal_ready a b st'"
  using remove_refines(1) [of k st] ready_drop(2) [of a b st k] by simp

lemma keeps_callback:
  assumes "dependable C E a b"
  shows "keeps (ready_world a b) (\<lambda>x. \<exists>r. x = Done r) (portal_callback C E raw_query cookie_header)"
  unfolding portal_callback_def
  by (intro keeps_on_local [where Q = "\<lambda>res. \<forall>r. res = Ok r \<longrightarrow> lst_post_login_path r = ''/''"] keeps_intros
      keeps_now [OF assms] keeps_lock [OF assms] keeps_exchange keeps_open_session [OF assms])
    (auto dest: claim_ready simp: header_value_def header_value_byte_def)

lemma keeps_get_me:
  assumes "dependable C E a b"
  shows "keeps (ready_world a b) (\<lambda>x. \<exists>r. x = Done r) (get_me E headers)"
  unfolding get_me_def
  by (intro keeps_on_local [where Q = "\<lambda>_. True"] keeps_intros keeps_now [OF assms] keeps_lock [OF assms])
    (auto dest: get_ready)

lemma keeps_logout:
  assumes "dependable C E a b"
  shows "keeps (ready_world a b) (\<lambda>x. \<exists>r. x = Done r) (portal_logout C E headers)"
  unfolding portal_logout_def
  by (intro keeps_on_local [where Q = "\<lambda>_. True"] keeps_intros keeps_now [OF assms] keeps_lock [OF assms])
    (auto dest: get_ready remove_ready simp: delete_portal_session_cookie_def delete_portal_csrf_cookie_def header_value_def)

lemma keeps_health: "keeps (ready_world a b) (\<lambda>x. \<exists>r. x = Done r) (health E)"
  by (auto simp: keeps_def health_def respond_def)

lemma keeps_routes:
  assumes "dependable C E a b" "routes C E request = Some h"
  shows "keeps (ready_world a b) (\<lambda>x. \<exists>r. x = Done r) h"
  using assms(2) keeps_health [of a b E] keeps_login [OF assms(1)] keeps_callback [OF assms(1)]
    keeps_get_me [OF assms(1)] keeps_logout [OF assms(1)]
  by (auto simp: routes_def split: if_splits option.splits list.splits)

end
