(* ===== verification/Portal_Properties.thy ===== *)
theory Portal_Properties
  imports Portal_Handlers Crypto_Reference
begin

text \<open>
  The properties of the portal backend, over every URL and cookie library, clock, random source
  and behaviour of the other requests, with witnesses on a sample environment.
\<close>

section \<open>A sample environment\<close>

definition sample_draw :: "nat \<Rightarrow> bytes option" where
  "sample_draw n = Some (replicate 32 (char_of n))"

definition sample_reference :: "nat \<Rightarrow> string" where
  "sample_reference n = b64url_encode ref_crypto (replicate 32 (char_of n))"

lemma sample_draw_reference [simp]: "random_reference ref_crypto (sample_draw n) = Some (sample_reference n)"
  by (simp add: sample_draw_def sample_reference_def random_reference_def)

lemma draws_ok_sample [simp]: "draws_ok sample_draw"
  by (simp add: draws_ok_def sample_draw_def REFERENCE_RANDOM_BYTES_def)

lemma sample_reference_mod: "sample_reference m = sample_reference n \<Longrightarrow> m mod 256 = n mod 256"
  by (auto simp: sample_reference_def ref_crypto_def dest: rfc_b64url_inj)

lemma sample_window_inj: "k < 256 \<Longrightarrow> inj_on sample_reference {n..n + k}"
proof (rule inj_onI)
  fix x y
  assume k: "k < 256" and xy: "x \<in> {n..n + k}" "y \<in> {n..n + k}" "sample_reference x = sample_reference y"
  obtain p q where pq: "x + 256 * p = y + 256 * q"
    using nat_mod_eq_iff [THEN iffD1, OF sample_reference_mod [OF xy(3)]] by blast
  have "n \<le> x" "x \<le> n + k" "n \<le> y" "y \<le> n + k" using xy(1,2) by simp_all
  with pq k have "p < q + 1" "q < p + 1" by linarith+
  with pq show "x = y" by simp
qed

lemma sample_plentiful:
  assumes "cap < 256"
  shows "plentiful ref_crypto sample_draw cap"
  unfolding plentiful_def
proof (intro conjI allI impI)
  fix S :: "string set" and n
  assume S: "finite S" "card S \<le> cap"
  have "card (sample_reference ` {n..n + cap}) = Suc cap" using card_image [OF sample_window_inj [OF assms, of n]] by simp
  then have "\<not> sample_reference ` {n..n + cap} \<subseteq> S" using card_mono [OF S(1)] S(2) by (metis Suc_n_not_le_n le_trans)
  then show "\<exists>k\<ge>n. random_reference ref_crypto (sample_draw k) \<notin> Some ` S" by auto
qed (simp add: sample_draw_def)

lemma sample_reference_ok: "reference (sample_reference n)"
  by (rule random_reference_ok [OF reference.crypto_lib_axioms draws_ok_sample sample_draw_reference])

section \<open>The local state\<close>

text \<open>
  C30: the loop that looks for an unused reference returns exactly when a draw fails or gives a
  reference that is not in the table; what it returns is not in the table; and when the draws of
  a window of one more than the size of the table are distinct it needs no more than that many.
\<close>

theorem fresh_reference_terminates:
  "((\<exists>x. fresh_reference C rng table n = Some x) \<longleftrightarrow>
     (\<exists>k\<ge>n. case random_reference C (rng k) of None \<Rightarrow> True | Some r \<Rightarrow> map_of table r = None))
   \<and> (fresh_reference C rng table n = Some (Some r, n') \<longrightarrow>
        map_of table r = None \<and> random_reference C (rng (n' - 1)) = Some r)
   \<and> (inj_on (\<lambda>m. random_reference C (rng m)) {n..n + length table} \<longrightarrow>
        (\<exists>res n'. fresh_reference C rng table n = Some (res, n') \<and> n' \<le> n + length table + 1))"
proof -
  have taken: "\<not> taken C rng table k \<longleftrightarrow> (case random_reference C (rng k) of None \<Rightarrow> True | Some r \<Rightarrow> map_of table r = None)" for k
    by (auto simp: taken_def split: option.splits)
  have "fresh_reference C rng table n = Some (Some r, n') \<Longrightarrow> map_of table r = None \<and> random_reference C (rng (n' - 1)) = Some r"
    by (drule fresh_reference_sound) (auto simp: taken_def)
  then show ?thesis
    using fresh_reference_returns [of C rng table n] fresh_reference_bound [of C rng n table] unfolding taken by blast
qed

text \<open>With one reference taken and distinct draws, the second draw is used.\<close>

theorem fresh_reference_terminates_witness:
  "\<exists>r n'. fresh_reference ref_crypto sample_draw [(sample_reference 0, ())] 0 = Some (Some r, n') \<and> n' \<le> 2
     \<and> r \<noteq> sample_reference 0"
proof -
  have "inj_on (\<lambda>m. random_reference ref_crypto (sample_draw m)) {0..0 + length [(sample_reference 0, ())]}"
    using sample_window_inj [of 1 0] by (simp add: inj_on_def)
  from fresh_reference_terminates [THEN conjunct2, THEN conjunct2, THEN mp, OF this] obtain res n' where
    f: "fresh_reference ref_crypto sample_draw [(sample_reference 0, ())] 0 = Some (res, n')" "n' \<le> 2" by auto
  moreover from fresh_reference_sound [OF f(1)] obtain r where "res = Some r" by auto
  ultimately show ?thesis
    using fresh_reference_terminates [of ref_crypto sample_draw "[(sample_reference 0, ())]" 0 r n'] by auto
qed

text \<open>
  C27: the local state implements a store that holds no expired entries.  At any time a claim, a
  lookup, an insertion (and its refusal for lack of capacity) and a removal give what the abstract
  operation gives on the entries alive at that time, and commute with it; the cleanup task is
  invisible, at its own time and later.
\<close>

theorem portal_state_refines:
  assumes "tables_distinct st"
  shows "(claim_login_start k ctx now st = (res, st') \<longrightarrow>
      spec_claim k ctx (portal_abs now st) = (ok_of res, portal_abs now st'))
    \<and> (get_local_session k now st = (found, st') \<longrightarrow>
      found = sp_sessions (portal_abs now st) k \<and> portal_abs now st' = portal_abs now st)
    \<and> portal_abs now (snd (remove_local_session k st)) = spec_drop_session k (portal_abs now st)
    \<and> (create_login_start C rng path now (st, n) = (Done (Ok c), st', n') \<longrightarrow>
      (\<exists>r. sp_starts (portal_abs now st) (cls_state c) = None
        \<and> spec_put_start (cls_state c) r (portal_abs now st) = Some (portal_abs now st')))
    \<and> (create_login_start C rng path now (st, n) = (Done (Err CapacityReached), st', n') \<longrightarrow>
      spec_put_start k r (portal_abs now st) = None \<and> portal_abs now st' = portal_abs now st)
    \<and> (create_local_session C rng user at now (st, n) = (Done (Ok (k, csrf)), st', n') \<longrightarrow>
      (\<exists>s. sp_sessions (portal_abs now st) k = None
        \<and> spec_put_session k s (portal_abs now st) = Some (portal_abs now st')
        \<and> loc_internal_user_id s = user \<and> loc_csrf_lookup s = sha256 C csrf))
    \<and> (create_local_session C rng user at now (st, n) = (Done (Err CapacityReached), st', n') \<longrightarrow>
      spec_put_session k s (portal_abs now st) = None \<and> portal_abs now st' = portal_abs now st)
    \<and> (t \<le> now \<longrightarrow> portal_abs now (cleanup_expired t st) = portal_abs now st)"
  by (rule conjI, rule impI, erule claim_start_refines, rule conjI, rule impI, erule get_refines,
      rule conjI, simp add: remove_refines, rule conjI, rule impI, erule create_start_refines [OF assms],
      rule conjI, rule impI, erule create_refused_refines(1) [OF assms],
      rule conjI, rule impI, erule create_session_refines [OF assms],
      rule conjI, rule impI, erule create_refused_refines(2) [OF assms],
      rule impI, erule portal_abs_sweep [OF assms])

text \<open>A state with a login start that expires at 700.\<close>

definition sample_start :: login_start where
  "sample_start = \<lparr>lst_browser_context_reference = sample_reference 1, lst_code_verifier = sample_reference 2,
     lst_post_login_path = ''/'', lst_created_at = 100, lst_expires_at = 700\<rparr>"

definition sample_session :: local_session where
  "sample_session = \<lparr>loc_internal_user_id = 42, loc_authenticated_at = 90, loc_created_at = 100, loc_expires_at = 28900,
     loc_csrf_lookup = sha256 ref_crypto (sample_reference 4)\<rparr>"

definition sample_local :: portal_local_state where
  "sample_local = \<lparr>login_starts = [(sample_reference 0, sample_start)],
     local_sessions = [(sample_reference 3, sample_session)], login_start_capacity = 2, local_session_capacity = 2\<rparr>"

lemma sample_local_inv: "portal_inv sample_local"
  by (simp add: portal_inv_def sample_local_def tables_distinct_def start_ok_def session_ok_def sample_start_def
      sample_session_def sample_reference_ok validate_post_login_path_def PORTAL_POST_LOGIN_PATH_MAX_BYTES_def
      starts_with_def reference.sha256_length)

theorem portal_state_refines_witness:
  "fst (claim_login_start (sample_reference 0) (sample_reference 1) 150 sample_local) = Ok sample_start
   \<and> spec_claim (sample_reference 0) (sample_reference 1) (portal_abs 150 sample_local) =
       (Some sample_start, portal_abs 150 (snd (claim_login_start (sample_reference 0) (sample_reference 1) 150 sample_local)))
   \<and> portal_abs 800 (cleanup_expired 800 sample_local) = portal_abs 800 sample_local"
proof -
  have d: "tables_distinct sample_local" using sample_local_inv by (rule portal_inv_distinct)
  have claim: "claim_login_start (sample_reference 0) (sample_reference 1) 150 sample_local =
      (Ok sample_start, sample_local\<lparr>login_starts := []\<rparr>)"
    by (simp add: claim_login_start_def sample_local_def sample_start_def)
  show ?thesis
    using portal_state_refines [OF d, THEN conjunct1, THEN mp, OF claim]
      portal_state_refines [OF d, where now = 800 and t = 800, THEN conjunct2, THEN conjunct2, THEN conjunct2,
        THEN conjunct2, THEN conjunct2, THEN conjunct2, THEN conjunct2, THEN mp, OF order_refl]
    by (simp only: claim fst_conv snd_conv ok_of_simps simp_thms)
qed

text \<open>
  C28: whatever requests and cleanups run, in any order, from the initial state on: the keys of
  both tables stay distinct, neither table exceeds its capacity, every key, browser context and
  verifier is a 43-character reference, every stored path is a valid post-login path, every CSRF
  lookup is a 32-byte digest, and the expiry times are the creation times plus 600 and 28800
  seconds without wrap-around.
\<close>

theorem portal_inv_reachable:
  assumes "crypto_lib C" "local_run C (new_local_state starts_capacity sessions_capacity) es st"
  shows "portal_inv st"
  by (rule portal_inv_run [OF assms portal_inv_new])

text \<open>The run that creates a login start and claims it.\<close>

lemma sample_create:
  "\<exists>st. create_login_start ref_crypto sample_draw ''/'' 100 (new_local_state 2 2, 0) =
     (Done (Ok \<lparr>cls_state = sample_reference 0, cls_browser_context_reference = sample_reference 1,
        cls_code_challenge = sha256_base64url ref_crypto (sample_reference 2)\<rparr>), st, 3)
   \<and> st = (new_local_state 2 2)\<lparr>login_starts := [(sample_reference 0, sample_start)]\<rparr>"
proof -
  have "\<not> taken ref_crypto sample_draw ([] :: (string \<times> login_start) list) 0" by (simp add: taken_def)
  then show ?thesis
    by (simp add: create_login_start_def validate_post_login_path_def starts_with_def PORTAL_POST_LOGIN_PATH_MAX_BYTES_def
        cleanup_expired_def new_local_state_def checked_add_def LOGIN_START_TTL_SECONDS_def fresh_reference_step(2)
        sample_start_def Let_def numeral_2_eq_2 [symmetric] numeral_3_eq_3 [symmetric])
qed

lemma sample_steps:
  "local_step ref_crypto (new_local_state 2 2) (StartCreated (sample_reference 0) sample_start)
     ((new_local_state 2 2)\<lparr>login_starts := [(sample_reference 0, sample_start)]\<rparr>)"
  "local_step ref_crypto ((new_local_state 2 2)\<lparr>login_starts := [(sample_reference 0, sample_start)]\<rparr>)
     (StartClaimed (sample_reference 0) sample_start) (new_local_state 2 2)"
proof -
  from sample_create show "local_step ref_crypto (new_local_state 2 2) (StartCreated (sample_reference 0) sample_start)
     ((new_local_state 2 2)\<lparr>login_starts := [(sample_reference 0, sample_start)]\<rparr>)"
    using Create_start [where C = ref_crypto and rng = sample_draw and path = "''/''" and now = 100
        and st = "new_local_state 2 2" and n = 0 and r = sample_start] by fastforce
  show "local_step ref_crypto ((new_local_state 2 2)\<lparr>login_starts := [(sample_reference 0, sample_start)]\<rparr>)
     (StartClaimed (sample_reference 0) sample_start) (new_local_state 2 2)"
    by (rule Claim [where ctx = "sample_reference 1" and now = 150])
      (simp add: claim_login_start_def sample_start_def new_local_state_def)
qed

lemma sample_runs:
  "local_run ref_crypto (new_local_state 2 2) [StartCreated (sample_reference 0) sample_start]
     ((new_local_state 2 2)\<lparr>login_starts := [(sample_reference 0, sample_start)]\<rparr>)"
  "local_run ref_crypto (new_local_state 2 2) [StartCreated (sample_reference 0) sample_start,
     StartClaimed (sample_reference 0) sample_start] (new_local_state 2 2)"
  using local_run.Snoc [OF local_run.Nil sample_steps(1)]
    local_run.Snoc [OF local_run.Snoc [OF local_run.Nil sample_steps(1)] sample_steps(2)] by simp_all

theorem portal_inv_reachable_witness:
  "portal_inv ((new_local_state 2 2)\<lparr>login_starts := [(sample_reference 0, sample_start)]\<rparr>)"
  by (rule portal_inv_reachable [OF reference.crypto_lib_axioms sample_runs(1)])

text \<open>
  C26: in every run of the portal from its initial state, two successful claims of the same login
  start have its creation between them, and so have two successful logouts of the same session:
  a callback URL is good for one login and a session is closed once.
\<close>

theorem login_start_claimed_once:
  assumes "crypto_lib C" "local_run C (new_local_state starts_capacity sessions_capacity) (as @ [e1] @ bs @ [e2] @ cs) st"
  shows "(e1 = StartClaimed k r1 \<longrightarrow> e2 = StartClaimed k r2 \<longrightarrow> (\<exists>r. StartCreated k r \<in> set bs))
    \<and> (e1 = SessionRemoved k s1 \<longrightarrow> e2 = SessionRemoved k s2 \<longrightarrow> (\<exists>s. SessionCreated k s \<in> set bs))"
  using taken_once [OF run_changes [OF assms] portal_inv_new] by blast

text \<open>The source that repeats itself creates the same state twice; it is claimed once each time.\<close>

theorem login_start_claimed_once_witness:
  "local_run ref_crypto (new_local_state 2 2)
     ([StartCreated (sample_reference 0) sample_start] @ [StartClaimed (sample_reference 0) sample_start]
      @ [StartCreated (sample_reference 0) sample_start] @ [StartClaimed (sample_reference 0) sample_start] @ [])
     (new_local_state 2 2)
   \<and> (\<exists>r. StartCreated (sample_reference 0) r \<in> set [StartCreated (sample_reference 0) sample_start])"
proof -
  have run: "local_run ref_crypto (new_local_state 2 2)
     ([StartCreated (sample_reference 0) sample_start] @ [StartClaimed (sample_reference 0) sample_start]
      @ [StartCreated (sample_reference 0) sample_start] @ [StartClaimed (sample_reference 0) sample_start] @ [])
     (new_local_state 2 2)"
    using local_run_append [OF sample_runs(2) sample_runs(2)] by simp
  show ?thesis
    using run login_start_claimed_once [OF reference.crypto_lib_axioms run] by blast
qed

section \<open>The handlers\<close>

text \<open>
  The sample portal: one cookie per header, nobody interferes, and the authentication service
  answers every exchange with user 42.
\<close>

definition sample_split_parse :: split_parse where
  "sample_split_parse h = [case split_once (CHR ''='') h of None \<Rightarrow> Err () | Some p \<Rightarrow> Ok p]"

definition portal_sample_env :: "(simple_url, unit) portal_env" where
  "portal_sample_env = \<lparr>pe_config = portal_sample_config, pe_client = build_http_client, pe_urls = simple_urls,
     pe_rng = sample_draw, pe_clock = (\<lambda>_. 150000000000), pe_timestamp = (\<lambda>_. ''2026-01-01T00:00:00+00:00''),
     pe_split_parse = sample_split_parse, pe_others = (\<lambda>_ st. st),
     pe_post = (\<lambda>_ _ _ _ remote. (Some (200, Some (JObject [(''internal_user_id'', JNum 42), (''authenticated_at'', JNum 101)])), remote))\<rparr>"

definition portal_sample_world :: "portal_local_state \<Rightarrow> unit portal_world" where
  "portal_sample_world st = \<lparr>pw_local = st, pw_draws = 5, pw_ticks = 0, pw_locks = 0, pw_remote = ()\<rparr>"

definition sample_raw_query :: string where
  "sample_raw_query = show_query [(''code'', sample_reference 9), (''state'', sample_reference 0)]"

definition sample_context_header :: string where
  "sample_context_header = PORTAL_LOGIN_CONTEXT_COOKIE_NAME @ ''='' @ sample_reference 1"

lemma fixed_reference_iff: "is_fixed_reference v \<longleftrightarrow> reference v"
  by (auto simp: is_fixed_reference_def reference_def b64url_byte_def list_all_iff)

lemma sample_parsed:
  "parse_callback_query simple_urls sample_raw_query = Ok \<lparr>pcq_code = sample_reference 9, pcq_state = sample_reference 0\<rparr>"
  "login_context_from_cookie_header sample_split_parse (Some sample_context_header) = Ok (sample_reference 1)"
proof -
  have form: "url_form_parse simple_urls (show_query ps) = ps" for ps by (simp add: simple_urls_def form_parse_show)
  show "parse_callback_query simple_urls sample_raw_query = Ok \<lparr>pcq_code = sample_reference 9, pcq_state = sample_reference 0\<rparr>"
    unfolding parse_callback_query_def sample_raw_query_def form by (simp add: fixed_reference_iff sample_reference_ok)
  have "split_once (CHR ''='') sample_context_header = Some (PORTAL_LOGIN_CONTEXT_COOKIE_NAME, sample_reference 1)"
    using split_once_append [of "CHR ''=''" PORTAL_LOGIN_CONTEXT_COOKIE_NAME]
    by (simp add: sample_context_header_def PORTAL_LOGIN_CONTEXT_COOKIE_NAME_def)
  then show "login_context_from_cookie_header sample_split_parse (Some sample_context_header) = Ok (sample_reference 1)"
    by (simp add: login_context_from_cookie_header_def sample_split_parse_def fixed_reference_iff sample_reference_ok)
qed

lemma portal_sample_simps [simp]:
  "pe_urls portal_sample_env = simple_urls" "pe_rng portal_sample_env = sample_draw"
  "unix_epoch_seconds (pe_clock portal_sample_env n) = Done 150" "pe_split_parse portal_sample_env = sample_split_parse"
  "pe_others portal_sample_env n st = st"
  by (simp_all add: portal_sample_env_def unix_epoch_seconds_def)

lemma portal_sample_post:
  "pe_post portal_sample_env cl u cr j remote =
     (Some (200, Some (JObject [(''internal_user_id'', JNum 42), (''authenticated_at'', JNum 101)])), remote)"
  "decode_exchange_response (JObject [(''internal_user_id'', JNum 42), (''authenticated_at'', JNum 101)]) = Some (42, 101)"
  by (simp_all add: portal_sample_env_def decode_exchange_response_def json_field_def i32_try_from_def u64_try_from_def)

text \<open>
  C21: a callback that is answered 302 presented a code and a state, each once, and the browser
  context cookie of a login start that was alive; that login start is removed before the
  authentication service is asked, which is asked once, with the portal's credentials, the code
  and the verifier of that login start, and answered 200 with a user; the session stored under the
  new session cookie is that user's, lives 28800 seconds and holds the digest of the new CSRF
  cookie; the redirect goes to the path stored with the login start.
\<close>

theorem portal_callback_sound:
  assumes "run_handler (portal_callback C E raw_query cookie_header) w = (Done r, w')" "resp_status r = 302"
  shows "\<exists>q ctx now start j user at now2 k csrf s.
    parse_callback_query (pe_urls E) raw_query = Ok q
    \<and> login_context_from_cookie_header (pe_split_parse E) cookie_header = Ok ctx
    \<and> unix_epoch_seconds (pe_clock E (pw_ticks w)) = Done now
    \<and> start_alive now (pe_others E (pw_locks w) (pw_local w)) (pcq_state q) = Some start
    \<and> lst_browser_context_reference start = ctx
    \<and> pe_post E (pe_client E) (auth_foundation_endpoint (pe_urls E) (ac_auth_foundation_base_url (pe_config E))
         ''/auth/handoffs/exchange'') (ac_service_id (pe_config E), ac_service_secret (pe_config E))
         (portal_exchange_request (pcq_code q) (lst_code_verifier start)) (pw_remote w) = (Some (200, Some j), pw_remote w')
    \<and> decode_exchange_response j = Some (user, at)
    \<and> location r = Some (lst_post_login_path start)
    \<and> resp_cookies r = [portal_session_cookie k, portal_csrf_cookie csrf, delete_login_context_cookie]
    \<and> pw_local w' = put_session k s (cleanup_expired now2 (pe_others E (Suc (pw_locks w))
         (drop_start (pcq_state q) (pe_others E (pw_locks w) (pw_local w)))))
    \<and> unix_epoch_seconds (pe_clock E (Suc (pw_ticks w))) = Done now2
    \<and> session_alive now2 (pw_local w') k = Some s \<and> unat (loc_expires_at s) = unat now2 + 28800
    \<and> loc_internal_user_id s = user \<and> loc_authenticated_at s = at \<and> loc_csrf_lookup s = sha256 C csrf"
  using assms by (rule local_callback_sound) blast

lemma sample_session_created:
  "\<exists>st n. create_local_session ref_crypto sample_draw 42 101 150 (sample_local\<lparr>login_starts := []\<rparr>, 5) =
     (Done (Ok (sample_reference 5, sample_reference 6)), st, n)"
proof -
  have "sample_reference 5 \<noteq> sample_reference 3" using sample_reference_mod [of 5 3] by auto
  then have "\<not> taken ref_crypto sample_draw [(sample_reference 3, sample_session)] 5" by (simp add: taken_def)
  from fresh_reference_step(2) [OF this] show ?thesis
    by (simp add: create_local_session_def sample_local_def cleanup_expired_def sample_session_def Let_def
        checked_add_def LOCAL_SESSION_TTL_SECONDS_def)
qed

lemma sample_callback_run:
  "\<exists>r w'. run_handler (portal_callback ref_crypto portal_sample_env sample_raw_query (Some sample_context_header))
     (portal_sample_world sample_local) = (Done r, w') \<and> resp_status r = 302"
proof -
  let ?st = "sample_local\<lparr>login_starts := []\<rparr>"
  obtain st n where session: "create_local_session ref_crypto sample_draw 42 101 150 (?st, 5) =
     (Done (Ok (sample_reference 5, sample_reference 6)), st, n)" using sample_session_created by blast
  have claim: "claim_login_start (sample_reference 0) (sample_reference 1) 150 sample_local = (Ok sample_start, ?st)"
    by (simp add: claim_login_start_def sample_local_def sample_start_def)
  have exchange: "exchange_code portal_sample_env code v w = (Inr (42, 101), w)" for code v w
    by (simp add: exchange_code_def Let_def portal_sample_post)
  have headers: "header_value (sample_reference i)" "header_value ''/''" "header_value ''''" for i
    by (simp_all add: reference_header sample_reference_ok) (simp_all add: header_value_def header_value_byte_def)
  show ?thesis
    by (simp add: run_handler_def portal_callback_def open_session_def sample_parsed portal_now_def perform_def lock_def
        on_local_def claim [simplified] exchange hbind_def drawing_def session portal_sample_world_def redirect_response_def append_cookie_def
        portal_session_cookie_def portal_csrf_cookie_def delete_login_context_cookie_def headers respond_def sample_start_def)
qed

theorem portal_callback_sound_witness:
  "\<exists>r w' k s. run_handler (portal_callback ref_crypto portal_sample_env sample_raw_query (Some sample_context_header))
      (portal_sample_world sample_local) = (Done r, w') \<and> location r = Some ''/''
    \<and> session_alive 150 (pw_local w') k = Some s \<and> loc_internal_user_id s = 42"
proof -
  obtain r w' where run: "run_handler (portal_callback ref_crypto portal_sample_env sample_raw_query (Some sample_context_header))
     (portal_sample_world sample_local) = (Done r, w')" "resp_status r = 302" using sample_callback_run by blast
  obtain start k s where s: "start_alive 150 sample_local (sample_reference 0) = Some start"
    "location r = Some (lst_post_login_path start)" "session_alive 150 (pw_local w') k = Some s" "loc_internal_user_id s = 42"
    using portal_callback_sound [OF run]
    by (auto simp: sample_parsed portal_sample_world_def portal_sample_post)
  have "start = sample_start" using s(1) by (auto simp: start_alive_def live_Some sample_local_def)
  with run s show ?thesis by (auto simp: sample_start_def)
qed

text \<open>
  C31: a portal logout that is answered 204 presented the cookie of a session that was alive, and
  the CSRF value whose digest is stored with it, both as a cookie and as a header; then exactly
  that session is removed and both cookies are deleted in the browser.
\<close>

theorem portal_logout_sound:
  assumes "crypto_lib C" "run_handler (portal_logout C E headers) w = (Done r, w')" "resp_status r = 204"
  shows "\<exists>k csrf now s.
    fixed_reference_cookie_from_headers (pe_split_parse E) headers PORTAL_SESSION_COOKIE_NAME = Ok k
    \<and> fixed_reference_cookie_from_headers (pe_split_parse E) headers PORTAL_CSRF_COOKIE_NAME = Ok csrf
    \<and> csrf_header_from_headers headers = Ok csrf
    \<and> unix_epoch_seconds (pe_clock E (pw_ticks w)) = Done now
    \<and> session_alive now (pe_others E (pw_locks w) (pw_local w)) k = Some s \<and> loc_csrf_lookup s = sha256 C csrf
    \<and> pw_local w' = drop_session k (pe_others E (pw_locks w) (pw_local w))
    \<and> resp_cookies r = [delete_portal_session_cookie, delete_portal_csrf_cookie]"
  using assms by (rule local_logout_sound) blast

definition sample_logout_headers :: "(string \<times> bytes) list" where
  "sample_logout_headers = [(''cookie'', PORTAL_SESSION_COOKIE_NAME @ CHR ''='' # sample_reference 3),
     (''cookie'', PORTAL_CSRF_COOKIE_NAME @ CHR ''='' # sample_reference 4), (''x-csrf-token'', sample_reference 4)]"

lemma b64url_header_byte: "b64url_byte c \<Longrightarrow> header_byte c"
  by (auto simp: b64url_byte_def header_byte_def byte_class_defs less_eq_char_def)

lemma sample_cookie_to_str:
  "to_str (PORTAL_SESSION_COOKIE_NAME @ CHR ''='' # sample_reference n) = Some (PORTAL_SESSION_COOKIE_NAME @ CHR ''='' # sample_reference n)"
  "to_str (PORTAL_CSRF_COOKIE_NAME @ CHR ''='' # sample_reference n) = Some (PORTAL_CSRF_COOKIE_NAME @ CHR ''='' # sample_reference n)"
  "to_str (sample_reference n) = Some (sample_reference n)"
proof -
  have "list_all header_byte (sample_reference n)"
    using sample_reference_ok [of n] by (simp add: reference_def list_all_iff b64url_header_byte)
  moreover have "list_all header_byte PORTAL_SESSION_COOKIE_NAME" "list_all header_byte PORTAL_CSRF_COOKIE_NAME" "header_byte (CHR ''='')"
    by (simp_all add: PORTAL_SESSION_COOKIE_NAME_def PORTAL_CSRF_COOKIE_NAME_def header_byte_def byte_in_def)
  ultimately show
    "to_str (PORTAL_SESSION_COOKIE_NAME @ CHR ''='' # sample_reference n) = Some (PORTAL_SESSION_COOKIE_NAME @ CHR ''='' # sample_reference n)"
    "to_str (PORTAL_CSRF_COOKIE_NAME @ CHR ''='' # sample_reference n) = Some (PORTAL_CSRF_COOKIE_NAME @ CHR ''='' # sample_reference n)"
    "to_str (sample_reference n) = Some (sample_reference n)"
    by (simp_all add: to_str_def)
qed

lemma sample_logout_parsed:
  "fixed_reference_cookie_from_headers sample_split_parse sample_logout_headers PORTAL_SESSION_COOKIE_NAME = Ok (sample_reference 3)"
  "fixed_reference_cookie_from_headers sample_split_parse sample_logout_headers PORTAL_CSRF_COOKIE_NAME = Ok (sample_reference 4)"
  "csrf_header_from_headers sample_logout_headers = Ok (sample_reference 4)"
proof -
  have names: "CHR ''='' \<notin> set PORTAL_SESSION_COOKIE_NAME" "CHR ''='' \<notin> set PORTAL_CSRF_COOKIE_NAME"
      "PORTAL_SESSION_COOKIE_NAME \<noteq> PORTAL_CSRF_COOKIE_NAME"
    by (simp_all add: PORTAL_SESSION_COOKIE_NAME_def PORTAL_CSRF_COOKIE_NAME_def)
  have cookies: "get_all ''cookie'' sample_logout_headers = [PORTAL_SESSION_COOKIE_NAME @ CHR ''='' # sample_reference 3,
      PORTAL_CSRF_COOKIE_NAME @ CHR ''='' # sample_reference 4]"
    "get_all ''x-csrf-token'' sample_logout_headers = [sample_reference 4]"
    by (simp_all add: get_all_def sample_logout_headers_def)
  show "fixed_reference_cookie_from_headers sample_split_parse sample_logout_headers PORTAL_SESSION_COOKIE_NAME = Ok (sample_reference 3)"
    "fixed_reference_cookie_from_headers sample_split_parse sample_logout_headers PORTAL_CSRF_COOKIE_NAME = Ok (sample_reference 4)"
    "csrf_header_from_headers sample_logout_headers = Ok (sample_reference 4)"
    using names by (simp_all add: fixed_reference_cookie_from_headers_def csrf_header_from_headers_def cookies
        sample_cookie_to_str sample_split_parse_def split_once_append fixed_reference_iff sample_reference_ok)
qed

lemma sample_logout_run:
  "\<exists>r w'. run_handler (portal_logout ref_crypto portal_sample_env sample_logout_headers)
     (portal_sample_world sample_local) = (Done r, w') \<and> resp_status r = 204"
proof -
  have get: "get_local_session (sample_reference 3) 150 sample_local = (Some sample_session, sample_local)"
    and remove: "remove_local_session (sample_reference 3) sample_local = (Some sample_session, sample_local\<lparr>local_sessions := []\<rparr>)"
    by (simp_all add: get_local_session_def remove_local_session_def sample_local_def sample_session_def)
  have csrf: "loc_csrf_lookup sample_session = sha256 ref_crypto (sample_reference 4)" by (simp add: sample_session_def)
  show ?thesis
    by (simp add: run_handler_def portal_logout_def sample_logout_parsed portal_now_def perform_def lock_def on_local_def
        hbind_def get remove csrf portal_sample_world_def portal_sha256_digest_def reference.ct_eq_iff append_cookie_def
        delete_portal_session_cookie_def delete_portal_csrf_cookie_def header_value_def respond_def)
qed

theorem portal_logout_sound_witness:
  "\<exists>r w'. run_handler (portal_logout ref_crypto portal_sample_env sample_logout_headers) (portal_sample_world sample_local) = (Done r, w')
    \<and> session_alive 150 sample_local (sample_reference 3) = Some sample_session
    \<and> session_alive 150 (pw_local w') (sample_reference 3) = None"
proof -
  obtain r w' where run: "run_handler (portal_logout ref_crypto portal_sample_env sample_logout_headers)
     (portal_sample_world sample_local) = (Done r, w')" "resp_status r = 204" using sample_logout_run by blast
  have "pw_local w' = drop_session (sample_reference 3) sample_local"
    using portal_logout_sound [OF reference.crypto_lib_axioms run]
    by (auto simp: sample_logout_parsed portal_sample_world_def)
  then show ?thesis
    using run by (auto simp: sessions.alive_discard)
      (simp add: session_alive_def live_def sample_local_def sample_session_def)
qed

text \<open>
  C29: every request that has a route is answered.  When the clock is after 1970, the random
  source works and keeps giving references outside any table within the capacities, and the other
  requests keep the state's invariant, then no handler panics and none loops for ever.
\<close>

theorem portal_answers_every_request:
  assumes "dependable C E a b" "portal_ready a b (pw_local w)" "routes C E request = Some h"
  shows "\<exists>r w'. run_handler h w = (Done r, w')"
  using keeps_run [OF keeps_routes [OF assms(1,3)] assms(2)] by (cases "run_handler h w") auto

lemma sample_dependable: "dependable ref_crypto portal_sample_env 2 2"
  by (simp add: dependable_def reference.crypto_lib_axioms sample_plentiful simple.to_string_header)
    (simp add: portal_sample_env_def)

theorem portal_answers_every_request_witness:
  "\<exists>h r w'. routes ref_crypto portal_sample_env
       \<lparr>prq_method = GET, prq_path = ''/login'', prq_query = None, prq_headers = []\<rparr> = Some h
     \<and> run_handler h (portal_sample_world sample_local) = (Done r, w')"
proof -
  have route: "routes ref_crypto portal_sample_env \<lparr>prq_method = GET, prq_path = ''/login'', prq_query = None, prq_headers = []\<rparr> =
      Some (portal_login ref_crypto portal_sample_env)"
    by (simp add: routes_def path_is_def)
  have ready: "portal_ready 2 2 (pw_local (portal_sample_world sample_local))"
    using sample_local_inv by (simp add: portal_ready_def portal_sample_world_def root_paths_def)
      (simp add: sample_local_def sample_start_def)
  show ?thesis using route portal_answers_every_request [OF sample_dependable ready route] by blast
qed

section \<open>The login redirect and the accepted inputs\<close>

lemma endpoint_url:
  assumes "url_lib U pairs path raw_query" "url_host U base \<noteq> None" "plain_path p"
  shows "pairs (auth_foundation_endpoint U base p) = []" "path (auth_foundation_endpoint U base p) = p"
    "url_host U (auth_foundation_endpoint U base p) = url_host U base"
    "url_scheme U (auth_foundation_endpoint U base p) = url_scheme U base"
  using url_lib.clear_pairs [OF assms(1)] url_lib.fragment_keeps [OF assms(1)] url_lib.clear_path [OF assms(1)]
    url_lib.clear_host [OF assms(1)] url_lib.clear_scheme [OF assms(1)] url_lib.set_path [OF assms(1,3,2)]
    url_lib.set_path_keeps [OF assms(1)]
  by (simp_all add: auth_foundation_endpoint_def)

lemma endpoint_paths: "plain_path ''/auth/login''" "plain_path ''/auth/handoffs/exchange''"
  by (simp_all add: plain_path_def starts_with_def byte_class_defs)

lemma portal_login_302:
  assumes "url_lib (pe_urls E) pairs path raw_query" "url_host (pe_urls E) (ac_auth_foundation_base_url (pe_config E)) \<noteq> None"
    and "run_handler (portal_login C E) w = (Done r, w')" "resp_status r = 302"
  obtains now state start url where
    "unix_epoch_seconds (pe_clock E (pw_ticks w)) = Done now"
    "pw_local w' = put_start state start (cleanup_expired now (pe_others E (pw_locks w) (pw_local w)))"
    "start_alive now (pw_local w') state = Some start" "lst_post_login_path start = ''/''"
    "unat (lst_expires_at start) = unat now + 600"
    "location r = Some (url_to_string (pe_urls E) url)" "path url = ''/auth/login''"
    "url_host (pe_urls E) url = url_host (pe_urls E) (ac_auth_foundation_base_url (pe_config E))"
    "pairs url = [(''service_id'', ac_service_id (pe_config E)), (''state'', state),
        (''code_challenge'', sha256_base64url C (lst_code_verifier start)), (''code_challenge_method'', ''S256'')]"
    "resp_cookies r = [login_context_cookie (lst_browser_context_reference start)]"
    "\<exists>m. random_reference C (pe_rng E m) = Some state" "\<exists>m. random_reference C (pe_rng E m) = Some (lst_code_verifier start)"
proof -
  let ?U = "pe_urls E"
  have "portal_login C E w = (Inr (Done r), w')"
    by (rule portal_run_end [OF login_refuses assms(3)]) (simp add: assms(4))
  then obtain now c st n where l: "unix_epoch_seconds (pe_clock E (pw_ticks w)) = Done now"
    "create_login_start C (pe_rng E) ''/'' now (pe_others E (pw_locks w) (pw_local w), pw_draws w) = (Done (Ok c), st, n)"
    "w' = w\<lparr>pw_ticks := Suc (pw_ticks w), pw_locks := Suc (pw_locks w), pw_local := st, pw_draws := n\<rparr>"
    "Done r = Done (with_cookie (login_context_cookie (cls_browser_context_reference c)) (with_header ''location''
       (url_to_string ?U (url_append_pairs ?U
          [(''service_id'', ac_service_id (pe_config E)), (''state'', cls_state c),
           (''code_challenge'', cls_code_challenge c), (''code_challenge_method'', ''S256'')]
          (auth_foundation_endpoint ?U (ac_auth_foundation_base_url (pe_config E)) ''/auth/login'')))
       (empty_response 302)))"
    by (rule login_end)
  from l(2) obtain start where s: "st = put_start (cls_state c) start (cleanup_expired now (pe_others E (pw_locks w) (pw_local w)))"
    "lst_browser_context_reference start = cls_browser_context_reference c"
    "cls_code_challenge c = sha256_base64url C (lst_code_verifier start)"
    "lst_post_login_path start = ''/''" "unat (lst_expires_at start) = unat now + 600"
    "\<exists>k\<ge>pw_draws w. n = Suc (Suc (Suc k)) \<and> random_reference C (pe_rng E k) = Some (cls_state c)
       \<and> random_reference C (pe_rng E (Suc k)) = Some (cls_browser_context_reference c)
       \<and> random_reference C (pe_rng E (Suc (Suc k))) = Some (lst_code_verifier start)"
    by (rule create_login_start_Ok)
  from s(5) have "now < lst_expires_at start" by (simp add: word_less_nat_alt)
  then have "start_alive now st (cls_state c) = Some start" by (simp add: s(1) starts.alive_store)
  with l s(1-5) show ?thesis
    using endpoint_url [OF assms(1,2) endpoint_paths(1)] url_lib.append_pairs [OF assms(1)] url_lib.append_path [OF assms(1)]
      url_lib.append_host [OF assms(1)] s(6)
    by (intro that [of now "cls_state c" start "url_append_pairs ?U
          [(''service_id'', ac_service_id (pe_config E)), (''state'', cls_state c),
           (''code_challenge'', cls_code_challenge c), (''code_challenge_method'', ''S256'')]
          (auth_foundation_endpoint ?U (ac_auth_foundation_base_url (pe_config E)) ''/auth/login'')"])
      (auto simp: location_def)
qed

text \<open>
  A login that is answered 302 stores one new login start (alive for 600 seconds, for the
  path \<open>/\<close>) and sends the browser to the login endpoint of the authentication service, with the
  portal's service identifier, the key of that login start as state, the S256 challenge of its
  verifier, and its browser context as a cookie.  The verifier itself is in neither.
\<close>

theorem portal_login_sound:
  assumes "url_lib (pe_urls E) pairs path raw_query" "url_host (pe_urls E) (ac_auth_foundation_base_url (pe_config E)) \<noteq> None"
    and "run_handler (portal_login C E) w = (Done r, w')" "resp_status r = 302"
  shows "\<exists>now state start url.
    unix_epoch_seconds (pe_clock E (pw_ticks w)) = Done now
    \<and> pw_local w' = put_start state start (cleanup_expired now (pe_others E (pw_locks w) (pw_local w)))
    \<and> start_alive now (pw_local w') state = Some start
    \<and> lst_post_login_path start = ''/'' \<and> unat (lst_expires_at start) = unat now + 600
    \<and> location r = Some (url_to_string (pe_urls E) url) \<and> path url = ''/auth/login''
    \<and> url_host (pe_urls E) url = url_host (pe_urls E) (ac_auth_foundation_base_url (pe_config E))
    \<and> pairs url = [(''service_id'', ac_service_id (pe_config E)), (''state'', state),
        (''code_challenge'', b64url_encode C (sha256 C (lst_code_verifier start))), (''code_challenge_method'', ''S256'')]
    \<and> resp_cookies r = [login_context_cookie (lst_browser_context_reference start)]"
  using assms by (rule portal_login_302) (unfold sha256_base64url_def portal_sha256_digest_def, blast)

lemma sample_start_created:
  "\<exists>c st n. create_login_start ref_crypto sample_draw ''/'' 150 (new_local_state 2 2, 5) = (Done (Ok c), st, n)
    \<and> cls_browser_context_reference c = sample_reference 6"
proof -
  have "\<not> taken ref_crypto sample_draw ([] :: (string \<times> login_start) list) 5" by (simp add: taken_def)
  from fresh_reference_step(2) [OF this] show ?thesis
    by (simp add: create_login_start_def validate_post_login_path_def starts_with_def PORTAL_POST_LOGIN_PATH_MAX_BYTES_def
        cleanup_expired_def new_local_state_def checked_add_def LOGIN_START_TTL_SECONDS_def Let_def)
qed

theorem portal_login_sound_witness:
  "\<exists>r w' state start. run_handler (portal_login ref_crypto portal_sample_env) (portal_sample_world (new_local_state 2 2)) = (Done r, w')
    \<and> start_alive 150 (pw_local w') state = Some start \<and> lst_post_login_path start = ''/''"
proof -
  obtain c st n where
    create: "create_login_start ref_crypto sample_draw ''/'' 150 (new_local_state 2 2, 5) = (Done (Ok c), st, n)"
      "cls_browser_context_reference c = sample_reference 6"
    using sample_start_created by blast
  have run: "\<exists>r w'. run_handler (portal_login ref_crypto portal_sample_env) (portal_sample_world (new_local_state 2 2)) = (Done r, w')
      \<and> resp_status r = 302"
    by (simp add: run_handler_def portal_login_def Let_def portal_now_def perform_def lock_def drawing_def hbind_def
        portal_sample_world_def create redirect_response_def simple.to_string_header append_cookie_def login_context_cookie_def
        reference_header sample_reference_ok respond_def)
  have host: "url_host (pe_urls portal_sample_env) (ac_auth_foundation_base_url (pe_config portal_sample_env)) \<noteq> None"
    by (simp add: simple_urls_def) (simp add: portal_sample_env_def portal_sample_config_def)
  obtain r w' where run: "run_handler (portal_login ref_crypto portal_sample_env) (portal_sample_world (new_local_state 2 2)) = (Done r, w')"
    "resp_status r = 302" using run by blast
  have lib: "url_lib (pe_urls portal_sample_env) su_query su_path (\<lambda>u. show_query (su_query u))"
    using simple.url_lib_axioms by simp
  show ?thesis
    using run portal_login_sound [OF lib host run] by (auto simp: portal_sample_world_def)
qed

text \<open>The values of the cookies of a name, in order.\<close>

definition cookie_values :: "string \<Rightarrow> (string \<times> string, unit) result list \<Rightarrow> string list" where
  "cookie_values name cs = map snd (filter (\<lambda>(n, v). n = name) (List.map_filter ok_of cs))"

lemma cookie_values_simps [simp]:
  "cookie_values name [] = []" "cookie_values name (Inl e # cs) = cookie_values name cs"
  "cookie_values name (Inr (n, v) # cs) = (if n = name then v # cookie_values name cs else cookie_values name cs)"
  by (simp_all add: cookie_values_def List.map_filter_def)

lemma scan_cookies_Ok:
  "scan_cookies name cs found = Ok res \<longleftrightarrow> list_all is_ok cs \<and>
     (if cookie_values name cs = [] then res = found
      else \<exists>v. cookie_values name cs = [v] \<and> found = None \<and> is_fixed_reference v \<and> res = Some v)"
  by (induction name cs found rule: scan_cookies.induct) (auto split: if_splits)

lemma scan_cookies_append:
  "scan_cookies name (cs @ ds) found = and_then (scan_cookies name cs found) (scan_cookies name ds)"
  by (induction name cs found rule: scan_cookies.induct) auto

lemma scan_headers_Ok:
  "scan_headers parse name hs found = Ok res \<longleftrightarrow>
     list_all (list_all header_byte) hs \<and> scan_cookies name (concat (map parse hs)) found = Ok res"
  by (induction parse name hs found rule: scan_headers.induct)
    (auto simp: to_str_def scan_cookies_append and_then_Ok_iff)

lemma scan_query_Ok:
  "scan_query ps (Some c) (Some s) = Ok q \<longleftrightarrow> ps = [] \<and> q = \<lparr>pcq_code = c, pcq_state = s\<rparr>"
  "scan_query ps (Some c) None = Ok q \<longleftrightarrow> (\<exists>s. ps = [(''state'', s)] \<and> is_fixed_reference s \<and> q = \<lparr>pcq_code = c, pcq_state = s\<rparr>)"
  "scan_query ps None (Some s) = Ok q \<longleftrightarrow> (\<exists>c. ps = [(''code'', c)] \<and> is_fixed_reference c \<and> q = \<lparr>pcq_code = c, pcq_state = s\<rparr>)"
proof -
  show both: "scan_query ps (Some c) (Some s) = Ok q \<longleftrightarrow> ps = [] \<and> q = \<lparr>pcq_code = c, pcq_state = s\<rparr>" for ps c s
    by (cases ps) (auto split: if_splits)
  show "scan_query ps (Some c) None = Ok q \<longleftrightarrow> (\<exists>s. ps = [(''state'', s)] \<and> is_fixed_reference s \<and> q = \<lparr>pcq_code = c, pcq_state = s\<rparr>)"
    "scan_query ps None (Some s) = Ok q \<longleftrightarrow> (\<exists>c. ps = [(''code'', c)] \<and> is_fixed_reference c \<and> q = \<lparr>pcq_code = c, pcq_state = s\<rparr>)"
    by (cases ps; auto simp: both split: if_splits)+
qed

text \<open>
  C33: the portal's inputs are accepted exactly when they are unambiguous.  A callback query is a
  code and a state, in either order, nothing else and nothing twice; a cookie is found exactly when
  every cookie of every cookie header parses and one of them has the name; the CSRF header occurs
  once; and each of the values is a 43-character reference.
\<close>

theorem portal_inputs_exact:
  "(parse_callback_query U raw = Ok q \<longleftrightarrow> is_fixed_reference (pcq_code q) \<and> is_fixed_reference (pcq_state q)
     \<and> (url_form_parse U raw = [(''code'', pcq_code q), (''state'', pcq_state q)]
        \<or> url_form_parse U raw = [(''state'', pcq_state q), (''code'', pcq_code q)]))
   \<and> (login_context_from_cookie_header parse header = Ok v \<longleftrightarrow> is_fixed_reference v
     \<and> (\<exists>h. header = Some h \<and> list_all is_ok (parse h) \<and> cookie_values PORTAL_LOGIN_CONTEXT_COOKIE_NAME (parse h) = [v]))
   \<and> (fixed_reference_cookie_from_headers parse headers name = Ok v \<longleftrightarrow> is_fixed_reference v
     \<and> list_all (list_all header_byte) (get_all ''cookie'' headers)
     \<and> list_all is_ok (concat (map parse (get_all ''cookie'' headers)))
     \<and> cookie_values name (concat (map parse (get_all ''cookie'' headers))) = [v])
   \<and> (csrf_header_from_headers headers = Ok v \<longleftrightarrow> is_fixed_reference v \<and> get_all ''x-csrf-token'' headers = [v])"
proof (intro conjI)
  show "parse_callback_query U raw = Ok q \<longleftrightarrow> is_fixed_reference (pcq_code q) \<and> is_fixed_reference (pcq_state q)
     \<and> (url_form_parse U raw = [(''code'', pcq_code q), (''state'', pcq_state q)]
        \<or> url_form_parse U raw = [(''state'', pcq_state q), (''code'', pcq_code q)])"
    unfolding parse_callback_query_def by (cases q; cases "url_form_parse U raw") (auto simp: scan_query_Ok split: if_splits)
  show "login_context_from_cookie_header parse header = Ok v \<longleftrightarrow> is_fixed_reference v
     \<and> (\<exists>h. header = Some h \<and> list_all is_ok (parse h) \<and> cookie_values PORTAL_LOGIN_CONTEXT_COOKIE_NAME (parse h) = [v])"
    by (cases header) (auto simp: login_context_from_cookie_header_def and_then_Ok_iff ok_or_eq_Ok_iff scan_cookies_Ok split: if_splits)
  show "fixed_reference_cookie_from_headers parse headers name = Ok v \<longleftrightarrow> is_fixed_reference v
     \<and> list_all (list_all header_byte) (get_all ''cookie'' headers)
     \<and> list_all is_ok (concat (map parse (get_all ''cookie'' headers)))
     \<and> cookie_values name (concat (map parse (get_all ''cookie'' headers))) = [v]"
    by (auto simp: fixed_reference_cookie_from_headers_def and_then_Ok_iff ok_or_eq_Ok_iff scan_headers_Ok
        scan_cookies_Ok split: if_splits)
  have "is_fixed_reference v \<Longrightarrow> list_all header_byte v"
    by (auto simp: fixed_reference_iff reference_def list_all_iff b64url_header_byte)
  then show "csrf_header_from_headers headers = Ok v \<longleftrightarrow> is_fixed_reference v \<and> get_all ''x-csrf-token'' headers = [v]"
    by (auto simp: csrf_header_from_headers_def and_then_Ok_iff ok_or_eq_Ok_iff to_str_Some_iff split: list.splits if_splits)
qed



text \<open>
  The check of a post-login path lets a line break through, on which the redirect panics.  The
  program only passes \<open>/\<close> to it, so no request reaches this.
\<close>

lemma accepted_path_may_panic:
  "\<exists>p. validate_post_login_path p = Ok () \<and> redirect_response p = Panicked"
  by (rule exI [of _ "''/'' @ [CHR 0x0A]"])
    (simp add: validate_post_login_path_def starts_with_def PORTAL_POST_LOGIN_PATH_MAX_BYTES_def redirect_response_def
      header_value_def header_value_byte_def)

end
