(* ===== verification/Login_Flow.thy ===== *)
theory Login_Flow
  imports Auth_App Portal_Properties
begin

text \<open>
  The portal backend and the authentication service together: their own copies of the input
  checks agree, the login the portal starts is accepted by the service, and a session of the portal
  is a session of a user the service authenticated.
\<close>

section \<open>The checks of the two programs\<close>

lemma service_id_bytes: "portal_service_id_byte = is_service_id_rest_byte"
  by (simp add: fun_eq_iff portal_service_id_byte_def is_service_id_rest_byte_def)

lemma service_ids_agree: "portal_validate_service_id v = Ok () \<longleftrightarrow> validate_service_id v = Ok ()"
  by (cases v) (auto simp: portal_validate_service_id_def validate_service_id_def service_id_bytes
      is_service_id_rest_byte_def foundation_bounds Let_def)

lemma references_agree: "is_fixed_reference v \<longleftrightarrow> validate_fixed_reference_value v = Ok ()"
  by (auto simp: is_fixed_reference_def validate_fixed_reference_value_Ok b64url_byte_def list_all_iff)

lemma reference_ascii: "validate_fixed_reference_value v = Ok () \<Longrightarrow> is_ascii v \<and> length v = 43"
  by (auto simp: validate_fixed_reference_value_Ok b64url_byte_def is_ascii_def byte_class_defs list_all_iff less_eq_char_def)

lemma challenges_agree:
  assumes "validate_fixed_reference_value v = Ok ()"
  shows "pkce_s256_challenge C v = Ok (sha256_base64url C v)"
  using reference_ascii [OF assms]
  by (simp add: pkce_s256_challenge_Ok_iff sha256_base64url_def portal_sha256_digest_def)

text \<open>
  C25: the checks that the portal and the authentication service each have a copy of are the same:
  service identifiers, references, the S256 challenge of a verifier the portal may draw, and the
  reading of the clock, which fails on both sides exactly before the Unix epoch.
\<close>

theorem checks_agree:
  "(portal_validate_service_id v = Ok () \<longleftrightarrow> validate_service_id v = Ok ())
   \<and> (is_fixed_reference v \<longleftrightarrow> validate_fixed_reference_value v = Ok ())
   \<and> (is_fixed_reference v \<longrightarrow> pkce_s256_challenge C v = Ok (sha256_base64url C v))
   \<and> (unix_epoch_seconds t = Done now \<longleftrightarrow> unix_seconds t = Ok now)
   \<and> (unix_epoch_seconds t = Panicked \<longleftrightarrow> unix_seconds t = Err BeforeUnixEpoch)"
  using challenges_agree by (auto simp: service_ids_agree references_agree unix_epoch_seconds_def unix_seconds_def)

theorem checks_agree_witness:
  "pkce_s256_challenge ref_crypto (sample_reference 0) = Ok (sha256_base64url ref_crypto (sample_reference 0))"
  using checks_agree [of "sample_reference 0" ref_crypto] by (simp add: fixed_reference_iff sample_reference_ok)

section \<open>The link between them\<close>

text \<open>\<open>web::Json<HandoffExchangeRequest>\<close> on the side of the service.\<close>

definition decode_exchange_request :: "json \<Rightarrow> handoff_exchange_request option" where
  "decode_exchange_request j =
     (case struct_fields [''code'', ''code_verifier''] j of
        Some [Some (JStr code), Some (JStr code_verifier)] \<Rightarrow> Some \<lparr>hxr_code = code, hxr_code_verifier = code_verifier\<rparr>
      | _ \<Rightarrow> None)"

definition body_json :: "response \<Rightarrow> json option" where
  "body_json r = (case resp_body r of Json j \<Rightarrow> Some j | _ \<Rightarrow> None)"

text \<open>
  The HTTP connection from the portal to the service: a POST with Basic credentials and a JSON
  body, served by the service's application in its own world.  \<open>rejected\<close> is the framework's
  answer to a request it cannot parse.
\<close>

definition basic_request :: "'c crypto_scheme \<Rightarrow> string \<times> string \<Rightarrow> request" where
  "basic_request C credentials =
     \<lparr>rq_headers = [(''authorization'', basic_auth C (fst credentials) (snd credentials))], rq_cookies = Some []\<rparr>"

definition posted :: "'c crypto_scheme \<Rightarrow> response \<Rightarrow> string \<times> string \<Rightarrow> json \<Rightarrow> incoming" where
  "posted C rejected credentials j = \<lparr>
     in_request = basic_request C credentials,
     in_login = Err rejected, in_callback = Err rejected, in_exchange = ok_or (decode_exchange_request j) rejected,
     in_logout_query = Err rejected, in_logout_form = Err rejected, in_no_route = rejected\<rparr>"

definition auth_link :: "'c crypto_scheme \<Rightarrow> ('s, 'd, 'v) auth_env \<Rightarrow> google_authorization_config \<Rightarrow> google_callback_config
    \<Rightarrow> ('u \<Rightarrow> string) \<Rightarrow> response \<Rightarrow> http_client \<Rightarrow> 'u \<Rightarrow> string \<times> string \<Rightarrow> json \<Rightarrow> ('s, 'd) world
    \<Rightarrow> (nat \<times> json option) option \<times> ('s, 'd) world" where
  "auth_link C A gac gcc path rejected client url credentials j remote =
     (case auth_app C A gac gcc POST (path url) (posted C rejected credentials j) remote of
        (r, remote') \<Rightarrow> (Some (resp_status r, body_json r), remote'))"

lemma exchange_route: "configure_auth_routes POST ''/auth/handoffs/exchange'' = Some RouteExchange"
  by (simp add: configure_auth_routes_def)

lemma decode_portal_request:
  "decode_exchange_request (portal_exchange_request code v) = Some \<lparr>hxr_code = code, hxr_code_verifier = v\<rparr>"
  by (simp add: decode_exchange_request_def portal_exchange_request_def json_field_def)

lemma link_exchange:
  assumes "path url = ''/auth/handoffs/exchange''"
    and "auth_link C A gac gcc path rejected client url credentials (portal_exchange_request code v) a = (x, a')"
  obtains r where "run_handler (exchange_auth_handoff C A (basic_request C credentials)
      \<lparr>hxr_code = code, hxr_code_verifier = v\<rparr>) a = (r, a')" "x = Some (resp_status r, body_json r)"
proof -
  obtain r a1 where run: "run_handler (exchange_auth_handoff C A (basic_request C credentials)
      \<lparr>hxr_code = code, hxr_code_verifier = v\<rparr>) a = (r, a1)" by fastforce
  with assms(2) have "x = Some (resp_status r, body_json r)" "a1 = a'"
    by (simp_all add: auth_link_def auth_app_eq assms(1) exchange_route posted_def decode_portal_request extracted_def
        body_json_def)
  with run that show ?thesis by blast
qed

lemma decode_response_roundtrip: "decode_exchange_response (handoff_exchange_response u a) = Some (u, a)"
  using i32_try_from_sint [of u] u64_try_from_uint [of a]
  by (simp add: decode_exchange_response_def handoff_exchange_response_def json_field_def)

text \<open>The credentials the service reads are the portal's, or none when the header is too long.\<close>

lemma service_id_plain: "validate_service_id sid = Ok () \<Longrightarrow> sid \<noteq> [] \<and> CHR '':'' \<notin> set sid \<and> is_ascii sid"
  by (cases sid) (auto simp: validate_service_id_def is_service_id_rest_byte_def is_ascii_def list_all_iff byte_in_def
      is_ascii_byte_def less_eq_char_def split: if_splits)

lemma posted_credentials:
  assumes "crypto_lib C" "validate_service_id sid = Ok ()" "utf8_valid secret"
  shows "basic_credentials C (basic_request C (sid, secret)) =
    (if length (basic_auth C sid secret) \<le> 8192 then Some (sid, secret) else None)"
proof (cases "length (basic_auth C sid secret) \<le> 8192")
  case True
  have "utf8_valid (sid @ '':'' @ secret)"
    using service_id_plain [OF assms(2)] assms(3) utf8_valid_ascii_append [of "sid @ '':''" secret]
    by (simp add: is_ascii_def is_ascii_byte_def)
  with True service_id_plain [OF assms(2)] show ?thesis
    by (simp add: basic_credentials_basic_auth [OF assms(1), of sid secret] basic_request_def get_all_def)
next
  case False
  then show ?thesis
    by (auto simp: basic_credentials_def basic_request_def get_all_def to_str_Some_iff split: option.splits)
qed

section \<open>A session of the portal\<close>

lemma config_facts:
  assumes "app_config_from_env U env = Ok cfg"
  shows "validate_service_id (ac_service_id cfg) = Ok ()" "url_host U (ac_auth_foundation_base_url cfg) \<noteq> None"
  using assms by (auto simp: app_config_from_env_Ok service_ids_agree http_url_def)

lemma link_sound:
  assumes "redis_server R view" "server_cmds (redis_at A) = R" "postgres_db P committed staged" "pg (postgres_at A) = P"
    and "crypto_lib C" "validate_service_id sid = Ok ()" "utf8_valid secret" "path url = ''/auth/handoffs/exchange''"
    and "auth_link C A gac gcc path rejected client url (sid, secret) (portal_exchange_request code v) a = (Some (200, Some j), a')"
    and "decode_exchange_response j = Some (user, at)"
  obtains svc c2 h g l where
    "services (committed (pg_arrival (postgres_at A) (pool_of a))) sid = Some svc" "row_is_enabled svc"
    "row_service_secret_sha256 svc = sha256 C secret"
    "view (arrival (redis_at A) c2) (handoff_key C code) = Some (RHash h)"
    "view (arrival (redis_at A) c2) (session_key_text l) = Some (RHash g)"
    "exchangeable (r_time R (arrival (redis_at A) c2)) h g sid (sha256_base64url C v) l"
    "sint user = tonumber (g ''internal_user_id'')" "int (unat at) = tonumber (g ''authenticated_at'')"
    "view (server (conn a')) = (view (arrival (redis_at A) c2))(handoff_key C code \<mapsto> RHash (h(''status'' \<mapsto> ''used'')))"
proof -
  from assms(8,9) obtain x where x: "run_handler (exchange_auth_handoff C A (basic_request C (sid, secret))
      \<lparr>hxr_code = code, hxr_code_verifier = v\<rparr>) a = (x, a')" "Some (200, Some j) = Some (resp_status x, body_json x)"
    by (rule link_exchange)
  from x(2) have "resp_status x = 200" by simp
  from assms(1-5) x(1) this show ?thesis
  proof (rule exchange_200)
    fix sid' secret' svc c2 h g l and res :: handoff_exchange_result
    assume e: "basic_credentials C (basic_request C (sid, secret)) = Some (sid', secret')"
      "x = json_response 200 (handoff_exchange_response (her_internal_user_id res) (her_authenticated_at res))"
    assume facts: "services (committed (pg_arrival (postgres_at A) (pool_of a))) sid' = Some svc" "row_is_enabled svc"
      "row_service_secret_sha256 svc = sha256 C secret'"
      "view (arrival (redis_at A) c2) (handoff_key C (hxr_code \<lparr>hxr_code = code, hxr_code_verifier = v\<rparr>)) = Some (RHash h)"
      "view (arrival (redis_at A) c2) (session_key_text l) = Some (RHash g)"
      "exchangeable (r_time R (arrival (redis_at A) c2)) h g sid'
         (b64url_encode C (sha256 C (hxr_code_verifier \<lparr>hxr_code = code, hxr_code_verifier = v\<rparr>))) l"
      "sint (her_internal_user_id res) = tonumber (g ''internal_user_id'')"
      "int (unat (her_authenticated_at res)) = tonumber (g ''authenticated_at'')"
      "view (server (conn a')) = (view (arrival (redis_at A) c2))
         (handoff_key C (hxr_code \<lparr>hxr_code = code, hxr_code_verifier = v\<rparr>) \<mapsto> RHash (h(''status'' \<mapsto> ''used'')))"
    have "sid' = sid" "secret' = secret"
      using e(1) posted_credentials [OF assms(5-7)] by (simp_all split: if_splits)
    moreover have "user = her_internal_user_id res" "at = her_authenticated_at res"
      using x(2) assms(10) by (simp_all add: e(2) body_json_def decode_response_roundtrip)
    ultimately show ?thesis
      using facts by (intro that [of svc c2 h l g]) (simp_all add: sha256_base64url_def portal_sha256_digest_def)
  qed
qed

text \<open>
  C23: portal and authentication service composed.  If the portal's callback is answered 302,
  then the browser that follows it started this login; the portal's own credentials are those of an
  enabled registered service; when the service's script ran, the code in the query was an unused,
  unexpired handoff for the portal whose challenge is the challenge of the verifier the portal drew
  for this very login, tied to a live common session; the handoff is used up; and the portal's new
  session is of the user of that common session, with its authentication time.
\<close>

theorem portal_session_authentic:
  assumes "redis_server R view" "server_cmds (redis_at A) = R" "postgres_db P committed staged" "pg (postgres_at A) = P"
    and "crypto_lib C" "url_lib (pe_urls E) pairs path raw_query" "app_config_from_env (pe_urls E) env = Ok (pe_config E)"
    and "utf8_valid (ac_service_secret (pe_config E))" "pe_post E = auth_link C A gac gcc path rejected"
    and "run_handler (portal_callback C E q cookie_header) w = (Done r, w')" "resp_status r = 302"
  shows "\<exists>query ctx now start svc c2 h g l k csrf now2 s.
      parse_callback_query (pe_urls E) q = Ok query
    \<and> login_context_from_cookie_header (pe_split_parse E) cookie_header = Ok ctx
    \<and> unix_epoch_seconds (pe_clock E (pw_ticks w)) = Done now
    \<and> start_alive now (pe_others E (pw_locks w) (pw_local w)) (pcq_state query) = Some start
    \<and> lst_browser_context_reference start = ctx
    \<and> services (committed (pg_arrival (postgres_at A) (pool_of (pw_remote w)))) (ac_service_id (pe_config E)) = Some svc
    \<and> row_is_enabled svc \<and> row_service_secret_sha256 svc = sha256 C (ac_service_secret (pe_config E))
    \<and> view (arrival (redis_at A) c2) (handoff_key C (pcq_code query)) = Some (RHash h)
    \<and> view (arrival (redis_at A) c2) (session_key_text l) = Some (RHash g)
    \<and> exchangeable (r_time R (arrival (redis_at A) c2)) h g (ac_service_id (pe_config E))
        (sha256_base64url C (lst_code_verifier start)) l
    \<and> view (server (conn (pw_remote w'))) = (view (arrival (redis_at A) c2))
        (handoff_key C (pcq_code query) \<mapsto> RHash (h(''status'' \<mapsto> ''used'')))
    \<and> resp_cookies r = [portal_session_cookie k, portal_csrf_cookie csrf, delete_login_context_cookie]
    \<and> unix_epoch_seconds (pe_clock E (Suc (pw_ticks w))) = Done now2
    \<and> session_alive now2 (pw_local w') k = Some s
    \<and> sint (loc_internal_user_id s) = tonumber (g ''internal_user_id'')
    \<and> int (unat (loc_authenticated_at s)) = tonumber (g ''authenticated_at'')"
proof -
  let ?cfg = "pe_config E" let ?U = "pe_urls E"
  obtain query ctx now start j user at now2 k csrf s where p:
    "parse_callback_query ?U q = Ok query"
    "login_context_from_cookie_header (pe_split_parse E) cookie_header = Ok ctx"
    "unix_epoch_seconds (pe_clock E (pw_ticks w)) = Done now"
    "start_alive now (pe_others E (pw_locks w) (pw_local w)) (pcq_state query) = Some start"
    "lst_browser_context_reference start = ctx"
    "pe_post E (pe_client E) (auth_foundation_endpoint ?U (ac_auth_foundation_base_url ?cfg) ''/auth/handoffs/exchange'')
       (ac_service_id ?cfg, ac_service_secret ?cfg) (portal_exchange_request (pcq_code query) (lst_code_verifier start))
       (pw_remote w) = (Some (200, Some j), pw_remote w')"
    "decode_exchange_response j = Some (user, at)"
    "resp_cookies r = [portal_session_cookie k, portal_csrf_cookie csrf, delete_login_context_cookie]"
    "loc_internal_user_id s = user" "loc_authenticated_at s = at" "session_alive now2 (pw_local w') k = Some s"
    "unix_epoch_seconds (pe_clock E (Suc (pw_ticks w))) = Done now2"
    by (rule local_callback_sound [OF assms(10,11)])
  note cfg = config_facts [OF assms(7)]
  from assms(1-5) cfg(1) assms(8) endpoint_url(2) [OF assms(6) cfg(2) endpoint_paths(2)] p(6) [unfolded assms(9)] p(7)
  show ?thesis by (rule link_sound) (use p(1-5,8-12) in blast)
qed

text \<open>The sample portal, registered as the sample service and linked to the sample service's world.\<close>

definition flow_config :: "simple_url app_config" where
  "flow_config = portal_sample_config\<lparr>ac_service_id := ''service'', ac_service_secret := ''service-secret''\<rparr>"

definition flow_environ :: environ where
  "flow_environ = portal_sample_environ(''PORTAL_SERVICE_ID'' := Present ''service'', ''PORTAL_SERVICE_SECRET'' := Present ''service-secret'')"

definition flow_env :: "(simple_url, (mem, mem_pg_state) world) portal_env" where
  "flow_env = \<lparr>pe_config = flow_config, pe_client = build_http_client, pe_urls = simple_urls,
     pe_rng = sample_draw, pe_clock = (\<lambda>_. 150000000000), pe_timestamp = (\<lambda>_. ''2026-01-01T00:00:00+00:00''),
     pe_split_parse = sample_split_parse, pe_others = (\<lambda>_ st. st),
     pe_post = auth_link ref_crypto sample_auth_env authorization_config_fixture callback_config_fixture su_path (finish 400)\<rparr>"

definition flow_handoff :: authentication_handoff where
  "flow_handoff = sample_handoff\<lparr>hnd_code_challenge := sha256_base64url ref_crypto (sample_reference 2)\<rparr>"

definition flow_remote :: "(mem, mem_pg_state) world" where
  "flow_remote = sample_world [
     handoff_key ref_crypto (sample_reference 9) \<mapsto> MHash (encode_handoff flow_handoff),
     session_key ref_crypto sample_session_reference \<mapsto> MHash (encode_session session_fixture)]"

definition flow_world :: "(mem, mem_pg_state) world portal_world" where
  "flow_world = \<lparr>pw_local = sample_local, pw_draws = 5, pw_ticks = 0, pw_locks = 0, pw_remote = flow_remote\<rparr>"

lemma flow_config_from_env: "app_config_from_env simple_urls flow_environ = Ok flow_config"
  using portal_sample_from_env
  by (simp add: app_config_from_env_Ok flow_environ_def flow_config_def portal_validate_service_id_def
      portal_service_id_byte_def byte_in_def)

lemma flow_env_simps [simp]:
  "pe_urls flow_env = simple_urls" "pe_rng flow_env = sample_draw" "pe_config flow_env = flow_config"
  "unix_epoch_seconds (pe_clock flow_env n) = Done 150" "pe_split_parse flow_env = sample_split_parse"
  "pe_others flow_env n st = st"
  by (simp_all add: flow_env_def unix_epoch_seconds_def)

lemma flow_credentials:
  "basic_credentials ref_crypto (basic_request ref_crypto (''service'', ''service-secret'')) = Some (''service'', ''service-secret'')"
  using fixture_credentials by (simp add: basic_credentials_def exchange_request_fixture_def basic_request_def)

lemma sample_reference_valid: "validate_fixed_reference_value (sample_reference n) = Ok ()"
  using sample_reference_ok fixed_reference_iff references_agree by blast

lemma flow_remote_facts:
  shows "mem_view (server (conn flow_remote)) (handoff_key ref_crypto (sample_reference 9)) =
      Some (RHash (map_of (encode_handoff flow_handoff)))"
    "mem_view (server (conn flow_remote)) (session_key_text (hnd_common_session_lookup flow_handoff)) =
      Some (RHash (map_of (encode_session session_fixture)))"
    "exchangeable 150 (map_of (encode_handoff flow_handoff)) (map_of (encode_session session_fixture))
      ''service'' (sha256_base64url ref_crypto (sample_reference 2)) (hnd_common_session_lookup flow_handoff)"
  by (simp_all add: flow_remote_def sample_world_view handoff_codec.encode_not_Nil session_codec.encode_not_Nil
      flow_handoff_def sample_handoff_def session_key_eq_text [symmetric] exchangeable_encoded handoff_live_encoded session_live_encoded
      reference_value_lookup_is_lookup reference.crypto_lib_axioms session_fixture_def lua_uint_max_def)

lemma flow_remote_simps:
  "trips (conn flow_remote) = 0" "pool_of flow_remote = sample_pool" "r_time mem_redis (server (conn flow_remote)) = 150"
  by (simp_all add: flow_remote_def)

lemma flow_exchange:
  "\<exists>w'. run_handler (exchange_auth_handoff ref_crypto sample_auth_env (basic_request ref_crypto (''service'', ''service-secret''))
      \<lparr>hxr_code = sample_reference 9, hxr_code_verifier = sample_reference 2\<rparr>)
      flow_remote = (json_response 200 (handoff_exchange_response 42 101), w')"
proof -
  have "\<exists>w'. run_handler (exchange_auth_handoff ref_crypto sample_auth_env (basic_request ref_crypto (''service'', ''service-secret''))
      \<lparr>hxr_code = sample_reference 9, hxr_code_verifier = sample_reference 2\<rparr>)
      flow_remote = (json_response 200 (handoff_exchange_response (ses_internal_user_id session_fixture)
        (ses_authenticated_at session_fixture)), w')"
    by (rule exchange_complete [where R = mem_redis and view = mem_view and P = mem_pg and committed = pg_tables
          and staged = pg_staged and sid = "''service''" and secret = "''service-secret''" and h = flow_handoff
          and svc = sample_service and challenge = "sha256_base64url ref_crypto (sample_reference 2)"])
      (simp_all add: flow_remote_facts flow_credentials mem_server.redis_server_axioms sample_reference_valid challenges_agree
        mem_db.postgres_db_axioms reference.crypto_lib_axioms flow_remote_simps,
       simp_all add: sample_service_def validate_service_id_def is_service_id_rest_byte_def byte_in_def foundation_bounds)
  then show ?thesis by (simp add: session_fixture_def)
qed

lemma flow_link:
  "\<exists>a'. auth_link ref_crypto sample_auth_env authorization_config_fixture callback_config_fixture su_path (finish 400)
      build_http_client (auth_foundation_endpoint simple_urls (ac_auth_foundation_base_url flow_config) ''/auth/handoffs/exchange'')
      (''service'', ''service-secret'') (portal_exchange_request (sample_reference 9) (sample_reference 2)) flow_remote =
    (Some (200, Some (handoff_exchange_response 42 101)), a')"
proof -
  have host: "url_host simple_urls (ac_auth_foundation_base_url flow_config) \<noteq> None"
    using config_facts(2) [OF flow_config_from_env] .
  have url: "su_path (auth_foundation_endpoint simple_urls (ac_auth_foundation_base_url flow_config) ''/auth/handoffs/exchange'') =
      ''/auth/handoffs/exchange''"
    by (rule endpoint_url(2) [OF simple.url_lib_axioms host endpoint_paths(2)])
  show ?thesis
  proof (cases "auth_link ref_crypto sample_auth_env authorization_config_fixture callback_config_fixture su_path (finish 400)
      build_http_client (auth_foundation_endpoint simple_urls (ac_auth_foundation_base_url flow_config) ''/auth/handoffs/exchange'')
      (''service'', ''service-secret'') (portal_exchange_request (sample_reference 9) (sample_reference 2)) flow_remote")
    case (Pair x a')
    from url Pair show ?thesis
      by (rule link_exchange) (use flow_exchange Pair in \<open>auto simp: body_json_def\<close>)
  qed
qed

lemma flow_run:
  "\<exists>r w'. run_handler (portal_callback ref_crypto flow_env sample_raw_query (Some sample_context_header)) flow_world =
     (Done r, w') \<and> resp_status r = 302"
proof -
  let ?st = "sample_local\<lparr>login_starts := []\<rparr>"
  obtain st n where session: "create_local_session ref_crypto sample_draw 42 101 150 (?st, 5) =
     (Done (Ok (sample_reference 5, sample_reference 6)), st, n)" using sample_session_created by blast
  have claim: "claim_login_start (sample_reference 0) (sample_reference 1) 150 sample_local = (Ok sample_start, ?st)"
    by (simp add: claim_login_start_def sample_local_def sample_start_def)
  obtain a' where link: "auth_link ref_crypto sample_auth_env authorization_config_fixture callback_config_fixture su_path (finish 400)
      build_http_client (auth_foundation_endpoint simple_urls (ac_auth_foundation_base_url flow_config) ''/auth/handoffs/exchange'')
      (''service'', ''service-secret'') (portal_exchange_request (sample_reference 9) (sample_reference 2)) flow_remote =
    (Some (200, Some (handoff_exchange_response 42 101)), a')" using flow_link by blast
  have exchange: "exchange_code flow_env (sample_reference 9) (sample_reference 2) w = (Inr (42, 101), w\<lparr>pw_remote := a'\<rparr>)"
    if "pw_remote w = flow_remote" for w
    by (simp add: exchange_code_def Let_def flow_env_def that link decode_response_roundtrip)
      (simp add: flow_config_def link [unfolded flow_config_def, simplified] decode_response_roundtrip)
  have headers: "header_value (sample_reference i)" "header_value ''/''" "header_value ''''" for i
    by (simp_all add: reference_header sample_reference_ok) (simp_all add: header_value_def header_value_byte_def)
  show ?thesis
    by (simp add: run_handler_def portal_callback_def open_session_def sample_parsed portal_now_def perform_def lock_def
        on_local_def claim [simplified] exchange hbind_def drawing_def session flow_world_def redirect_response_def append_cookie_def
        portal_session_cookie_def portal_csrf_cookie_def delete_login_context_cookie_def headers respond_def sample_start_def)
qed

theorem portal_session_authentic_witness:
  "\<exists>r w' k s h. run_handler (portal_callback ref_crypto flow_env sample_raw_query (Some sample_context_header)) flow_world =
      (Done r, w')
    \<and> session_alive 150 (pw_local w') k = Some s
    \<and> mem_view (server (conn (pw_remote w'))) (handoff_key ref_crypto (sample_reference 9)) = Some (RHash h)
    \<and> h ''status'' = Some ''used''"
proof -
  obtain r w' where run: "run_handler (portal_callback ref_crypto flow_env sample_raw_query (Some sample_context_header)) flow_world =
      (Done r, w')" "resp_status r = 302" using flow_run by blast
  have hyps: "url_lib (pe_urls flow_env) su_query su_path (\<lambda>u. show_query (su_query u))"
    "app_config_from_env (pe_urls flow_env) flow_environ = Ok (pe_config flow_env)"
    "utf8_valid (ac_service_secret (pe_config flow_env))"
    "pe_post flow_env = auth_link ref_crypto sample_auth_env authorization_config_fixture callback_config_fixture su_path (finish 400)"
    using simple.url_lib_axioms flow_config_from_env
    by (simp_all add: flow_config_def is_ascii_byte_def) (simp_all add: flow_env_def)
  show ?thesis
    using portal_session_authentic [OF mem_server.redis_server_axioms _ mem_db.postgres_db_axioms _ reference.crypto_lib_axioms
        hyps run] run(1)
    by (simp add: sample_parsed) (elim exE conjE, fastforce)
qed

section \<open>The login the portal starts\<close>

text \<open>\<open>web::Query<LoginQuery>\<close> on the side of the service: each field exactly once.\<close>

definition single_value :: "string \<Rightarrow> (string \<times> string) list \<Rightarrow> string option" where
  "single_value name ps = (case filter (\<lambda>(k, v). k = name) ps of [(k, v)] \<Rightarrow> Some v | _ \<Rightarrow> None)"

definition decode_login_query :: "(string \<times> string) list \<Rightarrow> login_query option" where
  "decode_login_query ps =
     (case (single_value ''service_id'' ps, single_value ''state'' ps, single_value ''code_challenge'' ps,
            single_value ''code_challenge_method'' ps) of
        (Some service_id, Some state, Some code_challenge, Some code_challenge_method) \<Rightarrow>
          Some \<lparr>lq_service_id = service_id, lq_state = state, lq_code_challenge = code_challenge,
            lq_code_challenge_method = code_challenge_method\<rparr>
      | _ \<Rightarrow> None)"

text \<open>Once its input is well formed, login never answers 400.\<close>

lemma login_valid_served:
  assumes "login_input_is_valid query"
  shows "answers {302, 403, 503} (login C E cfg request query)"
proof -
  have ensured: "ensure (login_input_is_valid query) m = proceed ()" for m :: "('x, 'y, unit) fallible"
    by (rule ext) (simp add: assms)
  have google: "answers {302, 403, 503} (start_google_login C E cfg query now)" for now
    by (rule answers_mono [OF start_google_answers]) auto
  show ?thesis
    unfolding login_def login_session_def Let_def ensured by (intro google answer_intros status_intros; simp)
qed

lemma drawn_valid:
  assumes "crypto_lib C" "draws_ok f" "random_reference C (f m) = Some v"
  shows "validate_fixed_reference_value v = Ok ()"
  using random_reference_ok [OF assms] fixed_reference_iff references_agree by blast

lemma challenge_valid: "crypto_lib C \<Longrightarrow> validate_fixed_reference_value (sha256_base64url C v) = Ok ()"
  using generated_reference_valid [of C "sha256 C v"] crypto_lib.sha256_length [of C v]
  by (simp add: sha256_base64url_def portal_sha256_digest_def)

text \<open>
  C24: a portal login answered 302 sends the browser to the login route of the authentication
  service with a query that the service parses as the portal's identifier, a fresh state and the
  challenge of the verifier the portal keeps, and that the service accepts: its login is never
  answered 400, whatever the browser's session, the stores and the network are.
\<close>

theorem portal_login_accepted:
  fixes A :: "('s, 'd, 'v) auth_env"
  assumes "crypto_lib C" "url_lib (pe_urls E) pairs path raw_query" "draws_ok (pe_rng E)"
    and "app_config_from_env (pe_urls E) env = Ok (pe_config E)"
    and "run_handler (portal_login C E) w = (Done r, w')" "resp_status r = 302"
  shows "\<exists>url query state start. location r = Some (url_to_string (pe_urls E) url)
    \<and> configure_auth_routes GET (path url) = Some RouteLogin
    \<and> decode_login_query (pairs url) = Some query
    \<and> map_of (login_starts (pw_local w')) state = Some start
    \<and> query = \<lparr>lq_service_id = ac_service_id (pe_config E), lq_state = state,
        lq_code_challenge = sha256_base64url C (lst_code_verifier start), lq_code_challenge_method = ''S256''\<rparr>
    \<and> login_input_is_valid query
    \<and> (\<forall>cfg request a. resp_status (fst (run_handler (login C A cfg request query) a)) \<in> {302, 403, 503})"
proof -
  note cfg = config_facts [OF assms(4)]
  from assms(2) cfg(2) assms(5,6) show ?thesis
  proof (rule portal_login_302)
    fix now state start url
    assume l: "pw_local w' = put_start state start (cleanup_expired now (pe_others E (pw_locks w) (pw_local w)))"
      "location r = Some (url_to_string (pe_urls E) url)" "path url = ''/auth/login''"
      "pairs url = [(''service_id'', ac_service_id (pe_config E)), (''state'', state),
        (''code_challenge'', sha256_base64url C (lst_code_verifier start)), (''code_challenge_method'', ''S256'')]"
      "\<exists>m. random_reference C (pe_rng E m) = Some state"
    let ?q = "\<lparr>lq_service_id = ac_service_id (pe_config E), lq_state = state,
        lq_code_challenge = sha256_base64url C (lst_code_verifier start), lq_code_challenge_method = ''S256''\<rparr>"
    have "validate_fixed_reference_value state = Ok ()" using l(5) drawn_valid [OF assms(1,3)] by blast
    then have valid: "login_input_is_valid ?q"
      using cfg(1) challenge_valid [OF assms(1)] reference_ascii [of state]
      by (cases state) (auto simp: login_input_is_valid_def validate_max_bytes_def foundation_bounds)
    moreover have "decode_login_query (pairs url) = Some ?q" by (simp add: l(4) decode_login_query_def single_value_def)
    moreover have "resp_status (fst (run_handler (login C A cfg request ?q) a)) \<in> {302, 403, 503}" for cfg request a
      using login_valid_served [OF valid, of C A cfg request] unfolding answers_in_def by (metis prod.collapse)
    moreover have "map_of (login_starts (pw_local w')) state = Some start" by (simp add: l(1))
    moreover have "configure_auth_routes GET (path url) = Some RouteLogin" by (simp add: l(3) configure_auth_routes_def)
    ultimately show ?thesis using l(2) by blast
  qed
qed

lemma flow_login_run:
  "\<exists>r w'. run_handler (portal_login ref_crypto flow_env) (flow_world\<lparr>pw_local := new_local_state 2 2\<rparr>) = (Done r, w')
    \<and> resp_status r = 302"
proof -
  obtain c st n where
    create: "create_login_start ref_crypto sample_draw ''/'' 150 (new_local_state 2 2, 5) = (Done (Ok c), st, n)"
      "cls_browser_context_reference c = sample_reference 6"
    using sample_start_created by blast
  then show ?thesis
    by (simp add: run_handler_def portal_login_def Let_def portal_now_def perform_def lock_def drawing_def hbind_def
        flow_world_def create redirect_response_def simple.to_string_header append_cookie_def login_context_cookie_def
        reference_header sample_reference_ok respond_def)
qed

theorem portal_login_accepted_witness:
  "\<exists>r w' query. run_handler (portal_login ref_crypto flow_env) (flow_world\<lparr>pw_local := new_local_state 2 2\<rparr>) = (Done r, w')
    \<and> login_input_is_valid query \<and> lq_service_id query = ''service''
    \<and> resp_status (fst (run_handler (login ref_crypto sample_auth_env authorization_config_fixture logout_request_fixture query)
         login_world)) \<noteq> 400"
proof -
  obtain r w' where run: "run_handler (portal_login ref_crypto flow_env) (flow_world\<lparr>pw_local := new_local_state 2 2\<rparr>) = (Done r, w')"
    "resp_status r = 302" using flow_login_run by blast
  have lib: "url_lib (pe_urls flow_env) su_query su_path (\<lambda>u. show_query (su_query u))" using simple.url_lib_axioms by simp
  have cfg: "app_config_from_env (pe_urls flow_env) flow_environ = Ok (pe_config flow_env)" using flow_config_from_env by simp
  have draws: "draws_ok (pe_rng flow_env)" by simp
  obtain query state and start :: login_start where query: "query = \<lparr>lq_service_id = ac_service_id (pe_config flow_env), lq_state = state,
      lq_code_challenge = sha256_base64url ref_crypto (lst_code_verifier start), lq_code_challenge_method = ''S256''\<rparr>"
    "login_input_is_valid query"
    "\<forall>cfg request a. resp_status (fst (run_handler (login ref_crypto sample_auth_env cfg request query) a)) \<in> {302, 403, 503}"
    using portal_login_accepted [OF reference.crypto_lib_axioms lib draws cfg run, of sample_auth_env]
    by - (elim exE conjE, rule that)
  have "lq_service_id query = ''service''" by (simp add: query(1) flow_config_def)
  moreover have "resp_status (fst (run_handler (login ref_crypto sample_auth_env authorization_config_fixture logout_request_fixture query)
      login_world)) \<noteq> 400"
    using query(3) [THEN spec, THEN spec, THEN spec, of authorization_config_fixture logout_request_fixture login_world] by auto
  ultimately show ?thesis using run(1) query(2) by blast
qed

end
