(* ===== verification/System_Flow.thy ===== *)
theory System_Flow
  imports Auth_Flow Login_Flow
begin

text \<open>
  The two programs run together from the first request to the last: a browser that opens the
  portal's login is sent to the authentication service, through Google and back, and ends with a
  portal session of its user.  The locale \<open>calm_portal\<close> says what "nothing goes wrong" means for
  the portal, as \<open>calm_service\<close> does for the service.
\<close>

section \<open>A calm portal\<close>

definition portal_ref :: "'c crypto_scheme \<Rightarrow> ('u, 'r) portal_env \<Rightarrow> nat \<Rightarrow> string" where
  "portal_ref C E n = b64url_encode C (the (pe_rng E n))"

text \<open>The login start and the session that the portal makes from the draws after the \<open>n\<close>-th.\<close>

definition portal_start_of :: "'c crypto_scheme \<Rightarrow> ('u, 'r) portal_env \<Rightarrow> nat \<Rightarrow> u64 \<Rightarrow> login_start" where
  "portal_start_of C E n now = \<lparr>lst_browser_context_reference = portal_ref C E (Suc n),
     lst_code_verifier = portal_ref C E (Suc (Suc n)), lst_post_login_path = ''/'', lst_created_at = now,
     lst_expires_at = now + LOGIN_START_TTL_SECONDS\<rparr>"

definition portal_session_of :: "'c crypto_scheme \<Rightarrow> ('u, 'r) portal_env \<Rightarrow> nat \<Rightarrow> i32 \<Rightarrow> u64 \<Rightarrow> u64 \<Rightarrow> local_session" where
  "portal_session_of C E n u authenticated now = \<lparr>loc_internal_user_id = u, loc_authenticated_at = authenticated,
     loc_created_at = now, loc_expires_at = now + LOCAL_SESSION_TTL_SECONDS,
     loc_csrf_lookup = sha256 C (portal_ref C E (Suc n))\<rparr>"

definition portal_login_query :: "'c crypto_scheme \<Rightarrow> ('u, 'r) portal_env \<Rightarrow> nat \<Rightarrow> login_query" where
  "portal_login_query C E n = \<lparr>lq_service_id = ac_service_id (pe_config E), lq_state = portal_ref C E n,
     lq_code_challenge = sha256_base64url C (portal_ref C E (Suc (Suc n))), lq_code_challenge_method = ''S256''\<rparr>"

lemma portal_login_query_simps [simp]:
  "lq_service_id (portal_login_query C E n) = ac_service_id (pe_config E)"
  "lq_state (portal_login_query C E n) = portal_ref C E n"
  "lq_code_challenge (portal_login_query C E n) = sha256_base64url C (portal_ref C E (Suc (Suc n)))"
  by (simp_all add: portal_login_query_def)

text \<open>The portal can take one more login and one more session, and its next draws are not taken.\<close>

definition portal_has_room :: "'c crypto_scheme \<Rightarrow> ('u, 'r) portal_env \<Rightarrow> u64 \<Rightarrow> 'r portal_world \<Rightarrow> bool" where
  "portal_has_room C E now w \<longleftrightarrow> (let st = cleanup_expired now (pw_local w) in
     length (login_starts st) < unat (login_start_capacity st) \<and> length (local_sessions st) < unat (local_session_capacity st)
     \<and> map_of (login_starts st) (portal_ref C E (pw_draws w)) = None
     \<and> map_of (local_sessions st) (portal_ref C E (Suc (Suc (Suc (pw_draws w))))) = None)"

locale calm_portal = url_lib "pe_urls E" pairs path raw_query + crypto_lib C
  for E :: "('u, 'r) portal_env" and pairs path raw_query and C :: "'c crypto_scheme" +
  fixes now :: u64
  assumes nobody_else: "pe_others E n st = st"
    and portal_clock: "unix_epoch_seconds (pe_clock E n) = Done now"
    and portal_draws: "\<exists>bs. pe_rng E n = Some bs \<and> length bs = 32"
    and service_host: "url_host (pe_urls E) (ac_auth_foundation_base_url (pe_config E)) \<noteq> None"
    and service_identifier: "validate_service_id (ac_service_id (pe_config E)) = Ok ()"
    and portal_now_bound: "unat now + 28800 < 2 ^ 64"
begin

lemma random_drawn: "random_reference C (pe_rng E n) = Some (portal_ref C E n)"
  using portal_draws [of n] by (auto simp: random_reference_def portal_ref_def)

lemma drawn_valid_ref: "validate_fixed_reference_value (portal_ref C E n) = Ok ()"
  using portal_draws [of n] generated_reference_valid [OF crypto_lib_axioms] by (auto simp: portal_ref_def)

lemma drawn_header: "header_value (portal_ref C E n)"
  using drawn_valid_ref [of n] references_agree fixed_reference_iff reference_header by blast

lemma fresh_drawn:
  "map_of table (portal_ref C E n) = None \<Longrightarrow> fresh_reference C (pe_rng E) table n = Some (Some (portal_ref C E n), Suc n)"
  by (subst fresh_reference_step(2)) (auto simp: taken_def random_drawn)

lemma portal_expiry:
  assumes "unat ttl \<le> 28800"
  shows "checked_add now ttl = Some (now + ttl)" "unat (now + ttl) = unat now + unat ttl"
proof -
  have "unat now + unat ttl < 2 ^ 64" using assms portal_now_bound by simp
  then show "unat (now + ttl) = unat now + unat ttl" "checked_add now ttl = Some (now + ttl)"
    by (simp_all add: unat_word_ariths checked_add_def)
qed

lemma portal_ttls: "unat LOGIN_START_TTL_SECONDS = 600" "unat LOCAL_SESSION_TTL_SECONDS = 28800"
  by (simp_all add: LOGIN_START_TTL_SECONDS_def LOCAL_SESSION_TTL_SECONDS_def)

lemma portal_expiries:
  "checked_add now LOGIN_START_TTL_SECONDS = Some (now + LOGIN_START_TTL_SECONDS)" "now < now + LOGIN_START_TTL_SECONDS"
  "checked_add now LOCAL_SESSION_TTL_SECONDS = Some (now + LOCAL_SESSION_TTL_SECONDS)" "now < now + LOCAL_SESSION_TTL_SECONDS"
  using portal_expiry [of LOGIN_START_TTL_SECONDS] portal_expiry [of LOCAL_SESSION_TTL_SECONDS]
  by (simp_all add: portal_ttls word_less_nat_alt)

lemmas calm_portal_simps = run_handler_def hbind_def Let_def portal_now_def perform_def lock_def on_local_def drawing_def
  respond_def nobody_else portal_clock redirect_response_def append_cookie_def drawn_header

lemma portal_query_valid: "login_input_is_valid (portal_login_query C E n)"
  using service_identifier challenge_valid [OF crypto_lib_axioms] drawn_valid_ref [of n] reference_ascii [of "portal_ref C E n"]
  by (cases "portal_ref C E n") (auto simp: login_input_is_valid_def portal_login_query_def validate_max_bytes_def foundation_bounds)

lemma portal_state_utf8: "utf8_valid (portal_ref C E n)"
  using reference_ascii [OF drawn_valid_ref] is_ascii_utf8_valid by blast

lemma portal_login_completes:
  assumes "length (login_starts (cleanup_expired now (pw_local w))) < unat (login_start_capacity (pw_local w))"
    and "map_of (login_starts (cleanup_expired now (pw_local w))) (portal_ref C E (pw_draws w)) = None"
  obtains r w' url where "run_handler (portal_login C E) w = (Done r, w')" "resp_status r = 302"
    "location r = Some (url_to_string (pe_urls E) url)" "decode_login_query (pairs url) = Some (portal_login_query C E (pw_draws w))"
    "configure_auth_routes GET (path url) = Some RouteLogin"
    "resp_cookies r = [login_context_cookie (portal_ref C E (Suc (pw_draws w)))]"
    "pw_local w' = put_start (portal_ref C E (pw_draws w)) (portal_start_of C E (pw_draws w) now) (cleanup_expired now (pw_local w))"
    "pw_draws w' = Suc (Suc (Suc (pw_draws w)))" "pw_remote w' = pw_remote w"
proof -
  let ?q = "portal_login_query C E (pw_draws w)"
  let ?url = "url_append_pairs (pe_urls E) [(''service_id'', ac_service_id (pe_config E)), (''state'', portal_ref C E (pw_draws w)),
       (''code_challenge'', lq_code_challenge ?q), (''code_challenge_method'', ''S256'')]
     (auth_foundation_endpoint (pe_urls E) (ac_auth_foundation_base_url (pe_config E)) ''/auth/login'')"
  let ?st = "put_start (portal_ref C E (pw_draws w)) (portal_start_of C E (pw_draws w) now) (cleanup_expired now (pw_local w))"
  have create: "create_login_start C (pe_rng E) ''/'' now (pw_local w, pw_draws w) =
     (Done (Ok \<lparr>cls_state = portal_ref C E (pw_draws w), cls_browser_context_reference = portal_ref C E (Suc (pw_draws w)),
        cls_code_challenge = lq_code_challenge ?q\<rparr>), ?st, Suc (Suc (Suc (pw_draws w))))"
    using assms by (simp add: create_login_start_def validate_post_login_path_def PORTAL_POST_LOGIN_PATH_MAX_BYTES_def
        starts_with_def Let_def fresh_drawn random_drawn portal_expiries put_start_def portal_start_of_def)
  have run: "run_handler (portal_login C E) w = (Done (with_cookie (login_context_cookie (portal_ref C E (Suc (pw_draws w))))
      (with_header ''location'' (url_to_string (pe_urls E) ?url) (empty_response 302))),
    w\<lparr>pw_ticks := Suc (pw_ticks w), pw_locks := Suc (pw_locks w), pw_local := ?st, pw_draws := Suc (Suc (Suc (pw_draws w)))\<rparr>)"
    by (simp add: portal_login_def calm_portal_simps create to_string_header login_context_cookie_def)
  have "pairs ?url = [(''service_id'', ac_service_id (pe_config E)), (''state'', portal_ref C E (pw_draws w)),
       (''code_challenge'', lq_code_challenge ?q), (''code_challenge_method'', ''S256'')]"
    using endpoint_url(1) [OF url_lib_axioms service_host endpoint_paths(1)] by (simp add: append_pairs)
  then have query: "decode_login_query (pairs ?url) = Some ?q"
    by (simp add: decode_login_query_def single_value_def portal_login_query_def)
  have route: "configure_auth_routes GET (path ?url) = Some RouteLogin"
    using endpoint_url(2) [OF url_lib_axioms service_host endpoint_paths(1)] by (simp add: append_path configure_auth_routes_def)
  show ?thesis by (rule that [OF run _ _ query route]) (simp_all add: location_def)
qed

lemma portal_callback_completes:
  assumes "url_form_parse (pe_urls E) raw = [(''code'', hc), (''state'', st)]"
    and "validate_fixed_reference_value hc = Ok ()" "validate_fixed_reference_value st = Ok ()"
    and "start_alive now (pw_local w) st = Some start" "header_value (lst_post_login_path start)"
    and "login_context_from_cookie_header (pe_split_parse E) (Some header) = Ok (lst_browser_context_reference start)"
    and "pe_post E (pe_client E) (auth_foundation_endpoint (pe_urls E) (ac_auth_foundation_base_url (pe_config E)) ''/auth/handoffs/exchange'')
        (ac_service_id (pe_config E), ac_service_secret (pe_config E)) (portal_exchange_request hc (lst_code_verifier start))
        (pw_remote w) = (Some (200, Some (handoff_exchange_response u authenticated)), a')"
    and "length (local_sessions (cleanup_expired now (pw_local w))) < unat (local_session_capacity (pw_local w))"
    and "map_of (local_sessions (cleanup_expired now (pw_local w))) (portal_ref C E (pw_draws w)) = None"
  obtains r w' where "run_handler (portal_callback C E raw (Some header)) w = (Done r, w')" "resp_status r = 302"
    "location r = Some (lst_post_login_path start)"
    "resp_cookies r = [portal_session_cookie (portal_ref C E (pw_draws w)), portal_csrf_cookie (portal_ref C E (Suc (pw_draws w))),
       delete_login_context_cookie]"
    "pw_local w' = put_session (portal_ref C E (pw_draws w)) (portal_session_of C E (pw_draws w) u authenticated now)
       (cleanup_expired now (drop_start st (pw_local w)))" "pw_remote w' = a'"
proof -
  let ?k = "portal_ref C E (pw_draws w)" let ?csrf = "portal_ref C E (Suc (pw_draws w))"
  let ?st = "put_session ?k (portal_session_of C E (pw_draws w) u authenticated now) (cleanup_expired now (drop_start st (pw_local w)))"
  have parsed: "parse_callback_query (pe_urls E) raw = Ok \<lparr>pcq_code = hc, pcq_state = st\<rparr>"
    using assms(1-3) by (simp add: parse_callback_query_def references_agree)
  have claim: "claim_login_start st (lst_browser_context_reference start) now (pw_local w) = (Ok start, drop_start st (pw_local w))"
    using assms(4) by (simp add: claim_login_start_Ok)
  have session: "create_local_session C (pe_rng E) u authenticated now (drop_start st (pw_local w), pw_draws w) =
      (Done (Ok (?k, ?csrf)), ?st, Suc (Suc (pw_draws w)))"
    using assms(8,9) by (simp add: create_local_session_def Let_def cleanup_expired_def drop_start_def fresh_drawn random_drawn
        portal_expiries put_session_def portal_session_of_def portal_sha256_digest_def)
  have exchange: "exchange_code E hc (lst_code_verifier start) v = (Inr (u, authenticated), v\<lparr>pw_remote := a'\<rparr>)"
    if "pw_remote v = pw_remote w" for v
    by (simp add: exchange_code_def Let_def assms(7) that decode_response_roundtrip)
  have run: "run_handler (portal_callback C E raw (Some header)) w = (Done (with_cookie delete_login_context_cookie
      (with_cookie (portal_csrf_cookie ?csrf) (with_cookie (portal_session_cookie ?k) (with_header ''location'' (lst_post_login_path start)
        (empty_response 302))))),
    w\<lparr>pw_ticks := Suc (Suc (pw_ticks w)), pw_locks := Suc (Suc (pw_locks w)), pw_local := ?st, pw_draws := Suc (Suc (pw_draws w)),
      pw_remote := a'\<rparr>)"
    by (simp add: portal_callback_def open_session_def calm_portal_simps parsed assms(5,6) claim exchange session
        portal_session_cookie_def portal_csrf_cookie_def delete_login_context_cookie_def)
      (simp add: header_value_def)
  show ?thesis by (rule that [OF run]) (simp_all add: location_def)
qed

lemma get_me_completes:
  assumes "fixed_reference_cookie_from_headers (pe_split_parse E) headers PORTAL_SESSION_COOKIE_NAME = Ok k"
    and "session_alive now (pw_local w) k = Some s"
  shows "\<exists>w'. run_handler (get_me E headers) w = (Done (json_response 200 (me_response (loc_internal_user_id s))), w')"
proof (cases "get_local_session k now (pw_local w)")
  case (Pair res st)
  then show ?thesis
    using get_local_session_eq [OF Pair] assms by (simp add: get_me_def calm_portal_simps)
qed

lemma portal_return_completes:
  assumes "portal_has_room C E now w"
    and "pw_local w1 = put_start (portal_ref C E (pw_draws w)) (portal_start_of C E (pw_draws w) now) (cleanup_expired now (pw_local w))"
    and "pw_draws w1 = Suc (Suc (Suc (pw_draws w)))"
    and "pairs target = [(''code'', hc), (''state'', portal_ref C E (pw_draws w))]" "validate_fixed_reference_value hc = Ok ()"
    and "login_context_from_cookie_header (pe_split_parse E) (Some header) = Ok (portal_ref C E (Suc (pw_draws w)))"
    and "pe_post E (pe_client E) (auth_foundation_endpoint (pe_urls E) (ac_auth_foundation_base_url (pe_config E)) ''/auth/handoffs/exchange'')
        (ac_service_id (pe_config E), ac_service_secret (pe_config E))
        (portal_exchange_request hc (portal_ref C E (Suc (Suc (pw_draws w))))) (pw_remote w1) =
      (Some (200, Some (handoff_exchange_response u authenticated)), a')"
    and "fixed_reference_cookie_from_headers (pe_split_parse E) headers PORTAL_SESSION_COOKIE_NAME = Ok (portal_ref C E (pw_draws w1))"
  obtains r w2 w3 csrf where "run_handler (portal_callback C E (raw_query target) (Some header)) w1 = (Done r, w2)"
    "location r = Some ''/''"
    "resp_cookies r = [portal_session_cookie (portal_ref C E (pw_draws w1)), portal_csrf_cookie csrf, delete_login_context_cookie]"
    "run_handler (get_me E headers) w2 = (Done (json_response 200 (me_response u)), w3)"
proof -
  let ?start = "portal_start_of C E (pw_draws w) now"
  have start: "start_alive now (pw_local w1) (portal_ref C E (pw_draws w)) = Some ?start"
    by (simp add: assms(2) starts.alive_store portal_start_of_def portal_expiries)
  have sessions: "local_sessions (cleanup_expired now (pw_local w1)) = local_sessions (cleanup_expired now (pw_local w))"
    "local_session_capacity (pw_local w1) = local_session_capacity (pw_local w)"
    by (simp_all add: assms(2) cleanup_expired_def put_start_def)
  have form: "url_form_parse (pe_urls E) (raw_query target) = [(''code'', hc), (''state'', portal_ref C E (pw_draws w))]"
    by (simp add: form_parse assms(4))
  have fields: "header_value (lst_post_login_path ?start)" "lst_browser_context_reference ?start = portal_ref C E (Suc (pw_draws w))"
    "lst_code_verifier ?start = portal_ref C E (Suc (Suc (pw_draws w)))" "lst_post_login_path ?start = ''/''"
    by (simp_all add: portal_start_of_def header_value_def header_value_byte_def)
  have room: "length (local_sessions (cleanup_expired now (pw_local w1))) < unat (local_session_capacity (pw_local w1))"
    "map_of (local_sessions (cleanup_expired now (pw_local w1))) (portal_ref C E (pw_draws w1)) = None"
    using assms(1) by (simp_all add: sessions assms(3) portal_has_room_def Let_def)
  obtain r w2 where c: "run_handler (portal_callback C E (raw_query target) (Some header)) w1 = (Done r, w2)" "resp_status r = 302"
    "location r = Some (lst_post_login_path ?start)"
    "resp_cookies r = [portal_session_cookie (portal_ref C E (pw_draws w1)), portal_csrf_cookie (portal_ref C E (Suc (pw_draws w1))),
       delete_login_context_cookie]"
    "pw_local w2 = put_session (portal_ref C E (pw_draws w1)) (portal_session_of C E (pw_draws w1) u authenticated now)
       (cleanup_expired now (drop_start (portal_ref C E (pw_draws w)) (pw_local w1)))" "pw_remote w2 = a'"
    by (rule portal_callback_completes [OF form assms(5) drawn_valid_ref start fields(1) assms(6) [folded fields(2)]
        assms(7) [folded fields(3)] room])
  have session: "session_alive now (pw_local w2) (portal_ref C E (pw_draws w1)) =
      Some (portal_session_of C E (pw_draws w1) u authenticated now)"
    by (simp add: c(5) sessions.alive_store portal_session_of_def portal_expiries)
  obtain w3 where "run_handler (get_me E headers) w2 = (Done (json_response 200 (me_response u)), w3)"
    using get_me_completes [OF assms(8) session] by (auto simp: portal_session_of_def)
  with c(1,3,4) fields(4) show ?thesis by (intro that) simp_all
qed

end

section \<open>The service behind the link\<close>

text \<open>With its own credentials the portal is answered the user of a live handoff made for its verifier.\<close>

lemma link_completes:
  assumes "calm_service R view P committed staged C A now" "path url = ''/auth/handoffs/exchange''"
    and "view (server (conn a)) (handoff_key C hc) = Some (RHash (map_of (encode_handoff hnd)))"
    and "view (server (conn a)) (session_key C sref) = Some (RHash (map_of (encode_session ses)))"
    and "handoff_of C sref ses hnd"
    and "session_live (r_time R (server (conn a))) (map_of (encode_session ses))"
    and "handoff_live (r_time R (server (conn a))) (map_of (encode_handoff hnd))"
    and "services (committed (database (pool_of a))) (hnd_service_id hnd) = Some svc" "row_is_enabled svc"
    and "row_service_secret_sha256 svc = sha256 C secret" "utf8_valid secret"
    and "length (basic_auth C (hnd_service_id hnd) secret) \<le> 8192" "validate_service_id (hnd_service_id hnd) = Ok ()"
    and "validate_fixed_reference_value hc = Ok ()"
    and "validate_fixed_reference_value v = Ok ()" "hnd_code_challenge hnd = sha256_base64url C v"
  shows "\<exists>a'. auth_link C A gac gcc path rejected client url (hnd_service_id hnd, secret) (portal_exchange_request hc v) a =
    (Some (200, Some (handoff_exchange_response (ses_internal_user_id ses) (ses_authenticated_at ses))), a')"
proof -
  obtain x a' where link: "auth_link C A gac gcc path rejected client url (hnd_service_id hnd, secret)
      (portal_exchange_request hc v) a = (x, a')" by fastforce
  have crypto: "crypto_lib C" using assms(1) by (simp add: calm_service_def)
  have credentials: "basic_credentials C (basic_request C (hnd_service_id hnd, secret)) = Some (hnd_service_id hnd, secret)"
    using posted_credentials [OF crypto assms(13,11)] assms(12) by simp
  have challenge: "pkce_s256_challenge C v = Ok (hnd_code_challenge hnd)"
    using challenges_agree [OF assms(15)] by (simp add: assms(16))
  obtain a2 where "run_handler (exchange_auth_handoff C A (basic_request C (hnd_service_id hnd, secret))
      \<lparr>hxr_code = hc, hxr_code_verifier = v\<rparr>) a =
    (json_response 200 (handoff_exchange_response (ses_internal_user_id ses) (ses_authenticated_at ses)), a2)"
    using calm_service.exchange_flow_completes [OF assms(1,3-10) credentials assms(13,14) challenge] by blast
  with link_exchange [OF assms(2) link] have "x = Some (200, Some (handoff_exchange_response (ses_internal_user_id ses) (ses_authenticated_at ses)))"
    by (auto simp: body_json_def)
  with link show ?thesis by blast
qed

section \<open>From the first request to the last\<close>

text \<open>The keys the service draws next are free in its Redis.\<close>

definition service_has_room :: "('s \<Rightarrow> string \<rightharpoonup> redis_object) \<Rightarrow> 'c crypto_scheme \<Rightarrow> ('s, 'd, 'u) auth_env \<Rightarrow> ('s, 'd) world \<Rightarrow> bool" where
  "service_has_room view C A a \<longleftrightarrow> view (server (conn a)) (external_key C (drawn_ref C A (draws a))) = None
     \<and> view (server (conn a)) (session_key C (drawn_ref C A (Suc (draws a)))) = None
     \<and> view (server (conn a)) (handoff_key C (drawn_ref C A (Suc (Suc (draws a))))) = None"

text \<open>
  C22: the whole login.  A portal registered at the authentication service, both undisturbed: a
  browser opens the portal's login, follows its redirect to the service (whose login parses the
  query), is sent to Google, comes back with a code of a linked enabled user, follows the redirect
  to the registered callback, which the portal serves from the query of that redirect and the
  context cookie it set at the start.  The browser then holds a session cookie with which the
  portal's \<open>/api/me\<close> answers the user Google named.
\<close>

theorem login_end_to_end:
  assumes "calm_service R view P committed staged C A now" "calm_portal E pairs path raw_query C clock_now"
    and "urls A = pe_urls E" "pe_post E = auth_link C A gac gcc path rejected"
    and "services (committed (database (pool_of (pw_remote w)))) (ac_service_id (pe_config E)) = Some svc" "row_is_enabled svc"
    and "row_service_secret_sha256 svc = sha256 C (ac_service_secret (pe_config E))"
    and "utf8_valid (ac_service_secret (pe_config E))"
    and "length (basic_auth C (ac_service_id (pe_config E)) (ac_service_secret (pe_config E))) \<le> 8192"
    and "valid_callback_url (pe_urls E) (row_login_callback_uri svc) = Some registered"
    and "portal_has_room C E clock_now w" "service_has_room view C A (pw_remote w)"
    and "r_time R (server (conn (pw_remote w))) < unat now + 120"
    and "session_reference request = None"
    and "code \<noteq> []" "validate_max_bytes code OAUTH_CODE_MAX_BYTES = Ok ()"
    and "\<And>a :: ('s, 'd) world. callback_identity A gcc code a = (Inr i, a)"
    and "identities (committed (database (pool_of (pw_remote w)))) (nei_provider i, nei_subject i) = Some u"
    and "users (committed (database (pool_of (pw_remote w)))) u = Some True"
    and "\<And>v. is_fixed_reference v \<Longrightarrow> login_context_from_cookie_header (pe_split_parse E) (Some (context_header v)) = Ok v"
    and "\<And>v. is_fixed_reference v \<Longrightarrow>
      fixed_reference_cookie_from_headers (pe_split_parse E) (session_headers v) PORTAL_SESSION_COOKIE_NAME = Ok v"
  shows "\<exists>p1 w1 login_url q ctx r1 st a1 r2 a2 target p2 w2 k csrf w3.
      run_handler (portal_login C E) w = (Done p1, w1)
    \<and> location p1 = Some (url_to_string (pe_urls E) login_url) \<and> resp_cookies p1 = [login_context_cookie ctx]
    \<and> configure_auth_routes GET (path login_url) = Some RouteLogin \<and> decode_login_query (pairs login_url) = Some q
    \<and> run_handler (login C A gac request q) (pw_remote w1) = (r1, a1)
    \<and> location r1 = Some (authorize_url A GOOGLE_AUTHORIZATION_URL gac st [''email'', ''profile''])
    \<and> run_handler (google_auth_callback C A gcc \<lparr>cq_code = code, cq_state = st\<rparr>) a1 = (r2, a2)
    \<and> location r2 = Some (url_to_string (pe_urls E) target)
    \<and> path target = path registered \<and> url_host (pe_urls E) target = url_host (pe_urls E) registered
    \<and> run_handler (portal_callback C E (raw_query target) (Some (context_header ctx))) (w1\<lparr>pw_remote := a2\<rparr>) = (Done p2, w2)
    \<and> location p2 = Some ''/''
    \<and> resp_cookies p2 = [portal_session_cookie k, portal_csrf_cookie csrf, delete_login_context_cookie]
    \<and> run_handler (get_me E (session_headers k)) w2 = (Done (json_response 200 (me_response u)), w3)"
proof -
  let ?U = "pe_urls E" let ?n = "pw_draws w" let ?q = "portal_login_query C E ?n"
  let ?sid = "ac_service_id (pe_config E)" let ?secret = "ac_service_secret (pe_config E)"
  note portal = assms(2) and service = assms(1)
  have urls: "url_lib ?U pairs path raw_query" using portal by (simp add: calm_portal_def)
  have reference: "is_fixed_reference (portal_ref C E m)" for m
    by (simp add: references_agree calm_portal.drawn_valid_ref [OF portal])
  obtain p1 w1 login_url where p: "run_handler (portal_login C E) w = (Done p1, w1)"
    "location p1 = Some (url_to_string ?U login_url)" "decode_login_query (pairs login_url) = Some ?q"
    "configure_auth_routes GET (path login_url) = Some RouteLogin"
    "resp_cookies p1 = [login_context_cookie (portal_ref C E (Suc ?n))]"
    "pw_local w1 = put_start (portal_ref C E ?n) (portal_start_of C E ?n clock_now) (cleanup_expired clock_now (pw_local w))"
    "pw_draws w1 = Suc (Suc (Suc ?n))" "pw_remote w1 = pw_remote w"
    by (rule calm_portal.portal_login_completes [OF portal]) (use assms(11) in \<open>auto simp: portal_has_room_def Let_def\<close>)
  obtain st r1 a1 sref hc r2 a2 where a: "run_handler (login C A gac request ?q) (pw_remote w) = (r1, a1)"
    "location r1 = Some (authorize_url A GOOGLE_AUTHORIZATION_URL gac st [''email'', ''profile''])"
    "run_handler (google_auth_callback C A gcc \<lparr>cq_code = code, cq_state = st\<rparr>) a1 = (r2, a2)"
    "resp_cookies r2 = [auth_session_cookie sref]" "hands_over (urls A) pairs path [] registered hc (lq_state ?q) r2"
    "view (server (conn a2)) (session_key C sref) = Some (RHash (map_of (encode_session (callback_session_of u now))))"
    "view (server (conn a2)) (handoff_key C hc) =
       Some (RHash (map_of (encode_handoff (callback_handoff_of C (google_transaction ?q now) sref u now))))"
    "r_time R (server (conn a2)) = r_time R (server (conn (pw_remote w)))"
    "database (pool_of a2) = database (pool_of (pw_remote w))"
    "validate_fixed_reference_value sref = Ok ()" "validate_fixed_reference_value hc = Ok ()"
    by (rule calm_service.google_login_and_callback [OF service, where gac = gac and gcc = gcc and q = ?q and w = "pw_remote w"
          and request = request and svc = svc and url = registered and code = code and i = i and u = u and pairs = pairs and path = path
          and raw_query = raw_query])
      (use assms(3,5,6,10,12-19) urls calm_portal.portal_query_valid [OF portal] calm_portal.portal_state_utf8 [OF portal]
        in \<open>simp_all add: service_has_room_def\<close>)
  obtain target where target: "location r2 = Some (url_to_string ?U target)"
    "pairs target = [(''code'', hc), (''state'', portal_ref C E ?n)]"
    "url_host ?U target = url_host ?U registered" "path target = path registered"
    using a(5) by (auto simp: hands_over_def assms(3))
  let ?hnd = "callback_handoff_of C (google_transaction ?q now) sref u now"
  have time: "r_time R (server (conn a2)) < unat now + 120" using assms(13) by (simp add: a(8))
  have live: "handoff_of C sref (callback_session_of u now) ?hnd"
    "session_live (r_time R (server (conn a2))) (map_of (encode_session (callback_session_of u now)))"
    "handoff_live (r_time R (server (conn a2))) (map_of (encode_handoff ?hnd))"
    using calm_service.callback_records_live [OF service time] by simp_all
  have hnd: "hnd_service_id ?hnd = ?sid" "hnd_code_challenge ?hnd = sha256_base64url C (portal_ref C E (Suc (Suc ?n)))"
    by (simp_all add: callback_handoff_of_def)
  have host: "url_host ?U (ac_auth_foundation_base_url (pe_config E)) \<noteq> None"
    using calm_portal.service_host [OF portal] .
  obtain a3 where link: "auth_link C A gac gcc path rejected (pe_client E)
      (auth_foundation_endpoint ?U (ac_auth_foundation_base_url (pe_config E)) ''/auth/handoffs/exchange'')
      (?sid, ?secret) (portal_exchange_request hc (portal_ref C E (Suc (Suc ?n)))) a2 =
    (Some (200, Some (handoff_exchange_response u now)), a3)"
    using link_completes [where path = path and url = "auth_foundation_endpoint ?U (ac_auth_foundation_base_url (pe_config E)) ''/auth/handoffs/exchange''",
        OF service endpoint_url(2) [OF urls host endpoint_paths(2)] a(7,6) live, where gac = gac and gcc = gcc and rejected = rejected
        and client = "pe_client E" and svc = svc
        and secret = ?secret and v = "portal_ref C E (Suc (Suc ?n))"] assms(5-9) a(9,11)
      calm_portal.service_identifier [OF portal] calm_portal.drawn_valid_ref [OF portal]
    by (auto simp: hnd callback_session_of_def)
  let ?w1 = "w1\<lparr>pw_remote := a2\<rparr>"
  obtain p2 w2 w3 csrf where r: "run_handler (portal_callback C E (raw_query target) (Some (context_header (portal_ref C E (Suc ?n))))) ?w1 =
      (Done p2, w2)" "location p2 = Some ''/''"
    "resp_cookies p2 = [portal_session_cookie (portal_ref C E (pw_draws ?w1)), portal_csrf_cookie csrf, delete_login_context_cookie]"
    "run_handler (get_me E (session_headers (portal_ref C E (pw_draws ?w1)))) w2 = (Done (json_response 200 (me_response u)), w3)"
    by (rule calm_portal.portal_return_completes [OF portal assms(11), where ?w1.0 = ?w1])
      (use p(6,7) target(2) a(11) assms(20,21) [OF reference] assms(4) link in simp_all)
  show ?thesis
    by (intro exI conjI) (rule p(1,2,5,4,3) a(1,2,3) [folded p(8)] a(1-3) target(1,4,3) r)+
qed

text \<open>The sample portal at the sample service, from an empty store on both sides.\<close>

interpretation sample_portal: calm_portal flow_env su_query su_path "\<lambda>u. show_query (su_query u)" ref_crypto 150
proof -
  have host: "url_host simple_urls (ac_auth_foundation_base_url flow_config) \<noteq> None"
    and sid: "validate_service_id (ac_service_id flow_config) = Ok ()"
    using config_facts [OF flow_config_from_env] by blast+
  show "calm_portal flow_env su_query su_path (\<lambda>u. show_query (su_query u)) ref_crypto 150"
    by (intro calm_portal.intro calm_portal_axioms.intro reference.crypto_lib_axioms)
      (simp_all add: simple.url_lib_axioms host sid sample_draw_def)
qed

definition fresh_world :: "(mem, mem_pg_state) world portal_world" where
  "fresh_world = flow_world\<lparr>pw_local := new_local_state 2 2, pw_remote := sample_world Map.empty\<rparr>"

definition context_header_fixture :: "string \<Rightarrow> string" where
  "context_header_fixture v = PORTAL_LOGIN_CONTEXT_COOKIE_NAME @ CHR ''='' # v"

definition session_headers_fixture :: "string \<Rightarrow> (string \<times> bytes) list" where
  "session_headers_fixture v = [(''cookie'', PORTAL_SESSION_COOKIE_NAME @ CHR ''='' # v)]"

lemma browser_fixtures:
  assumes "is_fixed_reference v"
  shows "login_context_from_cookie_header (pe_split_parse flow_env) (Some (context_header_fixture v)) = Ok v"
    "fixed_reference_cookie_from_headers (pe_split_parse flow_env) (session_headers_fixture v) PORTAL_SESSION_COOKIE_NAME = Ok v"
proof -
  have names: "CHR ''='' \<notin> set PORTAL_LOGIN_CONTEXT_COOKIE_NAME" "CHR ''='' \<notin> set PORTAL_SESSION_COOKIE_NAME"
    "list_all header_byte (PORTAL_SESSION_COOKIE_NAME @ ''='')"
    by (simp_all add: PORTAL_LOGIN_CONTEXT_COOKIE_NAME_def PORTAL_SESSION_COOKIE_NAME_def header_byte_def byte_in_def)
  have "list_all header_byte v"
    using assms by (auto simp: fixed_reference_iff reference_def list_all_iff b64url_header_byte)
  then have "to_str (PORTAL_SESSION_COOKIE_NAME @ CHR ''='' # v) = Some (PORTAL_SESSION_COOKIE_NAME @ CHR ''='' # v)"
    using names(3) by (simp add: to_str_Some_iff)
  then show "fixed_reference_cookie_from_headers (pe_split_parse flow_env) (session_headers_fixture v) PORTAL_SESSION_COOKIE_NAME = Ok v"
    using assms split_once_append [OF names(2)]
    by (simp add: fixed_reference_cookie_from_headers_def session_headers_fixture_def get_all_def sample_split_parse_def)
  show "login_context_from_cookie_header (pe_split_parse flow_env) (Some (context_header_fixture v)) = Ok v"
    using assms split_once_append [OF names(1)]
    by (simp add: login_context_from_cookie_header_def context_header_fixture_def sample_split_parse_def)
qed

theorem login_end_to_end_witness:
  "\<exists>p1 w1 ctx st a1 r2 a2 (target :: simple_url) p2 w2 k csrf w3 q r1.
      run_handler (portal_login ref_crypto flow_env) fresh_world = (Done p1, w1)
    \<and> run_handler (login ref_crypto sample_auth_env authorization_config_fixture cookieless_request q) (pw_remote w1) = (r1, a1)
    \<and> run_handler (google_auth_callback ref_crypto sample_auth_env callback_config_fixture
        \<lparr>cq_code = ''google-code'', cq_state = st\<rparr>) a1 = (r2, a2)
    \<and> su_path target = ''/auth/callback''
    \<and> run_handler (portal_callback ref_crypto flow_env (show_query (su_query target)) (Some (context_header_fixture ctx)))
        (w1\<lparr>pw_remote := a2\<rparr>) = (Done p2, w2)
    \<and> resp_cookies p2 = [portal_session_cookie k, portal_csrf_cookie csrf, delete_login_context_cookie]
    \<and> run_handler (get_me flow_env (session_headers_fixture k)) w2 = (Done (json_response 200 (me_response 42)), w3)"
proof -
  have cfg: "ac_service_id flow_config = ''service''" "ac_service_secret flow_config = ''service-secret''"
    by (simp_all add: flow_config_def)
  have post: "pe_post flow_env = auth_link ref_crypto sample_auth_env authorization_config_fixture callback_config_fixture su_path (finish 400)"
    by (simp add: flow_env_def)
  have room: "portal_has_room ref_crypto flow_env 150 fresh_world"
    by (simp add: portal_has_room_def fresh_world_def new_local_state_def cleanup_expired_def)
  have request: "session_reference cookieless_request = None"
    "validate_max_bytes ''google-code'' OAUTH_CODE_MAX_BYTES = Ok ()"
    by (simp_all add: session_reference_def cookieless_request_def request_cookie_def validate_max_bytes_def OAUTH_CODE_MAX_BYTES_def)
  have sid: "validate_service_id ''service'' = Ok ()"
    using sample_portal.service_identifier by (simp add: flow_config_def)
  have length: "length (basic_auth ref_crypto ''service'' ''service-secret'') \<le> 8192"
    using flow_credentials posted_credentials [OF reference.crypto_lib_axioms sid, of "''service-secret''"]
    by (simp add: is_ascii_byte_def split: if_splits)
  show ?thesis
    using login_end_to_end [OF sample_service.calm_service_axioms sample_portal.calm_portal_axioms _ post, of fresh_world sample_service
        service_url cookieless_request "''google-code''" google_identity_fixture 42 context_header_fixture session_headers_fixture]
      google_identity_answered sample_service_facts browser_fixtures room request length
    by (simp add: cfg fresh_world_def service_has_room_def sample_world_view google_identity_fixture_def is_ascii_byte_def service_url_def)
      (elim exE conjE, intro exI conjI, assumption+)
qed

end
