(* ===== verification/Crypto_Vectors.thy ===== *)
theory Crypto_Vectors
  imports Crypto_Reference
begin

text \<open>
  Known answers of the reference instance: its SHA-256 is run on the test vectors of FIPS 180-4 and
  RFC 7636 that the program's own tests use.  The rounds are evaluated by rewriting, on words kept below \<open>2 ^ 32\<close>.
\<close>

unbundle bit_operations_syntax

section \<open>The constants\<close>

lemma power_root: "(R :: nat) ^ k \<le> n \<Longrightarrow> n < Suc R ^ k \<Longrightarrow> x ^ k \<le> n \<longleftrightarrow> x \<le> R"
  by (meson Suc_leI le_trans linorder_not_le power_mono zero_le)

lemma root_fold:
  assumes "R ^ k \<le> n" "n < Suc R ^ k"
  shows "fold (\<lambda>b r. if (r + 2 ^ b) ^ k \<le> n then r + 2 ^ b else r) (rev [0..<m]) (R div 2 ^ m * 2 ^ m) = R"
proof (induction m)
  case (Suc m)
  let ?q = "R div 2 ^ m"
  have half: "R div (2 * 2 ^ m) * (2 * 2 ^ m) = 2 * (?q div 2) * 2 ^ m"
    by (simp add: div_mult2_eq [symmetric] mult.commute [of 2])
  have expand: "2 * (?q div 2) * 2 ^ m + 2 ^ m = (2 * (?q div 2) + 1) * 2 ^ m" by simp
  then have le: "2 * (?q div 2) * 2 ^ m + 2 ^ m \<le> R \<longleftrightarrow> 2 * (?q div 2) + 1 \<le> ?q"
    by (simp only: less_eq_div_iff_mult_less_eq zero_less_power zero_less_numeral)
  show ?case
  proof (cases "even ?q")
    case True
    with le have "\<not> 2 * (?q div 2) * 2 ^ m + 2 ^ m \<le> R" "2 * (?q div 2) = ?q" by auto
    then show ?thesis using Suc.IH by (simp add: half power_root [OF assms])
  next
    case False
    then have odd: "2 * (?q div 2) + 1 = ?q" by simp
    with le have "2 * (?q div 2) * 2 ^ m + 2 ^ m \<le> R" "2 * (?q div 2) * 2 ^ m + 2 ^ m = ?q * 2 ^ m"
      by (simp, simp only: expand odd)
    then show ?thesis using Suc.IH by (simp add: half power_root [OF assms])
  qed
qed simp

lemma root_bits_value:
  assumes "R ^ k \<le> p * 2 ^ (32 * k)" "p * 2 ^ (32 * k) < Suc R ^ k" "R < 2 ^ 40"
  shows "root_bits k p = word_of_nat R"
  using root_fold [OF assms(1,2), of 40] assms(3) by (simp add: root_bits_def int_root_def)

lemma of_nat_mod_word32: "word_of_nat (R mod 4294967296) = (word_of_nat R :: u32)"
  by (simp add: word_of_nat_eq_iff take_bit_eq_mod)

lemma root_bits_values:
  "list_all2 (\<lambda>p R. R ^ k \<le> p * 2 ^ (32 * k) \<and> p * 2 ^ (32 * k) < Suc R ^ k \<and> R < 2 ^ 40) ps Rs \<Longrightarrow>
     map (root_bits k) ps = map (\<lambda>R. word_of_nat (R mod 2 ^ 32)) Rs"
  by (induction rule: list_all2_induct) (auto simp: root_bits_value of_nat_mod_word32)

definition small_primes :: "nat list" where
  "small_primes = [
   2, 3, 5, 7, 11, 13, 17, 19, 23, 29, 31, 37, 41, 43, 47, 53, 59, 61, 67, 71, 73, 79, 83, 89, 97, 101,
    103, 107, 109, 113, 127, 131, 137, 139, 149, 151, 157, 163, 167, 173, 179, 181, 191, 193, 197, 199,
    211, 223, 227, 229, 233, 239, 241, 251, 257, 263, 269, 271, 277, 281, 283, 293, 307, 311]"

lemma small_factor:
  assumes "2 \<le> d" "d \<le> (17 :: nat)"
  shows "\<exists>p \<in> set [2, 3, 5, 7, 11, 13, 17]. p dvd d"
proof -
  have "d \<in> set [2..<18]" using assms by (simp only: set_upt) simp
  then show ?thesis by simp (elim disjE; simp)
qed

lemma trial_division:
  assumes "2 \<le> n" "n < 324"
  shows "list_all (\<lambda>d. n mod d \<noteq> 0) [2..<n] \<longleftrightarrow> list_all (\<lambda>d. n \<le> d \<or> n mod d \<noteq> 0) [2, 3, 5, 7, 11, 13, 17]"
proof
  assume small: "list_all (\<lambda>d. n \<le> d \<or> n mod d \<noteq> 0) [2, 3, 5, 7, 11, 13, 17]"
  have none: "\<not> d dvd n" if d: "d < n" "2 \<le> d" "d \<le> 17" for d
  proof
    assume "d dvd n"
    from d obtain p where p: "p \<in> set [2, 3, 5, 7, 11, 13, 17]" "p dvd d" using small_factor by blast
    then have "n \<le> p \<or> n mod p \<noteq> 0" using small by (simp only: list_all_iff)
    moreover have "p \<le> d" using p(2) d(2) by (intro dvd_imp_le) simp_all
    moreover have "n mod p = 0" using p(2) \<open>d dvd n\<close> by (simp add: dvd_trans mod_eq_0_iff_dvd)
    ultimately show False using d(1) by simp
  qed
  show "list_all (\<lambda>d. n mod d \<noteq> 0) [2..<n]"
    unfolding list_all_iff
  proof
    fix d assume d: "d \<in> set [2..<n]"
    show "n mod d \<noteq> 0"
    proof
      assume "n mod d = 0"
      then obtain e where e: "n = d * e" by (auto simp: mod_eq_0_iff_dvd dvd_def)
      with d assms have "1 < e" "e < n" by (auto intro: Suc_lessI)
      moreover have "d \<le> 17 \<or> e \<le> 17"
      proof (rule ccontr)
        assume "\<not> ?thesis"
        then have "18 * 18 \<le> d * e" by (intro mult_le_mono) auto
        with e assms(2) show False by simp
      qed
      ultimately show False using none [of d] none [of e] d e by auto
    qed
  qed
next
  assume "list_all (\<lambda>d. n mod d \<noteq> 0) [2..<n]"
  then have "\<forall>d \<in> set [2..<n]. n mod d \<noteq> 0" by (simp only: list_all_iff)
  then have big: "n \<le> d \<or> n mod d \<noteq> 0" if "2 \<le> d" for d
    using that by (metis atLeastLessThan_iff not_le set_upt)
  show "list_all (\<lambda>d. n \<le> d \<or> n mod d \<noteq> 0) [2, 3, 5, 7, 11, 13, 17]"
    unfolding list_all_iff by (intro ballI big) auto
qed

fun undivided :: "nat \<Rightarrow> nat list \<Rightarrow> bool" where
  "undivided n [] = True"
| "undivided n (d # ds) = (if n mod d = 0 then n \<le> d else undivided n ds)"

lemma sha_primes_eq: "sha_primes = small_primes"
proof -
  have "list_all (\<lambda>d. n \<le> d \<or> n mod d \<noteq> 0) [2, 3, 5, 7, 11, 13, 17] \<longleftrightarrow> undivided n [2, 3, 5, 7, 11, 13, 17]" for n
    by (auto dest!: dvd_imp_le simp: mod_eq_0_iff_dvd)
  then have "sha_primes = filter (\<lambda>n. undivided n [2, 3, 5, 7, 11, 13, 17]) [2..<312]"
    unfolding sha_primes_def by (intro filter_cong refl) (subst trial_division, auto)
  also have "\<dots> = small_primes" by (simp add: small_primes_def)
  finally show ?thesis .
qed

lemma sha_k_eq: "sha_k = [
   1116352408, 1899447441, 3049323471, 3921009573, 961987163, 1508970993, 2453635748, 2870763221,
    3624381080, 310598401, 607225278, 1426881987, 1925078388, 2162078206, 2614888103, 3248222580,
    3835390401, 4022224774, 264347078, 604807628, 770255983, 1249150122, 1555081692, 1996064986,
    2554220882, 2821834349, 2952996808, 3210313671, 3336571891, 3584528711, 113926993, 338241895,
    666307205, 773529912, 1294757372, 1396182291, 1695183700, 1986661051, 2177026350, 2456956037,
    2730485921, 2820302411, 3259730800, 3345764771, 3516065817, 3600352804, 4094571909, 275423344,
    430227734, 506948616, 659060556, 883997877, 958139571, 1322822218, 1537002063, 1747873779,
    1955562222, 2024104815, 2227730452, 2361852424, 2428436474, 2756734187, 3204031479, 3329325298]"
proof -
  have "sha_k = map (\<lambda>R. word_of_nat (R mod 2 ^ 32)) [
     5411319704, 6194414737, 7344290767, 8215976869, 9551921755, 10098905585, 11043570340, 11460697813,
      12214315672, 13195500289, 13492127166, 14311783875, 14809980276, 15046980094, 15499789991,
      16133124468, 16720292289, 16907126662, 17444216262, 17784676812, 17950125167, 18429019306,
      18734950876, 19175934170, 19734090066, 20001703533, 20132865992, 20390182855, 20516441075,
      20764397895, 21588763473, 21813078375, 22141143685, 22248366392, 22769593852, 22871018771,
      23170020180, 23461497531, 23651862830, 23931792517, 24205322401, 24295138891, 24734567280,
      24820601251, 24990902297, 25075189284, 25569408389, 26045227120, 26200031510, 26276752392,
      26428864332, 26653801653, 26727943347, 27092625994, 27306805839, 27517677555, 27725365998,
      27793908591, 27997534228, 28131656200, 28198240250, 28526537963, 28973835255, 29099129074]"
    unfolding sha_k_def sha_primes_eq by (rule root_bits_values) (simp add: small_primes_def)
  then show ?thesis by simp
qed

lemma sha_h0_eq: "sha_h0 = [
   1779033703, 3144134277, 1013904242, 2773480762, 1359893119, 2600822924, 528734635, 1541459225]"
proof -
  have "sha_h0 = map (\<lambda>R. word_of_nat (R mod 2 ^ 32)) [
     6074000999, 7439101573, 9603838834, 11363415354, 14244795007, 15485724812, 17708603819, 18721328409]"
    unfolding sha_h0_def by (rule root_bits_values) simp
  then show ?thesis by simp
qed

section \<open>The rounds\<close>

text \<open>A round with its two sums evaluated once, as numbers.\<close>

definition round_mid :: "(u32 \<times> u32) list \<Rightarrow> u32 list \<Rightarrow> u32 \<Rightarrow> u32 list" where
  "round_mid r s t1 = sha_rounds r (case s of [a, b, c, d, e, f, g] \<Rightarrow> [t1 + (big_sigma0 a + sha_maj a b c), a, b, c, d + t1, e, f, g])"

definition round_end :: "(u32 \<times> u32) list \<Rightarrow> u32 list \<Rightarrow> nat \<Rightarrow> nat \<Rightarrow> u32 list" where
  "round_end r s a e = sha_rounds r (case s of [b, c, d, f, g, h] \<Rightarrow> [word_of_nat a, b, c, d, word_of_nat e, f, g, h])"

lemma round_steps:
  "sha_rounds ((k, w) # r) [a, b, c, d, e, f, g, h] =
     round_mid r [a, b, c, d, e, f, g] (h + big_sigma1 e + sha_ch e f g + k + w)"
  "round_mid r [a, b, c, d, e, f, g] t1 =
     round_end r [a, b, c, e, f, g] (unat (t1 + (big_sigma0 a + sha_maj a b c))) (unat (d + t1))"
  "round_end r [b, c, d, f, g, h] m n = sha_rounds r [word_of_nat m, b, c, d, word_of_nat n, f, g, h]"
  by (simp_all add: round_mid_def round_end_def Let_def)

text \<open>The schedule likewise.\<close>

definition schedule_step :: "nat \<Rightarrow> u32 list \<Rightarrow> nat \<Rightarrow> u32 list" where
  "schedule_step n ws w = sha_schedule n (word_of_nat w # ws)"

lemma schedule_steps:
  "sha_schedule (Suc n) ws = schedule_step n ws (unat (small_sigma1 (ws ! 1) + ws ! 6 + small_sigma0 (ws ! 14) + ws ! 15))"
  "schedule_step n ws w = sha_schedule n (word_of_nat w # ws)"
  by (simp_all add: schedule_step_def)

lemmas sha_words = rotr_def small_sigma0_def small_sigma1_def big_sigma0_def big_sigma1_def sha_ch_def sha_maj_def

lemma schedule_count:
  "sha_schedule (numeral n) ws = schedule_step (pred_numeral n) ws
     (unat (small_sigma1 (ws ! 1) + ws ! 6 + small_sigma0 (ws ! 14) + ws ! 15))"
  "sha_schedule (Suc 0) ws = schedule_step 0 ws (unat (small_sigma1 (ws ! 1) + ws ! 6 + small_sigma0 (ws ! 14) + ws ! 15))"
  by (simp_all add: numeral_eq_Suc schedule_steps)

lemma replicate_count: "replicate (numeral n) x = x # replicate (pred_numeral n) x"
  by (simp add: numeral_eq_Suc)

lemma of_char_byte: "(of_char (char_of (n :: nat)) :: u32) = of_nat (n mod 256)"
  by (metis of_char_of of_nat_of_char)

lemma single_block:
  assumes "length m < 56"
  shows "fips_sha256 m = concat (map (\<lambda>w. bytes_be 4 (unat w))
     (map2 (+) sha_h0 (sha_rounds (zip sha_k (sha_schedule 48 (rev (words_be (sha_pad m))))) sha_h0)))"
proof -
  have "119 - length m = 64 + (55 - length m)" using assms by simp
  then have "(119 - length m) mod 64 = 55 - length m" by (simp only: mod_add_self1) simp
  then have "length (sha_pad m) = 64" using assms by (simp add: sha_pad_def bytes_be_def)
  then show ?thesis by (simp add: fips_sha256_def sha_block_def)
qed

lemmas padding_simps = sha_pad_def bytes_be_def replicate_count upt_rec of_char_byte
lemmas round_simps = sha_words schedule_steps(2) schedule_count sha_k_eq sha_h0_eq round_steps

section \<open>The vectors\<close>

lemma sha256_abc:
  "fips_sha256 ''abc'' = [
   CHR 0xBA, CHR 0x78, CHR 0x16, CHR 0xBF, CHR 0x8F, CHR 0x01, CHR 0xCF, CHR 0xEA, CHR 0x41, CHR 0x41,
    CHR 0x40, CHR 0xDE, CHR 0x5D, CHR 0xAE, CHR 0x22, CHR 0x23, CHR 0xB0, CHR 0x03, CHR 0x61, CHR 0xA3,
    CHR 0x96, CHR 0x17, CHR 0x7A, CHR 0x9C, CHR 0xB4, CHR 0x10, CHR 0xFF, CHR 0x61, CHR 0xF2, CHR 0x00,
    CHR 0x15, CHR 0xAD]"
proof -
  have "words_be (sha_pad ''abc'') = [
     0x61626380, 0x0, 0x0, 0x0, 0x0, 0x0, 0x0, 0x0, 0x0, 0x0, 0x0, 0x0, 0x0, 0x0, 0x0, 0x18]"
    by (simp add: padding_simps)
  moreover have "sha_rounds (zip sha_k (sha_schedule 48 (rev [
     0x61626380, 0x0, 0x0, 0x0, 0x0, 0x0, 0x0, 0x0, 0x0, 0x0, 0x0, 0x0, 0x0, 0x0, 0x0, 0x18]))) sha_h0 = [
     0x506e3058, 0xd39a2165, 0x4d24d6c, 0xb85e2ce9, 0x5ef50f24, 0xfb121210, 0x948d25b6, 0x961f4894]"
    by (simp add: round_simps del: sha_schedule.simps(2) sha_rounds.simps(1))
  ultimately show ?thesis by (simp add: single_block sha_h0_eq bytes_be_def upt_rec char_of_eq_iff take_bit_eq_mod)
qed

lemma sha256_abd:
  "fips_sha256 ''abd'' = [
   CHR 0xA5, CHR 0x2D, CHR 0x15, CHR 0x9F, CHR 0x26, CHR 0x2B, CHR 0x2C, CHR 0x6D, CHR 0xDB, CHR 0x72,
    CHR 0x4A, CHR 0x61, CHR 0x84, CHR 0x0B, CHR 0xEF, CHR 0xC3, CHR 0x6E, CHR 0xB3, CHR 0x0C, CHR 0x88,
    CHR 0x87, CHR 0x7A, CHR 0x40, CHR 0x30, CHR 0xB6, CHR 0x5C, CHR 0xBE, CHR 0x86, CHR 0x29, CHR 0x84,
    CHR 0x49, CHR 0xC9]"
proof -
  have "words_be (sha_pad ''abd'') = [
     0x61626480, 0x0, 0x0, 0x0, 0x0, 0x0, 0x0, 0x0, 0x0, 0x0, 0x0, 0x0, 0x0, 0x0, 0x0, 0x18]"
    by (simp add: padding_simps)
  moreover have "sha_rounds (zip sha_k (sha_schedule 48 (rev [
     0x61626480, 0x0, 0x0, 0x0, 0x0, 0x0, 0x0, 0x0, 0x0, 0x0, 0x0, 0x0, 0x0, 0x0, 0x0, 0x18]))) sha_h0 = [
     0x3b232f38, 0x6ac37de8, 0x9f0356ef, 0xdebbfa89, 0x1da4ba09, 0xec74d7a4, 0x96d8e4db, 0xcda37cb0]"
    by (simp add: round_simps del: sha_schedule.simps(2) sha_rounds.simps(1))
  ultimately show ?thesis by (simp add: single_block sha_h0_eq bytes_be_def upt_rec char_of_eq_iff take_bit_eq_mod)
qed

lemma sha256_rfc7636:
  "fips_sha256 ''dBjftJeZ4CVP-mB92K27uhbUJU1p1r_wW1gFWFOEjXk'' = [
   CHR 0x13, CHR 0xD3, CHR 0x1E, CHR 0x96, CHR 0x1A, CHR 0x1A, CHR 0xD8, CHR 0xEC, CHR 0x2F, CHR 0x16,
    CHR 0xB1, CHR 0x0C, CHR 0x4C, CHR 0x98, CHR 0x2E, CHR 0x08, CHR 0x76, CHR 0xA8, CHR 0x78, CHR 0xAD,
    CHR 0x6D, CHR 0xF1, CHR 0x44, CHR 0x56, CHR 0x6E, CHR 0xE1, CHR 0x89, CHR 0x4A, CHR 0xCB, CHR 0x70,
    CHR 0xF9, CHR 0xC3]"
proof -
  have "words_be (sha_pad ''dBjftJeZ4CVP-mB92K27uhbUJU1p1r_wW1gFWFOEjXk'') = [
     0x64426a66, 0x744a655a, 0x34435650, 0x2d6d4239, 0x324b3237, 0x75686255, 0x4a553170, 0x31725f77,
      0x57316746, 0x57464f45, 0x6a586b80, 0x0, 0x0, 0x0, 0x0, 0x158]"
    by (simp add: padding_simps)
  moreover have "sha_rounds (zip sha_k (sha_schedule 48 (rev [
     0x64426a66, 0x744a655a, 0x34435650, 0x2d6d4239, 0x324b3237, 0x75686255, 0x4a553170, 0x31725f77,
      0x57316746, 0x57464f45, 0x6a586b80, 0x0, 0x0, 0x0, 0x0, 0x158]))) sha_h0 = [
     0xa9c9382f, 0x5eb32a67, 0xf2a7bd9a, 0xa74838ce, 0x259a262e, 0xd2ebdbca, 0x4f5daf9f, 0x6f902caa]"
    by (simp add: round_simps del: sha_schedule.simps(2) sha_rounds.simps(1))
  ultimately show ?thesis by (simp add: single_block sha_h0_eq bytes_be_def upt_rec char_of_eq_iff take_bit_eq_mod)
qed

text \<open>The secrets of the database tests: distinct digests are all that those tests need.\<close>

lemma sha256_service_secret:
  "fips_sha256 ''service-secret'' = [
   CHR 0x2F, CHR 0x5B, CHR 0x78, CHR 0x39, CHR 0x6A, CHR 0xDC, CHR 0x3B, CHR 0x6C, CHR 0xB3,
    CHR 0xD9, CHR 0xC5, CHR 0xFF, CHR 0x6A, CHR 0x5E, CHR 0x42, CHR 0x8E, CHR 0x1F, CHR 0x53,
    CHR 0xCA, CHR 0xF6, CHR 0x9E, CHR 0x6E, CHR 0x40, CHR 0xE3, CHR 0xCA, CHR 0xA9, CHR 0x15,
    CHR 0x5C, CHR 0x89, CHR 0x8F, CHR 0x56, CHR 0xAE]"
proof -
  have "words_be (sha_pad ''service-secret'') = [
     0x73657276, 0x6963652d, 0x73656372, 0x65748000, 0x0, 0x0, 0x0, 0x0, 0x0, 0x0, 0x0, 0x0, 0x0,
      0x0, 0x0, 0x70]"
    by (simp add: padding_simps)
  moreover have "sha_rounds (zip sha_k (sha_schedule 48 (rev [
     0x73657276, 0x6963652d, 0x73656372, 0x65748000, 0x0, 0x0, 0x0, 0x0, 0x0, 0x0, 0x0, 0x0, 0x0,
      0x0, 0x0, 0x70]))) sha_h0 = [
     0xc55191d2, 0xaf748ce7, 0x776ad28d, 0xc50e4d54, 0xce457877, 0x368d857, 0xab253bb1, 0x2dae8995]"
    by (simp add: round_simps del: sha_schedule.simps(2) sha_rounds.simps(1))
  ultimately show ?thesis by (simp add: single_block sha_h0_eq bytes_be_def upt_rec char_of_eq_iff take_bit_eq_mod)
qed

lemma sha256_different_secret:
  "fips_sha256 ''different-secret'' = [
   CHR 0x14, CHR 0xF3, CHR 0x3D, CHR 0x87, CHR 0x10, CHR 0x7A, CHR 0x4B, CHR 0x7E, CHR 0xF2,
    CHR 0x53, CHR 0xB1, CHR 0xF3, CHR 0xFA, CHR 0xE1, CHR 0x74, CHR 0x5F, CHR 0xBD, CHR 0xFC,
    CHR 0xA9, CHR 0x85, CHR 0x65, CHR 0x58, CHR 0xA8, CHR 0x4C, CHR 0xEA, CHR 0x7A, CHR 0xEE,
    CHR 0x49, CHR 0xD8, CHR 0x41, CHR 0x8C, CHR 0x11]"
proof -
  have "words_be (sha_pad ''different-secret'') = [
     0x64696666, 0x6572656e, 0x742d7365, 0x63726574, 0x80000000, 0x0, 0x0, 0x0, 0x0, 0x0, 0x0, 0x0,
      0x0, 0x0, 0x0, 0x80]"
    by (simp add: padding_simps)
  moreover have "sha_rounds (zip sha_k (sha_schedule 48 (rev [
     0x64696666, 0x6572656e, 0x742d7365, 0x63726574, 0x80000000, 0x0, 0x0, 0x0, 0x0, 0x0, 0x0, 0x0,
      0x0, 0x0, 0x0, 0x80]))) sha_h0 = [
     0xaae95720, 0x55129cf9, 0xb5e4be81, 0x55917f25, 0x6cee5706, 0xca533fc0, 0xcaf7149e, 0x7c60bef8]"
    by (simp add: round_simps del: sha_schedule.simps(2) sha_rounds.simps(1))
  ultimately show ?thesis by (simp add: single_block sha_h0_eq bytes_be_def upt_rec char_of_eq_iff take_bit_eq_mod)
qed

lemma sha256_correct_secret:
  "fips_sha256 ''correct-secret'' = [
   CHR 0x67, CHR 0x3F, CHR 0xDF, CHR 0x39, CHR 0x05, CHR 0xBA, CHR 0x00, CHR 0xE8, CHR 0x20,
    CHR 0xDE, CHR 0x90, CHR 0x5B, CHR 0x7C, CHR 0x83, CHR 0x16, CHR 0x04, CHR 0xAC, CHR 0x53,
    CHR 0x5C, CHR 0x75, CHR 0x65, CHR 0x61, CHR 0x23, CHR 0x4E, CHR 0x6D, CHR 0x90, CHR 0xF9,
    CHR 0x74, CHR 0x31, CHR 0x62, CHR 0x26, CHR 0xA6]"
proof -
  have "words_be (sha_pad ''correct-secret'') = [
     0x636f7272, 0x6563742d, 0x73656372, 0x65748000, 0x0, 0x0, 0x0, 0x0, 0x0, 0x0, 0x0, 0x0, 0x0,
      0x0, 0x0, 0x70]"
    by (simp add: padding_simps)
  moreover have "sha_rounds (zip sha_k (sha_schedule 48 (rev [
     0x636f7272, 0x6563742d, 0x73656372, 0x65748000, 0x0, 0x0, 0x0, 0x0, 0x0, 0x0, 0x0, 0x0, 0x0,
      0x0, 0x0, 0x70]))) sha_h0 = [
     0xfd35f8d2, 0x4a525263, 0xe46f9ce9, 0xd73320ca, 0x5b4509f6, 0xca5bbac2, 0x4e0d1fc9, 0xd581598d]"
    by (simp add: round_simps del: sha_schedule.simps(2) sha_rounds.simps(1))
  ultimately show ?thesis by (simp add: single_block sha_h0_eq bytes_be_def upt_rec char_of_eq_iff take_bit_eq_mod)
qed

lemma sha256_wrong_secret:
  "fips_sha256 ''wrong-secret'' = [
   CHR 0x53, CHR 0x9E, CHR 0x91, CHR 0x5A, CHR 0x40, CHR 0x03, CHR 0x34, CHR 0x97, CHR 0xF3,
    CHR 0xA9, CHR 0x3C, CHR 0xE6, CHR 0x62, CHR 0xC8, CHR 0xC1, CHR 0x94, CHR 0x0C, CHR 0x84,
    CHR 0x50, CHR 0x33, CHR 0x61, CHR 0x22, CHR 0x33, CHR 0x12, CHR 0xE6, CHR 0xFA, CHR 0xB7,
    CHR 0xC5, CHR 0xF3, CHR 0xA3, CHR 0xFD, CHR 0xDA]"
proof -
  have "words_be (sha_pad ''wrong-secret'') = [
     0x77726f6e, 0x672d7365, 0x63726574, 0x80000000, 0x0, 0x0, 0x0, 0x0, 0x0, 0x0, 0x0, 0x0, 0x0,
      0x0, 0x0, 0x60]"
    by (simp add: padding_simps)
  moreover have "sha_rounds (zip sha_k (sha_schedule 48 (rev [
     0x77726f6e, 0x672d7365, 0x63726574, 0x80000000, 0x0, 0x0, 0x0, 0x0, 0x0, 0x0, 0x0, 0x0, 0x0,
      0x0, 0x0, 0x60]))) sha_h0 = [
     0xe994aaf3, 0x849b8612, 0xb73a4974, 0xbd78cc5a, 0xbb75fdb4, 0xc61cca86, 0xc776de1a, 0x97c330c1]"
    by (simp add: round_simps del: sha_schedule.simps(2) sha_rounds.simps(1))
  ultimately show ?thesis by (simp add: single_block sha_h0_eq bytes_be_def upt_rec char_of_eq_iff take_bit_eq_mod)
qed

text \<open>The reference drawn as 32 bytes \<open>0x11\<close>.\<close>

lemma sha256_drawn_reference:
  "fips_sha256 ''ERERERERERERERERERERERERERERERERERERERERERE'' = [
   CHR 0xB5, CHR 0x9E, CHR 0x65, CHR 0xC4, CHR 0x02, CHR 0xA6, CHR 0x29, CHR 0xE6, CHR 0xC5,
    CHR 0xB2, CHR 0x83, CHR 0x55, CHR 0xC7, CHR 0x62, CHR 0x8A, CHR 0x10, CHR 0x02, CHR 0x26,
    CHR 0x2B, CHR 0x55, CHR 0xB4, CHR 0x3A, CHR 0x52, CHR 0xF9, CHR 0x41, CHR 0xC0, CHR 0x27,
    CHR 0x40, CHR 0xE3, CHR 0xBD, CHR 0xFA, CHR 0xFC]"
proof -
  have "words_be (sha_pad ''ERERERERERERERERERERERERERERERERERERERERERE'') = [
     0x45524552, 0x45524552, 0x45524552, 0x45524552, 0x45524552, 0x45524552, 0x45524552, 0x45524552,
      0x45524552, 0x45524552, 0x45524580, 0x0, 0x0, 0x0, 0x0, 0x158]"
    by (simp add: padding_simps)
  moreover have "sha_rounds (zip sha_k (sha_schedule 48 (rev [
     0x45524552, 0x45524552, 0x45524552, 0x45524552, 0x45524552, 0x45524552, 0x45524552, 0x45524552,
      0x45524552, 0x45524552, 0x45524580, 0x0, 0x0, 0x0, 0x0, 0x158]))) sha_h0 = [
     0x4b947f5d, 0x473e7b61, 0x89438fe3, 0x221294d6, 0xb117d8d6, 0x1934ea6d, 0x223c4d95, 0x87dd2de3]"
    by (simp add: round_simps del: sha_schedule.simps(2) sha_rounds.simps(1))
  ultimately show ?thesis by (simp add: single_block sha_h0_eq bytes_be_def upt_rec char_of_eq_iff take_bit_eq_mod)
qed

end
