(* ===== verification/Foundation_Tests.thy ===== *)
theory Foundation_Tests
  imports Auth_Foundation Crypto_Vectors
begin

text \<open>
  The unit tests of \<open>auth_foundation.rs\<close> (its \<open>mod tests\<close>) as predicates over the model: a test is
  true when none of its assertions fails.  They are proved on the reference instance of the
  cryptographic crates, so the model is checked against the answers the authors of the program expect.
\<close>

text \<open>The three bytes of the character the tests use outside ASCII, U+3042.\<close>

definition hiragana_a :: string where
  "hiragana_a = [CHR 0xE3, CHR 0x81, CHR 0x82]"

definition repeated :: "nat \<Rightarrow> string \<Rightarrow> string" where
  "repeated n s = concat (replicate n s)"

section \<open>References and lookups\<close>

text \<open>\<open>fill\<close> is the random source: what its \<open>n\<close>-th use answers.\<close>

definition reference_values_are_base64url_without_padding_and_not_reused ::
    "'c crypto_scheme \<Rightarrow> (nat \<Rightarrow> bytes option) \<Rightarrow> bool" where
  "reference_values_are_base64url_without_padding_and_not_reused C fill \<longleftrightarrow>
     (let results = map (\<lambda>n. generate_reference_value C (fill n)) [0..<8];
          values = List.map_filter ok_of results
      in list_all is_ok results
       \<and> list_all (\<lambda>v. length v = OAUTH_STATE_BYTES) values
       \<and> list_all (\<lambda>v. is_ok (validate_fixed_reference_value v)) values
       \<and> list_all (\<lambda>v. CHR ''='' \<notin> set v) values
       \<and> card (set values) = length values)"

definition abc_sha256_hex :: string where
  "abc_sha256_hex = ''ba7816bf8f01cfea414140de5dae2223b00361a396177a9cb410ff61f20015ad''"

definition lookup_is_lowercase_sha256_hex :: "'c crypto_scheme \<Rightarrow> bool" where
  "lookup_is_lowercase_sha256_hex C \<longleftrightarrow>
     (let lookup = reference_value_lookup C ''abc'' in
      length lookup = 64
      \<and> list_all (\<lambda>b. byte_in CHR ''0'' CHR ''9'' b \<or> byte_in CHR ''a'' CHR ''f'' b) lookup
      \<and> lookup = abc_sha256_hex)"

section \<open>Input boundaries\<close>

definition maximum_length_uses_utf8_bytes :: bool where
  "maximum_length_uses_utf8_bytes \<longleftrightarrow>
     is_ok (validate_max_bytes ''abcd'' 4)
     \<and> validate_max_bytes ''abcde'' 4 = Err InvalidLength
     \<and> is_ok (validate_max_bytes hiragana_a 3)
     \<and> validate_max_bytes hiragana_a 2 = Err InvalidLength"

definition normalized_external_identity_validates_provider_and_subject_boundaries :: bool where
  "normalized_external_identity_validates_provider_and_subject_boundaries \<longleftrightarrow>
     is_ok (identity_validate \<lparr>nei_provider = ''google'', nei_subject = ''subject'',
       nei_email = Some ''person@example.test'', nei_email_verification = Verified,
       nei_display_name = None, nei_picture_url = None\<rparr>)
     \<and> list_all (\<lambda>(provider, subject).
         identity_validate \<lparr>nei_provider = provider, nei_subject = subject, nei_email = None,
           nei_email_verification = Unknown, nei_display_name = None, nei_picture_url = None\<rparr> = Err InvalidLength)
       [('''', ''subject''), (repeated (PROVIDER_MAX_BYTES + 1) ''p'', ''subject''), (''google'', ''''),
        (''google'', repeated (SUBJECT_MAX_BYTES + 1) ''s'')]"

definition pkce_verifier_length_range_is_inclusive :: bool where
  "pkce_verifier_length_range_is_inclusive \<longleftrightarrow>
     list_all (\<lambda>(len, expected).
         is_ok (validate_ascii_byte_range (repeated len ''a'') PKCE_VERIFIER_MIN_BYTES PKCE_VERIFIER_MAX_BYTES) = expected)
       [(42, False), (43, True), (128, True), (129, False)]
     \<and> validate_ascii_byte_range (repeated 15 hiragana_a) PKCE_VERIFIER_MIN_BYTES PKCE_VERIFIER_MAX_BYTES = Err InvalidAsciiFormat"

definition fixed_reference_value_requires_43_base64url_characters :: bool where
  "fixed_reference_value_requires_43_base64url_characters \<longleftrightarrow>
     is_ok (validate_fixed_reference_value (repeated 43 ''A''))
     \<and> validate_fixed_reference_value (repeated 42 ''A'') = Err InvalidLength
     \<and> validate_fixed_reference_value (repeated 44 ''A'') = Err InvalidLength
     \<and> list_all (\<lambda>invalid. validate_fixed_reference_value (repeated 42 ''A'' @ [invalid]) = Err InvalidAsciiFormat)
         [CHR ''='', CHR ''+'', CHR ''/'', CHR '' '']
     \<and> validate_fixed_reference_value (repeated 40 ''A'' @ hiragana_a) = Err InvalidAsciiFormat"

definition service_id_accepts_specified_ascii_format :: bool where
  "service_id_accepts_specified_ascii_format \<longleftrightarrow>
     list_all (\<lambda>v. is_ok (validate_service_id v))
       [''a'', ''0'', ''portal-prod'', ''portal_dev'', ''a0_b-c'',
        ''a_______________________________________________________________'']"

definition service_id_rejects_invalid_values :: bool where
  "service_id_rejects_invalid_values \<longleftrightarrow>
     list_all (\<lambda>v. is_err (validate_service_id v))
       ['''', ''a________________________________________________________________'', ''Portal'', ''_portal'', ''-portal'',
        ''portal:prod'', ''portal prod'', ''portal.prod'', ''portal'' @ hiragana_a, ''portal'' @ [CHR 0x0A] @ ''prod'']"

section \<open>Digests and challenges\<close>

definition abc_sha256_digest :: bytes where
  "abc_sha256_digest = [
     CHR 0xba, CHR 0x78, CHR 0x16, CHR 0xbf, CHR 0x8f, CHR 0x01, CHR 0xcf, CHR 0xea, CHR 0x41, CHR 0x41, CHR 0x40,
     CHR 0xde, CHR 0x5d, CHR 0xae, CHR 0x22, CHR 0x23, CHR 0xb0, CHR 0x03, CHR 0x61, CHR 0xa3, CHR 0x96, CHR 0x17,
     CHR 0x7a, CHR 0x9c, CHR 0xb4, CHR 0x10, CHR 0xff, CHR 0x61, CHR 0xf2, CHR 0x00, CHR 0x15, CHR 0xad]"

definition sha256_digest_matches_known_value_and_is_stable :: "'c crypto_scheme \<Rightarrow> bool" where
  "sha256_digest_matches_known_value_and_is_stable C \<longleftrightarrow>
     (let abc_digest = sha256_digest C ''abc'' in
      abc_digest = abc_sha256_digest
      \<and> abc_digest = sha256_digest C ''abc''
      \<and> abc_digest \<noteq> sha256_digest C ''abd'')"

text \<open>\<open>byte ^= 1\<close>.\<close>

definition flip_lowest :: "char \<Rightarrow> char" where
  "flip_lowest c = (if even (of_char c :: nat) then char_of (of_char c + 1 :: nat) else char_of (of_char c - 1 :: nat))"

definition sha256_digest_comparison_handles_equal_and_different_positions :: "'c crypto_scheme \<Rightarrow> bool" where
  "sha256_digest_comparison_handles_equal_and_different_positions C \<longleftrightarrow>
     (let digest = sha256_digest C ''abc'';
          first_byte_differs = digest[0 := flip_lowest (digest ! 0)];
          last_byte_differs = digest[31 := flip_lowest (digest ! 31)] in
      sha256_digest_eq C digest digest
      \<and> \<not> sha256_digest_eq C digest (sha256_digest C ''abd'')
      \<and> \<not> sha256_digest_eq C digest first_byte_differs
      \<and> \<not> sha256_digest_eq C digest last_byte_differs)"

definition pkce_s256_challenge_matches_rfc_7636_and_validates_boundaries :: "'c crypto_scheme \<Rightarrow> bool" where
  "pkce_s256_challenge_matches_rfc_7636_and_validates_boundaries C \<longleftrightarrow>
     (case pkce_s256_challenge C ''dBjftJeZ4CVP-mB92K27uhbUJU1p1r_wW1gFWFOEjXk'' of
        Inl _ \<Rightarrow> False
      | Inr challenge \<Rightarrow>
          challenge = ''E9Melhoa2OwvFrEMTJguCHaoeK1t8URWbuGJSstw-cM''
          \<and> length challenge = PKCE_CHALLENGE_BYTES
          \<and> CHR ''='' \<notin> set challenge)
     \<and> pkce_s256_challenge C (repeated 42 ''a'') = Err InvalidLength
     \<and> pkce_s256_challenge C (repeated 129 ''a'') = Err InvalidLength
     \<and> pkce_s256_challenge C (repeated 15 hiragana_a) = Err InvalidAsciiFormat"

section \<open>Time\<close>

text \<open>\<open>UNIX_EPOCH\<close> is 0, and durations are in nanoseconds.\<close>

definition unix_seconds_converts_epoch_seconds_and_rejects_before_epoch :: bool where
  "unix_seconds_converts_epoch_seconds_and_rejects_before_epoch \<longleftrightarrow>
     unix_seconds 0 = Ok 0
     \<and> unix_seconds (0 + 1 * 1000000000) = Ok 1
     \<and> unix_seconds (0 + 1999 * 1000000) = Ok 1
     \<and> unix_seconds (0 - 1 * 1000000000) = Err BeforeUnixEpoch"

definition checked_expires_at_rejects_overflow :: bool where
  "checked_expires_at_rejects_overflow \<longleftrightarrow>
     checked_expires_at 100 60 = Ok 160
     \<and> checked_expires_at 100 0 = Ok 100
     \<and> checked_expires_at (- 1 - 1) 1 = Ok (- 1)
     \<and> checked_expires_at (- 1) 1 = Err Overflow"

definition unexpired_requires_now_to_be_strictly_before_expiry :: bool where
  "unexpired_requires_now_to_be_strictly_before_expiry \<longleftrightarrow>
     is_unexpired 9 10 \<and> \<not> is_unexpired 10 10 \<and> \<not> is_unexpired 11 10"

section \<open>They pass\<close>

definition foundation_tests :: "'c crypto_scheme \<Rightarrow> (nat \<Rightarrow> bytes option) \<Rightarrow> bool list" where
  "foundation_tests C fill = [
     reference_values_are_base64url_without_padding_and_not_reused C fill,
     lookup_is_lowercase_sha256_hex C,
     maximum_length_uses_utf8_bytes,
     normalized_external_identity_validates_provider_and_subject_boundaries,
     pkce_verifier_length_range_is_inclusive,
     fixed_reference_value_requires_43_base64url_characters,
     service_id_accepts_specified_ascii_format,
     service_id_rejects_invalid_values,
     sha256_digest_matches_known_value_and_is_stable C,
     sha256_digest_comparison_handles_equal_and_different_positions C,
     pkce_s256_challenge_matches_rfc_7636_and_validates_boundaries C,
     unix_seconds_converts_epoch_seconds_and_rejects_before_epoch,
     checked_expires_at_rejects_overflow,
     unexpired_requires_now_to_be_strictly_before_expiry]"

lemma repeated_single [simp]: "repeated n [c] = replicate n c"
  by (induction n) (simp_all add: repeated_def)

lemma boundary_tests:
  "maximum_length_uses_utf8_bytes" "normalized_external_identity_validates_provider_and_subject_boundaries"
  "pkce_verifier_length_range_is_inclusive" "fixed_reference_value_requires_43_base64url_characters"
  by (simp_all add: maximum_length_uses_utf8_bytes_def validate_max_bytes_def hiragana_a_def
      normalized_external_identity_validates_provider_and_subject_boundaries_def identity_validate_def
      validate_nonempty_max_bytes_def foundation_bounds pkce_verifier_length_range_is_inclusive_def
      validate_ascii_byte_range_def repeated_def is_ascii_def is_ascii_byte_def replicate_count
      fixed_reference_value_requires_43_base64url_characters_def validate_fixed_reference_value_def
      is_base64url_no_pad_byte_def byte_in_def)

lemma service_id_tests: "service_id_accepts_specified_ascii_format" "service_id_rejects_invalid_values"
  by (simp_all add: service_id_accepts_specified_ascii_format_def service_id_rejects_invalid_values_def
      validate_service_id_def foundation_bounds is_service_id_rest_byte_def byte_in_def hiragana_a_def)

lemma time_tests:
  "unix_seconds_converts_epoch_seconds_and_rejects_before_epoch" "checked_expires_at_rejects_overflow"
  "unexpired_requires_now_to_be_strictly_before_expiry"
  by (simp_all add: unix_seconds_converts_epoch_seconds_and_rejects_before_epoch_def unix_seconds_def
      checked_expires_at_rejects_overflow_def checked_expires_at_def checked_add_def unsigned_minus_1_eq_mask
      mask_eq_exp_minus_1 unexpired_requires_now_to_be_strictly_before_expiry_def is_unexpired_def)

lemma reference_digests:
  "sha256 ref_crypto ''abc'' = abc_sha256_digest" "sha256 ref_crypto ''abd'' \<noteq> abc_sha256_digest"
  by (simp_all add: ref_crypto_def sha256_abc sha256_abd abc_sha256_digest_def)

lemma lookup_test: "lookup_is_lowercase_sha256_hex ref_crypto"
proof -
  have "reference_value_lookup ref_crypto ''abc'' = abc_sha256_hex"
    by (simp add: reference_value_lookup_def sha256_digest_def reference_digests abc_sha256_digest_def byte_hex_def
        hex_digit_def abc_sha256_hex_def)
  then show ?thesis by (simp add: lookup_is_lowercase_sha256_hex_def abc_sha256_hex_def byte_in_def)
qed

lemma flip_differs: "flip_lowest c \<noteq> c"
proof
  assume eq: "flip_lowest c = c"
  define n where "n = (of_char c :: nat)"
  have "n < 256" using of_char_less_256 [of c] unfolding n_def by simp
  have "of_char (flip_lowest c) = (if even n then (n + 1) mod 256 else (n - 1) mod 256)"
    by (simp add: flip_lowest_def n_def)
  moreover have "of_char (flip_lowest c) = n" using eq by (simp add: n_def)
  ultimately have "(if even n then (n + 1) mod 256 else (n - 1) mod 256) = n" by simp
  with \<open>n < 256\<close> show False by (cases "n = 255") (auto split: if_splits elim: oddE)
qed

lemma update_differs: "i < length d \<Longrightarrow> d \<noteq> d[i := flip_lowest (d ! i)]"
  by (metis flip_differs nth_list_update_eq)

lemma digest_tests:
  "sha256_digest_matches_known_value_and_is_stable ref_crypto"
  "sha256_digest_comparison_handles_equal_and_different_positions ref_crypto"
proof -
  have "length abc_sha256_digest = 32" by (simp add: abc_sha256_digest_def)
  then show "sha256_digest_matches_known_value_and_is_stable ref_crypto"
    "sha256_digest_comparison_handles_equal_and_different_positions ref_crypto"
    using reference_digests(2) [symmetric]
    by (simp_all add: sha256_digest_matches_known_value_and_is_stable_def sha256_digest_def reference_digests(1)
        sha256_digest_comparison_handles_equal_and_different_positions_def sha256_digest_eq_def reference.ct_eq_iff
        update_differs Let_def)
qed

lemma challenge_test: "pkce_s256_challenge_matches_rfc_7636_and_validates_boundaries ref_crypto"
proof -
  let ?v = "''dBjftJeZ4CVP-mB92K27uhbUJU1p1r_wW1gFWFOEjXk''"
  have "b64url_encode ref_crypto (sha256 ref_crypto ?v) = ''E9Melhoa2OwvFrEMTJguCHaoeK1t8URWbuGJSstw-cM''"
    by (simp add: ref_crypto_def sha256_rfc7636 rfc_b64url_encode_def byte_vals_def b64_alphabet_url_def upt_rec
        char_of_eq_iff take_bit_eq_mod)
  moreover have "validate_ascii_byte_range ?v 43 128 = Ok ()"
    by (simp add: validate_ascii_byte_range_def is_ascii_def is_ascii_byte_def)
  ultimately show ?thesis
    by (simp add: pkce_s256_challenge_matches_rfc_7636_and_validates_boundaries_def pkce_s256_challenge_def foundation_bounds
        sha256_digest_def validate_ascii_byte_range_def hiragana_a_def repeated_def is_ascii_def is_ascii_byte_def replicate_count)
qed

lemma reference_values_test:
  assumes "\<And>n. n < 8 \<Longrightarrow> \<exists>bs. fill n = Some bs \<and> length bs = 32" "inj_on fill {..<8}"
  shows "reference_values_are_base64url_without_padding_and_not_reused ref_crypto fill"
proof -
  let ?text = "\<lambda>n. b64url_encode ref_crypto (the (fill n))"
  have ok: "map (\<lambda>n. generate_reference_value ref_crypto (fill n)) [0..<8] = map (\<lambda>n. Ok (?text n)) [0..<8]"
    using assms(1) by (fastforce simp: generate_reference_value_def)
  have valid: "validate_fixed_reference_value (?text n) = Ok ()" if "n < 8" for n
    using assms(1) [OF that] generated_reference_valid [OF reference.crypto_lib_axioms] by auto
  have "inj_on ?text {..<8}"
  proof (rule inj_onI)
    fix m n :: nat assume mn: "m \<in> {..<8}" "n \<in> {..<8}" "?text m = ?text n"
    then have "the (fill m) = the (fill n)" by (auto simp: ref_crypto_def dest: rfc_b64url_inj)
    with assms(1) [of m] assms(1) [of n] mn(1,2) have "fill m = fill n" by auto
    with assms(2) mn(1,2) show "m = n" by (auto dest: inj_onD)
  qed
  then have "distinct (map ?text [0..<8])" by (simp only: distinct_map set_upt distinct_upt atLeast0LessThan)
  then have "card (set (map ?text [0..<8])) = 8" by (subst distinct_card) simp_all
  moreover have filtered: "List.map_filter ok_of (map (\<lambda>n. Ok (?text n)) [0..<8]) = map ?text [0..<8]"
    by (simp add: List.map_filter_def o_def)
  moreover have "CHR ''='' \<notin> set (?text n)" if "n < 8" for n
    using valid [OF that] by (auto simp: validate_fixed_reference_value_Ok list_all_iff b64url_byte_def byte_class_defs)
  ultimately show ?thesis
    using valid unfolding reference_values_are_base64url_without_padding_and_not_reused_def Let_def ok filtered
    by (auto simp: list_all_iff validate_fixed_reference_value_Ok foundation_bounds is_ok_unit_iff)
qed

text \<open>
  All unit tests of auth_foundation.rs hold on the model, run with the reference SHA-256 and
  base64url and any random source whose eight draws have 32 bytes and are pairwise distinct: in
  particular the model's lookup, digest and PKCE challenge have the published values of FIPS 180-4
  and RFC 7636.
\<close>

lemma foundation_tests_pass:
  assumes "\<And>n. n < 8 \<Longrightarrow> \<exists>bs. fill n = Some bs \<and> length bs = 32" "inj_on fill {..<8}"
  shows "list_all id (foundation_tests ref_crypto fill)"
  using reference_values_test [OF assms]
  by (simp add: foundation_tests_def boundary_tests service_id_tests time_tests lookup_test digest_tests challenge_test)

end
