(* ===== verification/Auth_Tests.thy ===== *)
theory Auth_Tests
  imports Login_Flow Foundation_Tests
begin

text \<open>
  The unit tests of the authentication service (\<open>rust-auth0-service/src/main.rs\<close>) and the tests of
  \<open>postgres.rs\<close> as predicates over the model; the latter run against the in-memory database, on
  which \<open>sqlx\<close> statements of the test itself are updates of its tables.
\<close>

section \<open>Routes, queries and identities\<close>

definition t24_legacy_auth_routes_are_unavailable :: bool where
  "t24_legacy_auth_routes_are_unavailable \<longleftrightarrow>
     list_all (\<lambda>(method, path). configure_auth_routes method path = None)
       [(GET, ''/auth/google''), (POST, ''/upsert_and_token''), (GET, ''/sessions/verify''), (POST, ''/logout'')]"

definition login_query_rejects_duplicate_required_fields :: "'u url_ops \<Rightarrow> bool" where
  "login_query_rejects_duplicate_required_fields U \<longleftrightarrow>
     (let challenge = repeated 43 ''A'' in
      list_all (\<lambda>parameter. decode_login_query (url_form_parse U (parameter @ ''&service_id=service&state=state&code_challenge=''
            @ challenge @ ''&code_challenge_method=S256'')) = None)
        [''service_id=service&service_id=other'', ''state=one&state=two'',
         ''code_challenge='' @ repeated 43 ''A'' @ ''&code_challenge='' @ repeated 43 ''B'',
         ''code_challenge_method=S256&code_challenge_method=S256''])"

definition info_fixture :: google_user_info where
  "info_fixture = \<lparr>gui_id = ''google-subject'', gui_email = None, gui_verified_email = None, gui_name = None, gui_picture = None\<rparr>"

definition google_user_info_normalization_preserves_optional_identity_metadata :: bool where
  "google_user_info_normalization_preserves_optional_identity_metadata \<longleftrightarrow>
     (case normalize_google_user_info (info_fixture\<lparr>gui_email := Some ''person@example.test'', gui_verified_email := Some True,
            gui_name := Some ''Display Name''\<rparr>) of
        Inl _ \<Rightarrow> False
      | Inr verified \<Rightarrow> nei_provider verified = ''google'' \<and> nei_subject verified = ''google-subject''
          \<and> nei_email verified = Some ''person@example.test'' \<and> nei_email_verification verified = Verified
          \<and> nei_picture_url verified = None \<and> nei_display_name verified = Some ''Display Name'')
     \<and> list_all (\<lambda>(verified_email, expected).
          (case normalize_google_user_info (info_fixture\<lparr>gui_verified_email := verified_email, gui_picture := Some ''''\<rparr>) of
             Inl _ \<Rightarrow> False
           | Inr identity \<Rightarrow> nei_email identity = None \<and> nei_email_verification identity = expected
               \<and> nei_picture_url identity = None \<and> nei_display_name identity = None))
        [(Some False, Unverified), (None, Unknown)]
     \<and> list_all (\<lambda>(name, expected).
          (case normalize_google_user_info (info_fixture\<lparr>gui_name := Some name\<rparr>) of
             Inl _ \<Rightarrow> False | Inr identity \<Rightarrow> nei_display_name identity = expected))
        [('''', None), (''   '', None), ('' Alice Example '', Some '' Alice Example '')]"

definition google_user_info_normalization_rejects_empty_or_oversized_subject :: bool where
  "google_user_info_normalization_rejects_empty_or_oversized_subject \<longleftrightarrow>
     list_all (\<lambda>i. is_err (normalize_google_user_info (info_fixture\<lparr>gui_id := i\<rparr>)))
       ['''', repeated (SUBJECT_MAX_BYTES + 1) ''s'']"

section \<open>PostgreSQL\<close>

definition stored_secret_digest_accepts_32_bytes :: "'c crypto_scheme \<Rightarrow> bool" where
  "stored_secret_digest_accepts_32_bytes C \<longleftrightarrow>
     (let digest = sha256_digest C ''service-secret'' in stored_secret_digest digest = Ok digest)"

definition stored_secret_digest_rejects_31_bytes :: bool where
  "stored_secret_digest_rejects_31_bytes \<longleftrightarrow> stored_secret_digest (replicate 31 (CHR 0x00)) = Err StoredSecretInvalidLength"

definition stored_secret_digest_rejects_33_bytes :: bool where
  "stored_secret_digest_rejects_33_bytes \<longleftrightarrow> stored_secret_digest (replicate 33 (CHR 0x00)) = Err StoredSecretInvalidLength"

definition stored_secret_digest_matches_presented_secret_digest :: "'c crypto_scheme \<Rightarrow> bool" where
  "stored_secret_digest_matches_presented_secret_digest C \<longleftrightarrow>
     (case stored_secret_digest (sha256_digest C ''service-secret'') of
        Inl _ \<Rightarrow> False | Inr stored \<Rightarrow> sha256_digest_eq C stored (sha256_digest C ''service-secret''))"

definition stored_secret_digest_rejects_different_presented_secret_digest :: "'c crypto_scheme \<Rightarrow> bool" where
  "stored_secret_digest_rejects_different_presented_secret_digest C \<longleftrightarrow>
     (case stored_secret_digest (sha256_digest C ''service-secret'') of
        Inl _ \<Rightarrow> False | Inr stored \<Rightarrow> \<not> sha256_digest_eq C stored (sha256_digest C ''different-secret''))"

text \<open>A disposable database, and one whose pool has been closed: no statement reaches it.\<close>

definition test_pool :: "mem_pg_state pool" where
  "test_pool = \<lparr>database = \<lparr>pg_tables = \<lparr>services = Map.empty, users = Map.empty, identities = Map.empty\<rparr>,
     pg_staged = Map.empty, pg_next_tx = 0, pg_next_user = 1\<rparr>, statements = 0\<rparr>"

definition test_pg_env :: "mem_pg_state pg_env" where
  "test_pg_env = \<lparr>pg = mem_pg, pg_interference = (\<lambda>_ d. d), pg_network = (\<lambda>_. Delivered)\<rparr>"

definition closed_pg_env :: "mem_pg_state pg_env" where
  "closed_pg_env = test_pg_env\<lparr>pg_network := (\<lambda>_. RequestLost)\<rparr>"

text \<open>The statements of the tests themselves.\<close>

definition on_tables :: "(tables \<Rightarrow> tables) \<Rightarrow> mem_pg_state pool \<Rightarrow> mem_pg_state pool" where
  "on_tables f p = p\<lparr>database := (database p)\<lparr>pg_tables := f (pg_tables (database p))\<rparr>\<rparr>"

definition insert_service ::
    "'c crypto_scheme \<Rightarrow> string \<Rightarrow> bool \<Rightarrow> string \<Rightarrow> mem_pg_state pool \<Rightarrow> mem_pg_state pool" where
  "insert_service C service_id is_enabled secret = on_tables (\<lambda>v. v\<lparr>services := (services v)(service_id \<mapsto>
     \<lparr>row_is_enabled = is_enabled, row_login_callback_uri = ''https://callback.example.test'',
      row_logout_return_uri = ''https://logout.example.test'', row_service_secret_sha256 = sha256_digest C secret\<rparr>)\<rparr>)"

definition disable_service :: "string \<Rightarrow> mem_pg_state pool \<Rightarrow> mem_pg_state pool" where
  "disable_service service_id = on_tables (\<lambda>v. v\<lparr>services := (services v)(service_id :=
     map_option (\<lambda>r. r\<lparr>row_is_enabled := False\<rparr>) (services v service_id))\<rparr>)"

definition insert_user :: "i32 \<Rightarrow> bool \<Rightarrow> mem_pg_state pool \<Rightarrow> mem_pg_state pool" where
  "insert_user u is_enabled = on_tables (\<lambda>v. v\<lparr>users := (users v)(u \<mapsto> is_enabled)\<rparr>)"

definition registered_service_authentication_cases :: "'c crypto_scheme \<Rightarrow> string \<Rightarrow> bool" where
  "registered_service_authentication_cases C suffix \<longleftrightarrow>
     (let service_id = ''t06service_'' @ suffix;
          pool = insert_service C service_id True ''correct-secret'' test_pool in
      fst (authenticate_service C test_pg_env service_id ''correct-secret'' pool) =
        Ok \<lparr>asv_service_id = service_id, asv_login_callback_uri = ''https://callback.example.test'',
            asv_logout_return_uri = ''https://logout.example.test''\<rparr>
      \<and> fst (authenticate_service C test_pg_env ''t06missing'' ''correct-secret'' pool) = Err ServiceNotFound
      \<and> fst (authenticate_service C test_pg_env service_id ''wrong-secret'' pool) = Err ServiceSecretMismatch
      \<and> fst (authenticate_service C test_pg_env service_id ''correct-secret'' (disable_service service_id pool)) =
          Err ServiceDisabled)"

definition login_callback_lookup_cases :: "'c crypto_scheme \<Rightarrow> string \<Rightarrow> bool" where
  "login_callback_lookup_cases C suffix \<longleftrightarrow>
     (let service_id = ''t10login'' @ suffix; pool = insert_service C service_id True ''secret'' test_pool in
      fst (lookup_login_callback_uri test_pg_env service_id pool) = Ok ''https://callback.example.test''
      \<and> fst (lookup_login_callback_uri test_pg_env ''t10missing'' pool) = Err ServiceNotFound
      \<and> fst (lookup_login_callback_uri test_pg_env service_id (disable_service service_id pool)) = Err ServiceDisabled
      \<and> fst (lookup_login_callback_uri closed_pg_env ''t10closed'' pool) = Err DatabaseFailure)"

definition internal_user_enabled_read_cases :: "i32 \<Rightarrow> i32 \<Rightarrow> bool" where
  "internal_user_enabled_read_cases enabled disabled \<longleftrightarrow>
     (let pool = insert_user disabled False (insert_user enabled True test_pool) in
      fst (read_internal_user_enabled test_pg_env enabled pool) = Ok (Some True)
      \<and> fst (read_internal_user_enabled test_pg_env disabled pool) = Ok (Some False)
      \<and> fst (read_internal_user_enabled test_pg_env (- 1) pool) = Ok None)"

definition external_identity_resolution_cases :: "string \<Rightarrow> bool" where
  "external_identity_resolution_cases suffix \<longleftrightarrow>
     (let provider = ''t06provider_'' @ suffix in
      case resolve_external_identity test_pg_env provider ''subject-one'' test_pool of
        (Inr first, p1) \<Rightarrow>
          fst (resolve_external_identity test_pg_env provider ''subject-one'' p1) = Ok first
          \<and> (case resolve_external_identity test_pg_env provider ''subject-two'' p1 of
               (Inr second, p2) \<Rightarrow>
                 (case resolve_external_identity test_pg_env ''t06otherprovider'' ''subject-one'' p2 of
                    (Inr third, p3) \<Rightarrow>
                      first \<noteq> second \<and> first \<noteq> third
                      \<and> fst (resolve_external_identity test_pg_env provider ''subject-one'' (insert_user first False p3)) =
                          Err UserDisabled
                  | _ \<Rightarrow> False)
             | _ \<Rightarrow> False)
      | _ \<Rightarrow> False)"

definition closed_pool_is_database_failure :: "'c crypto_scheme \<Rightarrow> bool" where
  "closed_pool_is_database_failure C \<longleftrightarrow>
     fst (authenticate_service C closed_pg_env ''t06service'' ''secret'' test_pool) = Err DatabaseFailure
     \<and> fst (resolve_external_identity closed_pg_env ''t06provider'' ''subject'' test_pool) = Err DatabaseFailure"

text \<open>
  Of the interleavings of the two tasks: the second one runs as a whole before the statement \<open>k\<close>
  of the first (which sends five, from \<open>0\<close>), or after its last one.  It finds what the first
  has done until then: the tables after \<open>k\<close> delivered statements.
\<close>

definition second_task_env :: "string \<Rightarrow> string \<Rightarrow> nat \<Rightarrow> mem_pg_state pg_env" where
  "second_task_env provider subject k = test_pg_env\<lparr>pg_interference := (\<lambda>n d. if n = k
     then database (snd (resolve_external_identity test_pg_env provider subject \<lparr>database = d, statements = 0\<rparr>)) else d)\<rparr>"

definition pool_before_statement :: "string \<Rightarrow> string \<Rightarrow> nat \<Rightarrow> mem_pg_state pool" where
  "pool_before_statement provider subject k =
     snd (resolve_external_identity (test_pg_env\<lparr>pg_network := (\<lambda>n. if n < k then Delivered else RequestLost)\<rparr>)
       provider subject test_pool)"

definition concurrent_identity_resolution_returns_one_internal_user :: "string \<Rightarrow> nat \<Rightarrow> bool" where
  "concurrent_identity_resolution_returns_one_internal_user suffix k \<longleftrightarrow>
     (let provider = ''t06provider_'' @ suffix; subject = ''concurrent-subject'' in
      case resolve_external_identity (second_task_env provider subject k) provider subject test_pool of (first, p1) \<Rightarrow>
      case resolve_external_identity test_pg_env provider subject (pool_before_statement provider subject k) of (second, p2) \<Rightarrow>
        is_ok first \<and> first = second
        \<and> card (dom (identities (pg_tables (database (if k < 5 then p1 else p2))))) = 1
        \<and> card (dom (users (pg_tables (database (if k < 5 then p1 else p2))))) = card (dom (users (pg_tables (database test_pool)))) + 1)"

definition unique_conflict_rolls_back_extra_internal_user_and_returns_winner :: "string \<Rightarrow> bool" where
  "unique_conflict_rolls_back_extra_internal_user_and_returns_winner suffix \<longleftrightarrow>
     (let provider = ''t06provider_'' @ suffix; subject = ''unique-conflict-subject'' in
      case resolve_external_identity test_pg_env provider subject test_pool of
        (Inr winner, p1) \<Rightarrow>
          (case create_external_identity test_pg_env provider subject p1 of
             (res, p2) \<Rightarrow> res = Ok winner \<and> users (pg_tables (database p2)) = users (pg_tables (database p1)))
      | _ \<Rightarrow> False)"

definition logout_return_uri_lookup_cases :: "'c crypto_scheme \<Rightarrow> string \<Rightarrow> string \<Rightarrow> bool" where
  "logout_return_uri_lookup_cases C suffix1 suffix2 \<longleftrightarrow>
     (let enabled = ''t12logoutenabled'' @ suffix1; disabled = ''t12logoutdisabled'' @ suffix2;
          pool = insert_service C disabled False ''secret'' (insert_service C enabled True ''secret'' test_pool) in
      fst (lookup_logout_return_uri test_pg_env enabled pool) = Ok ''https://logout.example.test''
      \<and> fst (lookup_logout_return_uri test_pg_env ''t12logoutmissing'' pool) = Err ServiceNotFound
      \<and> fst (lookup_logout_return_uri test_pg_env disabled pool) = Err ServiceDisabled)"

section \<open>They pass\<close>

lemma route_tests: "t24_legacy_auth_routes_are_unavailable" "login_query_rejects_duplicate_required_fields simple_urls"
  by (simp_all add: t24_legacy_auth_routes_are_unavailable_def configure_auth_routes_def
      login_query_rejects_duplicate_required_fields_def Let_def simple_urls_def form_parse.simps pair_of_def replicate_count
      decode_login_query_def single_value_def)

lemma identity_tests:
  "google_user_info_normalization_preserves_optional_identity_metadata"
  "google_user_info_normalization_rejects_empty_or_oversized_subject"
  by (simp_all add: google_user_info_normalization_preserves_optional_identity_metadata_def info_fixture_def
      normalize_google_user_info_def Let_def identity_validate_def validate_nonempty_max_bytes_def option_filter_def
      google_user_info_normalization_rejects_empty_or_oversized_subject_def foundation_bounds byte_in_def)

lemma secret_length_tests:
  "crypto_lib C \<Longrightarrow> stored_secret_digest_accepts_32_bytes C" "stored_secret_digest_rejects_31_bytes"
  "stored_secret_digest_rejects_33_bytes" "crypto_lib C \<Longrightarrow> stored_secret_digest_matches_presented_secret_digest C"
  by (simp_all add: stored_secret_digest_accepts_32_bytes_def stored_secret_digest_rejects_31_bytes_def
      stored_secret_digest_rejects_33_bytes_def stored_secret_digest_matches_presented_secret_digest_def
      stored_secret_digest_def sha256_digest_def sha256_digest_eq_def crypto_lib.sha256_length crypto_lib.ct_eq_iff Let_def)

lemma different_secret_test:
  "crypto_lib C \<Longrightarrow> sha256 C ''service-secret'' \<noteq> sha256 C ''different-secret''
     \<Longrightarrow> stored_secret_digest_rejects_different_presented_secret_digest C"
  by (simp add: stored_secret_digest_rejects_different_presented_secret_digest_def
      stored_secret_digest_def sha256_digest_def sha256_digest_eq_def crypto_lib.sha256_length crypto_lib.ct_eq_iff)

lemmas statement_simps = pg_trip_def pg_arrival_def fetch_optional_def test_pg_env_def closed_pg_env_def test_pool_def on_tables_def
  insert_service_def disable_service_def insert_user_def mem_pg_def service_columns_def Let_def

lemma lookup_tests:
  "login_callback_lookup_cases C suffix" "logout_return_uri_lookup_cases C suffix1 suffix2"
  "enabled \<noteq> disabled \<Longrightarrow> - 1 \<notin> {enabled, disabled} \<Longrightarrow> internal_user_enabled_read_cases enabled disabled"
  by (simp_all add: login_callback_lookup_cases_def logout_return_uri_lookup_cases_def internal_user_enabled_read_cases_def
      lookup_login_callback_uri_def lookup_logout_return_uri_def read_internal_user_enabled_def statement_simps restrict_map_def)

lemma authentication_test:
  "crypto_lib C \<Longrightarrow> sha256 C ''correct-secret'' \<noteq> sha256 C ''wrong-secret'' \<Longrightarrow> registered_service_authentication_cases C suffix"
  by (simp add: registered_service_authentication_cases_def authenticate_service_def read_registered_service_def statement_simps
      restrict_map_def stored_secret_digest_def sha256_digest_def sha256_digest_eq_def crypto_lib.sha256_length crypto_lib.ct_eq_iff)

lemmas resolution_simps = resolve_external_identity_def read_external_identity_with_user_def create_external_identity_def
  finish_identity_def statement_simps plain_def mem_insert_user_def mem_insert_identity_def mem_commit_def identity_columns_def

lemma closed_pool_test: "closed_pool_is_database_failure C"
  by (simp add: closed_pool_is_database_failure_def authenticate_service_def read_registered_service_def resolution_simps)

lemma resolution_tests:
  "external_identity_resolution_cases suffix" "unique_conflict_rolls_back_extra_internal_user_and_returns_winner suffix"
  by (simp_all add: external_identity_resolution_cases_def resolution_simps
      unique_conflict_rolls_back_extra_internal_user_and_returns_winner_def)

text \<open>
  Wherever the second task gets in, except between the insertion of the identity and the commit
  (\<open>k = 4\<close>): there PostgreSQL makes the second insertion wait for the commit, and the task
  cannot run as a whole.
\<close>

lemmas race_simps = concurrent_identity_resolution_returns_one_internal_user_def second_task_env_def pool_before_statement_def
  resolution_simps

lemma race_test:
  assumes "k \<noteq> 4"
  shows "concurrent_identity_resolution_returns_one_internal_user suffix k"
proof -
  consider "k = 0" | "k = 1" | "k = 2" | "k = 3" | "5 \<le> k" using assms by linarith
  then show ?thesis by cases (simp_all add: race_simps)
qed

definition auth_unit_tests :: "'c crypto_scheme \<Rightarrow> string \<Rightarrow> nat \<Rightarrow> i32 \<Rightarrow> i32 \<Rightarrow> bool list" where
  "auth_unit_tests C suffix k enabled disabled = [
     t24_legacy_auth_routes_are_unavailable,
     login_query_rejects_duplicate_required_fields simple_urls,
     google_user_info_normalization_preserves_optional_identity_metadata,
     google_user_info_normalization_rejects_empty_or_oversized_subject,
     stored_secret_digest_accepts_32_bytes C,
     stored_secret_digest_rejects_31_bytes,
     stored_secret_digest_rejects_33_bytes,
     stored_secret_digest_matches_presented_secret_digest C,
     stored_secret_digest_rejects_different_presented_secret_digest C,
     registered_service_authentication_cases C suffix,
     login_callback_lookup_cases C suffix,
     internal_user_enabled_read_cases enabled disabled,
     external_identity_resolution_cases suffix,
     closed_pool_is_database_failure C,
     concurrent_identity_resolution_returns_one_internal_user suffix k,
     unique_conflict_rolls_back_extra_internal_user_and_returns_winner suffix,
     logout_return_uri_lookup_cases C suffix suffix]"



end
