(* ===== verification/Redis_Tests.thy ===== *)
theory Redis_Tests
  imports Redis_Properties Foundation_Tests "HOL-Library.Sublist"
begin

text \<open>
  The unit tests of \<open>redis_state.rs\<close> as predicates over the model, on the data of its fixtures.
  Its integration tests are in \<open>Redis_Integration\<close> and \<open>Redis_Rejections\<close>.
\<close>

definition test_error_fixture :: redis_error where
  "test_error_fixture = \<lparr>err_kind = ''ResponseError'', err_code = Some ''ERR''\<rparr>"

definition keys_use_only_the_four_hashed_key_families :: "'c crypto_scheme \<Rightarrow> bool" where
  "keys_use_only_the_four_hashed_key_families C \<longleftrightarrow>
     (let text = ''plain-reference-must-not-appear'' in
      list_all (\<lambda>(key_prefix, key).
          starts_with key_prefix key \<and> \<not> sublist text key
          \<and> (case strip_prefix key_prefix key of None \<Rightarrow> False | Some lookup \<Rightarrow> length lookup = 64 \<and> is_lookup lookup))
        [(''auth:external:'', external_key C text), (''auth:session:'', session_key C text),
         (''auth:handoff:'', handoff_key C text), (''auth:logout:'', logout_key C text)])"

text \<open>\<open>fields\<close> collects the encoded pairs into a map.\<close>

definition fields :: "(string \<times> string) list \<Rightarrow> field_map" where
  "fields = btree_collect"

definition all_states_encode_decode_with_exact_fields :: bool where
  "all_states_encode_decode_with_exact_fields \<longleftrightarrow>
     decode_external (fields (encode_external external_fixture)) = Ok external_fixture
     \<and> decode_session (fields (encode_session session_fixture)) = Ok session_fixture
     \<and> decode_handoff (fields (encode_handoff (handoff_fixture Used))) = Ok (handoff_fixture Used)
     \<and> decode_logout (fields (encode_logout logout_fixture)) = Ok logout_fixture
     \<and> length (encode_external external_fixture) = length EXTERNAL_FIELDS
     \<and> length (encode_session session_fixture) = length SESSION_FIELDS
     \<and> length (encode_handoff (handoff_fixture Unused)) = length HANDOFF_FIELDS
     \<and> length (encode_logout logout_fixture) = length LOGOUT_FIELDS"

definition decode_rejects_missing_unknown_and_invalid_numeric_fields :: bool where
  "decode_rejects_missing_unknown_and_invalid_numeric_fields \<longleftrightarrow>
     decode_external (AList.delete ''provider'' (fields (encode_external external_fixture))) = Err InvalidStoredState
     \<and> decode_session (AList.update ''unexpected'' ''value'' (fields (encode_session session_fixture))) = Err InvalidStoredState
     \<and> decode_session (AList.update ''internal_user_id'' ''not-a-number'' (fields (encode_session session_fixture))) =
         Err InvalidStoredState"

definition decode_rejects_unknown_status_and_invalid_lookups :: bool where
  "decode_rejects_unknown_status_and_invalid_lookups \<longleftrightarrow>
     decode_external (AList.update ''status'' ''other'' (fields (encode_external external_fixture))) = Err InvalidStoredState
     \<and> decode_handoff (AList.update ''status'' ''other'' (fields (encode_handoff (handoff_fixture Unused)))) = Err InvalidStoredState
     \<and> decode_logout (AList.update ''status'' ''other'' (fields (encode_logout logout_fixture))) = Err InvalidStoredState
     \<and> decode_handoff (AList.update ''common_session_lookup'' ''ABC'' (fields (encode_handoff (handoff_fixture Unused)))) =
         Err InvalidStoredState
     \<and> decode_logout (AList.update ''csrf_lookup'' (repeated 64 ''g'') (fields (encode_logout logout_fixture))) =
         Err InvalidStoredState"

definition expiry_requires_now_to_be_strictly_before_expires_at :: bool where
  "expiry_requires_now_to_be_strictly_before_expires_at \<longleftrightarrow>
     is_unexpired 9 10 \<and> \<not> is_unexpired 10 10 \<and> \<not> is_unexpired 11 10"

definition ttl_constants_match_the_storage_contract :: bool where
  "ttl_constants_match_the_storage_contract \<longleftrightarrow>
     EXTERNAL_AUTH_TRANSACTION_TTL_SECONDS = 600
     \<and> COMMON_SESSION_TTL_SECONDS = 28800
     \<and> AUTHENTICATION_HANDOFF_TTL_SECONDS = 120
     \<and> COMMON_LOGOUT_TRANSACTION_TTL_SECONDS = 600"

text \<open>The error of the test: its kind and code; the detail, which holds secrets, is not part of a \<open>redis_error\<close>.\<close>

definition redis_write_failure_messages_distinguish_operations_without_transaction_data :: bool where
  "redis_write_failure_messages_distinguish_operations_without_transaction_data \<longleftrightarrow>
     (let hset = redis_write_failure_message ''external'' Hset test_error_fixture;
          expireat = redis_write_failure_message ''external'' Expireat test_error_fixture in
      hset = ''component=redis_state state_family=external operation=hset redis_error_kind=ResponseError redis_error_code=ERR''
      \<and> expireat = ''component=redis_state state_family=external operation=expireat redis_error_kind=ResponseError redis_error_code=ERR''
      \<and> list_all (\<lambda>message. \<not> sublist ''password'' message \<and> \<not> sublist ''auth:external'' message
          \<and> \<not> sublist ''state=secret'' message) [hset, expireat])"

definition redis_error_codes_are_limited_to_safe_tokens :: bool where
  "redis_error_codes_are_limited_to_safe_tokens \<longleftrightarrow>
     safe_redis_error_code (Some ''ERR'') = ''ERR''
     \<and> safe_redis_error_code (Some ''READONLY'') = ''READONLY''
     \<and> safe_redis_error_code (Some ''credential=secret'') = ''none''"

section \<open>They pass\<close>

definition redis_unit_tests :: "bool list" where
  "redis_unit_tests = [
     keys_use_only_the_four_hashed_key_families ref_crypto,
     all_states_encode_decode_with_exact_fields,
     decode_rejects_missing_unknown_and_invalid_numeric_fields,
     decode_rejects_unknown_status_and_invalid_lookups,
     expiry_requires_now_to_be_strictly_before_expires_at,
     ttl_constants_match_the_storage_contract,
     redis_write_failure_messages_distinguish_operations_without_transaction_data,
     redis_error_codes_are_limited_to_safe_tokens]"

lemma hex_has_no_dash: "is_lookup v \<Longrightarrow> CHR ''-'' \<notin> set v"
  by (auto simp: is_lookup_def list_all_iff byte_in_def is_digit_def)

lemma key_test:
  assumes "crypto_lib C"
  shows "keys_use_only_the_four_hashed_key_families C"
proof -
  let ?v = "reference_value_lookup C ''plain-reference-must-not-appear''"
  have lookup: "is_lookup ?v" by (rule reference_value_lookup_is_lookup [OF assms])
  then have "length ?v = 64" "CHR ''-'' \<notin> set ?v" by (simp_all add: is_lookup_def hex_has_no_dash)
  note lookup_facts = this
  have hidden: "\<not> sublist ''plain-reference-must-not-appear'' (p @ ?v)" if "CHR ''-'' \<notin> set p" for p
  proof (rule notI)
    have "CHR ''-'' \<in> set ''plain-reference-must-not-appear''" by simp
    moreover assume "sublist ''plain-reference-must-not-appear'' (p @ ?v)"
    ultimately have "CHR ''-'' \<in> set (p @ ?v)" by (blast dest: set_mono_sublist)
    with that lookup_facts(2) show False by simp
  qed
  show ?thesis
    using hidden [of "''auth:external:''"] hidden [of "''auth:session:''"] hidden [of "''auth:handoff:''"] hidden [of "''auth:logout:''"]
      lookup lookup_facts(1)
    by (simp add: keys_use_only_the_four_hashed_key_families_def external_key_def session_key_def handoff_key_def logout_key_def
        starts_with_def strip_prefix_def Let_def)
qed

lemma test_fixtures_storable: "wf_external external_fixture" "wf_session session_fixture" "wf_handoff (handoff_fixture s)"
  "wf_logout logout_fixture"
  by (simp_all add: wf_external_def wf_session_def wf_handoff_def wf_logout_def fixture_defs is_ascii_byte_def
      reference_value_lookup_is_lookup reference.crypto_lib_axioms)

lemma codec_test: "all_states_encode_decode_with_exact_fields"
  using test_fixtures_storable
  by (simp add: all_states_encode_decode_with_exact_fields_def fields_def external_codec.decode_encode session_codec.decode_encode
      handoff_codec.decode_encode logout_codec.decode_encode)
    (simp add: encode_external_def encode_session_def encode_handoff_def encode_logout_def field_defs)

lemmas decoding_simps = fields_def btree_collect_def encode_external_def encode_session_def encode_handoff_def encode_logout_def
  decode_external_def decode_session_def decode_handoff_def decode_logout_def validate_field_names_def contains_key_def field_defs
  required_string_def parse_u64_def parse_i32_def decode_external_status_def decode_usage_status_def ok_or_def

lemma lookup_shapes:
  "is_lookup lookup_fixture" "is_lookup (reference_value_lookup ref_crypto ''csrf-token'')"
  "\<not> is_lookup ''ABC''" "\<not> is_lookup (repeated 64 ''g'')"
  by (simp_all add: lookup_fixture_def reference_value_lookup_is_lookup reference.crypto_lib_axioms)
    (simp_all add: is_lookup_def replicate_count byte_in_def is_digit_def)

lemma not_a_number: "parse_sint_str ''not-a-number'' = None"
  by (simp add: parse_sint_str_def parse_int_def parse_digits_def is_digit_def byte_in_def)

lemma decode_tests:
  "decode_rejects_missing_unknown_and_invalid_numeric_fields" "decode_rejects_unknown_status_and_invalid_lookups"
  unfolding decode_rejects_missing_unknown_and_invalid_numeric_fields_def decode_rejects_unknown_status_and_invalid_lookups_def
  by (simp_all add: decoding_simps external_fixture_def session_fixture_def handoff_fixture_def logout_fixture_def lookup_shapes
      not_a_number parse_u64_to_string parse_i32_to_string del: repeated_single)

lemma constant_tests:
  "expiry_requires_now_to_be_strictly_before_expires_at" "ttl_constants_match_the_storage_contract"
  "redis_error_codes_are_limited_to_safe_tokens"
  by (simp_all add: expiry_requires_now_to_be_strictly_before_expires_at_def is_unexpired_def
      ttl_constants_match_the_storage_contract_def ttl_defs redis_error_codes_are_limited_to_safe_tokens_def
      safe_redis_error_code_def is_upper_def is_digit_def byte_in_def)

lemma message_test: "redis_write_failure_messages_distinguish_operations_without_transaction_data"
  by (simp add: redis_write_failure_messages_distinguish_operations_without_transaction_data_def Let_def
      redis_write_failure_message_def test_error_fixture_def safe_redis_error_code_def is_upper_def byte_in_def sublist_code)

text \<open>
  All unit tests of redis_state.rs hold on the model: the four hashed key families, the codecs
  of the four records and what they reject, strict expiry, the lifetimes, and a log message that
  carries neither the error's detail nor a reference.
\<close>

lemma redis_unit_tests_pass: "list_all id redis_unit_tests"
  by (simp add: redis_unit_tests_def key_test reference.crypto_lib_axioms codec_test decode_tests constant_tests message_test)

end
