(* ===== verification/Redis_Bench.thy ===== *)
theory Redis_Bench
  imports Redis_Tests
begin

text \<open>
  A bench for the tests of \<open>redis_state.rs\<close> that need a Redis server: scripts of calls and raw
  commands with their expected results, run on the in-memory server over a network that loses
  nothing.  For every function of \<open>redis_state.rs\<close> it has the equation of a call on that server,
  and for two connections the equation of a race.
\<close>

section \<open>Scripts\<close>

type_synonym 'a redis_call = "mem redis_env \<Rightarrow> mem connection \<Rightarrow> 'a \<times> mem connection"

text \<open>A disposable server: nothing else runs on it, and no message is lost.\<close>

definition test_redis_env :: "mem redis_env" where
  "test_redis_env = \<lparr>server_cmds = mem_redis, interference = (\<lambda>_ s. s), network = (\<lambda>_. Delivered),
     client_error = (\<lambda>_. test_error_fixture)\<rparr>"

definition test_connection :: "nat \<Rightarrow> (string \<rightharpoonup> mem_object) \<Rightarrow> nat \<Rightarrow> string list \<Rightarrow> mem connection" where
  "test_connection time data n lines = \<lparr>server = \<lparr>mem_time = time, mem_data = data\<rparr>, trips = n, log_lines = lines\<rparr>"

text \<open>A call whose result must satisfy \<open>P\<close>, or must be \<open>v\<close>.\<close>

definition expects :: "'a redis_call \<Rightarrow> ('a \<Rightarrow> bool) \<Rightarrow> bool redis_call" where
  "expects f P E c = (case f E c of (r, c1) \<Rightarrow> (P r, c1))"

definition gives :: "'a redis_call \<Rightarrow> 'a \<Rightarrow> bool redis_call" where
  "gives f v = expects f (\<lambda>r. r = v)"

text \<open>
  The commands the tests send themselves; \<open>None\<close> is the failed \<open>unwrap\<close>.  \<open>PERSIST\<close> removes the time
  to live of a key, which the in-memory server does not keep.
\<close>

definition redis_exists :: "string \<Rightarrow> bool option redis_call" where
  "redis_exists key E = round_trip E (\<lambda>s. (Some (r_exists (server_cmds E) s key), s))"

definition redis_status :: "string \<Rightarrow> string option redis_call" where
  "redis_status key E c = (case round_trip E (cmd_hget (server_cmds E) key ''status'') c of (r, c1) \<Rightarrow> (Option.bind r id, c1))"

definition set_hash_field :: "string \<Rightarrow> string \<Rightarrow> string \<Rightarrow> bool redis_call" where
  "set_hash_field key field v = expects (\<lambda>E. round_trip E (cmd_hset (server_cmds E) key [(field, v)])) (\<lambda>r. r \<noteq> None)"

definition redis_type :: "string \<Rightarrow> string option redis_call" where
  "redis_type key E = round_trip E (cmd_type (server_cmds E) key)"

definition redis_hkeys :: "string \<Rightarrow> string list option redis_call" where
  "redis_hkeys key E = round_trip E (\<lambda>s. (map_option (map fst) (r_hgetall (server_cmds E) s key), s))"

definition redis_hset :: "string \<Rightarrow> (string \<times> string) list \<Rightarrow> bool redis_call" where
  "redis_hset key ps = expects (\<lambda>E. round_trip E (cmd_hset (server_cmds E) key ps)) (\<lambda>r. r \<noteq> None)"

definition redis_expireat :: "string \<Rightarrow> u64 \<Rightarrow> bool redis_call" where
  "redis_expireat key time = expects (\<lambda>E. round_trip E (cmd_expireat (server_cmds E) key (u64_to_string time))) (\<lambda>r. r \<noteq> None)"

definition redis_set :: "string \<Rightarrow> bool redis_call" where
  "redis_set key = expects (\<lambda>E. round_trip E (\<lambda>s. (Some (), s\<lparr>mem_data := (mem_data s)(key \<mapsto> MString)\<rparr>))) (\<lambda>r. r \<noteq> None)"

definition persist :: "string \<Rightarrow> bool redis_call" where
  "persist key = expects (\<lambda>E. round_trip E (\<lambda>s. (Some (), s))) (\<lambda>r. r \<noteq> None)"

fun delete_keys :: "string list \<Rightarrow> bool redis_call" where
  "delete_keys [] E c = (True, c)"
| "delete_keys (k # ks) E c = (case round_trip E (cmd_del (server_cmds E) k) c of
     (None, c1) \<Rightarrow> (False, c1) | (Some _, c1) \<Rightarrow> delete_keys ks E c1)"

text \<open>
  Two connections run the same call at once: the second as a whole before round trip \<open>k\<close> of the
  first, where it finds what the first has done until then, or after its last one.
\<close>

definition race :: "'a redis_call \<Rightarrow> nat \<Rightarrow> 'a list redis_call" where
  "race f k E c =
     (let other = (\<lambda>s. f E (c\<lparr>server := s\<rparr>));
          until = snd (f (E\<lparr>network := (\<lambda>n. if n < trips c + k then Delivered else RequestLost)\<rparr>) c)
      in case f (E\<lparr>interference := (\<lambda>n s. if n = trips c + k then server (snd (other s)) else s)\<rparr>) c of (first, c1) \<Rightarrow>
         case other (server until) of (second, c2) \<Rightarrow>
           ([first, second], if trips c + k < trips c1 then c1 else c1\<lparr>server := server c2\<rparr>))"

definition exactly_one :: "('a \<Rightarrow> bool) \<Rightarrow> 'a list \<Rightarrow> bool" where
  "exactly_one P xs \<longleftrightarrow> length (filter P xs) = 1"

fun passes :: "bool redis_call list \<Rightarrow> mem redis_env \<Rightarrow> mem connection \<Rightarrow> bool \<times> mem connection" where
  "passes [] E c = (True, c)"
| "passes (t # ts) E c = (case t E c of (ok, c1) \<Rightarrow> if ok then passes ts E c1 else (False, c1))"

section \<open>The calls on the in-memory server\<close>

text \<open>
  For each script its verdict on the stored fields: the code it replies, where 0 is success.  A
  verdict of 2 deletes the expired key.
\<close>

definition claim_verdict :: "nat \<Rightarrow> (string \<times> string) list \<Rightarrow> int" where
  "claim_verdict t ps = (let h = map_of ps in
     if length (remdups (map fst ps)) \<noteq> 8 \<or> h ''service_id'' = None \<or> h ''service_state'' = None
       \<or> h ''handoff_code_challenge'' = None \<or> h ''provider'' = None \<or> h ''provider_verification_data'' = None
       \<or> \<not> lua_uint (h ''created_at'') \<or> \<not> lua_uint (h ''expires_at'') \<or> h ''status'' = None then 3
     else if tonumber (h ''expires_at'') \<le> int t then 2
     else if h ''status'' = Some ''processing'' then 4
     else if h ''status'' \<noteq> Some ''waiting'' then 3 else 0)"

definition session_verdict :: "nat \<Rightarrow> (string \<times> string) list \<Rightarrow> int" where
  "session_verdict t ps = (let h = map_of ps in
     if length (remdups (map fst ps)) \<noteq> 4 \<or> \<not> lua_int (h ''internal_user_id'') \<or> \<not> lua_uint (h ''authenticated_at'')
       \<or> \<not> lua_uint (h ''created_at'') \<or> \<not> lua_uint (h ''expires_at'') then 3
     else if tonumber (h ''expires_at'') \<le> int t then 2 else 0)"

definition handoff_verdict :: "nat \<Rightarrow> string \<Rightarrow> string \<Rightarrow> (string \<times> string) list \<Rightarrow> int" where
  "handoff_verdict t service challenge ps = (let h = map_of ps in
     if length (remdups (map fst ps)) \<noteq> 8 \<or> h ''service_id'' = None \<or> \<not> lua_int (h ''internal_user_id'')
       \<or> \<not> lua_lookup (h ''common_session_lookup'') \<or> h ''code_challenge'' = None \<or> \<not> lua_uint (h ''authenticated_at'')
       \<or> \<not> lua_uint (h ''issued_at'') \<or> \<not> lua_uint (h ''expires_at'') \<or> h ''status'' = None then 3
     else if tonumber (h ''expires_at'') \<le> int t then 2
     else if h ''status'' = Some ''used'' then 5
     else if h ''status'' \<noteq> Some ''unused'' then 3
     else if h ''service_id'' \<noteq> Some service then 6
     else if h ''code_challenge'' \<noteq> Some challenge then 7 else 0)"

definition logout_verdict :: "nat \<Rightarrow> string \<Rightarrow> (string \<times> string) list \<Rightarrow> int" where
  "logout_verdict t csrf ps = (let h = map_of ps in
     if length (remdups (map fst ps)) \<noteq> 6 \<or> h ''service_id'' = None \<or> h ''logout_return_uri'' = None
       \<or> \<not> lua_lookup (h ''csrf_lookup'') \<or> \<not> lua_uint (h ''created_at'') \<or> \<not> lua_uint (h ''expires_at'') \<or> h ''status'' = None then 3
     else if tonumber (h ''expires_at'') \<le> int t then 2
     else if h ''status'' = Some ''used'' then 5
     else if h ''status'' \<noteq> Some ''unused'' then 3
     else if \<not> lua_lookup (Some csrf) \<or> h ''csrf_lookup'' \<noteq> Some csrf then 8 else 0)"

lemma mem_commands:
  "r_type mem_redis s k = (case mem_data s k of None \<Rightarrow> ''none'' | Some (MHash ps) \<Rightarrow> if ps = [] then ''none'' else ''hash'' | Some MString \<Rightarrow> ''string'')"
  "r_exists mem_redis s k \<longleftrightarrow> (case mem_data s k of None \<Rightarrow> False | Some (MHash ps) \<Rightarrow> ps \<noteq> [] | Some MString \<Rightarrow> True)"
  "r_hlen mem_redis s k = (case mem_data s k of None \<Rightarrow> Some 0 | Some (MHash ps) \<Rightarrow> Some (length (remdups (map fst ps))) | Some MString \<Rightarrow> None)"
  "r_hget mem_redis s k f = (case mem_data s k of None \<Rightarrow> Some None | Some (MHash ps) \<Rightarrow> Some (map_of ps f) | Some MString \<Rightarrow> None)"
  "r_hgetall mem_redis s k = (case mem_data s k of None \<Rightarrow> Some [] | Some (MHash ps) \<Rightarrow> Some (AList.clearjunk ps) | Some MString \<Rightarrow> None)"
  "r_hset mem_redis s k ps = (case mem_data s k of
     None \<Rightarrow> Some (s\<lparr>mem_data := (mem_data s)(k \<mapsto> MHash (fold (\<lambda>(f, v). AList.update f v) ps []))\<rparr>)
   | Some (MHash qs) \<Rightarrow> Some (s\<lparr>mem_data := (mem_data s)(k \<mapsto> MHash (fold (\<lambda>(f, v). AList.update f v) ps qs))\<rparr>)
   | Some MString \<Rightarrow> None)"
  "r_del mem_redis s k = s\<lparr>mem_data := (mem_data s)(k := None)\<rparr>"
  "r_expireat mem_redis s k t = (case parse_nat t of
      None \<Rightarrow> None
    | Some n \<Rightarrow> if n > expireat_max then None
        else Some (if mem_time s < n then s else s\<lparr>mem_data := (mem_data s)(k := None)\<rparr>))"
  "r_time mem_redis s = mem_time s"
  by (simp_all add: mem_redis_def mem_view_def mem_fields_def mem_hset_def mem_expireat_def split: option.splits mem_object.splits)

lemma stored_hget: "mem_data s k = Some (MHash ps) \<Longrightarrow> hget_each mem_redis s k names = Some (map_of ps)"
  by (simp add: hget_each_def mem_commands list_all_iff)

lemma test_trip [simp]:
  "round_trip test_redis_env cmd \<lparr>server = s, trips = n, log_lines = l\<rparr> =
     (case cmd s of (r, s') \<Rightarrow> (r, \<lparr>server = s', trips = Suc n, log_lines = l\<rparr>))"
  "server_cmds test_redis_env = mem_redis"
  by (simp_all add: round_trip_def test_redis_env_def split: prod.splits)

lemma claim_call:
  assumes "d (external_key C r) = Some (MHash ps)" "ps \<noteq> []"
  shows "claim_external_callback C test_redis_env r (test_connection t d n l) =
     (let code = claim_verdict t ps in
      if code = 0 then (claim_reply (VInt 0 # claim_values (map_of ps)),
        test_connection t (d(external_key C r \<mapsto> MHash (AList.update ''status'' ''processing'' ps))) (Suc n) l)
      else (script_error code, test_connection t (if code = 2 then d(external_key C r := None) else d) (Suc n) l))"
  using assms
  by (simp add: claim_external_callback_def claim_invocation_def callback_claim_script_def test_connection_def mem_commands stored_hget
      claim_verdict_def Let_def claim_values_def EXTERNAL_FIELDS_def del: claim_reply.simps(1)) auto

lemma claim_absent:
  "d (external_key C r) = None \<Longrightarrow> claim_external_callback C test_redis_env r (test_connection t d n l) = (Err NotFound, test_connection t d (Suc n) l)"
  by (simp add: claim_external_callback_def claim_invocation_def callback_claim_script_def test_connection_def mem_commands script_error_def)

lemma logout_call:
  assumes "d (logout_key C r) = Some (MHash ps)" "ps \<noteq> []"
  shows "complete_common_logout C test_redis_env r sr csrf (test_connection t d n l) =
     (let code = logout_verdict t csrf ps in
      if code = 0 then (reply_string (VBulk (the (map_of ps ''logout_return_uri''))),
        test_connection t (d(logout_key C r \<mapsto> MHash (AList.update ''status'' ''used'' ps), session_key C sr := None)) (Suc n) l)
      else (script_error code, test_connection t (if code = 2 then d(logout_key C r := None) else d) (Suc n) l))"
  using assms
  by (simp add: complete_common_logout_def logout_invocation_def complete_common_logout_script_def test_connection_def mem_commands stored_hget
      logout_verdict_def Let_def fixed_work_equal_lookup_iff) auto


lemma logout_absent:
  "d (logout_key C r) = None \<Longrightarrow> complete_common_logout C test_redis_env r sr csrf (test_connection t d n l) = (Err NotFound, test_connection t d (Suc n) l)"
  by (simp add: complete_common_logout_def logout_invocation_def complete_common_logout_script_def test_connection_def mem_commands script_error_def)

text \<open>The verdict of an exchange also depends on what is stored under the key of the session.\<close>

definition exchange_verdict :: "nat \<Rightarrow> string \<Rightarrow> string \<Rightarrow> (string \<times> string) list \<Rightarrow> mem_object option \<Rightarrow> int" where
  "exchange_verdict t service challenge ps stored = (let code = handoff_verdict t service challenge ps in
     if code \<noteq> 0 then code else case stored of None \<Rightarrow> 1 | Some MString \<Rightarrow> 3 | Some (MHash qs) \<Rightarrow>
       (if qs = [] then 1 else if session_verdict t qs \<noteq> 0 then session_verdict t qs
        else if tonumber (map_of ps ''internal_user_id'') \<noteq> tonumber (map_of qs ''internal_user_id'')
          \<or> tonumber (map_of ps ''authenticated_at'') \<noteq> tonumber (map_of qs ''authenticated_at'') then 3 else 0))"

lemma mem_cases [case_names absent other hash]:
  obtains "x = None" | "x = Some MString" | qs where "x = Some (MHash qs)"
  by (metis mem_object.exhaust option.exhaust)

lemma handoff_verdict_iff: "handoff_verdict t service challenge ps = 0 \<longleftrightarrow>
    length (remdups (map fst ps)) = 8 \<and> map_of ps ''service_id'' = Some service \<and> lua_int (map_of ps ''internal_user_id'')
    \<and> lua_lookup (map_of ps ''common_session_lookup'') \<and> map_of ps ''code_challenge'' = Some challenge
    \<and> lua_uint (map_of ps ''authenticated_at'') \<and> lua_uint (map_of ps ''issued_at'') \<and> lua_uint (map_of ps ''expires_at'')
    \<and> int t < tonumber (map_of ps ''expires_at'') \<and> map_of ps ''status'' = Some ''unused''"
  by (auto simp add: handoff_verdict_def Let_def)

text \<open>The second half of the exchange script: the session of a handoff with the fields \<open>h\<close>.\<close>

definition exchange_tail :: "'s redis \<Rightarrow> string \<Rightarrow> string \<Rightarrow> string \<Rightarrow> (string \<Rightarrow> string option) \<Rightarrow> 's \<Rightarrow> redis_value list option \<times> 's" where
  "exchange_tail R key1 key2 arg3 h s =
     (if \<not> lua_lookup (Some arg3) \<or> h ''common_session_lookup'' \<noteq> Some arg3 \<or> key2 \<noteq> session_key_text arg3 then (Some [VInt 3], s)
      else if \<not> r_exists R s key2 then (Some [VInt 1], s)
      else if r_type R s key2 \<noteq> ''hash'' then (Some [VInt 3], s)
      else case r_hlen R s key2 of None \<Rightarrow> (None, s) | Some m \<Rightarrow>
      if m \<noteq> 4 then (Some [VInt 3], s)
      else case hget_each R s key2 SESSION_FIELDS of None \<Rightarrow> (None, s) | Some g \<Rightarrow>
      if \<not> lua_int (g ''internal_user_id'') \<or> \<not> lua_uint (g ''authenticated_at'')
        \<or> \<not> lua_uint (g ''created_at'') \<or> \<not> lua_uint (g ''expires_at'')
      then (Some [VInt 3], s)
      else if int (r_time R s) \<ge> tonumber (g ''expires_at'') then (Some [VInt 2], r_del R s key2)
      else if tonumber (h ''internal_user_id'') \<noteq> tonumber (g ''internal_user_id'')
        \<or> tonumber (h ''authenticated_at'') \<noteq> tonumber (g ''authenticated_at'')
      then (Some [VInt 3], s)
      else case r_hset R s key1 [(''status'', ''used'')] of None \<Rightarrow> (None, s) | Some s' \<Rightarrow>
        (Some [VInt 0, VInt (tonumber (h ''internal_user_id'')), VInt (tonumber (h ''authenticated_at''))], s'))"

lemma exchange_first_half:
  assumes "d k = Some (MHash ps)" "ps \<noteq> []"
  shows "exchange_handoff_script mem_redis k k2 service challenge v \<lparr>mem_time = t, mem_data = d\<rparr> =
    (let code = handoff_verdict t service challenge ps in
     if code = 0 then exchange_tail mem_redis k k2 v (map_of ps) \<lparr>mem_time = t, mem_data = d\<rparr>
     else (Some [VInt code], \<lparr>mem_time = t, mem_data = if code = 2 then d(k := None) else d\<rparr>))"
  using assms
  unfolding exchange_handoff_script_def exchange_tail_def [symmetric]
  by (simp add: mem_commands stored_hget handoff_verdict_def Let_def)

lemma exchange_second_half:
  assumes "d k = Some (MHash ps)" "map_of ps ''common_session_lookup'' = Some v" "is_lookup v"
  shows "exchange_tail mem_redis k (session_key_text v) v (map_of ps) \<lparr>mem_time = t, mem_data = d\<rparr> =
    (let stored = d (session_key_text v); code = (case stored of None \<Rightarrow> 1 | Some MString \<Rightarrow> 3 | Some (MHash qs) \<Rightarrow>
       (if qs = [] then 1 else if session_verdict t qs \<noteq> 0 then session_verdict t qs
        else if tonumber (map_of ps ''internal_user_id'') \<noteq> tonumber (map_of qs ''internal_user_id'')
          \<or> tonumber (map_of ps ''authenticated_at'') \<noteq> tonumber (map_of qs ''authenticated_at'') then 3 else 0)) in
     if code = 0 then (Some [VInt 0, VInt (tonumber (map_of ps ''internal_user_id'')), VInt (tonumber (map_of ps ''authenticated_at''))],
        \<lparr>mem_time = t, mem_data = d(k \<mapsto> MHash (AList.update ''status'' ''used'' ps))\<rparr>)
      else (Some [VInt code], \<lparr>mem_time = t, mem_data = if code = 2 then d(session_key_text v := None) else d\<rparr>))"
  using assms
  by (cases "d (session_key_text v)" rule: mem_cases)
    (simp_all add: exchange_tail_def lua_lookup_is_lookup mem_commands stored_hget session_verdict_def Let_def)

lemma exchange_call:
  assumes "d (handoff_key C r) = Some (MHash ps)" "map_of ps ''common_session_lookup'' = Some v" "is_lookup v"
  shows "exchange_handoff C test_redis_env r service challenge (test_connection t d n l) =
     (let code = exchange_verdict t service challenge ps (d (session_key_text v)) in
      if code = 0 then (exchange_reply [VInt 0, VInt (tonumber (map_of ps ''internal_user_id'')), VInt (tonumber (map_of ps ''authenticated_at''))],
        test_connection t (d(handoff_key C r \<mapsto> MHash (AList.update ''status'' ''used'' ps))) (n + 3) l)
      else (script_error code, test_connection t
        (if code \<noteq> 2 then d else if handoff_verdict t service challenge ps = 2 then d(handoff_key C r := None)
         else d(session_key_text v := None)) (n + 3) l))"
proof -
  have "ps \<noteq> []" using assms(2) by auto
  moreover have "utf8_valid v" "session_key_from_lookup v = Ok (session_key_text v)"
    using assms(3) by (simp_all add: utf8_valid_lookup session_key_from_lookup_def session_key_text_def)
  ultimately show ?thesis
    using assms
    by (simp add: exchange_handoff_def resolve_handoff_session_lookup_def exchange_invocation_def test_connection_def cmd_type_def cmd_hget_def
        mem_commands exchange_first_half exchange_second_half exchange_verdict_def Let_def)
qed

text \<open>Writing a state under an absent key, and reading it back.\<close>

lemma update_new: "k \<notin> fst ` set ps \<Longrightarrow> AList.update k v ps = ps @ [(k, v)]"
  by (induction ps) auto

lemma fold_update_append:
  "distinct (map fst (qs @ ps)) \<Longrightarrow> fold (\<lambda>(f, v). AList.update f v) ps qs = qs @ ps"
  by (induction ps arbitrary: qs) (auto simp: update_new)

lemma write_call:
  assumes "d k = None" "distinct (map fst ps)" "is_unexpired now e" "t < unat e" "unat e \<le> expireat_max"
  shows "write_state test_redis_env fam k ps e now (test_connection t d n l) = (Ok (), test_connection t (d(k \<mapsto> MHash ps)) (n + 2) l)"
  using assms fold_update_append [of "[]" ps]
  by (simp add: write_state_def test_connection_def cmd_hset_def cmd_expireat_def mem_commands u64_to_string_def)

lemma read_call:
  assumes "d k = Some (MHash ps)" "distinct (map fst ps)" "\<And>f v. (f, v) \<in> set ps \<Longrightarrow> utf8_valid f \<and> utf8_valid v" "ps \<noteq> []"
    and "decode (btree_collect ps) = Ok st"
  shows "read_state test_redis_env k decode expiry now (test_connection t d n l) =
     (if is_unexpired now (expiry st) then (Ok st, test_connection t d (Suc n) l)
      else (Err Expired, test_connection t (d(k := None)) (n + 2) l))"
  using assms
  by (auto simp add: read_state_def read_fields_def expire_if_needed_def test_connection_def cmd_hgetall_def cmd_del_def mem_commands
      distinct_clearjunk utf8_pairs_def list_all_iff)

section \<open>The verdicts on stored records\<close>

lemma external_stored:
  "length (remdups (map fst (encode_external x))) = 8"
  "map_of (encode_external x) ''service_id'' = Some (ext_service_id x)"
  "map_of (encode_external x) ''service_state'' = Some (ext_service_state x)"
  "map_of (encode_external x) ''handoff_code_challenge'' = Some (ext_handoff_code_challenge x)"
  "map_of (encode_external x) ''provider'' = Some (ext_provider x)"
  "map_of (encode_external x) ''provider_verification_data'' = Some (ext_provider_verification_data x)"
  "map_of (encode_external x) ''created_at'' = Some (u64_to_string (ext_created_at x))"
  "map_of (encode_external x) ''expires_at'' = Some (u64_to_string (ext_expires_at x))"
  "map_of (encode_external x) ''status'' = Some (external_status_value (ext_status x))"
  by (simp_all add: encode_external_def)

lemma session_stored:
  "length (remdups (map fst (encode_session x))) = 4"
  "map_of (encode_session x) ''internal_user_id'' = Some (i32_to_string (ses_internal_user_id x))"
  "map_of (encode_session x) ''authenticated_at'' = Some (u64_to_string (ses_authenticated_at x))"
  "map_of (encode_session x) ''created_at'' = Some (u64_to_string (ses_created_at x))"
  "map_of (encode_session x) ''expires_at'' = Some (u64_to_string (ses_expires_at x))"
  by (simp_all add: encode_session_def)

lemma handoff_stored:
  "length (remdups (map fst (encode_handoff x))) = 8"
  "map_of (encode_handoff x) ''service_id'' = Some (hnd_service_id x)"
  "map_of (encode_handoff x) ''internal_user_id'' = Some (i32_to_string (hnd_internal_user_id x))"
  "map_of (encode_handoff x) ''common_session_lookup'' = Some (hnd_common_session_lookup x)"
  "map_of (encode_handoff x) ''code_challenge'' = Some (hnd_code_challenge x)"
  "map_of (encode_handoff x) ''authenticated_at'' = Some (u64_to_string (hnd_authenticated_at x))"
  "map_of (encode_handoff x) ''issued_at'' = Some (u64_to_string (hnd_issued_at x))"
  "map_of (encode_handoff x) ''expires_at'' = Some (u64_to_string (hnd_expires_at x))"
  "map_of (encode_handoff x) ''status'' = Some (usage_status_value (hnd_status x))"
  by (simp_all add: encode_handoff_def)

lemma logout_stored:
  "length (remdups (map fst (encode_logout x))) = 6"
  "map_of (encode_logout x) ''service_id'' = Some (lgo_service_id x)"
  "map_of (encode_logout x) ''logout_return_uri'' = Some (lgo_logout_return_uri x)"
  "map_of (encode_logout x) ''csrf_lookup'' = Some (lgo_csrf_lookup x)"
  "map_of (encode_logout x) ''created_at'' = Some (u64_to_string (lgo_created_at x))"
  "map_of (encode_logout x) ''expires_at'' = Some (u64_to_string (lgo_expires_at x))"
  "map_of (encode_logout x) ''status'' = Some (usage_status_value (lgo_status x))"
  by (simp_all add: encode_logout_def)

lemmas lua_simps = lua_uint_u64 lua_int_i32 tonumber_u64 tonumber_i32 lua_lookup_is_lookup

lemma claim_verdict_encoded:
  "claim_verdict t (encode_external x) =
     (if lua_uint_max < unat (ext_created_at x) \<or> lua_uint_max < unat (ext_expires_at x) then 3
      else if unat (ext_expires_at x) \<le> t then 2 else if ext_status x = Processing then 4 else 0)"
  unfolding claim_verdict_def Let_def external_stored lua_simps
  by (cases "ext_status x") (simp_all add: not_le lua_int_i32 del: of_nat_unat)

lemma session_verdict_encoded:
  "session_verdict t (encode_session y) =
     (if lua_uint_max < unat (ses_authenticated_at y) \<or> lua_uint_max < unat (ses_created_at y) \<or> lua_uint_max < unat (ses_expires_at y) then 3
      else if unat (ses_expires_at y) \<le> t then 2 else 0)"
  unfolding session_verdict_def Let_def session_stored lua_simps
  by (simp add: not_le lua_int_i32 del: of_nat_unat)

lemma handoff_verdict_encoded:
  "handoff_verdict t service challenge (encode_handoff z) =
     (if \<not> is_lookup (hnd_common_session_lookup z) \<or> lua_uint_max < unat (hnd_authenticated_at z)
        \<or> lua_uint_max < unat (hnd_issued_at z) \<or> lua_uint_max < unat (hnd_expires_at z) then 3
      else if unat (hnd_expires_at z) \<le> t then 2 else if hnd_status z = Used then 5
      else if hnd_service_id z \<noteq> service then 6 else if hnd_code_challenge z \<noteq> challenge then 7 else 0)"
  unfolding handoff_verdict_def Let_def handoff_stored lua_simps
  by (cases "hnd_status z") (simp_all add: not_le lua_int_i32 del: of_nat_unat)

lemma logout_verdict_encoded:
  "logout_verdict t csrf (encode_logout w) =
     (if \<not> is_lookup (lgo_csrf_lookup w) \<or> lua_uint_max < unat (lgo_created_at w) \<or> lua_uint_max < unat (lgo_expires_at w) then 3
      else if unat (lgo_expires_at w) \<le> t then 2 else if lgo_status w = Used then 5
      else if \<not> is_lookup csrf \<or> lgo_csrf_lookup w \<noteq> csrf then 8 else 0)"
  unfolding logout_verdict_def Let_def logout_stored lua_simps
  by (cases "lgo_status w") (simp_all add: not_le lua_int_i32 del: of_nat_unat)

lemma status_updates:
  "AList.update ''status'' ''processing'' (encode_external x) = encode_external (x\<lparr>ext_status := Processing\<rparr>)"
  "AList.update ''status'' ''used'' (encode_handoff z) = encode_handoff (z\<lparr>hnd_status := Used\<rparr>)"
  "AList.update ''status'' ''used'' (encode_logout w) = encode_logout (w\<lparr>lgo_status := Used\<rparr>)"
  by (simp_all add: encode_defs)

lemma field_updates:
  "AList.update ''expires_at'' (u64_to_string e) (encode_external x) = encode_external (x\<lparr>ext_expires_at := e\<rparr>)"
  "AList.update ''created_at'' (u64_to_string e) (encode_external x) = encode_external (x\<lparr>ext_created_at := e\<rparr>)"
  "AList.update ''expires_at'' (u64_to_string e) (encode_session y) = encode_session (y\<lparr>ses_expires_at := e\<rparr>)"
  "AList.update ''expires_at'' (u64_to_string e) (encode_logout w) = encode_logout (w\<lparr>lgo_expires_at := e\<rparr>)"
  "AList.update ''csrf_lookup'' v (encode_logout w) = encode_logout (w\<lparr>lgo_csrf_lookup := v\<rparr>)"
  "AList.update ''internal_user_id'' (i32_to_string u) (encode_handoff z) = encode_handoff (z\<lparr>hnd_internal_user_id := u\<rparr>)"
  "AList.update ''authenticated_at'' (u64_to_string e) (encode_handoff z) = encode_handoff (z\<lparr>hnd_authenticated_at := e\<rparr>)"
  by (simp_all add: encode_defs)

section \<open>Calls on stored records\<close>

lemma encoded_not_Nil [simp]:
  "encode_external x \<noteq> []" "encode_session y \<noteq> []" "encode_handoff z \<noteq> []" "encode_logout w \<noteq> []"
  by (simp_all add: encode_defs)

lemma claim_stored:
  assumes "d (external_key C r) = Some (MHash (encode_external x))" "wf_external x"
  shows "claim_external_callback C test_redis_env r (test_connection t d n l) =
     (let code = claim_verdict t (encode_external x) in
      if code = 0 then (Ok (x\<lparr>ext_status := Processing\<rparr>),
        test_connection t (d(external_key C r \<mapsto> MHash (encode_external (x\<lparr>ext_status := Processing\<rparr>)))) (Suc n) l)
      else (script_error code, test_connection t (if code = 2 then d(external_key C r := None) else d) (Suc n) l))"
  using assms by (simp add: claim_call claim_reply_encoded status_updates Let_def del: claim_reply.simps)

lemma logout_stored_call:
  assumes "d (logout_key C r) = Some (MHash (encode_logout w))" "utf8_valid (lgo_logout_return_uri w)"
  shows "complete_common_logout C test_redis_env r sr csrf (test_connection t d n l) =
     (let code = logout_verdict t csrf (encode_logout w) in
      if code = 0 then (Ok (lgo_logout_return_uri w),
        test_connection t (d(logout_key C r \<mapsto> MHash (encode_logout (w\<lparr>lgo_status := Used\<rparr>)), session_key C sr := None)) (Suc n) l)
      else (script_error code, test_connection t (if code = 2 then d(logout_key C r := None) else d) (Suc n) l))"
  using assms
  by (simp add: logout_call logout_stored status_updates from_utf8_def ok_or_def Let_def)

lemma exchange_stored:
  assumes "d (handoff_key C r) = Some (MHash (encode_handoff z))" "is_lookup (hnd_common_session_lookup z)"
    and "code = exchange_verdict t service challenge (encode_handoff z) (d (session_key_text (hnd_common_session_lookup z)))"
  shows "exchange_handoff C test_redis_env r service challenge (test_connection t d n l) =
      (if code = 0 then (Ok \<lparr>her_internal_user_id = hnd_internal_user_id z, her_authenticated_at = hnd_authenticated_at z\<rparr>,
        test_connection t (d(handoff_key C r \<mapsto> MHash (encode_handoff (z\<lparr>hnd_status := Used\<rparr>)))) (n + 3) l)
      else (script_error code, test_connection t
        (if code \<noteq> 2 then d else if handoff_verdict t service challenge (encode_handoff z) = 2 then d(handoff_key C r := None)
         else d(session_key_text (hnd_common_session_lookup z) := None)) (n + 3) l))"
  using assms(1,2)
  by (simp add: exchange_call assms(3) [symmetric] handoff_stored status_updates tonumber_u64 tonumber_i32 Let_def ok_or_def del: of_nat_unat)

lemma session_verdict_0: "session_verdict t ps = 0 \<longleftrightarrow>
    length (remdups (map fst ps)) = 4 \<and> lua_int (map_of ps ''internal_user_id'') \<and> lua_uint (map_of ps ''authenticated_at'')
    \<and> lua_uint (map_of ps ''created_at'') \<and> lua_uint (map_of ps ''expires_at'') \<and> int t < tonumber (map_of ps ''expires_at'')"
  by (auto simp add: session_verdict_def Let_def)

lemma hset_expireat_call:
  assumes "d k = None" "distinct (map fst ps)" "t < unat e" "unat e \<le> lua_uint_max"
  shows "hset_expireat mem_redis k ps (u64_to_string e) \<lparr>mem_time = t, mem_data = d\<rparr> =
    (Some (), \<lparr>mem_time = t, mem_data = d(k \<mapsto> MHash ps)\<rparr>)"
  using assms fold_update_append [of "[]" ps] lua_uint_max_le
  by (simp add: hset_expireat_def mem_commands u64_to_string_def)

lemma issue_absent:
  "d (session_key C sr) = None \<Longrightarrow> issue_sso_handoff C test_redis_env sr hr z (test_connection t d n l) = (Err NotFound, test_connection t d (Suc n) l)"
  by (simp add: issue_sso_handoff_def issue_invocation_def issue_sso_handoff_script_def test_connection_def mem_commands script_error_def)

lemma issue_refused:
  assumes "d (session_key C sr) = Some (MHash ps)" "ps \<noteq> []" "session_verdict t ps = 2"
  shows "issue_sso_handoff C test_redis_env sr hr z (test_connection t d n l) =
     (Err Expired, test_connection t (d(session_key C sr := None)) (Suc n) l)"
  using assms
  by (auto simp add: issue_sso_handoff_def issue_invocation_def issue_sso_handoff_script_def test_connection_def mem_commands stored_hget
      session_verdict_def Let_def script_error_def split: if_splits)

lemma issue_conflict:
  assumes "d (session_key C sr) = Some (MHash ps)" "session_verdict t ps = 0" "d (handoff_key C hr) = Some (MHash qs)" "qs \<noteq> []"
  shows "issue_sso_handoff C test_redis_env sr hr z (test_connection t d n l) = (Err KeyConflict, test_connection t d (Suc n) l)"
proof -
  have "ps \<noteq> []" using assms(2) by (auto simp: session_verdict_0)
  then show ?thesis
    using assms
    by (simp add: issue_sso_handoff_def issue_invocation_def issue_sso_handoff_script_def test_connection_def mem_commands stored_hget
        session_verdict_0 script_error_def)
qed

lemma issue_stored:
  assumes "d (session_key C sr) = Some (MHash (encode_session y))" "session_verdict t (encode_session y) = 0"
    and "d (handoff_key C hr) = None" "hnd_status z = Unused" "hnd_common_session_lookup z = reference_value_lookup C sr"
    and "is_lookup (reference_value_lookup C sr)" "hnd_internal_user_id z = ses_internal_user_id y"
    and "hnd_authenticated_at z = ses_authenticated_at y" "unat (hnd_issued_at z) \<le> lua_uint_max" "unat (hnd_expires_at z) \<le> lua_uint_max"
    and "t < unat (hnd_expires_at z)"
  shows "issue_sso_handoff C test_redis_env sr hr z (test_connection t d n l) =
     (Ok (), test_connection t (d(handoff_key C hr \<mapsto> MHash (encode_handoff z))) (Suc n) l)"
proof -
  have "unat (ses_authenticated_at y) \<le> lua_uint_max"
    using assms(2) by (simp add: session_verdict_encoded split: if_splits)
  moreover have "hset_expireat mem_redis (handoff_key C hr) (encode_handoff z) (u64_to_string (hnd_expires_at z)) \<lparr>mem_time = t, mem_data = d\<rparr> =
      (Some (), \<lparr>mem_time = t, mem_data = d(handoff_key C hr \<mapsto> MHash (encode_handoff z))\<rparr>)"
    using assms(3,10,11) by (intro hset_expireat_call) (simp_all add: encode_names_eqs)
  ultimately show ?thesis
    using assms
    by (simp add: issue_sso_handoff_def issue_invocation_def issue_sso_handoff_script_def test_connection_def mem_commands stored_hget
        session_verdict_0 session_stored lua_simps session_key_eq_text encode_handoff_def not_le del: of_nat_unat)
qed

lemma create_conflict:
  assumes "d k = Some (MHash ps)" "ps \<noteq> []" "k = session_key C sr \<or> k = handoff_key C hr"
  shows "create_session_and_handoff C test_redis_env sr y hr z (test_connection t d n l) = (Err KeyConflict, test_connection t d (Suc n) l)"
proof -
  have "r_exists mem_redis \<lparr>mem_time = t, mem_data = d\<rparr> (session_key C sr) \<or> r_exists mem_redis \<lparr>mem_time = t, mem_data = d\<rparr> (handoff_key C hr)"
    using assms by (auto simp: mem_commands)
  then show ?thesis
    by (simp add: create_session_and_handoff_def create_invocation_def create_session_and_handoff_script_def test_connection_def script_error_def)
qed

lemma create_stored:
  assumes "d (session_key C sr) = None" "session_verdict t (encode_session y) = 0"
    and "d (handoff_key C hr) = None" "hnd_status z = Unused" "hnd_common_session_lookup z = reference_value_lookup C sr"
    and "is_lookup (reference_value_lookup C sr)" "hnd_internal_user_id z = ses_internal_user_id y"
    and "hnd_authenticated_at z = ses_authenticated_at y" "unat (hnd_issued_at z) \<le> lua_uint_max" "unat (hnd_expires_at z) \<le> lua_uint_max"
    and "t < unat (hnd_expires_at z)"
  shows "create_session_and_handoff C test_redis_env sr y hr z (test_connection t d n l) =
     (Ok (), test_connection t (d(session_key C sr \<mapsto> MHash (encode_session y), handoff_key C hr \<mapsto> MHash (encode_handoff z))) (Suc n) l)"
proof -
  have y: "unat (ses_authenticated_at y) \<le> lua_uint_max" "unat (ses_created_at y) \<le> lua_uint_max"
    "unat (ses_expires_at y) \<le> lua_uint_max" "t < unat (ses_expires_at y)"
    using assms(2) by (simp_all add: session_verdict_encoded split: if_splits)
  have "hset_expireat mem_redis (session_key C sr) (encode_session y) (u64_to_string (ses_expires_at y)) \<lparr>mem_time = t, mem_data = d\<rparr> =
      (Some (), \<lparr>mem_time = t, mem_data = d(session_key C sr \<mapsto> MHash (encode_session y))\<rparr>)"
    using assms(1) y by (intro hset_expireat_call) (simp_all add: encode_names_eqs)
  moreover have "hset_expireat mem_redis (handoff_key C hr) (encode_handoff z) (u64_to_string (hnd_expires_at z))
        \<lparr>mem_time = t, mem_data = d(session_key C sr \<mapsto> MHash (encode_session y))\<rparr> =
      (Some (), \<lparr>mem_time = t, mem_data = d(session_key C sr \<mapsto> MHash (encode_session y), handoff_key C hr \<mapsto> MHash (encode_handoff z))\<rparr>)"
    using assms(3,10,11) by (intro hset_expireat_call) (simp_all add: encode_names_eqs)
  ultimately show ?thesis
    using assms(1,3-) y
    by (simp add: create_session_and_handoff_def create_invocation_def create_session_and_handoff_script_def test_connection_def mem_commands
        lua_simps session_key_eq_text encode_handoff_def encode_session_def not_le del: of_nat_unat)
qed

section \<open>Two connections at once\<close>

lemma race_one_trip:
  assumes f: "\<And>E c. server_cmds E = mem_redis \<Longrightarrow> f E c = (case round_trip E cmd c of
      (None, c1) \<Rightarrow> (Err RedisFailure, c1) | (Some v, c1) \<Rightarrow> (reply v, c1))"
    and "f test_redis_env (test_connection t d n l) = (a, test_connection t d1 (Suc n) l)"
    and "f test_redis_env (test_connection t d1 n l) = (b, test_connection t d2 (Suc n) l)"
  shows "race f k test_redis_env (test_connection t d n l) = (if k = 0 then [b, a] else [a, b], test_connection t d2 (Suc n) l)"
proof -
  obtain r1 s1 where 1: "cmd \<lparr>mem_time = t, mem_data = d\<rparr> = (r1, s1)" by fastforce
  obtain r2 s2 where 2: "cmd \<lparr>mem_time = t, mem_data = d1\<rparr> = (r2, s2)" by fastforce
  have s: "s1 = \<lparr>mem_time = t, mem_data = d1\<rparr>" "s2 = \<lparr>mem_time = t, mem_data = d2\<rparr>"
    "(case r1 of None \<Rightarrow> Err RedisFailure | Some v \<Rightarrow> reply v) = a" "(case r2 of None \<Rightarrow> Err RedisFailure | Some v \<Rightarrow> reply v) = b"
    using assms(2,3) by (simp_all add: f test_connection_def 1 2 split: option.splits)
  then show ?thesis
    using 1 2
    by (cases k; cases r1; cases r2)
      (simp_all add: race_def f round_trip_def Let_def test_redis_env_def test_connection_def)
qed

lemma race_claim:
  assumes "d (external_key C r) = Some (MHash (encode_external x))" "wf_external x" "claim_verdict t (encode_external x) = 0"
  defines "claimed \<equiv> x\<lparr>ext_status := Processing\<rparr>"
  shows "race (\<lambda>E. claim_external_callback C E r) k test_redis_env (test_connection t d n l) =
     (if k = 0 then [Err AlreadyClaimed, Ok claimed] else [Ok claimed, Err AlreadyClaimed],
      test_connection t (d(external_key C r \<mapsto> MHash (encode_external claimed))) (Suc n) l)"
proof (rule race_one_trip)
  show "claim_external_callback C E r c = (case round_trip E (claim_invocation C mem_redis r) c of
      (None, c1) \<Rightarrow> (Err RedisFailure, c1) | (Some v, c1) \<Rightarrow> (claim_reply v, c1))" if "server_cmds E = mem_redis" for E :: "mem redis_env" and c
    by (simp add: claim_external_callback_def that)
  show "claim_external_callback C test_redis_env r (test_connection t d n l) =
      (Ok claimed, test_connection t (d(external_key C r \<mapsto> MHash (encode_external claimed))) (Suc n) l)"
    using assms by (simp add: claim_stored)
  have "wf_external claimed" "claim_verdict t (encode_external claimed) = 4"
    using assms(2,3) by (simp_all add: claimed_def wf_external_def claim_verdict_encoded split: if_splits)
  then show "claim_external_callback C test_redis_env r (test_connection t (d(external_key C r \<mapsto> MHash (encode_external claimed))) n l) =
      (Err AlreadyClaimed, test_connection t (d(external_key C r \<mapsto> MHash (encode_external claimed))) (Suc n) l)"
    by (simp add: claim_stored [of _ C r claimed] script_error_def)
qed

lemma race_logout:
  assumes "d (logout_key C r) = Some (MHash (encode_logout w))" "utf8_valid (lgo_logout_return_uri w)" "logout_verdict t csrf (encode_logout w) = 0"
  shows "race (\<lambda>E. complete_common_logout C E r sr csrf) k test_redis_env (test_connection t d n l) =
     (if k = 0 then [Err AlreadyUsed, Ok (lgo_logout_return_uri w)] else [Ok (lgo_logout_return_uri w), Err AlreadyUsed],
      test_connection t (d(logout_key C r \<mapsto> MHash (encode_logout (w\<lparr>lgo_status := Used\<rparr>)), session_key C sr := None)) (Suc n) l)"
proof (rule race_one_trip)
  let ?d = "d(logout_key C r \<mapsto> MHash (encode_logout (w\<lparr>lgo_status := Used\<rparr>)), session_key C sr := None)"
  show "complete_common_logout C E r sr csrf c = (case round_trip E (logout_invocation C mem_redis r sr csrf) c of
      (None, c1) \<Rightarrow> (Err RedisFailure, c1) | (Some v, c1) \<Rightarrow> (logout_reply v, c1))" if "server_cmds E = mem_redis" for E :: "mem redis_env" and c
    by (simp add: complete_common_logout_def that)
  show "complete_common_logout C test_redis_env r sr csrf (test_connection t d n l) = (Ok (lgo_logout_return_uri w), test_connection t ?d (Suc n) l)"
    using assms by (simp add: logout_stored_call)
  have "logout_verdict t csrf (encode_logout (w\<lparr>lgo_status := Used\<rparr>)) = 5"
    using assms(3) by (simp add: logout_verdict_encoded split: if_splits)
  then show "complete_common_logout C test_redis_env r sr csrf (test_connection t ?d n l) = (Err AlreadyUsed, test_connection t ?d (Suc n) l)"
    using assms(2) by (simp add: logout_stored_call [of ?d C r "w\<lparr>lgo_status := Used\<rparr>"] script_error_def)
qed

lemma exchange_delivered:
  assumes "server_cmds E = mem_redis" "network E n = Delivered" "network E (Suc n) = Delivered" "network E (Suc (Suc n)) = Delivered"
    and "mem_data (interference E n s) (handoff_key C r) = Some (MHash ps)" "ps \<noteq> []"
    and "mem_data (interference E (Suc n) (interference E n s)) (handoff_key C r) = Some (MHash qs)"
    and "map_of qs ''common_session_lookup'' = Some v" "is_lookup v"
    and "exchange_handoff_script mem_redis (handoff_key C r) (session_key_text v) service challenge v
        (interference E (Suc (Suc n)) (interference E (Suc n) (interference E n s))) = (Some reply, s')"
  shows "exchange_handoff C E r service challenge \<lparr>server = s, trips = n, log_lines = l\<rparr> =
     (exchange_reply reply, \<lparr>server = s', trips = n + 3, log_lines = l\<rparr>)"
proof -
  have "utf8_valid v" "session_key_from_lookup v = Ok (session_key_text v)"
    using assms(9) by (simp_all add: utf8_valid_lookup session_key_from_lookup_def session_key_text_def)
  then show ?thesis
    using assms
    by (simp add: exchange_handoff_def resolve_handoff_session_lookup_def exchange_invocation_def cmd_type_def cmd_hget_def mem_commands
        round_trip_def Let_def)
qed

lemma exchange_cut:
  assumes "server_cmds E = mem_redis" "interference E = (\<lambda>_ s. s)" "network E = (\<lambda>i. if i < n + k then Delivered else RequestLost)" "k < 3"
  shows "server (snd (exchange_handoff C E r service challenge \<lparr>server = s, trips = n, log_lines = l\<rparr>)) = s"
proof -
  have "k = 0 \<or> k = 1 \<or> k = 2" using assms(4) by auto
  then show ?thesis
    using assms(1-3)
    by (auto simp: exchange_handoff_def resolve_handoff_session_lookup_def cmd_type_def cmd_hget_def round_trip_def Let_def
        split: option.splits sum.splits prod.splits)
qed

lemma race_exchange:
  fixes z y
  defines "v \<equiv> hnd_common_session_lookup z"
  assumes stored: "d (handoff_key C r) = Some (MHash (encode_handoff z))" "d (session_key_text v) = Some (MHash (encode_session y))"
    and ready: "exchange_verdict t service challenge (encode_handoff z) (Some (MHash (encode_session y))) = 0"
  shows "race (\<lambda>E. exchange_handoff C E r service challenge) k test_redis_env (test_connection t d n l) =
     (if k < 3 then [Err AlreadyUsed, Ok \<lparr>her_internal_user_id = hnd_internal_user_id z, her_authenticated_at = hnd_authenticated_at z\<rparr>]
      else [Ok \<lparr>her_internal_user_id = hnd_internal_user_id z, her_authenticated_at = hnd_authenticated_at z\<rparr>, Err AlreadyUsed],
      test_connection t (d(handoff_key C r \<mapsto> MHash (encode_handoff (z\<lparr>hnd_status := Used\<rparr>)))) (n + 3) l)"
    (is "race ?f k test_redis_env _ = (if k < 3 then [?b, ?a] else [?a, ?b], test_connection t ?d (n + 3) l)")
proof -
  have z: "is_lookup v" "handoff_verdict t service challenge (encode_handoff z) = 0" 
    "handoff_verdict t service challenge (encode_handoff (z\<lparr>hnd_status := Used\<rparr>)) = 5"
    using ready by (auto simp: exchange_verdict_def handoff_verdict_encoded v_def split: if_splits)
  let ?s0 = "\<lparr>mem_time = t, mem_data = d\<rparr>" and ?s1 = "\<lparr>mem_time = t, mem_data = ?d\<rparr>"
  have first: "?f test_redis_env (test_connection t d i l) = (?a, test_connection t ?d (i + 3) l)" for i
    using stored ready z(1) by (simp add: exchange_stored [of d C r z] v_def [symmetric])
  have second: "?f test_redis_env (test_connection t ?d i l) = (?b, test_connection t ?d (i + 3) l)" for i
    using z by (simp add: exchange_stored [of ?d C r "z\<lparr>hnd_status := Used\<rparr>"] v_def exchange_verdict_def script_error_def)
  have used: "map_of (encode_handoff (z\<lparr>hnd_status := Used\<rparr>)) ''common_session_lookup'' = Some v"
    "map_of (encode_handoff z) ''common_session_lookup'' = Some v"
    by (simp_all add: handoff_stored v_def)
  have scripts: "exchange_handoff_script mem_redis (handoff_key C r) (session_key_text v) service challenge v ?s0 =
      (Some [VInt 0, VInt (sint (hnd_internal_user_id z)), VInt (int (unat (hnd_authenticated_at z)))], ?s1)"
    "exchange_handoff_script mem_redis (handoff_key C r) (session_key_text v) service challenge v ?s1 = (Some [VInt 5], ?s1)"
    using z ready used stored by (simp_all add: exchange_first_half exchange_second_half exchange_verdict_def handoff_stored lua_simps
        status_updates Let_def del: of_nat_unat)
  have replies: "exchange_reply [VInt 0, VInt (sint (hnd_internal_user_id z)), VInt (int (unat (hnd_authenticated_at z)))] = ?a"
    "exchange_reply [VInt 5] = ?b"
    by (simp_all add: script_error_def ok_or_def del: of_nat_unat)
  let ?E = "test_redis_env\<lparr>interference := \<lambda>i s. if i = n + k then server (snd (?f test_redis_env \<lparr>server = s, trips = n, log_lines = l\<rparr>)) else s\<rparr>"
  have other: "?f test_redis_env \<lparr>server = ?s0, trips = n, log_lines = l\<rparr> = (?a, \<lparr>server = ?s1, trips = n + 3, log_lines = l\<rparr>)"
    "?f test_redis_env \<lparr>server = ?s1, trips = n, log_lines = l\<rparr> = (?b, \<lparr>server = ?s1, trips = n + 3, log_lines = l\<rparr>)"
    using first [of n] second [of n] by (simp_all add: test_connection_def)
  consider "k = 0" | "k = 1" | "k = 2" | "3 \<le> k" by linarith
  then have E: "?f ?E \<lparr>server = ?s0, trips = n, log_lines = l\<rparr> = (if k < 3 then ?b else ?a, \<lparr>server = ?s1, trips = n + 3, log_lines = l\<rparr>)"
  proof cases
    case 1
    then show ?thesis
      using exchange_delivered [of ?E n ?s0 C r "encode_handoff (z\<lparr>hnd_status := Used\<rparr>)" "encode_handoff (z\<lparr>hnd_status := Used\<rparr>)" v] other scripts replies used z
      by (simp add: test_redis_env_def del: exchange_reply.simps)
  next
    case 2
    then show ?thesis
      using exchange_delivered [of ?E n ?s0 C r "encode_handoff z" "encode_handoff (z\<lparr>hnd_status := Used\<rparr>)" v] other scripts replies used z stored
      by (simp add: test_redis_env_def del: exchange_reply.simps)
  next
    case 3
    then show ?thesis
      using exchange_delivered [of ?E n ?s0 C r "encode_handoff z" "encode_handoff z" v] other scripts replies used z stored
      by (simp add: test_redis_env_def del: exchange_reply.simps)
  next
    case 4
    then show ?thesis
      using exchange_delivered [of ?E n ?s0 C r "encode_handoff z" "encode_handoff z" v] other scripts replies used z stored
      by (simp add: test_redis_env_def del: exchange_reply.simps)
  qed
  let ?U = "test_redis_env\<lparr>network := \<lambda>i. if i < n + k then Delivered else RequestLost\<rparr>"
  have until: "server (snd (?f ?U \<lparr>server = ?s0, trips = n, log_lines = l\<rparr>)) = (if k < 3 then ?s0 else ?s1)"
  proof (cases "k < 3")
    case True
    then show ?thesis using exchange_cut [of ?U n k] by (simp add: test_redis_env_def)
  next
    case False
    then show ?thesis
      using exchange_delivered [of ?U n ?s0 C r "encode_handoff z" "encode_handoff z" v] scripts used z stored
      by (simp add: test_redis_env_def del: exchange_reply.simps)
  qed
  show ?thesis
    using E until other
    by (simp add: race_def test_connection_def Let_def)
qed

lemmas create_conflicts = create_conflict [of _ "session_key C sr" _ C sr for C sr, OF _ _ disjI1 [OF refl]]
  create_conflict [of _ "handoff_key C hr" _ C _ hr for C hr, OF _ _ disjI2 [OF refl]]

section \<open>Raw commands\<close>

lemma raw_commands:
  "redis_exists k test_redis_env (test_connection t d n l) =
     (Some (case d k of None \<Rightarrow> False | Some (MHash ps) \<Rightarrow> ps \<noteq> [] | Some MString \<Rightarrow> True), test_connection t d (Suc n) l)"
  "persist k test_redis_env (test_connection t d n l) = (True, test_connection t d (Suc n) l)"
  "redis_set k test_redis_env (test_connection t d n l) = (True, test_connection t (d(k \<mapsto> MString)) (Suc n) l)"
  "redis_type k test_redis_env (test_connection t d n l) =
     (Some (case d k of None \<Rightarrow> ''none'' | Some (MHash ps) \<Rightarrow> if ps = [] then ''none'' else ''hash'' | Some MString \<Rightarrow> ''string''),
      test_connection t d (Suc n) l)"
  by (simp_all add: redis_exists_def persist_def redis_set_def redis_type_def expects_def test_connection_def mem_commands cmd_type_def)

lemma raw_hash_commands:
  assumes "d k = Some (MHash ps)"
  shows "redis_status k test_redis_env (test_connection t d n l) = (map_of ps ''status'', test_connection t d (Suc n) l)"
    "set_hash_field k f v test_redis_env (test_connection t d n l) =
       (True, test_connection t (d(k \<mapsto> MHash (AList.update f v ps))) (Suc n) l)"
    "redis_expireat k e test_redis_env (test_connection t d n l) =
       (unat e \<le> expireat_max, test_connection t (if unat e \<le> expireat_max \<and> \<not> t < unat e then d(k := None) else d) (Suc n) l)"
    "redis_hkeys k test_redis_env (test_connection t d n l) = (Some (map fst (AList.clearjunk ps)), test_connection t d (Suc n) l)"
  using assms
  by (simp_all add: redis_status_def set_hash_field_def redis_expireat_def redis_hkeys_def expects_def test_connection_def mem_commands
      cmd_hget_def cmd_hset_def cmd_expireat_def u64_to_string_def)

lemma raw_hset:
  "d k = None \<Longrightarrow> distinct (map fst ps) \<Longrightarrow> redis_hset k ps test_redis_env (test_connection t d n l) =
     (True, test_connection t (d(k \<mapsto> MHash ps)) (Suc n) l)"
  using fold_update_append [of "[]" ps]
  by (simp add: redis_hset_def expects_def test_connection_def mem_commands cmd_hset_def)

definition without :: "string list \<Rightarrow> (string \<rightharpoonup> mem_object) \<Rightarrow> string \<rightharpoonup> mem_object" where
  "without ks d = (\<lambda>k. if k \<in> set ks then None else d k)"

lemma without_empty [simp]: "without ks Map.empty = Map.empty"
  by (simp add: without_def)

lemma raw_delete:
  "delete_keys ks test_redis_env (test_connection t d n l) = (True, test_connection t (without ks d) (n + length ks) l)"
  by (induction ks arbitrary: d n)
    (simp_all add: test_connection_def cmd_del_def mem_commands without_def fun_eq_iff)

end
