(* ===== verification/Redis_Integration.thy ===== *)
theory Redis_Integration
  imports Redis_Bench "HOL-Library.List_Lexorder" "HOL-Library.Char_ord"
begin

text \<open>
  The tests of \<open>redis_state.rs\<close> that need a Redis server: the calls, raw commands and assertions of
  each test in order, in the parts the test has, on a disposable server that is empty at the start.
  The \<open>now\<close> of a test is what \<open>TIME\<close> said at its beginning; the server's clock may have moved on.
\<close>

definition test_logout :: "'c crypto_scheme \<Rightarrow> common_logout_transaction" where
  "test_logout C = logout_fixture\<lparr>lgo_csrf_lookup := reference_value_lookup C ''csrf-token''\<rparr>"

section \<open>Failed writes\<close>

definition redis_write_failure_integration :: "'c crypto_scheme \<Rightarrow> string \<Rightarrow> bool \<Rightarrow> bool redis_call list" where
  "redis_write_failure_integration C reference hset_succeeds =
     [gives (\<lambda>E. write_external C E reference external_fixture 100) (Err RedisFailure),
      gives (redis_exists (external_key C reference)) (Some hset_succeeds),
      delete_keys [external_key C reference]]"

text \<open>The servers of these tests have one command renamed: it is unknown, and a client gets an error.\<close>

definition hset_renamed :: "mem redis_env" where
  "hset_renamed = test_redis_env\<lparr>server_cmds := mem_redis\<lparr>r_hset := (\<lambda>_ _ _. None)\<rparr>\<rparr>"

definition expireat_renamed :: "mem redis_env" where
  "expireat_renamed = test_redis_env\<lparr>server_cmds := mem_redis\<lparr>r_expireat := (\<lambda>_ _ _. None)\<rparr>\<rparr>"

definition redis_hset_failure_integration :: "'c crypto_scheme \<Rightarrow> mem connection \<Rightarrow> bool \<times> mem connection" where
  "redis_hset_failure_integration C = passes (redis_write_failure_integration C ''t26-hset-failure'' False) hset_renamed"

definition redis_expireat_failure_integration :: "'c crypto_scheme \<Rightarrow> mem connection \<Rightarrow> bool \<times> mem connection" where
  "redis_expireat_failure_integration C = passes (redis_write_failure_integration C ''t26-expireat-failure'' True) expireat_renamed"

section \<open>States as hashes\<close>

definition t07_now :: u64 where
  "t07_now = 2000000000"

definition t07_keys :: "'c crypto_scheme \<Rightarrow> string list" where
  "t07_keys C = [external_key C ''t07-integration-external'', session_key C ''t07-integration-session'',
     handoff_key C ''t07-integration-handoff'', logout_key C ''t07-integration-logout'']"

definition t07_states :: "'c crypto_scheme \<Rightarrow> bool redis_call list" where
  "t07_states C =
     (let external_state = external_fixture\<lparr>ext_expires_at := t07_now + EXTERNAL_AUTH_TRANSACTION_TTL_SECONDS\<rparr>;
          session_state = session_fixture\<lparr>ses_expires_at := t07_now + COMMON_SESSION_TTL_SECONDS\<rparr>;
          handoff_state = (handoff_fixture Used)\<lparr>hnd_common_session_lookup := reference_value_lookup C ''common-session-reference'',
            hnd_expires_at := t07_now + AUTHENTICATION_HANDOFF_TTL_SECONDS\<rparr>;
          logout_state = (test_logout C)\<lparr>lgo_expires_at := t07_now + COMMON_LOGOUT_TRANSACTION_TTL_SECONDS\<rparr> in
      [gives (\<lambda>E. write_external C E ''t07-integration-external'' external_state t07_now) (Ok ()),
       gives (\<lambda>E. write_session C E ''t07-integration-session'' session_state t07_now) (Ok ()),
       gives (\<lambda>E. write_handoff C E ''t07-integration-handoff'' handoff_state t07_now) (Ok ()),
       gives (\<lambda>E. write_logout C E ''t07-integration-logout'' logout_state t07_now) (Ok ())]
      @ concat (map (\<lambda>(key, expected_fields).
          [gives (redis_type key) (Some ''hash''),
           expects (redis_hkeys key) (\<lambda>actual_fields. map_option sort actual_fields = Some (sort expected_fields))])
        (zip (t07_keys C) [EXTERNAL_FIELDS, SESSION_FIELDS, HANDOFF_FIELDS, LOGOUT_FIELDS]))
      @ [gives (\<lambda>E. read_external C E ''t07-integration-external'' t07_now) (Ok external_state),
       gives (\<lambda>E. read_session C E ''t07-integration-session'' t07_now) (Ok session_state),
       gives (\<lambda>E. read_handoff C E ''t07-integration-handoff'' t07_now) (Ok handoff_state),
       gives (\<lambda>E. read_logout C E ''t07-integration-logout'' t07_now) (Ok logout_state),
       gives (\<lambda>E. read_session C E ''missing'' t07_now) (Err NotFound)])"

definition t07_expired :: "'c crypto_scheme \<Rightarrow> bool redis_call list" where
  "t07_expired C =
     (let expired_key = external_key C ''t07-integration-expired''; expired = external_fixture\<lparr>ext_expires_at := t07_now - 1\<rparr> in
      [redis_hset expired_key [(''service_id'', ext_service_id expired), (''service_state'', ext_service_state expired),
         (''handoff_code_challenge'', ext_handoff_code_challenge expired), (''provider'', ext_provider expired),
         (''provider_verification_data'', ext_provider_verification_data expired), (''created_at'', u64_to_string (ext_created_at expired)),
         (''expires_at'', u64_to_string (ext_expires_at expired)), (''status'', ''waiting'')],
       redis_expireat expired_key (t07_now + 60),
       gives (\<lambda>E. read_external C E ''t07-integration-expired'' t07_now) (Err Expired),
       gives (redis_exists expired_key) (Some False)])"

definition t07_wrong_type :: "'c crypto_scheme \<Rightarrow> bool redis_call list" where
  "t07_wrong_type C =
     [redis_set (session_key C ''t07-integration-wrong-type''),
      gives (\<lambda>E. read_session C E ''t07-integration-wrong-type'' t07_now) (Err RedisFailure)]"

definition redis_hash_state_integration :: "'c crypto_scheme \<Rightarrow> bool redis_call list" where
  "redis_hash_state_integration C = [delete_keys (t07_keys C)] @ t07_states C @ t07_expired C @ t07_wrong_type C
     @ [delete_keys (t07_keys C @ [external_key C ''t07-integration-expired'', session_key C ''t07-integration-wrong-type''])]"

section \<open>Atomic operations\<close>

definition t08_references :: "string list" where
  "t08_references = [''t08-external'', ''t08-session'', ''t08-handoff'', ''t08-issued-handoff'', ''t08-concurrent-exchange'',
     ''t08-logout'', ''t08-logout-session'', ''t08-concurrent-logout'', ''t08-concurrent-logout-session'', ''t08-missing'',
     ''t08-concurrent-claim'', ''t08-conflicting-handoff'', ''t08-logical-expired'', ''t08-early-physical-expiry'']"

definition t08_keys :: "'c crypto_scheme \<Rightarrow> string list" where
  "t08_keys C = [external_key C ''t08-external'', session_key C ''t08-session'', handoff_key C ''t08-handoff'',
     handoff_key C ''t08-issued-handoff'', handoff_key C ''t08-concurrent-exchange'', logout_key C ''t08-logout'',
     session_key C ''t08-logout-session'', logout_key C ''t08-concurrent-logout'', session_key C ''t08-concurrent-logout-session'']"

definition t08_claims :: "'c crypto_scheme \<Rightarrow> u64 \<Rightarrow> nat \<Rightarrow> bool redis_call list" where
  "t08_claims C now k =
     (let callback = external_fixture\<lparr>ext_expires_at := now + 120\<rparr>; concurrent = external_fixture\<lparr>ext_expires_at := now + 120\<rparr> in
      [gives (\<lambda>E. write_external C E ''t08-external'' callback now) (Ok ()),
       persist (external_key C ''t08-external''),
       expects (\<lambda>E. claim_external_callback C E ''t08-external'')
         (\<lambda>r. case r of Inr claimed \<Rightarrow> ext_status claimed = Processing | Inl _ \<Rightarrow> False),
       gives (\<lambda>E. claim_external_callback C E ''t08-external'') (Err AlreadyClaimed),
       gives (\<lambda>E. claim_external_callback C E ''t08-missing'') (Err NotFound),
       gives (\<lambda>E. write_external C E ''t08-concurrent-claim'' concurrent now) (Ok ()),
       expects (race (\<lambda>E. claim_external_callback C E ''t08-concurrent-claim'') k)
         (\<lambda>outcomes. exactly_one is_ok outcomes \<and> exactly_one (\<lambda>outcome. outcome = Err AlreadyClaimed) outcomes)])"

definition t08_sessions :: "'c crypto_scheme \<Rightarrow> u64 \<Rightarrow> bool redis_call list" where
  "t08_sessions C now =
     (let session_state = session_fixture\<lparr>ses_expires_at := now + 300\<rparr>;
          initial_handoff = (handoff_fixture Unused)\<lparr>hnd_common_session_lookup := reference_value_lookup C ''t08-session'',
            hnd_expires_at := now + 120\<rparr> in
      [gives (\<lambda>E. create_session_and_handoff C E ''t08-session'' session_state ''t08-handoff'' initial_handoff) (Ok ()),
       persist (session_key C ''t08-session''),
       gives (\<lambda>E. create_session_and_handoff C E ''t08-session'' session_state ''t08-conflicting-handoff'' initial_handoff) (Err KeyConflict),
       gives (redis_exists (handoff_key C ''t08-conflicting-handoff'')) (Some False)])"

definition t08_exchanges :: "'c crypto_scheme \<Rightarrow> u64 \<Rightarrow> nat \<Rightarrow> bool redis_call list" where
  "t08_exchanges C now k =
     (let issued_handoff = (handoff_fixture Unused)\<lparr>hnd_common_session_lookup := reference_value_lookup C ''t08-session'',
            hnd_expires_at := now + 110\<rparr>;
          concurrent_exchange = (handoff_fixture Unused)\<lparr>hnd_common_session_lookup := reference_value_lookup C ''t08-session'',
            hnd_expires_at := now + 100\<rparr> in
      [gives (\<lambda>E. issue_sso_handoff C E ''t08-session'' ''t08-issued-handoff'' issued_handoff) (Ok ()),
       gives (\<lambda>E. issue_sso_handoff C E ''t08-session'' ''t08-issued-handoff'' issued_handoff) (Err KeyConflict),
       gives (\<lambda>E. exchange_handoff C E ''t08-issued-handoff'' ''service'' ''challenge'')
         (Ok \<lparr>her_internal_user_id = 42, her_authenticated_at = 101\<rparr>),
       gives (\<lambda>E. exchange_handoff C E ''t08-issued-handoff'' ''service'' ''challenge'') (Err AlreadyUsed),
       gives (\<lambda>E. issue_sso_handoff C E ''t08-session'' ''t08-concurrent-exchange'' concurrent_exchange) (Ok ()),
       expects (race (\<lambda>E. exchange_handoff C E ''t08-concurrent-exchange'' ''service'' ''challenge'') k)
         (\<lambda>outcomes. exactly_one is_ok outcomes \<and> exactly_one (\<lambda>outcome. outcome = Err AlreadyUsed) outcomes)])"

definition t08_logouts :: "'c crypto_scheme \<Rightarrow> u64 \<Rightarrow> nat \<Rightarrow> bool redis_call list" where
  "t08_logouts C now k =
     (let logout_state = (test_logout C)\<lparr>lgo_expires_at := now + 120\<rparr>; logout_session = session_fixture\<lparr>ses_expires_at := now + 120\<rparr>;
          concurrent_logout = (test_logout C)\<lparr>lgo_expires_at := now + 100\<rparr>;
          concurrent_logout_session = session_fixture\<lparr>ses_expires_at := now + 100\<rparr> in
      [gives (\<lambda>E. write_logout C E ''t08-logout'' logout_state now) (Ok ()),
       gives (\<lambda>E. write_session C E ''t08-logout-session'' logout_session now) (Ok ()),
       persist (logout_key C ''t08-logout''),
       gives (\<lambda>E. complete_common_logout C E ''t08-logout'' ''t08-logout-session'' (lgo_csrf_lookup logout_state))
         (Ok (lgo_logout_return_uri logout_state)),
       gives (redis_exists (logout_key C ''t08-logout'')) (Some True),
       gives (redis_exists (session_key C ''t08-logout-session'')) (Some False),
       gives (\<lambda>E. complete_common_logout C E ''t08-logout'' ''t08-logout-session'' (lgo_csrf_lookup logout_state)) (Err AlreadyUsed),
       gives (\<lambda>E. write_logout C E ''t08-concurrent-logout'' concurrent_logout now) (Ok ()),
       gives (\<lambda>E. write_session C E ''t08-concurrent-logout-session'' concurrent_logout_session now) (Ok ()),
       expects (race (\<lambda>E. complete_common_logout C E ''t08-concurrent-logout'' ''t08-concurrent-logout-session''
           (lgo_csrf_lookup concurrent_logout)) k)
         (\<lambda>outcomes. exactly_one is_ok outcomes \<and> exactly_one (\<lambda>outcome. outcome = Err AlreadyUsed) outcomes)])"

definition t08_expiries :: "'c crypto_scheme \<Rightarrow> u64 \<Rightarrow> bool redis_call list" where
  "t08_expiries C now =
     (let future_ttl = external_fixture\<lparr>ext_expires_at := now + 60\<rparr>; early_expiry = external_fixture\<lparr>ext_expires_at := now + 60\<rparr> in
      [gives (\<lambda>E. write_external C E ''t08-logical-expired'' future_ttl now) (Ok ()),
       persist (external_key C ''t08-logical-expired''),
       set_hash_field (external_key C ''t08-logical-expired'') ''expires_at'' (u64_to_string (now - 1)),
       gives (\<lambda>E. claim_external_callback C E ''t08-logical-expired'') (Err Expired),
       gives (redis_exists (external_key C ''t08-logical-expired'')) (Some False),
       gives (\<lambda>E. write_external C E ''t08-early-physical-expiry'' early_expiry now) (Ok ()),
       redis_expireat (external_key C ''t08-early-physical-expiry'') 1,
       gives (\<lambda>E. claim_external_callback C E ''t08-early-physical-expiry'') (Err NotFound)])"

text \<open>The races of the test happen before any of the round trips: \<open>k1\<close>, \<open>k2\<close> and \<open>k3\<close> are free.\<close>

definition t08_redis_lua_atomic_operations :: "'c crypto_scheme \<Rightarrow> u64 \<Rightarrow> nat \<Rightarrow> nat \<Rightarrow> nat \<Rightarrow> bool redis_call list" where
  "t08_redis_lua_atomic_operations C now k1 k2 k3 =
     [delete_keys (t08_keys C)] @ t08_claims C now k1 @ t08_sessions C now @ t08_exchanges C now k2 @ t08_logouts C now k3
     @ t08_expiries C now @ [delete_keys (t08_keys C @ [external_key C ''t08-concurrent-claim'', external_key C ''t08-logical-expired''])]"

section \<open>They pass\<close>

lemma passes_append: "passes (ts @ us) E c = (case passes ts E c of (ok, c1) \<Rightarrow> if ok then passes us E c1 else (False, c1))"
  by (induction ts arbitrary: c) (auto split: prod.splits)

lemma without_upd: "without ks (d(k := x)) = (if k \<in> set ks then without ks d else (without ks d)(k := x))"
  by (auto simp: without_def)

lemma key_inj:
  "external_key C a = external_key C b \<longleftrightarrow> reference_value_lookup C a = reference_value_lookup C b"
  "session_key C a = session_key C b \<longleftrightarrow> reference_value_lookup C a = reference_value_lookup C b"
  "handoff_key C a = handoff_key C b \<longleftrightarrow> reference_value_lookup C a = reference_value_lookup C b"
  "logout_key C a = logout_key C b \<longleftrightarrow> reference_value_lookup C a = reference_value_lookup C b"
  by (simp_all add: external_key_def session_key_def handoff_key_def logout_key_def)

lemma fixture_fields [simp]:
  "ext_created_at external_fixture = 100" "ext_status external_fixture = Waiting"
  "ses_internal_user_id session_fixture = 42" "ses_authenticated_at session_fixture = 101" "ses_created_at session_fixture = 100"
  "hnd_service_id (handoff_fixture st) = ''service''" "hnd_internal_user_id (handoff_fixture st) = 42"
  "hnd_code_challenge (handoff_fixture st) = ''challenge''" "hnd_authenticated_at (handoff_fixture st) = 101"
  "hnd_issued_at (handoff_fixture st) = 102" "hnd_status (handoff_fixture st) = st"
  "lgo_created_at logout_fixture = 100"
  "lgo_status logout_fixture = Unused"
  by (simp_all add: fixture_defs)

lemma wf_external_fixture [simp]: "wf_external (external_fixture\<lparr>ext_expires_at := e\<rparr>)" "wf_external (external_fixture\<lparr>ext_expires_at := e, ext_status := st\<rparr>)"
  by (simp_all add: wf_external_def external_fixture_def is_ascii_byte_def)

lemma fixture_return_uri [simp]: "utf8_valid (lgo_logout_return_uri logout_fixture)"
  by (simp add: logout_fixture_def is_ascii_byte_def)

lemma handoff_fixture_status [simp]:
  "handoff_fixture a\<lparr>hnd_common_session_lookup := v, hnd_expires_at := e, hnd_status := b\<rparr> =
     handoff_fixture b\<lparr>hnd_common_session_lookup := v, hnd_expires_at := e\<rparr>"
  by (simp add: handoff_fixture_def)

text \<open>The hypotheses of the tests: the clock is in the range of Lua's integers, and it moves by less than the shortest lifetime.\<close>

locale test_clock = crypto_lib C for C :: "'c crypto_scheme" +
  fixes now :: u64 and t :: nat
  assumes clock: "0 < unat now" "unat now + 1000 \<le> lua_uint_max" "unat now \<le> t" "t < unat now + 60"
begin

lemma later: "unat k \<le> 1000 \<Longrightarrow> unat (now + k) = unat now + unat k"
  using clock(2) by (simp add: lua_uint_max_def unat_word_ariths)

lemma times [simp]:
  "unat (now + 60) = unat now + 60" "unat (now + 100) = unat now + 100" "unat (now + 110) = unat now + 110"
  "unat (now + 120) = unat now + 120" "unat (now + 300) = unat now + 300" "unat (now - 1) = unat now - 1"
  using clock(1) by (simp_all add: later unat_minus_one unat_gt_0)

lemma small_numbers [simp]: "\<not> lua_uint_max < 100" "\<not> lua_uint_max < 101" "\<not> lua_uint_max < 102" "102 \<le> lua_uint_max"
  by (simp_all add: lua_uint_max_def)

lemma in_time [simp]:
  "x \<le> 1000 \<Longrightarrow> \<not> lua_uint_max < unat now + x" "x \<le> 1000 \<Longrightarrow> unat now + x \<le> lua_uint_max" "x \<le> 1000 \<Longrightarrow> unat now + x \<le> expireat_max"
  "60 \<le> x \<Longrightarrow> t < unat now + x" "60 \<le> x \<Longrightarrow> \<not> unat now + x \<le> t" "unat now - Suc 0 \<le> t"
  "\<not> lua_uint_max < unat now - Suc 0" "0 < t"
  using clock lua_uint_max_le by linarith+

lemma expireat_one [simp]: "Suc 0 \<le> expireat_max"
  by (simp add: expireat_max_def)

lemma unexpired [simp]: "unat k \<le> 1000 \<Longrightarrow> 0 < unat k \<Longrightarrow> is_unexpired now (now + k)"
  by (simp add: is_unexpired_def word_less_nat_alt later)

end

lemmas run_simps = gives_def expects_def raw_commands raw_hash_commands exactly_one_def is_ok_def script_error_def
  claim_verdict_encoded session_verdict_encoded handoff_verdict_encoded logout_verdict_encoded encode_names_eqs

context test_clock
begin

lemma claims_pass:
  assumes "distinct (map (reference_value_lookup C) t08_references)"
    and "d (external_key C ''t08-external'') = None" "d (external_key C ''t08-missing'') = None" "d (external_key C ''t08-concurrent-claim'') = None"
  shows "passes (t08_claims C now k) test_redis_env (test_connection t d n l) = (True, test_connection t (d(
      external_key C ''t08-external'' \<mapsto> MHash (encode_external (external_fixture\<lparr>ext_expires_at := now + 120, ext_status := Processing\<rparr>)),
      external_key C ''t08-concurrent-claim'' \<mapsto> MHash (encode_external (external_fixture\<lparr>ext_expires_at := now + 120, ext_status := Processing\<rparr>))))
      (n + 9) l)"
proof -
  have keys: "external_key C ''t08-external'' \<noteq> external_key C ''t08-missing''" "external_key C ''t08-external'' \<noteq> external_key C ''t08-concurrent-claim''"
    using assms(1) by (simp_all add: t08_references_def key_inj)
  show ?thesis
    using assms(2-) keys keys [symmetric]
    by (simp add: t08_claims_def run_simps write_external_def write_call claim_stored claim_absent race_claim Let_def)
      (simp add: eval_nat_numeral)
qed

lemma sessions_pass:
  assumes "distinct (map (reference_value_lookup C) t08_references)"
    and "d (session_key C ''t08-session'') = None" "d (handoff_key C ''t08-handoff'') = None" "d (handoff_key C ''t08-conflicting-handoff'') = None"
  shows "passes (t08_sessions C now) test_redis_env (test_connection t d n l) = (True, test_connection t (d(
      session_key C ''t08-session'' \<mapsto> MHash (encode_session (session_fixture\<lparr>ses_expires_at := now + 300\<rparr>)),
      handoff_key C ''t08-handoff'' \<mapsto> MHash (encode_handoff ((handoff_fixture Unused)
        \<lparr>hnd_common_session_lookup := reference_value_lookup C ''t08-session'', hnd_expires_at := now + 120\<rparr>))))
      (n + 4) l)"
proof -
  have keys: "handoff_key C ''t08-handoff'' \<noteq> handoff_key C ''t08-conflicting-handoff''"
    using assms(1) by (simp_all add: t08_references_def key_inj)
  show ?thesis
    using assms(2-) keys keys [symmetric]
    by (simp add: t08_sessions_def run_simps create_stored create_conflicts reference_value_lookup_is_lookup [OF crypto_lib_axioms] Let_def)
      (simp add: eval_nat_numeral)
qed

abbreviation session_handoff :: "string \<Rightarrow> u64 \<Rightarrow> usage_status \<Rightarrow> authentication_handoff" where
  "session_handoff r e st \<equiv> (handoff_fixture st)\<lparr>hnd_common_session_lookup := reference_value_lookup C r, hnd_expires_at := e\<rparr>"

lemma exchanges_pass:
  assumes "distinct (map (reference_value_lookup C) t08_references)"
    and "d (session_key C ''t08-session'') = Some (MHash (encode_session (session_fixture\<lparr>ses_expires_at := now + 300\<rparr>)))"
    and "d (handoff_key C ''t08-issued-handoff'') = None" "d (handoff_key C ''t08-concurrent-exchange'') = None"
  shows "passes (t08_exchanges C now k) test_redis_env (test_connection t d n l) = (True, test_connection t (d(
      handoff_key C ''t08-issued-handoff'' \<mapsto> MHash (encode_handoff (session_handoff ''t08-session'' (now + 110) Used)),
      handoff_key C ''t08-concurrent-exchange'' \<mapsto> MHash (encode_handoff (session_handoff ''t08-session'' (now + 100) Used))))
      (n + 12) l)"
proof -
  have keys: "handoff_key C ''t08-issued-handoff'' \<noteq> handoff_key C ''t08-concurrent-exchange''"
    using assms(1) by (simp_all add: t08_references_def key_inj)
  show ?thesis
    using assms(2-) keys keys [symmetric]
    by (simp add: t08_exchanges_def run_simps issue_stored issue_conflict exchange_stored race_exchange exchange_verdict_def
        session_key_eq_text [symmetric] handoff_stored session_stored
        reference_value_lookup_is_lookup [OF crypto_lib_axioms] Let_def)
      (simp add: eval_nat_numeral)
qed

lemma logouts_pass:
  assumes "distinct (map (reference_value_lookup C) t08_references)"
    and "d (logout_key C ''t08-logout'') = None" "d (session_key C ''t08-logout-session'') = None"
    and "d (logout_key C ''t08-concurrent-logout'') = None" "d (session_key C ''t08-concurrent-logout-session'') = None"
  shows "passes (t08_logouts C now k) test_redis_env (test_connection t d n l) = (True, test_connection t (d(
      logout_key C ''t08-logout'' \<mapsto> MHash (encode_logout ((test_logout C)\<lparr>lgo_expires_at := now + 120, lgo_status := Used\<rparr>)),
      session_key C ''t08-logout-session'' := None,
      logout_key C ''t08-concurrent-logout'' \<mapsto> MHash (encode_logout ((test_logout C)\<lparr>lgo_expires_at := now + 100, lgo_status := Used\<rparr>)),
      session_key C ''t08-concurrent-logout-session'' := None))
      (n + 14) l)"
proof -
  have keys: "logout_key C ''t08-logout'' \<noteq> logout_key C ''t08-concurrent-logout''"
    "session_key C ''t08-logout-session'' \<noteq> session_key C ''t08-concurrent-logout-session''"
    using assms(1) by (simp_all add: t08_references_def key_inj)
  show ?thesis
    using assms(2-) keys keys [symmetric]
    by (simp add: t08_logouts_def run_simps write_logout_def write_session_def write_call logout_stored_call race_logout test_logout_def
        reference_value_lookup_is_lookup [OF crypto_lib_axioms] Let_def)
      (simp add: eval_nat_numeral)
qed

lemma expiries_pass:
  assumes "distinct (map (reference_value_lookup C) t08_references)"
    and "d (external_key C ''t08-logical-expired'') = None" "d (external_key C ''t08-early-physical-expiry'') = None"
  shows "passes (t08_expiries C now) test_redis_env (test_connection t d n l) = (True, test_connection t d (n + 10) l)"
proof -
  have keys: "external_key C ''t08-logical-expired'' \<noteq> external_key C ''t08-early-physical-expiry''"
    using assms(1) by (simp_all add: t08_references_def key_inj)
  show ?thesis
    using assms(2-) keys keys [symmetric]
    by (simp add: t08_expiries_def run_simps write_external_def write_call claim_stored claim_absent field_updates fun_upd_idem Let_def)
      (simp add: eval_nat_numeral)
qed

lemma atomic_operations_pass:
  assumes "distinct (map (reference_value_lookup C) t08_references)"
  shows "passes (t08_redis_lua_atomic_operations C now k1 k2 k3) test_redis_env (test_connection t Map.empty n l) =
     (True, test_connection t Map.empty (n + 69) l)"
proof -
  have keys: "handoff_key C ''t08-handoff'' \<noteq> handoff_key C ''t08-issued-handoff''" "handoff_key C ''t08-handoff'' \<noteq> handoff_key C ''t08-concurrent-exchange''"
    "session_key C ''t08-session'' \<noteq> session_key C ''t08-logout-session''" "session_key C ''t08-session'' \<noteq> session_key C ''t08-concurrent-logout-session''"
    "external_key C ''t08-external'' \<noteq> external_key C ''t08-logical-expired''" "external_key C ''t08-external'' \<noteq> external_key C ''t08-early-physical-expiry''"
    "external_key C ''t08-concurrent-claim'' \<noteq> external_key C ''t08-logical-expired''"
    "external_key C ''t08-concurrent-claim'' \<noteq> external_key C ''t08-early-physical-expiry''"
    using assms by (simp_all add: t08_references_def key_inj)
  show ?thesis
    using keys keys [symmetric]
    by (simp add: t08_redis_lua_atomic_operations_def passes_append raw_delete claims_pass [OF assms] sessions_pass [OF assms] exchanges_pass [OF assms]
        logouts_pass [OF assms] expiries_pass [OF assms] del: delete_keys.simps)
      (simp add: t08_keys_def without_upd add.commute)
qed

end

section \<open>The tests of writing and reading\<close>

lemma write_failures_pass:
  "redis_hset_failure_integration C (test_connection t Map.empty n l) = (True, test_connection t Map.empty (n + 3)
     (l @ [''component=redis_state state_family=external operation=hset redis_error_kind=ResponseError redis_error_code=ERR'']))"
  "redis_expireat_failure_integration C (test_connection t Map.empty n l) = (True, test_connection t Map.empty (n + 4)
     (l @ [''component=redis_state state_family=external operation=expireat redis_error_kind=ResponseError redis_error_code=ERR'']))"
  unfolding redis_hset_failure_integration_def redis_expireat_failure_integration_def redis_write_failure_integration_def
  by (simp_all add: hset_renamed_def expireat_renamed_def test_redis_env_def test_connection_def gives_def expects_def round_trip_def Let_def
      write_external_def write_state_def external_fixture_def is_unexpired_def cmd_hset_def cmd_expireat_def cmd_del_def redis_exists_def
      mem_commands redis_write_failure_def redis_write_failure_message_def test_error_fixture_def safe_redis_error_code_def is_upper_def
      byte_in_def encode_external_def fun_upd_idem)

context state_codec
begin

lemma read_encoded:
  assumes "d k = Some (MHash (encode x))" "storable x"
  shows "read_state test_redis_env k decode expiry now (test_connection t d n l) =
     (if is_unexpired now (expiry x) then (Ok x, test_connection t d (Suc n) l)
      else (Err Expired, test_connection t (d(k := None)) (n + 2) l))"
  using assms encode_utf8 [OF assms(2)] encode_not_Nil
  by (intro read_call) (auto simp: encode_names names_distinct decode_encode)

end

lemmas read_stored = external_codec.read_encoded session_codec.read_encoded handoff_codec.read_encoded logout_codec.read_encoded

lemma read_others:
  "d k = None \<Longrightarrow> read_state test_redis_env k decode expiry now (test_connection t d n l) = (Err NotFound, test_connection t d (Suc n) l)"
  "d k = Some MString \<Longrightarrow> read_state test_redis_env k decode expiry now (test_connection t d n l) = (Err RedisFailure, test_connection t d (Suc n) l)"
  by (simp_all add: read_state_def read_fields_def test_connection_def cmd_hgetall_def mem_commands utf8_pairs_def)

definition t07_references :: "string list" where
  "t07_references = [''t07-integration-external'', ''t07-integration-session'', ''t07-integration-expired'', ''missing'',
     ''t07-integration-wrong-type'']"

lemma t07_times [simp]:
  "unat (t07_now + EXTERNAL_AUTH_TRANSACTION_TTL_SECONDS) = 2000000600" "unat (t07_now + COMMON_SESSION_TTL_SECONDS) = 2000028800"
  "unat (t07_now + AUTHENTICATION_HANDOFF_TTL_SECONDS) = 2000000120" "unat (t07_now + COMMON_LOGOUT_TRANSACTION_TTL_SECONDS) = 2000000600"
  "unat (t07_now + 60) = 2000000060" "\<not> is_unexpired t07_now (t07_now - 1)"
  "is_unexpired t07_now (t07_now + EXTERNAL_AUTH_TRANSACTION_TTL_SECONDS)" "is_unexpired t07_now (t07_now + COMMON_SESSION_TTL_SECONDS)"
  "is_unexpired t07_now (t07_now + AUTHENTICATION_HANDOFF_TTL_SECONDS)" "is_unexpired t07_now (t07_now + COMMON_LOGOUT_TRANSACTION_TTL_SECONDS)"
  by (simp_all add: t07_now_def ttl_defs is_unexpired_def)

lemma t07_storable [simp]:
  "crypto_lib C \<Longrightarrow> wf_handoff (handoff_fixture st\<lparr>hnd_common_session_lookup := reference_value_lookup C r, hnd_expires_at := e\<rparr>)"
  "crypto_lib C \<Longrightarrow> wf_logout (test_logout C\<lparr>lgo_expires_at := e\<rparr>)"
  by (simp_all add: wf_handoff_def wf_logout_def test_logout_def handoff_fixture_def logout_fixture_def is_ascii_byte_def reference_value_lookup_is_lookup)

lemma t07_states_pass:
  assumes "crypto_lib C" "distinct (map (reference_value_lookup C) t07_references)" "t < 2000000060"
  shows "passes (t07_states C) test_redis_env (test_connection t Map.empty n l) = (True, test_connection t [
      external_key C ''t07-integration-external'' \<mapsto> MHash (encode_external (external_fixture\<lparr>ext_expires_at := t07_now + EXTERNAL_AUTH_TRANSACTION_TTL_SECONDS\<rparr>)),
      session_key C ''t07-integration-session'' \<mapsto> MHash (encode_session (session_fixture\<lparr>ses_expires_at := t07_now + COMMON_SESSION_TTL_SECONDS\<rparr>)),
      handoff_key C ''t07-integration-handoff'' \<mapsto> MHash (encode_handoff (handoff_fixture Used\<lparr>hnd_common_session_lookup :=
        reference_value_lookup C ''common-session-reference'', hnd_expires_at := t07_now + AUTHENTICATION_HANDOFF_TTL_SECONDS\<rparr>)),
      logout_key C ''t07-integration-logout'' \<mapsto> MHash (encode_logout (test_logout C\<lparr>lgo_expires_at := t07_now + COMMON_LOGOUT_TRANSACTION_TTL_SECONDS\<rparr>))]
      (n + 21) l)"
proof -
  have keys: "session_key C ''t07-integration-session'' \<noteq> session_key C ''missing''"
    using assms(2) by (simp_all add: t07_references_def key_inj)
  have times: "t < 2000000600" "t < 2000028800" "t < 2000000120" using assms(3) by simp_all
  show ?thesis
    using keys keys [symmetric] assms(1)
    by (simp add: t07_states_def t07_keys_def run_simps passes_append write_external_def write_session_def write_handoff_def write_logout_def write_call
        expireat_max_def read_external_def read_session_def read_handoff_def read_logout_def read_stored read_others wf_session_def
        distinct_clearjunk times Let_def)
      (simp add: eval_nat_numeral)
qed

lemma t07_expired_pass:
  assumes "d (external_key C ''t07-integration-expired'') = None" "t < 2000000060"
  shows "passes (t07_expired C) test_redis_env (test_connection t d n l) = (True, test_connection t d (n + 5) l)"
proof -
  let ?x = "external_fixture\<lparr>ext_expires_at := t07_now - 1\<rparr>"
  have "[(''service_id'', ext_service_id ?x), (''service_state'', ext_service_state ?x), (''handoff_code_challenge'', ext_handoff_code_challenge ?x),
     (''provider'', ext_provider ?x), (''provider_verification_data'', ext_provider_verification_data ?x),
     (''created_at'', u64_to_string (ext_created_at ?x)), (''expires_at'', u64_to_string (ext_expires_at ?x)), (''status'', ''waiting'')] = encode_external ?x"
    by (simp add: encode_external_def)
  then show ?thesis
    using assms(1) unfolding t07_expired_def Let_def
    by (simp add: run_simps raw_hset read_external_def read_stored assms(2) expireat_max_def fun_upd_idem)
      (simp add: eval_nat_numeral)
qed

lemma hash_states_pass:
  assumes "crypto_lib C" "distinct (map (reference_value_lookup C) t07_references)" "t < 2000000060"
  shows "passes (redis_hash_state_integration C) test_redis_env (test_connection t Map.empty n l) = (True, test_connection t Map.empty (n + 38) l)"
proof -
  have keys: "external_key C ''t07-integration-external'' \<noteq> external_key C ''t07-integration-expired''"
    using assms(2) by (simp_all add: t07_references_def key_inj)
  show ?thesis
    using keys keys [symmetric]
    by (simp add: redis_hash_state_integration_def passes_append run_simps raw_delete t07_states_pass [OF assms] t07_expired_pass assms(3)
        t07_wrong_type_def read_session_def read_others del: delete_keys.simps)
      (simp add: t07_keys_def without_upd add.commute)
qed

end
