(* ===== verification/Redis_Rejections.thy ===== *)
theory Redis_Rejections
  imports Redis_Integration
begin

text \<open>
  The integration tests of \<open>redis_state.rs\<close> about what the scripts refuse: malformed, expired and
  mismatching states, which stay as they are, and the comparison of the CSRF lookup over its whole
  length.
\<close>

section \<open>States that are rejected without mutation\<close>

definition review :: "u64 \<Rightarrow> string \<Rightarrow> string" where
  "review now name = ''t08-review-'' @ u64_to_string now @ ''-'' @ name"

definition review_names :: "string list" where
  "review_names = [''callback-malformed'', ''callback-range'', ''missing-session'', ''missing-handoff'', ''expired-session'',
     ''expired-handoff'', ''conflict-session'', ''conflict-handoff'', ''initial-new-session'', ''initial-new-handoff'',
     ''initial-handoff-session'', ''exchange-session'', ''exchange-handoff'', ''missing-exchange-handoff'',
     ''expired-exchange-session'', ''expired-exchange-handoff'', ''mismatch-user-handoff'', ''mismatch-auth-handoff'',
     ''malformed-handoff'', ''range-handoff'', ''ttl-handoff'', ''logout-csrf'', ''logout-csrf-session'', ''logout-expired'',
     ''logout-absent-session'']"

text \<open>Every reference is removed from all four key families.\<close>

definition review_keys :: "'c crypto_scheme \<Rightarrow> u64 \<Rightarrow> string list" where
  "review_keys C now = concat (map (\<lambda>name. let reference = review now name in
     [external_key C reference, session_key C reference, handoff_key C reference, logout_key C reference]) review_names)"

definition rejected_claims :: "'c crypto_scheme \<Rightarrow> u64 \<Rightarrow> bool redis_call list" where
  "rejected_claims C now =
     (let external_state = external_fixture\<lparr>ext_expires_at := now + 120\<rparr> in
      concat (map (\<lambda>(name, field, v).
        [gives (\<lambda>E. write_external C E (review now name) external_state now) (Ok ()),
         set_hash_field (external_key C (review now name)) field v,
         gives (\<lambda>E. claim_external_callback C E (review now name)) (Err InvalidStoredState),
         gives (redis_status (external_key C (review now name))) (Some ''waiting'')])
       [(''callback-malformed'', ''unexpected'', ''value''), (''callback-range'', ''created_at'', ''9007199254740992'')]))"

definition review_handoff :: "'c crypto_scheme \<Rightarrow> u64 \<Rightarrow> string \<Rightarrow> u64 \<Rightarrow> authentication_handoff" where
  "review_handoff C now session_name expires_at = (handoff_fixture Unused)
     \<lparr>hnd_common_session_lookup := reference_value_lookup C (review now session_name), hnd_expires_at := expires_at\<rparr>"

definition rejected_issues :: "'c crypto_scheme \<Rightarrow> u64 \<Rightarrow> bool redis_call list" where
  "rejected_issues C now =
     (let r = review now; session_state = session_fixture\<lparr>ses_expires_at := now + 120\<rparr> in
      [gives (\<lambda>E. issue_sso_handoff C E (r ''missing-session'') (r ''missing-handoff'')
          (review_handoff C now ''missing-session'' (now + 120))) (Err NotFound),
       gives (redis_exists (handoff_key C (r ''missing-handoff''))) (Some False),
       gives (\<lambda>E. write_session C E (r ''expired-session'') session_state now) (Ok ()),
       set_hash_field (session_key C (r ''expired-session'')) ''expires_at'' (u64_to_string (now - 1)),
       gives (\<lambda>E. issue_sso_handoff C E (r ''expired-session'') (r ''expired-handoff'')
          (review_handoff C now ''expired-session'' (now + 100))) (Err Expired),
       gives (redis_exists (handoff_key C (r ''expired-handoff''))) (Some False),
       gives (\<lambda>E. write_session C E (r ''conflict-session'') session_state now) (Ok ()),
       gives (\<lambda>E. write_handoff C E (r ''conflict-handoff'') (review_handoff C now ''conflict-session'' (now + 100)) now) (Ok ()),
       gives (\<lambda>E. issue_sso_handoff C E (r ''conflict-session'') (r ''conflict-handoff'')
          (review_handoff C now ''conflict-session'' (now + 100))) (Err KeyConflict)])"

definition rejected_creations :: "'c crypto_scheme \<Rightarrow> u64 \<Rightarrow> bool redis_call list" where
  "rejected_creations C now =
     (let r = review now; initial_session = session_fixture\<lparr>ses_expires_at := now + 120\<rparr> in
      [gives (\<lambda>E. write_session C E (r ''initial-new-session'') initial_session now) (Ok ()),
       gives (\<lambda>E. create_session_and_handoff C E (r ''initial-new-session'') initial_session (r ''initial-new-handoff'')
          (review_handoff C now ''initial-new-session'' (now + 100))) (Err KeyConflict),
       gives (redis_exists (handoff_key C (r ''initial-new-handoff''))) (Some False),
       gives (\<lambda>E. write_handoff C E (r ''initial-new-handoff'') (review_handoff C now ''initial-handoff-session'' (now + 100)) now) (Ok ()),
       gives (\<lambda>E. create_session_and_handoff C E (r ''initial-handoff-session'') initial_session (r ''initial-new-handoff'')
          (review_handoff C now ''initial-handoff-session'' (now + 100))) (Err KeyConflict),
       gives (redis_exists (session_key C (r ''initial-handoff-session''))) (Some False)])"

definition rejected_exchanges :: "'c crypto_scheme \<Rightarrow> u64 \<Rightarrow> bool redis_call list" where
  "rejected_exchanges C now =
     (let r = review now; session_state = session_fixture\<lparr>ses_expires_at := now + 120\<rparr> in
      [gives (\<lambda>E. write_session C E (r ''exchange-session'') session_state now) (Ok ()),
       gives (\<lambda>E. write_handoff C E (r ''exchange-handoff'') (review_handoff C now ''exchange-session'' (now + 100)) now) (Ok ()),
       gives (\<lambda>E. exchange_handoff C E (r ''exchange-handoff'') ''other-service'' ''challenge'') (Err ServiceMismatch),
       gives (redis_status (handoff_key C (r ''exchange-handoff''))) (Some ''unused''),
       gives (\<lambda>E. exchange_handoff C E (r ''exchange-handoff'') ''service'' ''other-challenge'') (Err ChallengeMismatch),
       gives (redis_status (handoff_key C (r ''exchange-handoff''))) (Some ''unused''),
       gives (\<lambda>E. write_handoff C E (r ''missing-exchange-handoff'') (review_handoff C now ''missing-session'' (now + 100)) now) (Ok ()),
       gives (\<lambda>E. exchange_handoff C E (r ''missing-exchange-handoff'') ''service'' ''challenge'') (Err NotFound),
       gives (redis_status (handoff_key C (r ''missing-exchange-handoff''))) (Some ''unused''),
       gives (\<lambda>E. write_session C E (r ''expired-exchange-session'') session_state now) (Ok ()),
       set_hash_field (session_key C (r ''expired-exchange-session'')) ''expires_at'' (u64_to_string (now - 1)),
       gives (\<lambda>E. write_handoff C E (r ''expired-exchange-handoff'') (review_handoff C now ''expired-exchange-session'' (now + 100)) now) (Ok ()),
       gives (\<lambda>E. exchange_handoff C E (r ''expired-exchange-handoff'') ''service'' ''challenge'') (Err Expired),
       gives (redis_status (handoff_key C (r ''expired-exchange-handoff''))) (Some ''unused'')])"

text \<open>The two loops of the test, and the exchange of a handoff without a time to live.\<close>

definition rejected_fields :: "'c crypto_scheme \<Rightarrow> u64 \<Rightarrow> bool redis_call list" where
  "rejected_fields C now =
     (let r = review now; exchange_handoff_state = review_handoff C now ''exchange-session'' (now + 100) in
      concat (map (\<lambda>(name, field, v).
        [gives (\<lambda>E. write_handoff C E (r name) exchange_handoff_state now) (Ok ()),
         set_hash_field (handoff_key C (r name)) field v,
         gives (\<lambda>E. exchange_handoff C E (r name) ''service'' ''challenge'') (Err InvalidStoredState),
         gives (redis_status (handoff_key C (r name))) (Some ''unused'')])
       [(''mismatch-user-handoff'', ''internal_user_id'', ''43''), (''mismatch-auth-handoff'', ''authenticated_at'', ''102''),
        (''malformed-handoff'', ''unexpected'', ''value''), (''range-handoff'', ''internal_user_id'', ''2147483648'')])
      @ [gives (\<lambda>E. write_handoff C E (r ''ttl-handoff'') exchange_handoff_state now) (Ok ()),
       persist (handoff_key C (r ''ttl-handoff'')),
       expects (\<lambda>E. exchange_handoff C E (r ''ttl-handoff'') ''service'' ''challenge'') is_ok,
       gives (redis_status (handoff_key C (r ''ttl-handoff''))) (Some ''used'')])"

definition rejected_logouts :: "'c crypto_scheme \<Rightarrow> u64 \<Rightarrow> bool redis_call list" where
  "rejected_logouts C now =
     (let r = review now; logout_state = (test_logout C)\<lparr>lgo_expires_at := now + 120\<rparr>;
          logout_session_state = session_fixture\<lparr>ses_expires_at := now + 120\<rparr> in
      [gives (\<lambda>E. write_logout C E (r ''logout-csrf'') logout_state now) (Ok ()),
       gives (\<lambda>E. write_session C E (r ''logout-csrf-session'') logout_session_state now) (Ok ()),
       gives (\<lambda>E. complete_common_logout C E (r ''logout-csrf'') (r ''logout-csrf-session'') (repeated 64 ''0'')) (Err CsrfMismatch),
       gives (redis_status (logout_key C (r ''logout-csrf''))) (Some ''unused''),
       gives (redis_exists (session_key C (r ''logout-csrf-session''))) (Some True),
       gives (\<lambda>E. write_logout C E (r ''logout-expired'') logout_state now) (Ok ()),
       persist (logout_key C (r ''logout-expired'')),
       set_hash_field (logout_key C (r ''logout-expired'')) ''expires_at'' (u64_to_string (now - 1)),
       gives (\<lambda>E. complete_common_logout C E (r ''logout-expired'') (r ''logout-csrf-session'') (lgo_csrf_lookup logout_state)) (Err Expired),
       gives (redis_exists (logout_key C (r ''logout-expired''))) (Some False),
       gives (\<lambda>E. write_logout C E (r ''logout-absent-session'') logout_state now) (Ok ()),
       gives (\<lambda>E. complete_common_logout C E (r ''logout-absent-session'') (r ''missing-session'') (lgo_csrf_lookup logout_state))
         (Ok (lgo_logout_return_uri logout_state)),
       gives (redis_exists (logout_key C (r ''logout-absent-session''))) (Some True),
       gives (redis_status (logout_key C (r ''logout-absent-session''))) (Some ''used'')])"

definition t08_redis_lua_rejects_invalid_states_without_mutation :: "'c crypto_scheme \<Rightarrow> u64 \<Rightarrow> bool redis_call list" where
  "t08_redis_lua_rejects_invalid_states_without_mutation C now =
     [delete_keys (review_keys C now)] @ rejected_claims C now @ rejected_issues C now @ rejected_creations C now
     @ rejected_exchanges C now @ rejected_fields C now @ rejected_logouts C now @ [delete_keys (review_keys C now)]"

section \<open>The CSRF lookup is compared over its full length\<close>

definition t12_session :: "u64 \<Rightarrow> common_session" where
  "t12_session now = \<lparr>ses_internal_user_id = 42, ses_authenticated_at = now - 1, ses_created_at = now - 2, ses_expires_at = now + 120\<rparr>"

definition t12_logout :: "u64 \<Rightarrow> common_logout_transaction" where
  "t12_logout now = \<lparr>lgo_service_id = ''service'', lgo_logout_return_uri = ''https://service.example/logout'',
     lgo_csrf_lookup = repeated 64 ''a'', lgo_created_at = now, lgo_expires_at = now + 120, lgo_status = Unused\<rparr>"

definition t12_mismatches :: "string list" where
  "t12_mismatches = [''b'' @ repeated 63 ''a'', repeated 31 ''a'' @ ''b'' @ repeated 32 ''a'', repeated 63 ''a'' @ ''b'']"

definition t12_script :: "'c crypto_scheme \<Rightarrow> u64 \<Rightarrow> string \<Rightarrow> string \<Rightarrow> string \<Rightarrow> bool redis_call list" where
  "t12_script C now session_reference logout_reference invalid_reference =
      [delete_keys [session_key C session_reference, logout_key C logout_reference],
       gives (\<lambda>E. write_session C E session_reference (t12_session now) now) (Ok ()),
       gives (\<lambda>E. write_logout C E logout_reference (t12_logout now) now) (Ok ())]
      @ concat (map (\<lambda>mismatch.
          [gives (\<lambda>E. complete_common_logout C E logout_reference session_reference mismatch) (Err CsrfMismatch),
           gives (redis_status (logout_key C logout_reference)) (Some ''unused''),
           gives (redis_exists (session_key C session_reference)) (Some True)]) t12_mismatches)
      @ [gives (\<lambda>E. complete_common_logout C E logout_reference session_reference (lgo_csrf_lookup (t12_logout now)))
         (Ok (lgo_logout_return_uri (t12_logout now))),
       gives (\<lambda>E. write_logout C E invalid_reference (t12_logout now) now) (Ok ()),
       set_hash_field (logout_key C invalid_reference) ''csrf_lookup'' (repeated 63 ''a''),
       gives (\<lambda>E. complete_common_logout C E invalid_reference session_reference (lgo_csrf_lookup (t12_logout now))) (Err InvalidStoredState),
       gives (redis_status (logout_key C invalid_reference)) (Some ''unused''),
       delete_keys [session_key C session_reference, logout_key C logout_reference, logout_key C invalid_reference]]"

definition t12_common_logout_csrf_full_length_regression :: "'c crypto_scheme \<Rightarrow> u64 \<Rightarrow> bool redis_call list" where
  "t12_common_logout_csrf_full_length_regression C now =
     t12_script C now (''t12-csrf-session-'' @ u64_to_string now) (''t12-csrf-logout-'' @ u64_to_string now)
       (''t12-csrf-invalid-'' @ u64_to_string now)"

section \<open>They pass\<close>

lemma review_names_simps:
  "''callback-malformed'' \<in> set review_names" "''callback-range'' \<in> set review_names" "''missing-session'' \<in> set review_names"
  "''missing-handoff'' \<in> set review_names" "''expired-session'' \<in> set review_names" "''expired-handoff'' \<in> set review_names"
  "''conflict-session'' \<in> set review_names" "''conflict-handoff'' \<in> set review_names" "''initial-new-session'' \<in> set review_names"
  "''initial-new-handoff'' \<in> set review_names" "''initial-handoff-session'' \<in> set review_names" "''exchange-session'' \<in> set review_names"
  "''exchange-handoff'' \<in> set review_names" "''missing-exchange-handoff'' \<in> set review_names" "''expired-exchange-session'' \<in> set review_names"
  "''expired-exchange-handoff'' \<in> set review_names" "''mismatch-user-handoff'' \<in> set review_names" "''mismatch-auth-handoff'' \<in> set review_names"
  "''malformed-handoff'' \<in> set review_names" "''range-handoff'' \<in> set review_names" "''ttl-handoff'' \<in> set review_names"
  "''logout-csrf'' \<in> set review_names" "''logout-csrf-session'' \<in> set review_names" "''logout-expired'' \<in> set review_names"
  "''logout-absent-session'' \<in> set review_names"
  by (simp_all add: review_names_def)

lemma review_eq:
  assumes "distinct (map (\<lambda>name. reference_value_lookup C (review now name)) review_names)" "a \<in> set review_names" "b \<in> set review_names"
  shows "reference_value_lookup C (review now a) = reference_value_lookup C (review now b) \<longleftrightarrow> a = b"
  using assms by (auto simp: distinct_map inj_on_def)

lemma spoiled_verdicts:
  "claim_verdict t (AList.update ''unexpected'' v (encode_external x)) = 3"
  "handoff_verdict t service challenge (AList.update ''unexpected'' v (encode_handoff z)) = 3"
  "handoff_verdict t service challenge (AList.update ''internal_user_id'' ''2147483648'' (encode_handoff z)) = 3"
proof -
  have "length (remdups (map fst (AList.update ''unexpected'' v (encode_external x)))) = 9"
    "length (remdups (map fst (AList.update ''unexpected'' v (encode_handoff z)))) = 9"
    by (simp_all add: encode_defs)
  then show "claim_verdict t (AList.update ''unexpected'' v (encode_external x)) = 3"
    "handoff_verdict t service challenge (AList.update ''unexpected'' v (encode_handoff z)) = 3"
    by (simp_all add: claim_verdict_def handoff_verdict_def Let_def)
  have "\<not> lua_int (map_of (AList.update ''internal_user_id'' ''2147483648'' (encode_handoff z)) ''internal_user_id'')"
    by (simp add: update_conv lua_int_def parse_int_def parse_digits_def is_digit_def byte_in_def digit_value_def)
  then show "handoff_verdict t service challenge (AList.update ''internal_user_id'' ''2147483648'' (encode_handoff z)) = 3"
    by (simp add: handoff_verdict_def Let_def)
qed

lemma spoiled_numbers: "''9007199254740992'' = u64_to_string 9007199254740992" "''43'' = i32_to_string 43" "''102'' = u64_to_string 102"
  by (simp_all add: u64_to_string_def i32_to_string_def show_int_def show_nat.simps digit_char_def)

lemma past_lua_uint: "lua_uint_max < 9007199254740992"
  by (simp add: lua_uint_max_def)

lemmas review_simps = past_lua_uint update_conv external_stored session_stored handoff_stored logout_stored review_names_simps key_inj spoiled_verdicts spoiled_numbers field_updates

lemma review_keys_mem:
  assumes "name \<in> set review_names"
  shows "external_key C (review now name) \<in> set (review_keys C now)" "session_key C (review now name) \<in> set (review_keys C now)"
    "handoff_key C (review now name) \<in> set (review_keys C now)" "logout_key C (review now name) \<in> set (review_keys C now)"
  using assms by (auto simp: review_keys_def Let_def)

lemma length_review_keys: "length (review_keys C now) = 100"
  by (simp add: review_keys_def review_names_def Let_def)

lemma t12_lookups:
  "is_lookup (repeated 64 ''a'')" "\<not> is_lookup (repeated 63 ''a'')" "m \<in> set t12_mismatches \<Longrightarrow> is_lookup m"
  "m \<in> set t12_mismatches \<Longrightarrow> m \<noteq> repeated 64 ''a''"
proof -
  have a: "repeated n ''a'' = replicate n CHR ''a''" for n by (induction n) (simp_all add: repeated_def)
  have len: "length m = 64 \<and> CHR ''b'' \<in> set m \<and> set m \<subseteq> {CHR ''a'', CHR ''b''}" if "m \<in> set t12_mismatches" for m
    using that by (auto simp: t12_mismatches_def a)
  have hex: "set m \<subseteq> {CHR ''a'', CHR ''b''} \<Longrightarrow> length m = 64 \<Longrightarrow> is_lookup m" for m
    by (auto simp: is_lookup_def is_ascii_def list_all_iff is_ascii_byte_def is_digit_def byte_in_def)
  show "is_lookup (repeated 64 ''a'')" "\<not> is_lookup (repeated 63 ''a'')" by (rule hex; simp add: a) (simp add: a is_lookup_def)
  show "is_lookup m" "m \<noteq> repeated 64 ''a''" if "m \<in> set t12_mismatches" using len [OF that] by (auto intro: hex simp: a)
qed

lemma t12_record [simp]:
  "ses_expires_at (t12_session now) = now + 120"
  "lgo_csrf_lookup (t12_logout now) = repeated 64 ''a''" "lgo_created_at (t12_logout now) = now" "lgo_expires_at (t12_logout now) = now + 120"
  "lgo_status (t12_logout now) = Unused" "utf8_valid (lgo_logout_return_uri (t12_logout now))"
  by (simp_all add: t12_session_def t12_logout_def is_ascii_byte_def del: repeated_single)

context test_clock
begin

lemma rejected_claims_pass:
  assumes "distinct (map (\<lambda>name. reference_value_lookup C (review now name)) review_names)"
    and "d (external_key C (review now ''callback-malformed'')) = None" "d (external_key C (review now ''callback-range'')) = None"
  shows "passes (rejected_claims C now) test_redis_env (test_connection t d n l) = (True, test_connection t (d(
      external_key C (review now ''callback-malformed'') \<mapsto> MHash (AList.update ''unexpected'' ''value'' (encode_external (external_fixture\<lparr>ext_expires_at := now + 120\<rparr>))),
      external_key C (review now ''callback-range'') \<mapsto> MHash (encode_external (external_fixture\<lparr>ext_expires_at := now + 120, ext_created_at := 9007199254740992\<rparr>))))
      (n + 10) l)"
  using assms(2-)
  by (simp add: rejected_claims_def run_simps write_external_def write_call claim_call Let_def review_eq [OF assms(1)] review_simps)
    (simp add: eval_nat_numeral)

lemma rejected_issues_pass:
  assumes "distinct (map (\<lambda>name. reference_value_lookup C (review now name)) review_names)"
    and "d (session_key C (review now ''missing-session'')) = None" "d (handoff_key C (review now ''missing-handoff'')) = None"
    and "d (session_key C (review now ''expired-session'')) = None" "d (handoff_key C (review now ''expired-handoff'')) = None"
    and "d (session_key C (review now ''conflict-session'')) = None" "d (handoff_key C (review now ''conflict-handoff'')) = None"
  shows "passes (rejected_issues C now) test_redis_env (test_connection t d n l) = (True, test_connection t (d(
      session_key C (review now ''expired-session'') := None,
      session_key C (review now ''conflict-session'') \<mapsto> MHash (encode_session (session_fixture\<lparr>ses_expires_at := now + 120\<rparr>)),
      handoff_key C (review now ''conflict-handoff'') \<mapsto> MHash (encode_handoff (review_handoff C now ''conflict-session'' (now + 100)))))
      (n + 12) l)"
  using assms(2-)
  by (simp add: rejected_issues_def run_simps write_session_def write_handoff_def write_call issue_absent issue_refused issue_conflict
      review_handoff_def Let_def review_eq [OF assms(1)] review_simps)
    (simp add: eval_nat_numeral)

lemma rejected_creations_pass:
  assumes "distinct (map (\<lambda>name. reference_value_lookup C (review now name)) review_names)"
    and "d (session_key C (review now ''initial-new-session'')) = None" "d (handoff_key C (review now ''initial-new-handoff'')) = None"
    and "d (session_key C (review now ''initial-handoff-session'')) = None"
  shows "passes (rejected_creations C now) test_redis_env (test_connection t d n l) = (True, test_connection t (d(
      session_key C (review now ''initial-new-session'') \<mapsto> MHash (encode_session (session_fixture\<lparr>ses_expires_at := now + 120\<rparr>)),
      handoff_key C (review now ''initial-new-handoff'') \<mapsto> MHash (encode_handoff (review_handoff C now ''initial-handoff-session'' (now + 100)))))
      (n + 8) l)"
  using assms(2-)
  by (simp add: rejected_creations_def run_simps write_session_def write_handoff_def write_call create_conflicts
      review_handoff_def Let_def review_eq [OF assms(1)] review_simps)
    (simp add: eval_nat_numeral)

abbreviation review_session :: common_session where
  "review_session \<equiv> session_fixture\<lparr>ses_expires_at := now + 120\<rparr>"

lemma rejected_exchanges_pass:
  assumes "distinct (map (\<lambda>name. reference_value_lookup C (review now name)) review_names)"
    and "d (session_key C (review now ''exchange-session'')) = None" "d (handoff_key C (review now ''exchange-handoff'')) = None"
    and "d (session_key C (review now ''missing-session'')) = None" "d (handoff_key C (review now ''missing-exchange-handoff'')) = None"
    and "d (session_key C (review now ''expired-exchange-session'')) = None" "d (handoff_key C (review now ''expired-exchange-handoff'')) = None"
  shows "passes (rejected_exchanges C now) test_redis_env (test_connection t d n l) = (True, test_connection t (d(
      session_key C (review now ''exchange-session'') \<mapsto> MHash (encode_session review_session),
      handoff_key C (review now ''exchange-handoff'') \<mapsto> MHash (encode_handoff (review_handoff C now ''exchange-session'' (now + 100))),
      handoff_key C (review now ''missing-exchange-handoff'') \<mapsto> MHash (encode_handoff (review_handoff C now ''missing-session'' (now + 100))),
      handoff_key C (review now ''expired-exchange-handoff'') \<mapsto> MHash (encode_handoff (review_handoff C now ''expired-exchange-session'' (now + 100))),
      session_key C (review now ''expired-exchange-session'') := None))
      (n + 27) l)"
  using assms(2-)
  by (simp add: rejected_exchanges_def run_simps write_session_def write_handoff_def write_call exchange_call exchange_verdict_def
      session_key_eq_text [symmetric] reference_value_lookup_is_lookup [OF crypto_lib_axioms]
      review_handoff_def Let_def review_eq [OF assms(1)] review_simps)
    (simp add: eval_nat_numeral)

lemma rejected_fields_pass:
  assumes "distinct (map (\<lambda>name. reference_value_lookup C (review now name)) review_names)"
    and "d (session_key C (review now ''exchange-session'')) = Some (MHash (encode_session review_session))"
    and "d (handoff_key C (review now ''mismatch-user-handoff'')) = None" "d (handoff_key C (review now ''mismatch-auth-handoff'')) = None"
    and "d (handoff_key C (review now ''malformed-handoff'')) = None" "d (handoff_key C (review now ''range-handoff'')) = None"
    and "d (handoff_key C (review now ''ttl-handoff'')) = None"
  defines "h \<equiv> review_handoff C now ''exchange-session'' (now + 100)"
  shows "passes (rejected_fields C now) test_redis_env (test_connection t d n l) = (True, test_connection t (d(
      handoff_key C (review now ''mismatch-user-handoff'') \<mapsto> MHash (encode_handoff (h\<lparr>hnd_internal_user_id := 43\<rparr>)),
      handoff_key C (review now ''mismatch-auth-handoff'') \<mapsto> MHash (encode_handoff (h\<lparr>hnd_authenticated_at := 102\<rparr>)),
      handoff_key C (review now ''malformed-handoff'') \<mapsto> MHash (AList.update ''unexpected'' ''value'' (encode_handoff h)),
      handoff_key C (review now ''range-handoff'') \<mapsto> MHash (AList.update ''internal_user_id'' ''2147483648'' (encode_handoff h)),
      handoff_key C (review now ''ttl-handoff'') \<mapsto> MHash (encode_handoff (h\<lparr>hnd_status := Used\<rparr>))))
      (n + 35) l)"
  using assms(2-)
  by (simp add: rejected_fields_def run_simps write_handoff_def write_call exchange_call exchange_verdict_def
      session_key_eq_text [symmetric] reference_value_lookup_is_lookup [OF crypto_lib_axioms]
      review_handoff_def Let_def tonumber_i32 tonumber_u64 ok_or_def i32_try_from_def u64_try_from_def status_updates review_eq [OF assms(1)] review_simps del: of_nat_unat)
    (simp add: eval_nat_numeral)

lemma rejected_logouts_pass:
  assumes "distinct (map (\<lambda>name. reference_value_lookup C (review now name)) review_names)"
    and "reference_value_lookup C ''csrf-token'' \<noteq> repeated 64 ''0''"
    and "d (logout_key C (review now ''logout-csrf'')) = None" "d (session_key C (review now ''logout-csrf-session'')) = None"
    and "d (logout_key C (review now ''logout-expired'')) = None" "d (logout_key C (review now ''logout-absent-session'')) = None"
    and "d (session_key C (review now ''missing-session'')) = None"
  shows "passes (rejected_logouts C now) test_redis_env (test_connection t d n l) = (True, test_connection t (d(
      logout_key C (review now ''logout-csrf'') \<mapsto> MHash (encode_logout (test_logout C\<lparr>lgo_expires_at := now + 120\<rparr>)),
      session_key C (review now ''logout-csrf-session'') \<mapsto> MHash (encode_session review_session),
      logout_key C (review now ''logout-expired'') := None,
      logout_key C (review now ''logout-absent-session'') \<mapsto> MHash (encode_logout (test_logout C\<lparr>lgo_expires_at := now + 120, lgo_status := Used\<rparr>)),
      session_key C (review now ''missing-session'') := None))
      (n + 18) l)"
  using assms(2-)
  by (simp add: rejected_logouts_def run_simps write_session_def write_logout_def write_call logout_stored_call test_logout_def
      reference_value_lookup_is_lookup [OF crypto_lib_axioms] Let_def review_eq [OF assms(1)] review_simps)
    (simp add: eval_nat_numeral)

lemma rejections_pass:
  assumes "distinct (map (\<lambda>name. reference_value_lookup C (review now name)) review_names)"
    and "reference_value_lookup C ''csrf-token'' \<noteq> repeated 64 ''0''"
  shows "passes (t08_redis_lua_rejects_invalid_states_without_mutation C now) test_redis_env (test_connection t Map.empty n l) =
     (True, test_connection t Map.empty (n + 310) l)"
  using assms(2)
  by (simp add: t08_redis_lua_rejects_invalid_states_without_mutation_def passes_append raw_delete
      rejected_claims_pass [OF assms(1)] rejected_issues_pass [OF assms(1)] rejected_creations_pass [OF assms(1)]
      rejected_exchanges_pass [OF assms(1)] rejected_fields_pass [OF assms(1)] rejected_logouts_pass [OF assms]
      without_upd review_keys_mem length_review_keys add.commute review_names_simps key_inj review_eq [OF assms(1)] del: delete_keys.simps)

lemma csrf_regression_pass:
  assumes "reference_value_lookup C lr \<noteq> reference_value_lookup C ir"
  shows "passes (t12_script C now sr lr ir) test_redis_env (test_connection t Map.empty n l) = (True, test_connection t Map.empty (n + 24) l)"
proof -
  obtain m1 m2 m3 where m: "t12_mismatches = [m1, m2, m3]" by (simp add: t12_mismatches_def)
  have "m1 \<in> set t12_mismatches" "m2 \<in> set t12_mismatches" "m3 \<in> set t12_mismatches" unfolding m by simp_all
  note lookups = this [THEN t12_lookups(3)] this [THEN t12_lookups(4) [THEN not_sym]]
  have small: "\<not> lua_uint_max < unat now" using clock by linarith
  have keys: "logout_key C lr \<noteq> logout_key C ir" using assms by (simp add: key_inj)
  show ?thesis
    using keys keys [symmetric]
    unfolding t12_script_def m
    by (simp add: raw_delete run_simps write_session_def write_logout_def write_call logout_stored_call lookups t12_lookups(1,2) small
        field_updates session_stored logout_stored without_upd del: delete_keys.simps repeated_single)
      (simp add: eval_nat_numeral)
qed

end

section \<open>All integration tests\<close>

definition redis_integration_tests :: "'c crypto_scheme \<Rightarrow> u64 \<Rightarrow> nat \<Rightarrow> nat \<Rightarrow> nat \<Rightarrow> (mem connection \<Rightarrow> bool \<times> mem connection) list" where
  "redis_integration_tests C now k1 k2 k3 =
     [redis_hset_failure_integration C, redis_expireat_failure_integration C,
      passes (redis_hash_state_integration C) test_redis_env,
      passes (t08_redis_lua_atomic_operations C now k1 k2 k3) test_redis_env,
      passes (t08_redis_lua_rejects_invalid_states_without_mutation C now) test_redis_env,
      passes (t12_common_logout_csrf_full_length_regression C now) test_redis_env]"

text \<open>The lookups the tests rely on are different.\<close>

definition test_lookups_differ :: "'c crypto_scheme \<Rightarrow> u64 \<Rightarrow> bool" where
  "test_lookups_differ C now \<longleftrightarrow>
     distinct (map (reference_value_lookup C) t07_references) \<and> distinct (map (reference_value_lookup C) t08_references)
     \<and> distinct (map (\<lambda>name. reference_value_lookup C (review now name)) review_names)
     \<and> reference_value_lookup C (''t12-csrf-logout-'' @ u64_to_string now) \<noteq> reference_value_lookup C (''t12-csrf-invalid-'' @ u64_to_string now)
     \<and> reference_value_lookup C ''csrf-token'' \<noteq> repeated 64 ''0''"

text \<open>
  C36: All tests of redis_state.rs hold on the model: its unit tests, and on a server that is empty
  at the start its integration tests, wherever the second connection of a race comes in.  A failed
  HSET or EXPIREAT is an error; each state is a hash with its exact fields; claims, exchanges and
  logouts succeed once; expired states go; malformed, mismatching or conflicting ones are rejected
  and stay as they are.  Each integration test ends with no key left on the server.
\<close>

theorem redis_tests_pass:
  assumes "test_clock C now t" "test_lookups_differ C now" "t < 2000000060"
  shows "list_all id redis_unit_tests
    \<and> list_all (\<lambda>test. case test (test_connection t Map.empty n l) of (ok, c) \<Rightarrow> ok \<and> mem_data (server c) = Map.empty)
        (redis_integration_tests C now k1 k2 k3)"
proof -
  have d: "distinct (map (reference_value_lookup C) t07_references)" "distinct (map (reference_value_lookup C) t08_references)"
    "distinct (map (\<lambda>name. reference_value_lookup C (review now name)) review_names)"
    "reference_value_lookup C (''t12-csrf-logout-'' @ u64_to_string now) \<noteq> reference_value_lookup C (''t12-csrf-invalid-'' @ u64_to_string now)"
    "reference_value_lookup C ''csrf-token'' \<noteq> repeated 64 ''0''"
    using assms(2) unfolding test_lookups_differ_def by blast+
  have "crypto_lib C" using assms(1) by (rule test_clock.axioms)
  then show ?thesis
    unfolding redis_integration_tests_def t12_common_logout_csrf_full_length_regression_def
    by (simp only: redis_unit_tests_pass simp_thms list.pred_inject write_failures_pass hash_states_pass [OF _ d(1) assms(3)] test_clock.atomic_operations_pass [OF assms(1) d(2)]
        test_clock.rejections_pass [OF assms(1) d(3,5)] test_clock.csrf_regression_pass [OF assms(1) d(4)] prod.case)
      (simp add: test_connection_def)
qed

text \<open>A stand-in for SHA-256 that keeps the last 32 bytes: enough to tell the references of the tests apart.\<close>

definition last_bytes :: "bytes \<Rightarrow> bytes" where
  "last_bytes m = rev (take 32 (rev m @ replicate 32 (CHR 0x00)))"

definition suffix_crypto :: crypto where
  "suffix_crypto = ref_crypto\<lparr>sha256 := last_bytes\<rparr>"

lemma suffix_crypto_simps [simp]:
  "sha256 suffix_crypto = last_bytes" "b64url_encode suffix_crypto = b64url_encode ref_crypto" "b64_encode suffix_crypto = b64_encode ref_crypto"
  "b64_decode suffix_crypto = b64_decode ref_crypto" "ct_eq suffix_crypto = ct_eq ref_crypto"
  by (simp_all add: suffix_crypto_def)

interpretation suffix: crypto_lib suffix_crypto
  by unfold_locales (simp_all add: last_bytes_def reference.b64url_length reference.b64url_alphabet reference.b64_alphabet
      reference.b64_roundtrip reference.ct_eq_iff)

interpretation bench_clock: test_clock suffix_crypto 1700000000 1700000030
  by unfold_locales (simp_all add: lua_uint_max_def)

lemma suffix_lookups_differ: "test_lookups_differ suffix_crypto 1700000000"
proof -
  have now: "u64_to_string 1700000000 = ''1700000000''"
    by (simp add: u64_to_string_def show_nat.simps digit_char_def)
  have inj: "distinct (map (reference_value_lookup suffix_crypto \<circ> f) xs) = distinct (map (last_bytes \<circ> f) xs)" for f :: "string \<Rightarrow> string" and xs
    by (simp add: distinct_map inj_on_def reference_value_lookup_eq_iff)
  have "distinct (map last_bytes t07_references)" "distinct (map last_bytes t08_references)"
    "distinct (map (last_bytes \<circ> review 1700000000) review_names)"
    by (simp_all add: t07_references_def t08_references_def review_names_def review_def last_bytes_def now)
  moreover have "last_bytes (''t12-csrf-logout-'' @ u64_to_string 1700000000) \<noteq> last_bytes (''t12-csrf-invalid-'' @ u64_to_string 1700000000)"
    by (simp add: last_bytes_def now)
  moreover have "CHR ''e'' \<in> set (reference_value_lookup suffix_crypto ''csrf-token'')"
    by (simp add: reference_value_lookup_def sha256_digest_def last_bytes_def byte_hex_def hex_digit_def)
  then have "reference_value_lookup suffix_crypto ''csrf-token'' \<noteq> repeated 64 ''0''" by auto
  ultimately show ?thesis
    using inj [of id] inj [of "review 1700000000"] by (simp add: test_lookups_differ_def reference_value_lookup_eq_iff comp_def)
qed

theorem redis_tests_pass_witness:
  "list_all (\<lambda>test. fst (test (test_connection 1700000030 Map.empty 0 []))) (redis_integration_tests suffix_crypto 1700000000 0 1 2)
   \<and> test_lookups_differ suffix_crypto 1700000000"
  using redis_tests_pass [OF bench_clock.test_clock_axioms suffix_lookups_differ, of 0 "[]" 0 1 2] suffix_lookups_differ
  by (auto simp: list_all_iff case_prod_unfold)

end
