(* ===== verification/Auth_Bench.thy ===== *)
theory Auth_Bench
  imports Auth_Tests Redis_Rejections Auth_Flow
begin

text \<open>
  A bench for the integration tests of the authentication service
  (\<open>rust-auth0-service/src/main.rs\<close>): a test is a sequence of requests, calls, statements and
  assertions on a disposable Redis server and a disposable database, and stops at the first
  assertion that fails.
\<close>

section \<open>Test scripts\<close>

type_synonym 'a service_test = "((mem, mem_pg_state) world, unit, 'a) fallible"

text \<open>\<open>assert!\<close>, \<open>expect\<close> on a result, and what cannot fail.\<close>

definition assert_that :: "bool \<Rightarrow> unit service_test" where
  "assert_that b = ensure b (reply ())"

definition expect_ok :: "((mem, mem_pg_state) world \<Rightarrow> ('a, 'e) result \<times> (mem, mem_pg_state) world) \<Rightarrow> 'a service_test" where
  "expect_ok f = or_else f (\<lambda>_. reply ())"

definition expect_some :: "'a option \<Rightarrow> 'a service_test" where
  "expect_some x = (case x of None \<Rightarrow> reply () | Some a \<Rightarrow> proceed a)"

definition doing :: "((mem, mem_pg_state) world \<Rightarrow> 'a \<times> (mem, mem_pg_state) world) \<Rightarrow> 'a service_test" where
  "doing f w = (case f w of (a, w1) \<Rightarrow> (Inr a, w1))"

fun for_each :: "'a list \<Rightarrow> ('a \<Rightarrow> unit service_test) \<Rightarrow> unit service_test" where
  "for_each [] f = proceed ()"
| "for_each (x # xs) f = hbind (f x) (\<lambda>_. for_each xs f)"

text \<open>A command on the test's own Redis connection, the keys of a family, the test's own statements.\<close>

definition redis_command :: "(mem, mem_pg_state, 'u) auth_env \<Rightarrow> bool redis_call \<Rightarrow> unit service_test" where
  "redis_command E f = hbind (doing (on_redis (f (redis_at E)))) assert_that"

definition state_key_count :: "(mem, mem_pg_state, 'u) auth_env \<Rightarrow> string \<Rightarrow> nat service_test" where
  "state_key_count E family = hbind (doing (on_redis (round_trip (redis_at E)
     (\<lambda>s. (Some (card {k. r_exists (server_cmds (redis_at E)) s k \<and> starts_with family k}), s))))) expect_some"

definition on_pool :: "(mem_pg_state pool \<Rightarrow> mem_pg_state pool) \<Rightarrow> unit service_test" where
  "on_pool f w = (Inr (), w\<lparr>pool_of := f (pool_of w)\<rparr>)"

text \<open>\<open>INSERT INTO public.internal_users ... RETURNING internal_user_id\<close>.\<close>

definition insert_internal_user :: "bool \<Rightarrow> i32 service_test" where
  "insert_internal_user is_enabled w =
     (let p = pool_of w; u = pg_next_user (database p) in
      (Inr u, w\<lparr>pool_of := insert_user u is_enabled (p\<lparr>database := (database p)\<lparr>pg_next_user := u + 1\<rparr>\<rparr>)\<rparr>))"

definition insert_registered_service :: "string \<Rightarrow> bool \<Rightarrow> string \<Rightarrow> string \<Rightarrow> bytes \<Rightarrow> unit service_test" where
  "insert_registered_service service_id is_enabled login_callback_uri logout_return_uri service_secret_sha256 =
     on_pool (on_tables (\<lambda>v. v\<lparr>services := (services v)(service_id \<mapsto>
       \<lparr>row_is_enabled = is_enabled, row_login_callback_uri = login_callback_uri,
        row_logout_return_uri = logout_return_uri, row_service_secret_sha256 = service_secret_sha256\<rparr>)\<rparr>))"

definition delete_registered_service :: "string \<Rightarrow> unit service_test" where
  "delete_registered_service service_id = on_pool (on_tables (\<lambda>v. v\<lparr>services := (services v)(service_id := None)\<rparr>))"

definition delete_internal_users :: "i32 list \<Rightarrow> unit service_test" where
  "delete_internal_users us = on_pool (on_tables (\<lambda>v. v\<lparr>users := users v |` (- set us)\<rparr>))"

section \<open>Requests to the application under test\<close>

text \<open>
  \<open>TestRequest::get().uri(...)\<close> with cookies: the framework decodes the query string, and answers
  \<open>bad_query\<close> itself when that fails.
\<close>

definition query_of :: "string \<Rightarrow> string" where
  "query_of uri = (case split_once (CHR ''?'') uri of None \<Rightarrow> '''' | Some (_, query) \<Rightarrow> query)"

definition test_google_config :: google_authorization_config where
  "test_google_config = \<lparr>gac_client_id = ''test-client'',
     gac_redirect_uri = ''https://auth.example.test/auth/google/callback''\<rparr>"

definition call_login ::
    "'c crypto_scheme \<Rightarrow> (mem, mem_pg_state, 'u) auth_env \<Rightarrow> response \<Rightarrow> string \<Rightarrow> (string \<times> string) list
     \<Rightarrow> response service_test" where
  "call_login C E bad_query uri cookies = doing (\<lambda>w.
     case run_handler (extracted (ok_or (decode_login_query (url_form_parse (urls E) (query_of uri))) bad_query)
        (login C E test_google_config \<lparr>rq_headers = [], rq_cookies = Some cookies\<rparr>)) w of
       (r, w1) \<Rightarrow> (auth_security_headers r, w1))"

definition never_cached :: "response \<Rightarrow> bool" where
  "never_cached r \<longleftrightarrow> map_of (resp_headers r) ''cache-control'' = Some ''no-store''
     \<and> map_of (resp_headers r) ''referrer-policy'' = Some ''no-referrer''"

text \<open>The URL of a \<open>Location\<close> header, as the tests parse it.\<close>

definition location_url :: "'u url_ops \<Rightarrow> response \<Rightarrow> 'u service_test" where
  "location_url U r = hbind (expect_some (location r)) (\<lambda>value. hbind (expect_some (to_str value)) (\<lambda>text.
     expect_some (url_parse U text)))"

text \<open>\<open>url.query_pairs().collect::<HashMap<_, _>>()\<close>: the last value of a name stays.\<close>

definition pair_map :: "(string \<times> string) list \<Rightarrow> string \<rightharpoonup> string" where
  "pair_map ps = map_of (rev ps)"

section \<open>Worlds\<close>

text \<open>A world is what is stored on the server and in the database, and counters.\<close>

record counters =
  c_trips :: nat
  c_lines :: "string list"
  c_statements :: nat
  c_draws :: nat
  c_ticks :: nat
  c_errors :: "string list"

definition bench :: "nat \<Rightarrow> (string \<rightharpoonup> mem_object) \<Rightarrow> mem_pg_state \<Rightarrow> counters \<Rightarrow> (mem, mem_pg_state) world" where
  "bench t d v c = \<lparr>conn = test_connection t d (c_trips c) (c_lines c), pool_of = \<lparr>database = v, statements = c_statements c\<rparr>,
     draws = c_draws c, ticks = c_ticks c, errors = c_errors c\<rparr>"

definition no_counters :: counters where
  "no_counters = \<lparr>c_trips = 0, c_lines = [], c_statements = 0, c_draws = 0, c_ticks = 0, c_errors = []\<rparr>"

lemma bench_simps [simp]:
  "conn (bench t d v c) = test_connection t d (c_trips c) (c_lines c)"
  "pool_of (bench t d v c) = \<lparr>database = v, statements = c_statements c\<rparr>"
  "draws (bench t d v c) = c_draws c" "ticks (bench t d v c) = c_ticks c" "errors (bench t d v c) = c_errors c"
  "bench t d v c\<lparr>conn := test_connection t d' n l\<rparr> = bench t d' v (c\<lparr>c_trips := n, c_lines := l\<rparr>)"
  "bench t d v c\<lparr>pool_of := \<lparr>database = v', statements = n\<rparr>\<rparr> = bench t d v' (c\<lparr>c_statements := n\<rparr>)"
  "bench t d v c\<lparr>draws := n\<rparr> = bench t d v (c\<lparr>c_draws := n\<rparr>)"
  "bench t d v c\<lparr>ticks := n\<rparr> = bench t d v (c\<lparr>c_ticks := n\<rparr>)"
  "bench t d v c\<lparr>errors := l\<rparr> = bench t d v (c\<lparr>c_errors := l\<rparr>)"
  by (simp_all add: bench_def)

lemma bench_inj [simp]: "bench t d v c = bench t d v c' \<longleftrightarrow> c = c'"
  by (cases c; cases c') (auto simp: bench_def test_connection_def)

lemma on_redis_bench: "on_redis f (bench t d v c) = (case f (test_connection t d (c_trips c) (c_lines c)) of
    (r, k) \<Rightarrow> (r, bench t d v c\<lparr>conn := k\<rparr>))"
  by (simp add: on_redis_def)

lemma on_postgres_bench: "on_postgres f (bench t d v c) = (case f \<lparr>database = v, statements = c_statements c\<rparr> of
    (r, p) \<Rightarrow> (r, bench t d v c\<lparr>pool_of := p\<rparr>))"
  by (simp add: on_postgres_def)

lemma script_simps [simp]:
  "assert_that True w = (Inr (), w)" "assert_that False w = (Inl (), w)"
  "expect_some (Some a) w = (Inr a, w)" "expect_some None w = (Inl (), w)"
  "on_pool f (bench t d v c) = (Inr (), bench t d v c\<lparr>pool_of := f \<lparr>database = v, statements = c_statements c\<rparr>\<rparr>)"
  by (simp_all add: assert_that_def expect_some_def on_pool_def)

lemma expect_ok_eq: "expect_ok f w = (case f w of (Inl e, w1) \<Rightarrow> (Inl (), w1) | (Inr a, w1) \<Rightarrow> (Inr a, w1))"
  by (simp add: expect_ok_def or_else_def reply_def split: prod.splits sum.splits)

lemma redis_command_bench:
  "redis_command E f (bench t d v c) = (case f (redis_at E) (test_connection t d (c_trips c) (c_lines c)) of
     (ok, k) \<Rightarrow> (if ok then Inr () else Inl (), bench t d v c\<lparr>conn := k\<rparr>))"
  by (simp add: redis_command_def hbind_def doing_def on_redis_bench split: prod.splits)

definition present :: "mem_object option \<Rightarrow> bool" where
  "present x \<longleftrightarrow> (case x of None \<Rightarrow> False | Some (MHash ps) \<Rightarrow> ps \<noteq> [] | Some MString \<Rightarrow> True)"

definition key_count :: "string \<Rightarrow> (string \<rightharpoonup> mem_object) \<Rightarrow> nat" where
  "key_count family d = card {k. present (d k) \<and> starts_with family k}"

lemma key_count_bench:
  assumes "redis_at E = test_redis_env"
  shows "state_key_count E family (bench t d v c) = (Inr (key_count family d), bench t d v (c\<lparr>c_trips := Suc (c_trips c)\<rparr>))"
proof -
  have "round_trip test_redis_env (\<lambda>s. (Some (card {k. r_exists mem_redis s k \<and> starts_with family k}), s)) (test_connection t d n l) =
      (Some (key_count family d), test_connection t d (Suc n) l)" for n l
    by (simp add: test_connection_def key_count_def present_def mem_commands)
  then show ?thesis
    by (simp add: state_key_count_def hbind_def doing_def on_redis_bench assms)
qed

lemma key_families:
  "\<not> starts_with ''auth:external:'' (session_key C r)" "\<not> starts_with ''auth:external:'' (handoff_key C r)"
  "\<not> starts_with ''auth:handoff:'' (session_key C r)" "\<not> starts_with ''auth:handoff:'' (external_key C r)"
  "\<not> starts_with ''auth:external:'' (logout_key C r)" "\<not> starts_with ''auth:handoff:'' (logout_key C r)"
  "\<not> starts_with ''auth:logout:'' (session_key C r)" "\<not> starts_with ''auth:logout:'' (handoff_key C r)"
  by (simp_all add: starts_with_def session_key_def handoff_key_def external_key_def logout_key_def)

lemma key_count_simps [simp]:
  "key_count family Map.empty = 0" "\<not> starts_with family k \<Longrightarrow> key_count family (d(k := x)) = key_count family d"
proof -
  show "key_count family Map.empty = 0" by (simp add: key_count_def present_def)
  assume "\<not> starts_with family k"
  then have "{k'. present ((d(k := x)) k') \<and> starts_with family k'} = {k'. present (d k') \<and> starts_with family k'}" by auto
  then show "key_count family (d(k := x)) = key_count family d" by (simp add: key_count_def)
qed

lemma for_each_keeps:
  assumes "\<And>x c. x \<in> set xs \<Longrightarrow> \<exists>c'. f x (bench t d v c) = (Inr (), bench t d v c')"
  shows "\<exists>c'. for_each xs f (bench t d v c) = (Inr (), bench t d v c')"
  using assms
proof (induction xs arbitrary: c)
  case Nil
  then show ?case by auto
next
  case (Cons x xs)
  obtain c1 where "f x (bench t d v c) = (Inr (), bench t d v c1)" using Cons.prems [of x] by auto
  with Cons.IH [of c1] Cons.prems show ?case by auto
qed

text \<open>A response of the framework to a query string it cannot decode.\<close>

definition plain_rejection :: "response \<Rightarrow> bool" where
  "plain_rejection r \<longleftrightarrow> resp_status r = 400 \<and> location r = None
     \<and> map_of (resp_headers r) ''cache-control'' = None \<and> map_of (resp_headers r) ''referrer-policy'' = None"

lemma never_cached_plain [simp]: "plain_rejection r \<Longrightarrow> never_cached (auth_security_headers r)"
  by (simp add: never_cached_def plain_rejection_def) (simp add: auth_security_headers_def)

section \<open>Statements of the application\<close>

lemma lookups_bench:
  "lookup_login_callback_uri test_pg_env sid \<lparr>database = v, statements = n\<rparr> =
     (case services (pg_tables v) sid of None \<Rightarrow> Err ServiceNotFound
      | Some r \<Rightarrow> if row_is_enabled r then Ok (row_login_callback_uri r) else Err ServiceDisabled,
      \<lparr>database = v, statements = Suc n\<rparr>)"
  "lookup_login_callback_uri closed_pg_env sid \<lparr>database = v, statements = n\<rparr> =
     (Err DatabaseFailure, \<lparr>database = v, statements = Suc n\<rparr>)"
  "read_internal_user_enabled test_pg_env u \<lparr>database = v, statements = n\<rparr> =
     (Ok (users (pg_tables v) u), \<lparr>database = v, statements = Suc n\<rparr>)"
  by (simp_all add: lookup_login_callback_uri_def read_internal_user_enabled_def statement_simps restrict_map_def split: option.splits)

section \<open>Query strings\<close>

text \<open>\<open>name=value&name=value\<close>, as the tests write it, with no byte that has a meaning of its own.\<close>

definition query_byte :: "char \<Rightarrow> bool" where
  "query_byte c \<longleftrightarrow> byte_in CHR 0x21 CHR 0x7E c \<and> c \<notin> set ''#%&+=''"

fun join_pairs :: "(string \<times> string) list \<Rightarrow> string" where
  "join_pairs [] = []"
| "join_pairs [(n, v)] = n @ ''='' @ v"
| "join_pairs ((n, v) # p # ps) = n @ ''='' @ v @ ''&'' @ join_pairs (p # ps)"

abbreviation query_pairs_plain :: "(string \<times> string) list \<Rightarrow> bool" where
  "query_pairs_plain ps \<equiv> list_all (\<lambda>(n, v). list_all query_byte n \<and> list_all query_byte v) ps"

lemma query_bytes: "list_all query_byte s \<Longrightarrow> CHR ''%'' \<notin> set s \<and> CHR ''&'' \<notin> set s \<and> CHR ''='' \<notin> set s"
  by (auto simp: query_byte_def list_all_iff)

lemma percent_decode_plain: "CHR ''%'' \<notin> set s \<Longrightarrow> percent_decode s = s"
  by (induction s) auto

lemma pair_of_plain: "list_all query_byte n \<Longrightarrow> list_all query_byte v \<Longrightarrow> pair_of (n @ CHR ''='' # v) = (n, v)"
  using query_bytes [of n] query_bytes [of v] by (simp add: pair_of_def split_once_append percent_decode_plain)

lemma form_parse_join: "query_pairs_plain ps \<Longrightarrow> form_parse (join_pairs ps) = ps"
proof (induction ps rule: join_pairs.induct)
  case 1
  then show ?case by (simp add: form_parse.simps)
next
  case (2 n v)
  then have "CHR ''&'' \<notin> set (n @ CHR ''='' # v)" using query_bytes [of n] query_bytes [of v] by auto
  then have "split_once (CHR ''&'') (n @ CHR ''='' # v) = None" by (simp add: split_once_None_iff)
  with 2 show ?case by (subst form_parse.simps) (simp add: pair_of_plain)
next
  case (3 n v p ps)
  then have "CHR ''&'' \<notin> set (n @ CHR ''='' # v)" using query_bytes [of n] query_bytes [of v] by auto
  then have "split_once (CHR ''&'') ((n @ CHR ''='' # v) @ CHR ''&'' # join_pairs (p # ps)) = Some (n @ CHR ''='' # v, join_pairs (p # ps))"
    by (rule split_once_append)
  with 3 show ?case by (subst form_parse.simps) (simp add: pair_of_plain)
qed

declare join_pairs.simps [simp del]

section \<open>The hypotheses of the tests\<close>

text \<open>
  The stores are the disposable ones, the clock of the service stands still, the URL crate decodes
  plain query strings, and the URL the \<open>oauth2\<close> crate builds has the parameters of the protocol.
\<close>

locale service_bench = test_clock C now t for C :: "'c crypto_scheme" and now t +
  fixes E :: "(mem, mem_pg_state, 'u) auth_env" and query_pairs :: "'u \<Rightarrow> (string \<times> string) list"
  assumes stores [simp]: "redis_at E = test_redis_env" "redis_up E n" "postgres_at E = test_pg_env"
    and clock_stands: "unix_seconds (clock E n) = Ok now" and late: "100 \<le> unat now"
    and draws_succeed: "\<exists>bs. rng E n = Some bs \<and> length bs = 32"
    and query_decoded: "query_pairs_plain ps \<Longrightarrow> url_form_parse (urls E) (join_pairs ps) = ps"
    and google_url: "validate_fixed_reference_value st = Ok () \<Longrightarrow>
      (let s = authorize_url E GOOGLE_AUTHORIZATION_URL test_google_config st [''email'', ''profile''] in
       list_all header_byte s \<and> (\<exists>u. url_parse (urls E) s = Some u \<and> url_host (urls E) u = Some ''accounts.google.com''
         \<and> distinct (map fst (query_pairs u)) \<and> set (query_pairs u) = {(''response_type'', ''code''), (''client_id'', ''test-client''),
           (''state'', st), (''redirect_uri'', ''https://auth.example.test/auth/google/callback''), (''scope'', ''email profile'')}))"
begin

lemma drawn: "draw C E (bench t d v c) = (Ok (drawn_ref C E (c_draws c)), bench t d v (c\<lparr>c_draws := Suc (c_draws c)\<rparr>))"
  using draws_succeed [of "c_draws c"] by (auto simp: draw_def drawn_ref_def generate_reference_value_def)

lemma drawn_reference_valid [simp]: "validate_fixed_reference_value (drawn_ref C E n) = Ok ()"
  using draws_succeed [of n] generated_reference_valid [OF crypto_lib_axioms] by (auto simp: drawn_ref_def)

lemma clock_read: "read_clock E (bench t d v c) = (Ok now, bench t d v (c\<lparr>c_ticks := Suc (c_ticks c)\<rparr>))"
  by (simp add: read_clock_def clock_stands)

end

end
