(* ===== verification/Login_Tests.thy ===== *)
theory Login_Tests
  imports Auth_Bench
begin

text \<open>
  The integration tests of the login of the authentication service (\<open>rust-auth0-service/src/main.rs\<close>):
  the requests, stored states and assertions of each test in order, in the parts the test has, on a
  bench that is empty at the start; and that they pass.
\<close>

section \<open>Requests\<close>

definition login_service_uri :: string where
  "login_service_uri = ''https://service.example.test/login?existing=value''"

definition insert_login_service :: "string \<Rightarrow> bool \<Rightarrow> unit service_test" where
  "insert_login_service service_id enabled = insert_registered_service service_id enabled login_service_uri
     ''https://service.example.test/logout'' (replicate 32 (CHR 0x00))"

definition login_uri :: "string \<Rightarrow> string \<Rightarrow> string \<Rightarrow> string \<Rightarrow> string" where
  "login_uri service_id state challenge method =
     ''/auth/login?service_id='' @ service_id @ ''&state='' @ state @ ''&code_challenge='' @ challenge
     @ ''&code_challenge_method='' @ method"

definition challenge_A :: string where
  "challenge_A = repeated 43 ''A''"

definition google_state :: "'u url_ops \<Rightarrow> ('u \<Rightarrow> (string \<times> string) list) \<Rightarrow> response \<Rightarrow> string service_test" where
  "google_state U query_pairs response =
     hbind (location_url U response) (\<lambda>url.
     let pairs = pair_map (query_pairs url) in
     hbind (assert_that (url_host U url = Some ''accounts.google.com'')) (\<lambda>_.
     hbind (assert_that (pairs ''response_type'' = Some ''code'' \<and> pairs ''client_id'' = Some ''test-client''
       \<and> pairs ''redirect_uri'' = Some ''https://auth.example.test/auth/google/callback''
       \<and> pairs ''scope'' = Some ''email profile'' \<and> pairs ''access_type'' = None \<and> pairs ''prompt'' = None)) (\<lambda>_.
     hbind (expect_some (pairs ''state'')) (\<lambda>state.
     hbind (assert_that (is_ok (validate_fixed_reference_value state))) (\<lambda>_.
     proceed state)))))"

section \<open>The test of the login\<close>

text \<open>A.  A login without a session starts at Google.\<close>

definition t10_google ::
    "'c crypto_scheme \<Rightarrow> (mem, mem_pg_state, 'u) auth_env \<Rightarrow> ('u \<Rightarrow> (string \<times> string) list) \<Rightarrow> response \<Rightarrow> string
     \<Rightarrow> unit service_test" where
  "t10_google C E query_pairs bad_query service_id =
     hbind (call_login C E bad_query (login_uri service_id ''service-state'' challenge_A ''S256'') []) (\<lambda>response.
     hbind (assert_that (resp_status response = 302 \<and> never_cached response)) (\<lambda>_.
     hbind (google_state (urls E) query_pairs response) (\<lambda>oauth_state.
     hbind (expect_ok (read_clock E)) (\<lambda>now.
     hbind (expect_ok (on_redis (read_external C (redis_at E) oauth_state now))) (\<lambda>external.
     hbind (assert_that (ext_service_id external = service_id \<and> ext_service_state external = ''service-state''
       \<and> ext_handoff_code_challenge external = challenge_A \<and> ext_provider external = ''google''
       \<and> ext_provider_verification_data external = '''' \<and> ext_status external = Waiting)) (\<lambda>_.
     hbind (expect_ok (read_clock E)) (\<lambda>observed_now.
     hbind (assert_that (ext_created_at external \<le> observed_now \<and> observed_now < ext_expires_at external)) (\<lambda>_.
     redis_command E (delete_keys [external_key C oauth_state])))))))))"

text \<open>B.  A login with a session of an enabled user gives the service a handoff.\<close>

definition t10_sso ::
    "'c crypto_scheme \<Rightarrow> (mem, mem_pg_state, 'u) auth_env \<Rightarrow> ('u \<Rightarrow> (string \<times> string) list) \<Rightarrow> response \<Rightarrow> string \<Rightarrow> i32
     \<Rightarrow> unit service_test" where
  "t10_sso C E query_pairs bad_query service_id enabled_user =
     hbind (expect_ok (draw C E)) (\<lambda>session_reference.
     hbind (expect_ok (read_clock E)) (\<lambda>now.
     let session = \<lparr>ses_internal_user_id = enabled_user, ses_authenticated_at = now - 10, ses_created_at = now - 20,
           ses_expires_at = now + 300\<rparr> in
     hbind (expect_ok (on_redis (write_session C (redis_at E) session_reference session now))) (\<lambda>_.
     hbind (call_login C E bad_query (login_uri service_id ''sso-state'' challenge_A ''S256'')
       [(AUTH_SESSION_COOKIE_NAME, session_reference)]) (\<lambda>response.
     hbind (assert_that (resp_status response = 302)) (\<lambda>_.
     hbind (location_url (urls E) response) (\<lambda>callback.
     hbind (assert_that (url_host (urls E) callback = Some ''service.example.test'')) (\<lambda>_.
     let callback_pairs = pair_map (query_pairs callback) in
     hbind (assert_that (callback_pairs ''state'' = Some ''sso-state'')) (\<lambda>_.
     hbind (expect_some (callback_pairs ''code'')) (\<lambda>handoff_reference.
     hbind (assert_that (is_ok (validate_fixed_reference_value handoff_reference))) (\<lambda>_.
     hbind (expect_ok (on_redis (read_handoff C (redis_at E) handoff_reference now))) (\<lambda>handoff.
     hbind (assert_that (hnd_service_id handoff = service_id \<and> hnd_internal_user_id handoff = enabled_user
       \<and> hnd_common_session_lookup handoff = reference_value_lookup C session_reference
       \<and> hnd_code_challenge handoff = challenge_A \<and> hnd_authenticated_at handoff = ses_authenticated_at session
       \<and> hnd_status handoff = Unused \<and> now < hnd_expires_at handoff)) (\<lambda>_.
     hbind (state_key_count E ''auth:external:'') (\<lambda>externals.
     hbind (assert_that (externals = 0)) (\<lambda>_.
     redis_command E (delete_keys [handoff_key C handoff_reference, session_key C session_reference])))))))))))))))"

text \<open>C.  A malformed or duplicated parameter is refused and changes nothing.\<close>

definition t10_bad_uris :: "string \<Rightarrow> string list" where
  "t10_bad_uris service_id = [
     login_uri ''INVALID!'' ''state'' challenge_A ''S256'',
     login_uri service_id '''' challenge_A ''S256'',
     login_uri service_id (repeated 257 ''a'') challenge_A ''S256'',
     login_uri service_id ''state'' ''short'' ''S256'',
     login_uri service_id ''state'' challenge_A ''plain'',
     login_uri service_id ''state'' challenge_A ''S256'' @ ''&service_id=other'',
     login_uri service_id ''state'' challenge_A ''S256'' @ ''&state=other'',
     login_uri service_id ''state'' challenge_A ''S256'' @ ''&code_challenge='' @ repeated 43 ''B'',
     login_uri service_id ''state'' challenge_A ''S256'' @ ''&code_challenge_method=S256'']"

definition t10_bad_input ::
    "'c crypto_scheme \<Rightarrow> (mem, mem_pg_state, 'u) auth_env \<Rightarrow> response \<Rightarrow> string \<Rightarrow> unit service_test" where
  "t10_bad_input C E bad_query service_id = for_each (t10_bad_uris service_id) (\<lambda>uri.
     hbind (state_key_count E ''auth:external:'') (\<lambda>external_before.
     hbind (state_key_count E ''auth:handoff:'') (\<lambda>handoff_before.
     hbind (call_login C E bad_query uri []) (\<lambda>response.
     hbind (assert_that (resp_status response = 400 \<and> never_cached response \<and> location response = None)) (\<lambda>_.
     hbind (state_key_count E ''auth:external:'') (\<lambda>external_after.
     hbind (state_key_count E ''auth:handoff:'') (\<lambda>handoff_after.
     assert_that (external_after = external_before \<and> handoff_after = handoff_before))))))))"

text \<open>D.  An unknown and a disabled service are refused alike.\<close>

function trim_start_matches :: "string \<Rightarrow> string \<Rightarrow> string" where
  "trim_start_matches p s = (if p = [] then s else case strip_prefix p s of None \<Rightarrow> s | Some r \<Rightarrow> trim_start_matches p r)"
  by pat_completeness auto
termination
  by (relation "measure (\<lambda>(p, s). length s)") (auto simp: strip_prefix_def intro!: diff_less split: if_splits)

declare trim_start_matches.simps [simp del]

definition disabled_service_id :: "string \<Rightarrow> string" where
  "disabled_service_id service_id = ''t10disabled'' @ trim_start_matches ''t10'' service_id"

definition t10_denied_services ::
    "'c crypto_scheme \<Rightarrow> (mem, mem_pg_state, 'u) auth_env \<Rightarrow> response \<Rightarrow> string \<Rightarrow> unit service_test" where
  "t10_denied_services C E bad_query service_id =
     hbind (insert_login_service (disabled_service_id service_id) False) (\<lambda>_.
     for_each [''t10unknown'', disabled_service_id service_id] (\<lambda>denied_service.
     hbind (state_key_count E ''auth:external:'') (\<lambda>external_before.
     hbind (call_login C E bad_query (login_uri denied_service ''state'' challenge_A ''S256'') []) (\<lambda>response.
     hbind (assert_that (resp_status response = 403 \<and> location response = None)) (\<lambda>_.
     hbind (state_key_count E ''auth:external:'') (\<lambda>external_after.
     hbind (state_key_count E ''auth:handoff:'') (\<lambda>handoffs.
     assert_that (external_after = external_before \<and> handoffs = 0))))))))"

text \<open>E.  A session whose time is over is deleted, and the login starts at Google.\<close>

definition t10_expired_session ::
    "'c crypto_scheme \<Rightarrow> (mem, mem_pg_state, 'u) auth_env \<Rightarrow> ('u \<Rightarrow> (string \<times> string) list) \<Rightarrow> response \<Rightarrow> string \<Rightarrow> i32
     \<Rightarrow> unit service_test" where
  "t10_expired_session C E query_pairs bad_query service_id enabled_user =
     hbind (expect_ok (draw C E)) (\<lambda>expired_reference.
     let expired_key = session_key C expired_reference in
     hbind (expect_ok (read_clock E)) (\<lambda>now.
     hbind (redis_command E (redis_hset expired_key [(''internal_user_id'', i32_to_string enabled_user),
       (''authenticated_at'', u64_to_string (now - 20)), (''created_at'', u64_to_string (now - 30)),
       (''expires_at'', u64_to_string (now - 1))])) (\<lambda>_.
     hbind (redis_command E (redis_expireat expired_key (now + 300))) (\<lambda>_.
     hbind (call_login C E bad_query (login_uri service_id ''expired-state'' challenge_A ''S256'')
       [(AUTH_SESSION_COOKIE_NAME, expired_reference)]) (\<lambda>response.
     hbind (assert_that (resp_status response = 302 \<and> never_cached response)) (\<lambda>_.
     hbind (google_state (urls E) query_pairs response) (\<lambda>expired_oauth_state.
     hbind (redis_command E (gives (redis_exists expired_key) (Some False))) (\<lambda>_.
     redis_command E (delete_keys [external_key C expired_oauth_state])))))))))"

text \<open>F, G.  A session of a disabled or missing user does not start at Google.\<close>

definition t10_denied_users ::
    "'c crypto_scheme \<Rightarrow> (mem, mem_pg_state, 'u) auth_env \<Rightarrow> response \<Rightarrow> string \<Rightarrow> i32 \<Rightarrow> unit service_test" where
  "t10_denied_users C E bad_query service_id disabled_user = for_each [disabled_user, - 1] (\<lambda>user_id.
     hbind (expect_ok (draw C E)) (\<lambda>reference.
     hbind (expect_ok (read_clock E)) (\<lambda>now.
     hbind (expect_ok (on_redis (write_session C (redis_at E) reference \<lparr>ses_internal_user_id = user_id,
       ses_authenticated_at = now - 1, ses_created_at = now - 2, ses_expires_at = now + 300\<rparr> now))) (\<lambda>_.
     hbind (call_login C E bad_query (login_uri service_id ''denied-user'' challenge_A ''S256'')
       [(AUTH_SESSION_COOKIE_NAME, reference)]) (\<lambda>response.
     hbind (assert_that (resp_status response = 403 \<and> location response = None)) (\<lambda>_.
     hbind (state_key_count E ''auth:external:'') (\<lambda>externals.
     hbind (state_key_count E ''auth:handoff:'') (\<lambda>handoffs.
     hbind (assert_that (externals = 0 \<and> handoffs = 0)) (\<lambda>_.
     redis_command E (delete_keys [session_key C reference]))))))))))"

text \<open>What parts H, I and J expect of a login that cannot be decided.\<close>

definition refuses_unavailable :: "(mem, mem_pg_state, 'u) auth_env \<Rightarrow> response \<Rightarrow> unit service_test" where
  "refuses_unavailable E response =
     hbind (assert_that (resp_status response = 503 \<and> location response = None)) (\<lambda>_.
     hbind (state_key_count E ''auth:external:'') (\<lambda>externals.
     hbind (state_key_count E ''auth:handoff:'') (\<lambda>handoffs.
     assert_that (externals = 0 \<and> handoffs = 0))))"

text \<open>I.  A broken session.\<close>

definition t10_invalid_session ::
    "'c crypto_scheme \<Rightarrow> (mem, mem_pg_state, 'u) auth_env \<Rightarrow> response \<Rightarrow> string \<Rightarrow> i32 \<Rightarrow> unit service_test" where
  "t10_invalid_session C E bad_query service_id enabled_user =
     hbind (expect_ok (draw C E)) (\<lambda>invalid_reference.
     let invalid_key = session_key C invalid_reference in
     hbind (redis_command E (redis_hset invalid_key [(''internal_user_id'', i32_to_string enabled_user)])) (\<lambda>_.
     hbind (expect_ok (read_clock E)) (\<lambda>now.
     hbind (redis_command E (redis_expireat invalid_key (now + 300))) (\<lambda>_.
     hbind (call_login C E bad_query (login_uri service_id ''invalid-redis'' challenge_A ''S256'')
       [(AUTH_SESSION_COOKIE_NAME, invalid_reference)]) (\<lambda>response.
     hbind (refuses_unavailable E response) (\<lambda>_.
     redis_command E (delete_keys [invalid_key])))))))"

text \<open>J.  A value of another type in the place of a session.\<close>

definition t10_wrong_type_session ::
    "'c crypto_scheme \<Rightarrow> (mem, mem_pg_state, 'u) auth_env \<Rightarrow> response \<Rightarrow> string \<Rightarrow> unit service_test" where
  "t10_wrong_type_session C E bad_query service_id =
     hbind (expect_ok (draw C E)) (\<lambda>redis_failure_reference.
     let redis_failure_key = session_key C redis_failure_reference in
     hbind (redis_command E (redis_set redis_failure_key)) (\<lambda>_.
     hbind (expect_ok (read_clock E)) (\<lambda>now.
     hbind (redis_command E (gives (\<lambda>R. read_session C R redis_failure_reference now) (Err RedisFailure))) (\<lambda>_.
     hbind (state_key_count E ''auth:external:'') (\<lambda>external_before.
     hbind (state_key_count E ''auth:handoff:'') (\<lambda>handoff_before.
     hbind (call_login C E bad_query (login_uri service_id ''redis-failure'' challenge_A ''S256'')
       [(AUTH_SESSION_COOKIE_NAME, redis_failure_reference)]) (\<lambda>response.
     hbind (assert_that (resp_status response = 503 \<and> location response = None)) (\<lambda>_.
     hbind (state_key_count E ''auth:external:'') (\<lambda>external_after.
     hbind (state_key_count E ''auth:handoff:'') (\<lambda>handoff_after.
     hbind (assert_that (external_after = external_before \<and> handoff_after = handoff_before)) (\<lambda>_.
     redis_command E (delete_keys [redis_failure_key]))))))))))))"

text \<open>H.  A closed pool: no statement of the application reaches the database.\<close>

definition t10_closed_pool ::
    "'c crypto_scheme \<Rightarrow> (mem, mem_pg_state, 'u) auth_env \<Rightarrow> response \<Rightarrow> string \<Rightarrow> unit service_test" where
  "t10_closed_pool C E bad_query service_id =
     hbind (call_login C (E\<lparr>postgres_at := closed_pg_env\<rparr>) bad_query
       (login_uri service_id ''database-failure'' challenge_A ''S256'') []) (\<lambda>response.
     refuses_unavailable E response)"

definition t10_login_http_integration_cases ::
    "'c crypto_scheme \<Rightarrow> (mem, mem_pg_state, 'u) auth_env \<Rightarrow> ('u \<Rightarrow> (string \<times> string) list) \<Rightarrow> response \<Rightarrow> string
     \<Rightarrow> unit service_test" where
  "t10_login_http_integration_cases C E query_pairs bad_query nanos =
     (let service_id = ''t10'' @ nanos in
     hbind (insert_login_service service_id True) (\<lambda>_.
     hbind (t10_google C E query_pairs bad_query service_id) (\<lambda>_.
     hbind (insert_internal_user True) (\<lambda>enabled_user.
     hbind (t10_sso C E query_pairs bad_query service_id enabled_user) (\<lambda>_.
     hbind (t10_bad_input C E bad_query service_id) (\<lambda>_.
     hbind (t10_denied_services C E bad_query service_id) (\<lambda>_.
     hbind (t10_expired_session C E query_pairs bad_query service_id enabled_user) (\<lambda>_.
     hbind (insert_internal_user False) (\<lambda>disabled_user.
     hbind (t10_denied_users C E bad_query service_id disabled_user) (\<lambda>_.
     hbind (t10_invalid_session C E bad_query service_id enabled_user) (\<lambda>_.
     hbind (t10_wrong_type_session C E bad_query service_id) (\<lambda>_.
     hbind (t10_closed_pool C E bad_query service_id) (\<lambda>_.
     hbind (delete_registered_service service_id) (\<lambda>_.
     hbind (delete_registered_service (disabled_service_id service_id)) (\<lambda>_.
     delete_internal_users [enabled_user, disabled_user])))))))))))))))"

section \<open>The test of a Redis that cannot be reached\<close>

definition t26_login_redis_acquisition_failure_is_fail_closed ::
    "'c crypto_scheme \<Rightarrow> (mem, mem_pg_state, 'u) auth_env \<Rightarrow> response \<Rightarrow> string \<Rightarrow> unit service_test" where
  "t26_login_redis_acquisition_failure_is_fail_closed C E bad_query nanos =
     (let service_id = ''t26'' @ nanos in
     hbind (insert_registered_service service_id True ''https://service.example.test/login''
       ''https://service.example.test/logout'' (replicate 32 (CHR 0x00))) (\<lambda>_.
     hbind (call_login C (E\<lparr>redis_up := (\<lambda>_. False)\<rparr>) bad_query
       (login_uri service_id ''service-state'' challenge_A ''S256'') []) (\<lambda>response.
     hbind (assert_that (resp_status response = 503 \<and> location response = None)) (\<lambda>_.
     delete_registered_service service_id))))"

section \<open>The requests of the tests\<close>

lemma pair_map_Some: "distinct (map fst ps) \<Longrightarrow> pair_map ps k = Some v \<longleftrightarrow> (k, v) \<in> set ps"
  by (simp add: pair_map_def rev_map [symmetric])

lemma pair_map_None: "pair_map ps k = None \<longleftrightarrow> k \<notin> fst ` set ps"
  by (simp add: pair_map_def map_of_eq_None_iff)

lemma login_query_strings:
  "query_of (login_uri a b c m) = join_pairs [(''service_id'', a), (''state'', b), (''code_challenge'', c), (''code_challenge_method'', m)]"
  "query_of (login_uri a b c m @ CHR ''&'' # n @ CHR ''='' # v) =
     join_pairs [(''service_id'', a), (''state'', b), (''code_challenge'', c), (''code_challenge_method'', m), (n, v)]"
  by (simp_all add: query_of_def login_uri_def join_pairs.simps)

lemma query_bytes_simps [simp]: "query_byte b \<Longrightarrow> list_all query_byte (replicate n b)" "list_all query_byte challenge_A"
  by (simp_all add: challenge_A_def repeated_single query_byte_def byte_in_def list_all_iff)

lemma challenge_reference [simp]: "validate_fixed_reference_value challenge_A = Ok ()"
  by (simp add: challenge_A_def repeated_single validate_fixed_reference_value_Ok b64url_byte_def byte_class_defs list_all_iff)

lemma security_headers_of:
  "auth_security_headers (finish st) = with_header ''referrer-policy'' ''no-referrer'' (with_header ''cache-control'' ''no-store'' (finish st))"
  "auth_security_headers (with_header ''location'' l (finish st)) = with_header ''referrer-policy'' ''no-referrer''
     (with_header ''cache-control'' ''no-store'' (with_header ''location'' l (finish st)))"
  by (simp_all add: auth_security_headers_def default_header_def)

section \<open>The answers of the login on the bench\<close>

text \<open>A login whose input and service are in order.\<close>

definition login_ready :: "login_query \<Rightarrow> mem_pg_state \<Rightarrow> bool" where
  "login_ready q v \<longleftrightarrow> login_input_is_valid q \<and> (\<exists>r. services (pg_tables v) (lq_service_id q) = Some r \<and> row_is_enabled r
     \<and> row_login_callback_uri r = login_service_uri)"

abbreviation login_call ::
    "'c crypto_scheme \<Rightarrow> (mem, mem_pg_state, 'u) auth_env \<Rightarrow> (string \<times> string) list \<Rightarrow> login_query \<Rightarrow> ((mem, mem_pg_state) world, response) step" where
  "login_call C E cookies q \<equiv> login C E test_google_config \<lparr>rq_headers = [], rq_cookies = Some cookies\<rparr> q"

text \<open>A request that is refused as malformed, whatever is in the database, and changes nothing.\<close>

definition refused :: "'c crypto_scheme \<Rightarrow> (mem, mem_pg_state, 'u) auth_env \<Rightarrow> nat \<Rightarrow> response \<Rightarrow> string \<Rightarrow> bool" where
  "refused C E t bad uri \<longleftrightarrow> (\<forall>v c. \<exists>r c'. call_login C E bad uri [] (bench t Map.empty v c) = (Inr r, bench t Map.empty v c')
     \<and> resp_status r = 400 \<and> never_cached r \<and> location r = None)"

context service_bench
begin

lemma external_ttl: "checked_expires_at now EXTERNAL_AUTH_TRANSACTION_TTL_SECONDS = Ok (now + EXTERNAL_AUTH_TRANSACTION_TTL_SECONDS)"
  "is_unexpired now (now + EXTERNAL_AUTH_TRANSACTION_TTL_SECONDS)" "unat (now + EXTERNAL_AUTH_TRANSACTION_TTL_SECONDS) = unat now + 600"
  and handoff_ttl: "checked_expires_at now AUTHENTICATION_HANDOFF_TTL_SECONDS = Ok (now + AUTHENTICATION_HANDOFF_TTL_SECONDS)"
  "is_unexpired now (now + AUTHENTICATION_HANDOFF_TTL_SECONDS)" "unat (now + AUTHENTICATION_HANDOFF_TTL_SECONDS) = unat now + 120"
  using clock(2) by (simp_all add: checked_expires_at_Ok_iff ttls later lua_uint_max_def)

lemma start_google_call:
  assumes "d (external_key C (drawn_ref C E (c_draws c))) = None"
  shows "start_google_login C E cfg q now (bench t d v c) =
    (Inr (with_header ''location'' (authorize_url E GOOGLE_AUTHORIZATION_URL cfg (drawn_ref C E (c_draws c)) [''email'', ''profile'']) (finish 302)),
     bench t (d(external_key C (drawn_ref C E (c_draws c)) \<mapsto> MHash (encode_external (google_transaction q now)))) v
       (c\<lparr>c_trips := c_trips c + 2, c_draws := Suc (c_draws c)\<rparr>))"
  using assms
  by (simp add: start_google_login_def hbind_def or_else_def drawn pure_def external_ttl on_redis_bench write_external_def write_call
      encode_names_eqs google_transaction_def Let_def)

lemma login_invalid_call:
  "\<not> login_input_is_valid q \<Longrightarrow> login_call C E cookies q (bench t d v c) =
     (Inl (finish 400), bench t d v (c\<lparr>c_errors := c_errors c @ [''authentication login input rejected'']\<rparr>))"
  by (simp add: login_def fail_def)

lemma login_denied_call:
  assumes "login_input_is_valid q"
    "services (pg_tables v) (lq_service_id q) = None \<or> (\<exists>r. services (pg_tables v) (lq_service_id q) = Some r \<and> \<not> row_is_enabled r)"
  shows "login_call C E cookies q (bench t d v c) = (Inl (finish 403), bench t d v (c\<lparr>c_statements := Suc (c_statements c)\<rparr>))"
  using assms by (auto simp: login_def hbind_def or_else_def on_postgres_bench lookups_bench quit_def)

lemma login_closed_call:
  assumes "login_input_is_valid q"
  shows "login_call C (E\<lparr>postgres_at := closed_pg_env\<rparr>) cookies q (bench t d v c) = (Inl (finish 503), bench t d v
     (c\<lparr>c_statements := Suc (c_statements c), c_errors := c_errors c @ [''registered login service unavailable'']\<rparr>))"
  using assms by (simp add: login_def hbind_def or_else_def on_postgres_bench lookups_bench fail_def)

abbreviation google_reply :: "nat \<Rightarrow> response" where
  "google_reply n \<equiv> with_header ''location'' (authorize_url E GOOGLE_AUTHORIZATION_URL test_google_config (drawn_ref C E n)
     [''email'', ''profile'']) (finish 302)"

lemma lookup_ready: "login_ready q v \<Longrightarrow> lookup_login_callback_uri test_pg_env (lq_service_id q) \<lparr>database = v, statements = n\<rparr> =
    (Ok login_service_uri, \<lparr>database = v, statements = Suc n\<rparr>)"
  by (auto simp: login_ready_def lookups_bench)

lemma ready_valid: "login_ready q v \<Longrightarrow> login_input_is_valid q"
  by (simp add: login_ready_def)

lemmas login_steps = login_def login_session_def hbind_def or_else_def on_postgres_bench on_redis_bench lookup_ready ready_valid clock_read
  get_connection_def pure_def drawn Let_def request_cookie_def

lemma login_google_call:
  assumes "login_ready q v" "d (external_key C (drawn_ref C E (c_draws c))) = None"
  shows "login_call C E [] q (bench t d v c) = (Inr (google_reply (c_draws c)),
     bench t (d(external_key C (drawn_ref C E (c_draws c)) \<mapsto> MHash (encode_external (google_transaction q now)))) v
       (c\<lparr>c_trips := c_trips c + 2, c_statements := Suc (c_statements c), c_draws := Suc (c_draws c), c_ticks := Suc (c_ticks c)\<rparr>))"
  using assms start_google_call by (simp add: login_steps)

lemma login_unreachable_call:
  assumes "login_input_is_valid q" "services (pg_tables v) (lq_service_id q) = Some r" "row_is_enabled r"
  shows "login_call C (E\<lparr>redis_up := (\<lambda>_. False)\<rparr>) cookies q (bench t d v c) = (Inl (finish 503), bench t d v
     (c\<lparr>c_statements := Suc (c_statements c), c_ticks := Suc (c_ticks c),
        c_errors := c_errors c @ [''authentication storage unavailable'']\<rparr>))"
  using assms by (simp add: login_steps lookups_bench read_clock_def clock_stands fail_def del: lookup_ready)

end

text \<open>What the tests rely on of the URL crate at the callback URL of their service.\<close>

locale login_bench = service_bench C now t E query_pairs
  for C :: "'c crypto_scheme" and now t and E :: "(mem, mem_pg_state, 'u) auth_env" and query_pairs +
  fixes callback_url :: 'u
  assumes callback_url: "url_parse (urls E) login_service_uri = Some callback_url" "url_scheme (urls E) callback_url = ''https''"
      "url_host (urls E) callback_url = Some ''service.example.test''" "query_pairs callback_url = [(''existing'', ''value'')]"
    and appended_url: "query_pairs_plain ps \<Longrightarrow> (let s = url_to_string (urls E) (url_append_pairs (urls E) ps callback_url) in
      list_all header_byte s \<and> (\<exists>u. url_parse (urls E) s = Some u \<and> url_host (urls E) u = url_host (urls E) callback_url
        \<and> query_pairs u = query_pairs callback_url @ ps))"
begin

lemma service_url_valid: "valid_callback_url (urls E) login_service_uri = Some callback_url"
  by (simp add: valid_callback_url_def callback_url)

lemma login_expired_call:
  assumes "login_ready q v" "d (session_key C r) = Some (MHash (encode_session y))" "\<not> is_unexpired now (ses_expires_at y)"
    and "validate_fixed_reference_value r = Ok ()" "d (external_key C (drawn_ref C E (c_draws c))) = None"
  shows "login_call C E [(AUTH_SESSION_COOKIE_NAME, r)] q (bench t d v c) = (Inl (google_reply (c_draws c)),
     bench t (d(session_key C r := None, external_key C (drawn_ref C E (c_draws c)) \<mapsto> MHash (encode_external (google_transaction q now)))) v
       (c\<lparr>c_trips := c_trips c + 4, c_statements := Suc (c_statements c), c_draws := Suc (c_draws c), c_ticks := Suc (c_ticks c)\<rparr>))"
  using assms
  by (simp add: login_steps service_url_valid read_session_def read_stored wf_session_def early_def run_handler_def start_google_call
      eval_nat_numeral)

lemma login_unreadable_call:
  assumes "login_ready q v" "read_session C test_redis_env r now (test_connection t d (c_trips c) (c_lines c)) =
      (Err e, test_connection t d (Suc (c_trips c)) (c_lines c))" "e \<noteq> NotFound" "e \<noteq> Expired"
    and "validate_fixed_reference_value r = Ok ()"
  shows "login_call C E [(AUTH_SESSION_COOKIE_NAME, r)] q (bench t d v c) = (Inl (finish 503), bench t d v
     (c\<lparr>c_trips := Suc (c_trips c), c_statements := Suc (c_statements c), c_ticks := Suc (c_ticks c),
        c_errors := c_errors c @ [''authentication storage unavailable'']\<rparr>))"
  using assms by (simp add: login_steps service_url_valid fail_def)

lemma login_ineligible_call:
  assumes "login_ready q v" "d (session_key C r) = Some (MHash (encode_session y))" "is_unexpired now (ses_expires_at y)"
    and "validate_fixed_reference_value r = Ok ()" "users (pg_tables v) (ses_internal_user_id y) \<noteq> Some True"
  shows "login_call C E [(AUTH_SESSION_COOKIE_NAME, r)] q (bench t d v c) = (Inl (finish 403), bench t d v
     (c\<lparr>c_trips := Suc (c_trips c), c_statements := Suc (Suc (c_statements c)), c_ticks := Suc (c_ticks c),
        c_errors := c_errors c @ [''SSO session user is not eligible'']\<rparr>))"
  using assms by (simp add: login_steps service_url_valid read_session_def read_stored wf_session_def lookups_bench(3) fail_def)

lemma login_sso_call:
  fixes y q c
  defines "hr \<equiv> drawn_ref C E (c_draws c)"
  defines "z r \<equiv> \<lparr>hnd_service_id = lq_service_id q, hnd_internal_user_id = ses_internal_user_id y,
    hnd_common_session_lookup = reference_value_lookup C r, hnd_code_challenge = lq_code_challenge q,
    hnd_authenticated_at = ses_authenticated_at y, hnd_issued_at = now,
    hnd_expires_at = now + AUTHENTICATION_HANDOFF_TTL_SECONDS, hnd_status = Unused\<rparr>"
  assumes "login_ready q v" "d (session_key C r) = Some (MHash (encode_session y))" "is_unexpired now (ses_expires_at y)"
    and "session_verdict t (encode_session y) = 0" "d (handoff_key C hr) = None"
    and "validate_fixed_reference_value r = Ok ()" "users (pg_tables v) (ses_internal_user_id y) = Some True"
  shows "login_call C E [(AUTH_SESSION_COOKIE_NAME, r)] q (bench t d v c) =
    (Inr (with_header ''location'' (url_to_string (urls E) (url_append_pairs (urls E) [(''code'', hr), (''state'', lq_state q)] callback_url)) (finish 302)),
     bench t (d(handoff_key C hr \<mapsto> MHash (encode_handoff (z r)))) v
     (c\<lparr>c_trips := Suc (Suc (c_trips c)), c_statements := Suc (Suc (c_statements c)), c_draws := Suc (c_draws c), c_ticks := Suc (c_ticks c)\<rparr>))"
proof -
  have "is_lookup (reference_value_lookup C r)" by (rule reference_value_lookup_is_lookup [OF crypto_lib_axioms])
  moreover have "unat (hnd_issued_at (z r)) \<le> lua_uint_max" "unat (hnd_expires_at (z r)) \<le> lua_uint_max" "t < unat (hnd_expires_at (z r))"
    using clock(2,4) handoff_ttl by (simp_all add: z_def, linarith)
  ultimately show ?thesis
    using assms(3-) issue_stored [OF assms(4,6,7), of "z r"]
    by (simp add: login_steps service_url_valid read_session_def read_stored wf_session_def lookups_bench(3) handoff_ttl hr_def z_def)
qed

section \<open>The parts pass\<close>

lemma call_login_run:
  assumes "urls F = urls E" "list_all query_byte a" "list_all query_byte b" "list_all query_byte ch" "list_all query_byte m"
  shows "call_login C F bad (login_uri a b ch m) cookies w = (case run_handler (login_call C F cookies
     \<lparr>lq_service_id = a, lq_state = b, lq_code_challenge = ch, lq_code_challenge_method = m\<rparr>) w of
     (r, w1) \<Rightarrow> (Inr (auth_security_headers r), w1))"
  using assms
  by (simp add: call_login_def doing_def extracted_def login_query_strings query_decoded query_byte_def byte_in_def decode_login_query_def single_value_def
      split: prod.splits)

lemma call_login_duplicate:
  assumes "list_all query_byte a" "list_all query_byte b" "list_all query_byte ch" "list_all query_byte m" "list_all query_byte x"
    and "n \<in> {''service_id'', ''state'', ''code_challenge'', ''code_challenge_method''}"
  shows "call_login C E bad (login_uri a b ch m @ CHR ''&'' # n @ CHR ''='' # x) cookies w = (Inr (auth_security_headers bad), w)"
  using assms(6,1-5)
  by (auto simp: call_login_def doing_def extracted_def login_query_strings query_decoded query_byte_def byte_in_def decode_login_query_def single_value_def
      run_handler_def)

lemma location_google: "location (google_reply n) = Some (authorize_url E GOOGLE_AUTHORIZATION_URL test_google_config
    (drawn_ref C E n) [''email'', ''profile''])"
  by (simp add: location_def)

lemma google_state_reply: "google_state (urls E) query_pairs (auth_security_headers (google_reply n)) w = (Inr (drawn_ref C E n), w)"
proof -
  let ?s = "authorize_url E GOOGLE_AUTHORIZATION_URL test_google_config (drawn_ref C E n) [''email'', ''profile'']"
  obtain u where u: "list_all header_byte ?s" "url_parse (urls E) ?s = Some u" "url_host (urls E) u = Some ''accounts.google.com''"
    "distinct (map fst (query_pairs u))" "set (query_pairs u) = {(''response_type'', ''code''), (''client_id'', ''test-client''),
       (''state'', drawn_ref C E n), (''redirect_uri'', ''https://auth.example.test/auth/google/callback''), (''scope'', ''email profile'')}"
    using google_url [OF drawn_reference_valid [of n]] unfolding Let_def by blast
  have "pair_map (query_pairs u) ''response_type'' = Some ''code''" "pair_map (query_pairs u) ''client_id'' = Some ''test-client''"
    "pair_map (query_pairs u) ''redirect_uri'' = Some ''https://auth.example.test/auth/google/callback''"
    "pair_map (query_pairs u) ''scope'' = Some ''email profile''" "pair_map (query_pairs u) ''state'' = Some (drawn_ref C E n)"
    "pair_map (query_pairs u) ''access_type'' = None" "pair_map (query_pairs u) ''prompt'' = None"
    by (simp_all add: pair_map_Some u(4,5) pair_map_None)
  with u(1-3) show ?thesis
    by (simp add: google_state_def location_url_def location_google to_str_def Let_def)
qed

lemma service_id_query: "validate_service_id sid = Ok () \<Longrightarrow> list_all query_byte sid"
  by (cases sid) (auto simp: validate_service_id_def is_service_id_rest_byte_def query_byte_def list_all_iff byte_in_def
      less_eq_char_def split: if_splits)

lemma login_in_order:
  assumes "validate_service_id sid = Ok ()" "services (pg_tables v) sid = Some r" "row_is_enabled r"
    "row_login_callback_uri r = login_service_uri" "state \<noteq> ''''" "length state \<le> 256"
  shows "login_ready \<lparr>lq_service_id = sid, lq_state = state, lq_code_challenge = challenge_A, lq_code_challenge_method = ''S256''\<rparr> v"
  using assms by (simp add: login_ready_def login_input_is_valid_def validate_max_bytes_def foundation_bounds)

lemmas later_ttls = external_ttl(2) [unfolded is_unexpired_def] handoff_ttl(2) [unfolded is_unexpired_def]

lemmas test_steps = expect_ok_eq without_upd redis_command_bench on_redis_bench drawn clock_read key_count_bench key_families raw_delete raw_hset
  raw_commands gives_def expects_def never_cached_def security_headers_of with_simps location_def run_handler_def Let_def

lemma google_passes:
  assumes "validate_service_id sid = Ok ()" "services (pg_tables v) sid = Some r" "row_is_enabled r"
    "row_login_callback_uri r = login_service_uri"
  shows "\<exists>c'. t10_google C E query_pairs bad sid (bench t Map.empty v c) = (Inr (), bench t Map.empty v c')"
proof -
  let ?q = "\<lparr>lq_service_id = sid, lq_state = ''service-state'', lq_code_challenge = challenge_A, lq_code_challenge_method = ''S256''\<rparr>"
  have ready: "login_ready ?q v" using assms by (intro login_in_order) simp_all
  have q: "list_all query_byte sid" using assms(1) by (rule service_id_query)
  have wf: "wf_external (google_transaction ?q now)"
    using assms(1) by (simp add: wf_external_def google_transaction_def is_ascii_utf8_valid service_id_ascii valid_reference_ascii is_ascii_byte_def)
  show ?thesis
    unfolding t10_google_def
    using google_state_reply
    by (simp add: call_login_run q query_byte_def byte_in_def login_google_call [OF ready] test_steps read_external_def
        external_codec.read_encoded [OF _ wf] google_transaction_def external_ttl later_ttls del: delete_keys.simps)
qed

lemma appended_pairs:
  assumes "query_pairs_plain ps"
  shows "\<exists>u. (\<forall>w. location_url (urls E) (auth_security_headers (with_header ''location''
      (url_to_string (urls E) (url_append_pairs (urls E) ps callback_url)) (finish 302))) w = (Inr u, w))
    \<and> url_host (urls E) u = Some ''service.example.test'' \<and> query_pairs u = (''existing'', ''value'') # ps"
proof -
  let ?s = "url_to_string (urls E) (url_append_pairs (urls E) ps callback_url)"
  from appended_url [OF assms] obtain u where u: "list_all header_byte ?s" "url_parse (urls E) ?s = Some u"
    "url_host (urls E) u = Some ''service.example.test''" "query_pairs u = (''existing'', ''value'') # ps"
    by (auto simp: Let_def callback_url)
  have "location (with_header ''location'' ?s (finish 302)) = Some ?s" by (simp add: location_def)
  with u show ?thesis by (intro exI [of _ u]) (simp add: location_url_def to_str_def)
qed

lemma reference_query: "validate_fixed_reference_value r = Ok () \<Longrightarrow> list_all query_byte r"
  by (auto simp: validate_fixed_reference_value_Ok list_all_iff b64url_byte_def query_byte_def byte_class_defs less_eq_char_def)

lemma past: "unat k \<le> 100 \<Longrightarrow> unat (now - k) = unat now - unat k"
  using late by (simp add: unat_sub word_le_nat_alt)

lemma past_small [simp]: "\<not> lua_uint_max < unat now - k"
  using clock(2) by linarith

lemma sso_passes:
  assumes "validate_service_id sid = Ok ()" "services (pg_tables v) sid = Some r" "row_is_enabled r"
    "row_login_callback_uri r = login_service_uri" "users (pg_tables v) u = Some True"
  shows "\<exists>c'. t10_sso C E query_pairs bad sid u (bench t Map.empty v c) = (Inr (), bench t Map.empty v c')"
proof -
  let ?q = "\<lparr>lq_service_id = sid, lq_state = ''sso-state'', lq_code_challenge = challenge_A, lq_code_challenge_method = ''S256''\<rparr>"
  let ?y = "\<lparr>ses_internal_user_id = u, ses_authenticated_at = now - 10, ses_created_at = now - 20, ses_expires_at = now + 300\<rparr>"
  let ?sr = "drawn_ref C E (c_draws c)" and ?hr = "drawn_ref C E (Suc (c_draws c))"
  have ready: "login_ready ?q v" using assms by (intro login_in_order) simp_all
  have q: "list_all query_byte sid" using assms(1) by (rule service_id_query)
  have "query_pairs_plain [(''code'', ?hr), (''state'', ''sso-state'')]"
    by (simp add: reference_query) (simp add: query_byte_def byte_in_def)
  from appended_pairs [OF this] obtain cb where cb: "\<forall>w. location_url (urls E) (auth_security_headers (with_header ''location''
      (url_to_string (urls E) (url_append_pairs (urls E) [(''code'', ?hr), (''state'', ''sso-state'')] callback_url)) (finish 302))) w = (Inr cb, w)"
    "url_host (urls E) cb = Some ''service.example.test''"
    "query_pairs cb = (''existing'', ''value'') # [(''code'', ?hr), (''state'', ''sso-state'')]" by blast
  let ?z = "\<lparr>hnd_service_id = sid, hnd_internal_user_id = u, hnd_common_session_lookup = reference_value_lookup C ?sr,
    hnd_code_challenge = challenge_A, hnd_authenticated_at = now - 10, hnd_issued_at = now,
    hnd_expires_at = now + AUTHENTICATION_HANDOFF_TTL_SECONDS, hnd_status = Unused\<rparr>"
  have verdict: "session_verdict t (encode_session ?y) = 0"
    by (simp add: session_verdict_encoded past)
  have wf: "wf_handoff ?z"
    using assms(1) by (simp add: wf_handoff_def is_ascii_utf8_valid service_id_ascii valid_reference_ascii
        reference_value_lookup_is_lookup [OF crypto_lib_axioms])
  have pairs: "pair_map (query_pairs cb) ''state'' = Some ''sso-state''" "pair_map (query_pairs cb) ''code'' = Some ?hr"
    by (simp_all add: pair_map_def cb(3))
  show ?thesis
    unfolding t10_sso_def
    using cb(1,2) pairs
    by (simp add: call_login_run q query_byte_def byte_in_def login_sso_call [OF ready] test_steps write_session_def write_call
        encode_names_eqs verdict assms(5) read_handoff_def handoff_codec.read_encoded [OF _ wf] handoff_ttl later_ttls del: delete_keys.simps)
qed

lemma location_finish: "location (finish st) = None"
  by (simp add: location_def)

lemma refused_invalid:
  assumes "list_all query_byte a" "list_all query_byte b" "list_all query_byte ch" "list_all query_byte m"
    and "\<not> login_input_is_valid \<lparr>lq_service_id = a, lq_state = b, lq_code_challenge = ch, lq_code_challenge_method = m\<rparr>"
  shows "refused C E t bad (login_uri a b ch m)"
  using assms
  by (auto simp add: refused_def call_login_run login_invalid_call run_handler_def location_finish) (simp add: never_cached_def security_headers_of)

lemma refused_duplicate:
  assumes "plain_rejection bad" "list_all query_byte a" "list_all query_byte b" "list_all query_byte ch" "list_all query_byte m"
    and "list_all query_byte x" "n \<in> {''service_id'', ''state'', ''code_challenge'', ''code_challenge_method''}"
    and "extra = CHR ''&'' # n @ CHR ''='' # x"
  shows "refused C E t bad (login_uri a b ch m @ extra)"
  using assms(1) call_login_duplicate [OF assms(2-7)]
  by (simp add: refused_def assms(8) del: append_Cons) (simp add: plain_rejection_def)

lemma bad_uris_refused:
  assumes "plain_rejection bad" "validate_service_id sid = Ok ()" "uri \<in> set (t10_bad_uris sid)"
  shows "refused C E t bad uri"
proof -
  note q = service_id_query [OF assms(2)]
  note dup = refused_duplicate [OF assms(1), where a = sid and b = "''state''" and ch = challenge_A and m = "''S256''"]
  note inv = login_input_is_valid_def validate_max_bytes_def validate_service_id_def validate_fixed_reference_value_def foundation_bounds
  have "list_all (refused C E t bad) [
     login_uri ''INVALID!'' ''state'' challenge_A ''S256'', login_uri sid '''' challenge_A ''S256'',
     login_uri sid (repeated 257 ''a'') challenge_A ''S256'', login_uri sid ''state'' ''short'' ''S256'',
     login_uri sid ''state'' challenge_A ''plain'']"
    unfolding list.pred_inject
    by (intro conjI refused_invalid) (simp_all add: q query_byte_def byte_in_def inv)
  moreover have "refused C E t bad (login_uri sid ''state'' challenge_A ''S256'' @ ''&service_id=other'')"
    by (rule dup [where n = "''service_id''" and x = "''other''"]) (simp_all add: q query_byte_def byte_in_def)
  moreover have "refused C E t bad (login_uri sid ''state'' challenge_A ''S256'' @ ''&state=other'')"
    by (rule dup [where n = "''state''" and x = "''other''"]) (simp_all add: q query_byte_def byte_in_def)
  moreover have "refused C E t bad (login_uri sid ''state'' challenge_A ''S256'' @ ''&code_challenge='' @ repeated 43 ''B'')"
    by (rule dup [where n = "''code_challenge''" and x = "repeated 43 ''B''"]) (simp_all add: q query_byte_def byte_in_def)
  moreover have "refused C E t bad (login_uri sid ''state'' challenge_A ''S256'' @ ''&code_challenge_method=S256'')"
    by (rule dup [where n = "''code_challenge_method''" and x = "''S256''"]) (simp_all add: q query_byte_def byte_in_def)
  ultimately show ?thesis
    using assms(3) unfolding t10_bad_uris_def by (auto simp del: append.simps)
qed

lemma bad_input_passes:
  assumes "plain_rejection bad" "validate_service_id sid = Ok ()"
  shows "\<exists>c'. t10_bad_input C E bad sid (bench t Map.empty v c) = (Inr (), bench t Map.empty v c')"
  unfolding t10_bad_input_def
proof (rule for_each_keeps)
  fix uri c
  assume "uri \<in> set (t10_bad_uris sid)"
  then have "refused C E t bad uri" by (rule bad_uris_refused [OF assms])
  then obtain r c' where "call_login C E bad uri [] (bench t Map.empty v (c\<lparr>c_trips := Suc (Suc (c_trips c))\<rparr>)) = (Inr r, bench t Map.empty v c')"
    "resp_status r = 400" "never_cached r" "location r = None"
    unfolding refused_def by metis
  then show "\<exists>c'. hbind (state_key_count E ''auth:external:'') (\<lambda>external_before.
     hbind (state_key_count E ''auth:handoff:'') (\<lambda>handoff_before.
     hbind (call_login C E bad uri []) (\<lambda>response.
     hbind (assert_that (resp_status response = 400 \<and> never_cached response \<and> location response = None)) (\<lambda>_.
     hbind (state_key_count E ''auth:external:'') (\<lambda>external_after.
     hbind (state_key_count E ''auth:handoff:'') (\<lambda>handoff_after.
     assert_that (external_after = external_before \<and> handoff_after = handoff_before))))))) (bench t Map.empty v c) =
     (Inr (), bench t Map.empty v c')"
    by (simp add: key_count_bench)
qed

lemma denied_service_passes:
  assumes "list_all query_byte x"
    and "services (pg_tables v) x = None \<or> (\<exists>r. services (pg_tables v) x = Some r \<and> \<not> row_is_enabled r)"
  shows "\<exists>c'. call_login C E bad (login_uri x ''state'' challenge_A ''S256'') [] (bench t d v c) =
      (Inr (auth_security_headers (finish (if validate_service_id x = Ok () then 403 else 400))), bench t d v c')"
proof (cases "validate_service_id x = Ok ()")
  case True
  then have "login_input_is_valid \<lparr>lq_service_id = x, lq_state = ''state'', lq_code_challenge = challenge_A, lq_code_challenge_method = ''S256''\<rparr>"
    by (simp add: login_input_is_valid_def validate_max_bytes_def foundation_bounds)
  with True assms show ?thesis
    by (auto simp: call_login_run query_byte_def byte_in_def login_denied_call run_handler_def)
next
  case False
  then have "\<not> login_input_is_valid \<lparr>lq_service_id = x, lq_state = ''state'', lq_code_challenge = challenge_A, lq_code_challenge_method = ''S256''\<rparr>"
    by (simp add: login_input_is_valid_def is_ok_unit_iff)
  with False assms show ?thesis
    by (auto simp: call_login_run query_byte_def byte_in_def login_invalid_call run_handler_def)
qed

lemma denied_services_pass:
  fixes v sid
  defines "v' \<equiv> v\<lparr>pg_tables := (pg_tables v)\<lparr>services := (services (pg_tables v))(disabled_service_id sid \<mapsto>
    \<lparr>row_is_enabled = False, row_login_callback_uri = login_service_uri,
     row_logout_return_uri = ''https://service.example.test/logout'', row_service_secret_sha256 = replicate 32 (CHR 0x00)\<rparr>)\<rparr>\<rparr>"
  assumes "services (pg_tables v') ''t10unknown'' = None" "validate_service_id (disabled_service_id sid) = Ok ()"
  shows "\<exists>c'. t10_denied_services C E bad sid (bench t Map.empty v c) = (Inr (), bench t Map.empty v' c')"
proof -
  let ?f = "\<lambda>denied_service.
     hbind (state_key_count E ''auth:external:'') (\<lambda>external_before.
     hbind (call_login C E bad (login_uri denied_service ''state'' challenge_A ''S256'') []) (\<lambda>response.
     hbind (assert_that (resp_status response = 403 \<and> location response = None)) (\<lambda>_.
     hbind (state_key_count E ''auth:external:'') (\<lambda>external_after.
     hbind (state_key_count E ''auth:handoff:'') (\<lambda>handoffs.
     assert_that (external_after = external_before \<and> handoffs = 0))))))"
  have "\<exists>c'. for_each [''t10unknown'', disabled_service_id sid] ?f (bench t Map.empty v' c) = (Inr (), bench t Map.empty v' c')" for c
  proof (rule for_each_keeps)
    fix x c
    assume "x \<in> set [''t10unknown'', disabled_service_id sid]"
    then have x: "services (pg_tables v') x = None \<or> (\<exists>r. services (pg_tables v') x = Some r \<and> \<not> row_is_enabled r)" "validate_service_id x = Ok ()"
      using assms(2,3) by (auto simp: v'_def validate_service_id_def foundation_bounds is_service_id_rest_byte_def byte_in_def)
    show "\<exists>c'. ?f x (bench t Map.empty v' c) = (Inr (), bench t Map.empty v' c')"
      using denied_service_passes [OF service_id_query [OF x(2)] x(1), of bad Map.empty "c\<lparr>c_trips := Suc (c_trips c)\<rparr>"] x(2)
      by (auto simp: key_count_bench location_finish)
  qed
  from this [of "c"] show ?thesis
    by (simp add: t10_denied_services_def insert_login_service_def insert_registered_service_def on_tables_def v'_def)
qed

lemma expired_session_passes:
  assumes "validate_service_id sid = Ok ()" "services (pg_tables v) sid = Some r" "row_is_enabled r"
    "row_login_callback_uri r = login_service_uri"
  shows "\<exists>c'. t10_expired_session C E query_pairs bad sid u (bench t Map.empty v c) = (Inr (), bench t Map.empty v c')"
proof -
  let ?q = "\<lparr>lq_service_id = sid, lq_state = ''expired-state'', lq_code_challenge = challenge_A, lq_code_challenge_method = ''S256''\<rparr>"
  let ?y = "\<lparr>ses_internal_user_id = u, ses_authenticated_at = now - 20, ses_created_at = now - 30, ses_expires_at = now - 1\<rparr>"
  have ready: "login_ready ?q v" using assms by (intro login_in_order) simp_all
  have q: "list_all query_byte sid" using assms(1) by (rule service_id_query)
  have fields: "[(''internal_user_id'', i32_to_string u), (''authenticated_at'', u64_to_string (now - 20)),
      (''created_at'', u64_to_string (now - 30)), (''expires_at'', u64_to_string (now - 1))] = encode_session ?y"
    by (simp add: encode_session_def)
  have "\<not> is_unexpired now (now - 1)" using late by (simp add: is_unexpired_def word_less_nat_alt)
  then show ?thesis
    unfolding t10_expired_session_def
    using google_state_reply
    by (simp add: fields call_login_run q query_byte_def byte_in_def login_expired_call [OF ready, where y = ?y] test_steps raw_hash_commands
        encode_names_eqs del: delete_keys.simps)
qed

lemma denied_users_pass:
  assumes "validate_service_id sid = Ok ()" "services (pg_tables v) sid = Some r" "row_is_enabled r"
    "row_login_callback_uri r = login_service_uri" "users (pg_tables v) u = Some False" "users (pg_tables v) (- 1) = None"
  shows "\<exists>c'. t10_denied_users C E bad sid u (bench t Map.empty v c) = (Inr (), bench t Map.empty v c')"
  unfolding t10_denied_users_def
proof (rule for_each_keeps)
  let ?q = "\<lparr>lq_service_id = sid, lq_state = ''denied-user'', lq_code_challenge = challenge_A, lq_code_challenge_method = ''S256''\<rparr>"
  fix x c
  assume "x \<in> set [u, - 1]"
  then have x: "users (pg_tables v) x \<noteq> Some True" using assms(5,6) by auto
  have ready: "login_ready ?q v" using assms by (intro login_in_order) simp_all
  have q: "list_all query_byte sid" using assms(1) by (rule service_id_query)
  let ?y = "\<lparr>ses_internal_user_id = x, ses_authenticated_at = now - 1, ses_created_at = now - 2, ses_expires_at = now + 300\<rparr>"
  show "\<exists>c'. hbind (expect_ok (draw C E)) (\<lambda>reference.
     hbind (expect_ok (read_clock E)) (\<lambda>now.
     hbind (expect_ok (on_redis (write_session C (redis_at E) reference \<lparr>ses_internal_user_id = x,
       ses_authenticated_at = now - 1, ses_created_at = now - 2, ses_expires_at = now + 300\<rparr> now))) (\<lambda>_.
     hbind (call_login C E bad (login_uri sid ''denied-user'' challenge_A ''S256'') [(AUTH_SESSION_COOKIE_NAME, reference)]) (\<lambda>response.
     hbind (assert_that (resp_status response = 403 \<and> location response = None)) (\<lambda>_.
     hbind (state_key_count E ''auth:external:'') (\<lambda>externals.
     hbind (state_key_count E ''auth:handoff:'') (\<lambda>handoffs.
     hbind (assert_that (externals = 0 \<and> handoffs = 0)) (\<lambda>_.
     redis_command E (delete_keys [session_key C reference]))))))))) (bench t Map.empty v c) = (Inr (), bench t Map.empty v c')"
    using x
    by (simp add: call_login_run q query_byte_def byte_in_def login_ineligible_call [OF ready, where y = ?y] test_steps
        write_session_def write_call encode_names_eqs location_finish del: delete_keys.simps)
qed

lemma wrong_type_passes:
  assumes "validate_service_id sid = Ok ()" "services (pg_tables v) sid = Some r" "row_is_enabled r"
    "row_login_callback_uri r = login_service_uri"
  shows "\<exists>c'. t10_wrong_type_session C E bad sid (bench t Map.empty v c) = (Inr (), bench t Map.empty v c')"
proof -
  let ?q = "\<lparr>lq_service_id = sid, lq_state = ''redis-failure'', lq_code_challenge = challenge_A, lq_code_challenge_method = ''S256''\<rparr>"
  have ready: "login_ready ?q v" using assms by (intro login_in_order) simp_all
  have q: "list_all query_byte sid" using assms(1) by (rule service_id_query)
  show ?thesis
    unfolding t10_wrong_type_session_def
    by (simp add: call_login_run q query_byte_def byte_in_def login_unreadable_call [OF ready, where e = RedisFailure] test_steps
        read_session_def read_others location_finish del: delete_keys.simps)
qed

lemma invalid_session_passes:
  assumes "validate_service_id sid = Ok ()" "services (pg_tables v) sid = Some r" "row_is_enabled r"
    "row_login_callback_uri r = login_service_uri"
  shows "\<exists>c'. t10_invalid_session C E bad sid u (bench t Map.empty v c) = (Inr (), bench t Map.empty v c')"
proof -
  let ?q = "\<lparr>lq_service_id = sid, lq_state = ''invalid-redis'', lq_code_challenge = challenge_A, lq_code_challenge_method = ''S256''\<rparr>"
  have ready: "login_ready ?q v" using assms by (intro login_in_order) simp_all
  have q: "list_all query_byte sid" using assms(1) by (rule service_id_query)
  have invalid: "read_session C test_redis_env s now (test_connection t d n l) = (Err InvalidStoredState, test_connection t d (Suc n) l)"
    if "d (session_key C s) = Some (MHash [(''internal_user_id'', i32_to_string u)])" for d s n l
    using that
    by (simp add: read_session_def read_state_def read_fields_def test_connection_def cmd_hgetall_def mem_commands utf8_pairs_def
        btree_collect_def decode_session_def validate_field_names_def SESSION_FIELDS_def is_ascii_utf8_valid is_ascii_def is_ascii_byte_def)
  show ?thesis
    unfolding t10_invalid_session_def refuses_unavailable_def
    by (simp add: call_login_run q query_byte_def byte_in_def login_unreadable_call [OF ready, where e = InvalidStoredState] invalid test_steps
        raw_hash_commands location_finish del: delete_keys.simps)
qed

lemma closed_pool_passes:
  assumes "validate_service_id sid = Ok ()"
  shows "\<exists>c'. t10_closed_pool C E bad sid (bench t Map.empty v c) = (Inr (), bench t Map.empty v c')"
proof -
  let ?q = "\<lparr>lq_service_id = sid, lq_state = ''database-failure'', lq_code_challenge = challenge_A, lq_code_challenge_method = ''S256''\<rparr>"
  have ok: "login_input_is_valid ?q" using assms by (simp add: login_input_is_valid_def validate_max_bytes_def foundation_bounds)
  have q: "list_all query_byte sid" using assms(1) by (rule service_id_query)
  show ?thesis
    unfolding t10_closed_pool_def refuses_unavailable_def
    by (simp add: call_login_run q query_byte_def byte_in_def login_closed_call [OF ok] test_steps location_finish)
qed

section \<open>The tests pass\<close>

lemma disabled_service:
  assumes "list_all is_digit nanos" "nanos \<noteq> []"
  shows "disabled_service_id (''t10'' @ nanos) = ''t10disabled'' @ nanos"
proof -
  obtain c r where "nanos = c # r" "is_digit c" using assms by (cases nanos) auto
  moreover from this have "c \<noteq> CHR ''t''" by (auto simp: is_digit_def byte_in_def)
  ultimately have "trim_start_matches ''t10'' (''t10'' @ nanos) = nanos"
    by (subst trim_start_matches.simps) (simp add: strip_prefix_def, subst trim_start_matches.simps, simp add: strip_prefix_def)
  then show ?thesis by (simp add: disabled_service_id_def)
qed

lemma digits_service_id:
  assumes "list_all is_digit nanos" "nanos \<noteq> []" "length nanos \<le> 39"
  shows "validate_service_id (''t10'' @ nanos) = Ok ()" "validate_service_id (''t26'' @ nanos) = Ok ()"
    "validate_service_id (''t10disabled'' @ nanos) = Ok ()"
    "''t10disabled'' @ nanos \<noteq> ''t10'' @ nanos" "''t10unknown'' \<noteq> ''t10'' @ nanos" "''t10unknown'' \<noteq> ''t10disabled'' @ nanos"
  using assms
  by (auto simp: validate_service_id_def foundation_bounds is_service_id_rest_byte_def byte_in_def list_all_iff is_digit_def)

abbreviation login_row :: "bool \<Rightarrow> service_row" where
  "login_row enabled \<equiv> \<lparr>row_is_enabled = enabled, row_login_callback_uri = login_service_uri,
     row_logout_return_uri = ''https://service.example.test/logout'', row_service_secret_sha256 = replicate 32 (CHR 0x00)\<rparr>"

lemma t10_passes:
  assumes "plain_rejection bad" "list_all is_digit nanos" "nanos \<noteq> []" "length nanos \<le> 39"
  shows "\<exists>c'. t10_login_http_integration_cases C E query_pairs bad nanos (bench t Map.empty (database test_pool) c) =
    (Inr (), bench t Map.empty ((database test_pool)\<lparr>pg_next_user := 3\<rparr>) c')"
proof -
  define s where "s = ''t10'' @ nanos"
  define d where "d = ''t10disabled'' @ nanos"
  let ?v = "\<lambda>n svs us. \<lparr>pg_tables = \<lparr>services = svs, users = us, identities = Map.empty\<rparr>, pg_staged = Map.empty, pg_next_tx = 0, pg_next_user = n\<rparr>"
  let ?one = "[s \<mapsto> login_row True]" and ?two = "[s \<mapsto> login_row True, d \<mapsto> login_row False]"
  note ids = digits_service_id [OF assms(2-4), folded s_def d_def]
  note dis = disabled_service [OF assms(2,3), folded s_def d_def]
  have two: "?two s = Some (login_row True)" using ids(4) by simp
  obtain c1 where 1: "t10_google C E query_pairs bad s (bench t Map.empty (?v 1 ?one Map.empty) c) = (Inr (), bench t Map.empty (?v 1 ?one Map.empty) c1)"
    using google_passes [OF ids(1), of "?v 1 ?one Map.empty" "login_row True" bad c] by auto
  obtain c2 where 2: "t10_sso C E query_pairs bad s 1 (bench t Map.empty (?v 2 ?one [1 \<mapsto> True]) c1) = (Inr (), bench t Map.empty (?v 2 ?one [1 \<mapsto> True]) c2)"
    using sso_passes [OF ids(1), of "?v 2 ?one [1 \<mapsto> True]" "login_row True" 1 bad c1] by auto
  obtain c3 where 3: "t10_bad_input C E bad s (bench t Map.empty (?v 2 ?one [1 \<mapsto> True]) c2) = (Inr (), bench t Map.empty (?v 2 ?one [1 \<mapsto> True]) c3)"
    using bad_input_passes [OF assms(1) ids(1), of "?v 2 ?one [1 \<mapsto> True]" c2] by auto
  obtain c4 where 4: "t10_denied_services C E bad s (bench t Map.empty (?v 2 ?one [1 \<mapsto> True]) c3) = (Inr (), bench t Map.empty (?v 2 ?two [1 \<mapsto> True]) c4)"
    using denied_services_pass [of "?v 2 ?one [1 \<mapsto> True]" s bad c3] ids by (auto simp: dis)
  obtain c5 where 5: "t10_expired_session C E query_pairs bad s 1 (bench t Map.empty (?v 2 ?two [1 \<mapsto> True]) c4) = (Inr (), bench t Map.empty (?v 2 ?two [1 \<mapsto> True]) c5)"
    using expired_session_passes [OF ids(1), of "?v 2 ?two [1 \<mapsto> True]" "login_row True" bad 1 c4] two by auto
  have minus_one: "(- 1 :: i32) \<noteq> 1" "(- 1 :: i32) \<noteq> 2" by simp_all
  obtain c6 where 6: "t10_denied_users C E bad s 2 (bench t Map.empty (?v 3 ?two [1 \<mapsto> True, 2 \<mapsto> False]) c5) = (Inr (), bench t Map.empty (?v 3 ?two [1 \<mapsto> True, 2 \<mapsto> False]) c6)"
    using denied_users_pass [OF ids(1), of "?v 3 ?two [1 \<mapsto> True, 2 \<mapsto> False]" "login_row True" 2 bad c5] two minus_one by auto
  obtain c7 where 7: "t10_invalid_session C E bad s 1 (bench t Map.empty (?v 3 ?two [1 \<mapsto> True, 2 \<mapsto> False]) c6) = (Inr (), bench t Map.empty (?v 3 ?two [1 \<mapsto> True, 2 \<mapsto> False]) c7)"
    using invalid_session_passes [OF ids(1), of "?v 3 ?two [1 \<mapsto> True, 2 \<mapsto> False]" "login_row True" bad 1 c6] two by auto
  obtain c8 where 8: "t10_wrong_type_session C E bad s (bench t Map.empty (?v 3 ?two [1 \<mapsto> True, 2 \<mapsto> False]) c7) = (Inr (), bench t Map.empty (?v 3 ?two [1 \<mapsto> True, 2 \<mapsto> False]) c8)"
    using wrong_type_passes [OF ids(1), of "?v 3 ?two [1 \<mapsto> True, 2 \<mapsto> False]" "login_row True" bad c7] two by auto
  obtain c9 where 9: "t10_closed_pool C E bad s (bench t Map.empty (?v 3 ?two [1 \<mapsto> True, 2 \<mapsto> False]) c8) = (Inr (), bench t Map.empty (?v 3 ?two [1 \<mapsto> True, 2 \<mapsto> False]) c9)"
    using closed_pool_passes [OF ids(1), of bad "?v 3 ?two [1 \<mapsto> True, 2 \<mapsto> False]" c8] by auto
  have users: "[1 \<mapsto> True, 2 \<mapsto> False] |` (- {1, 2 :: i32}) = Map.empty" by (auto simp: restrict_map_def)
  have services: "?two(s := None, d := None) = Map.empty" using ids(4) by (simp add: fun_eq_iff)
  show ?thesis
    unfolding t10_login_http_integration_cases_def Let_def s_def [symmetric] dis
    using users services
    by (simp add: insert_login_service_def insert_registered_service_def insert_internal_user_def delete_registered_service_def
        delete_internal_users_def on_tables_def insert_user_def test_pool_def 1 2 3 4 5 6 7 8 9)
qed

lemma t26_login_passes:
  assumes "list_all is_digit nanos" "nanos \<noteq> []" "length nanos \<le> 39"
  shows "\<exists>c'. t26_login_redis_acquisition_failure_is_fail_closed C E bad nanos (bench t Map.empty (database test_pool) c) =
    (Inr (), bench t Map.empty (database test_pool) c')"
proof -
  define s where "s = ''t26'' @ nanos"
  note id = digits_service_id(2) [OF assms, folded s_def]
  let ?q = "\<lparr>lq_service_id = s, lq_state = ''service-state'', lq_code_challenge = challenge_A, lq_code_challenge_method = ''S256''\<rparr>"
  have valid: "login_input_is_valid ?q" using id by (simp add: login_input_is_valid_def validate_max_bytes_def foundation_bounds)
  show ?thesis
    unfolding t26_login_redis_acquisition_failure_is_fail_closed_def Let_def s_def [symmetric]
    by (simp add: insert_registered_service_def delete_registered_service_def on_tables_def test_pool_def call_login_run service_id_query [OF id]
        query_byte_def byte_in_def login_unreachable_call [OF valid] run_handler_def location_finish)
qed

end

end
