(* ===== verification/Auth_Integration.thy ===== *)
theory Auth_Integration
  imports Login_Tests
begin

text \<open>
  The integration tests of the authentication service together, that they pass, and a bench on
  which their hypotheses hold.
\<close>

section \<open>A bench\<close>

definition bench_authorize_url :: "string \<Rightarrow> google_authorization_config \<Rightarrow> string \<Rightarrow> string list \<Rightarrow> string" where
  "bench_authorize_url base cfg state scopes = base @ ''?'' @ show_query [(''response_type'', ''code''),
     (''client_id'', gac_client_id cfg), (''state'', state), (''redirect_uri'', gac_redirect_uri cfg), (''scope'', ''email profile'')]"

definition bench_env :: "(mem, mem_pg_state, simple_url) auth_env" where
  "bench_env = \<lparr>redis_at = test_redis_env, redis_up = (\<lambda>_. True), postgres_at = test_pg_env, urls = simple_urls,
     rng = (\<lambda>n. Some (replicate 32 (char_of n))), clock = (\<lambda>_. 1700000000000000000), authorize_url = bench_authorize_url,
     google_token = (\<lambda>cfg code. None), google_userinfo = (\<lambda>url token. None)\<rparr>"

definition bench_service_url :: simple_url where
  "bench_service_url = \<lparr>su_scheme = ''https'', su_host = ''service.example.test'', su_path = ''/login'', su_query = [(''existing'', ''value'')]\<rparr>"

lemma bench_env_simps [simp]:
  "redis_at bench_env = test_redis_env" "redis_up bench_env n" "postgres_at bench_env = test_pg_env" "urls bench_env = simple_urls"
  "rng bench_env n = Some (replicate 32 (char_of n))" "authorize_url bench_env = bench_authorize_url"
  "unix_seconds (clock bench_env n) = Ok 1700000000"
  by (simp_all add: bench_env_def unix_seconds_def)

lemma simple_urls_simps [simp]:
  "url_parse simple_urls = simple_parse" "url_scheme simple_urls = su_scheme"
  "url_host simple_urls u = (if su_host u = [] then None else Some (su_host u))"
  "url_append_pairs simple_urls ps u = u\<lparr>su_query := su_query u @ ps\<rparr>" "url_to_string simple_urls = simple_to_string"
  "url_form_parse simple_urls = form_parse"
  by (simp_all add: simple_urls_def)

lemma hex_upper_visible: "d < 16 \<Longrightarrow> header_byte (hex_upper d)"
proof -
  assume "d < 16"
  then have "d < Suc (Suc (Suc (Suc (Suc (Suc (Suc (Suc (Suc (Suc (Suc (Suc (Suc (Suc (Suc (Suc 0)))))))))))))))" by simp
  then show ?thesis by (auto simp: hex_upper_def header_byte_def byte_in_def less_Suc_eq)
qed

lemma percent_encode_visible: "list_all header_byte (percent_encode s)"
proof (induction s)
  case (Cons c s)
  have "unreserved c \<Longrightarrow> header_byte c"
    by (auto simp: unreserved_def header_byte_def byte_class_defs less_eq_char_def)
  moreover have "header_byte (CHR ''%'')" by (simp add: header_byte_def byte_in_def)
  ultimately show ?case using Cons by (simp add: hex_upper_visible char_nibbles)
qed simp

lemma show_query_visible: "list_all header_byte (show_query ps)"
proof -
  have "header_byte (CHR ''='')" "header_byte (CHR ''&'')" by (simp_all add: header_byte_def byte_in_def)
  then show ?thesis by (induction ps rule: show_query.induct) (simp_all add: percent_encode_visible)
qed

lemma header_value_bytes: "list_all header_byte s \<Longrightarrow> filter header_value_byte s = s"
  by (induction s) (auto simp: header_byte_def header_value_byte_def byte_in_def less_eq_char_def)

text \<open>Parsing a printed URL of the service, and one of Google.\<close>

lemma simple_parse_query:
  assumes "list_all (\<lambda>c. c \<noteq> CHR ''?'') (h @ p)" "list_all (\<lambda>c. c \<noteq> CHR ''/'') h" "h \<noteq> []" "p = CHR ''/'' # r"
  shows "simple_parse (''https://'' @ h @ p @ ''?'' @ show_query ps) = Some \<lparr>su_scheme = ''https'', su_host = h, su_path = p, su_query = ps\<rparr>"
proof -
  have "CHR ''?'' \<notin> set (h @ p)" using assms(1) by (auto simp: list_all_iff)
  then have "split_once (CHR ''?'') ((h @ p) @ CHR ''?'' # show_query ps) = Some (h @ p, show_query ps)" by (rule split_once_append)
  moreover have "takeWhile (\<lambda>c. c \<noteq> CHR ''/'') (h @ p) = h" "dropWhile (\<lambda>c. c \<noteq> CHR ''/'') (h @ p) = p"
    using assms(2,4) by (simp_all add: list_all_iff takeWhile_append dropWhile_append)
  ultimately show ?thesis
    using assms(4) by (simp add: simple_parse_def strip_prefix_def simple_mk_def form_parse_show)
qed

lemma service_url_parses:
  "simple_parse login_service_uri = Some bench_service_url"
  "simple_parse (simple_to_string (bench_service_url\<lparr>su_query := su_query bench_service_url @ ps\<rparr>)) =
     Some (bench_service_url\<lparr>su_query := su_query bench_service_url @ ps\<rparr>)"
  "list_all header_byte (simple_to_string (bench_service_url\<lparr>su_query := su_query bench_service_url @ ps\<rparr>))"
proof -
  let ?q = "[(''existing'', ''value'')] @ ps"
  have "form_parse ''existing=value'' = [(''existing'', ''value'')]"
    by (simp add: form_parse.simps pair_of_def)
  then show "simple_parse login_service_uri = Some bench_service_url"
    by (simp add: login_service_uri_def bench_service_url_def simple_parse_def strip_prefix_def simple_mk_def)
  have host: "list_all header_byte ''https://service.example.test/login?''" by (simp add: header_byte_def byte_in_def)
  have "filter header_value_byte (''https://service.example.test/login?'' @ show_query ?q) = ''https://service.example.test/login?'' @ show_query ?q"
    using host show_query_visible [of ?q] by (intro header_value_bytes) (simp only: list_all_append)
  then have printed: "simple_to_string (bench_service_url\<lparr>su_query := su_query bench_service_url @ ps\<rparr>) =
      ''https://'' @ ''service.example.test'' @ ''/login'' @ ''?'' @ show_query ?q"
    by (simp add: simple_to_string_def bench_service_url_def del: filter.simps filter_append show_query.simps)
  show "simple_parse (simple_to_string (bench_service_url\<lparr>su_query := su_query bench_service_url @ ps\<rparr>)) =
     Some (bench_service_url\<lparr>su_query := su_query bench_service_url @ ps\<rparr>)"
    unfolding printed
    by (subst simple_parse_query [where r = "''login''"]) (simp_all add: bench_service_url_def)
  show "list_all header_byte (simple_to_string (bench_service_url\<lparr>su_query := su_query bench_service_url @ ps\<rparr>))"
    unfolding printed using host show_query_visible [of ?q] by simp
qed

lemma google_url_parses:
  "simple_parse (bench_authorize_url GOOGLE_AUTHORIZATION_URL test_google_config st scopes) =
     Some \<lparr>su_scheme = ''https'', su_host = ''accounts.google.com'', su_path = ''/o/oauth2/auth'',
       su_query = [(''response_type'', ''code''), (''client_id'', ''test-client''), (''state'', st),
         (''redirect_uri'', ''https://auth.example.test/auth/google/callback''), (''scope'', ''email profile'')]\<rparr>"
  "list_all header_byte (bench_authorize_url GOOGLE_AUTHORIZATION_URL test_google_config st scopes)"
proof -
  let ?q = "[(''response_type'', ''code''), (''client_id'', ''test-client''), (''state'', st),
         (''redirect_uri'', ''https://auth.example.test/auth/google/callback''), (''scope'', ''email profile'')]"
  have printed: "bench_authorize_url GOOGLE_AUTHORIZATION_URL test_google_config st scopes =
      ''https://'' @ ''accounts.google.com'' @ ''/o/oauth2/auth'' @ ''?'' @ show_query ?q"
    by (simp add: bench_authorize_url_def GOOGLE_AUTHORIZATION_URL_def test_google_config_def del: show_query.simps)
  have host: "list_all header_byte ''https://accounts.google.com/o/oauth2/auth?''" by (simp add: header_byte_def byte_in_def)
  show "simple_parse (bench_authorize_url GOOGLE_AUTHORIZATION_URL test_google_config st scopes) =
     Some \<lparr>su_scheme = ''https'', su_host = ''accounts.google.com'', su_path = ''/o/oauth2/auth'', su_query = ?q\<rparr>"
    unfolding printed by (subst simple_parse_query [where r = "''o/oauth2/auth''"]) (simp_all del: show_query.simps)
  show "list_all header_byte (bench_authorize_url GOOGLE_AUTHORIZATION_URL test_google_config st scopes)"
    unfolding printed using host show_query_visible [of ?q] by (simp del: show_query.simps)
qed

interpretation bench: login_bench suffix_crypto 1700000000 1700000030 bench_env su_query bench_service_url
proof unfold_locales
  fix st :: string
  show "let s = authorize_url bench_env GOOGLE_AUTHORIZATION_URL test_google_config st [''email'', ''profile''] in
      list_all header_byte s \<and> (\<exists>u. url_parse (urls bench_env) s = Some u \<and> url_host (urls bench_env) u = Some ''accounts.google.com''
         \<and> distinct (map fst (su_query u)) \<and> set (su_query u) = {(''response_type'', ''code''), (''client_id'', ''test-client''),
           (''state'', st), (''redirect_uri'', ''https://auth.example.test/auth/google/callback''), (''scope'', ''email profile'')})"
    by (simp add: google_url_parses Let_def)
next
  fix ps
  show "let s = url_to_string (urls bench_env) (url_append_pairs (urls bench_env) ps bench_service_url) in
      list_all header_byte s \<and> (\<exists>u. url_parse (urls bench_env) s = Some u
        \<and> url_host (urls bench_env) u = url_host (urls bench_env) bench_service_url \<and> su_query u = su_query bench_service_url @ ps)"
    using service_url_parses(2,3) [of ps] by (simp add: Let_def)
qed (simp_all add: form_parse_join service_url_parses, simp_all add: bench_service_url_def)

section \<open>All integration tests\<close>

definition passes_on :: "unit service_test \<Rightarrow> (mem, mem_pg_state) world \<Rightarrow> bool" where
  "passes_on test w \<longleftrightarrow> fst (test w) = Ok ()"

definition leaves_stores :: "unit service_test \<Rightarrow> (mem, mem_pg_state) world \<Rightarrow> bool" where
  "leaves_stores test w \<longleftrightarrow> (case test w of (_, w') \<Rightarrow> mem_data (server (conn w')) = mem_data (server (conn w))
     \<and> pg_tables (database (pool_of w')) = pg_tables (database (pool_of w)))"

definition login_integration_tests ::
    "'c crypto_scheme \<Rightarrow> (mem, mem_pg_state, 'u) auth_env \<Rightarrow> ('u \<Rightarrow> (string \<times> string) list) \<Rightarrow> response \<Rightarrow> string \<Rightarrow> unit service_test list" where
  "login_integration_tests C E query_pairs bad nanos = [t10_login_http_integration_cases C E query_pairs bad nanos,
     t26_login_redis_acquisition_failure_is_fail_closed C E bad nanos]"

text \<open>
  C38: The integration tests of the login hold on the model, whatever answer the framework has for a query string it cannot
  decode.
\<close>

theorem auth_integration_tests_pass:
  assumes "login_bench C now t E query_pairs callback_url" "plain_rejection bad"
    and "list_all is_digit nanos" "nanos \<noteq> []" "length nanos \<le> 39"
  shows "list_all (\<lambda>test. passes_on test (bench t Map.empty (database test_pool) c) \<and> leaves_stores test (bench t Map.empty (database test_pool) c))
    (login_integration_tests C E query_pairs bad nanos)"
  using login_bench.t10_passes [OF assms(1-5), of c] login_bench.t26_login_passes [OF assms(1,3-5), of bad c]
  by (auto simp: login_integration_tests_def passes_on_def leaves_stores_def test_connection_def)


theorem auth_integration_tests_pass_witness:
  "list_all (\<lambda>test. passes_on test (bench 1700000030 Map.empty (database test_pool) no_counters))
     (login_integration_tests suffix_crypto bench_env su_query (finish 400) ''1700000000000000000'')"
proof -
  have "plain_rejection (finish 400)" by (simp add: plain_rejection_def location_def)
  from auth_integration_tests_pass [OF bench.login_bench_axioms this, of "''1700000000000000000''" no_counters] show ?thesis
    by (simp add: is_digit_def byte_in_def list_all_iff)
qed

end
