(* ===== verification/Portal_Tests.thy ===== *)
theory Portal_Tests
  imports Portal_Properties Foundation_Tests
begin

text \<open>
  The unit tests of the portal (\<open>portal_backend/src/main.rs\<close>, \<open>mod tests\<close>) as predicates over the
  model.  The tests of the local state run the operations one after the other from the first draw
  of the random source, as the test does; a call the test unwraps must be \<open>Done (Ok _)\<close>.
\<close>

section \<open>Configuration and paths\<close>

definition service_id_validation_accepts_and_rejects_expected_values :: bool where
  "service_id_validation_accepts_and_rejects_expected_values \<longleftrightarrow>
     is_ok (portal_validate_service_id ''portal-dev'')
     \<and> list_all (\<lambda>invalid. portal_validate_service_id invalid = Err (InvalidEnvironment ''PORTAL_SERVICE_ID''))
         ['''', ''Portal'', ''-portal'', ''portal!'', repeated 65 ''a'']"

definition auth_foundation_url_validation_accepts_http_and_https_only :: "'u url_ops \<Rightarrow> bool" where
  "auth_foundation_url_validation_accepts_http_and_https_only U \<longleftrightarrow>
     (case parse_auth_foundation_base_url U ''http://localhost:8080'' of
        Inl _ \<Rightarrow> False | Inr url \<Rightarrow> url_scheme U url = ''http'')
     \<and> (case parse_auth_foundation_base_url U ''https://auth.example.com'' of
        Inl _ \<Rightarrow> False | Inr url \<Rightarrow> url_scheme U url = ''https'')
     \<and> list_all (\<lambda>invalid. parse_auth_foundation_base_url U invalid =
           Err (InvalidEnvironment ''PORTAL_AUTH_FOUNDATION_BASE_URL''))
         [''/relative'', ''ftp://auth.example.com'', ''https://'']"

definition service_secret_empty_is_rejected_without_exposing_its_value :: bool where
  "service_secret_empty_is_rejected_without_exposing_its_value \<longleftrightarrow>
     validate_service_secret '''' = Err (InvalidEnvironment ''PORTAL_SERVICE_SECRET'')
     \<and> is_ok (validate_service_secret ''not-empty'')"

definition capacity_parsing_has_defaults_and_rejects_zero :: bool where
  "capacity_parsing_has_defaults_and_rejects_zero \<longleftrightarrow>
     parse_capacity None ''PORTAL_LOGIN_START_CAPACITY'' 10000 = Ok 10000
     \<and> parse_capacity None ''PORTAL_LOCAL_SESSION_CAPACITY'' 50000 = Ok 50000
     \<and> parse_capacity (Some ''7'') ''PORTAL_LOGIN_START_CAPACITY'' 10000 = Ok 7
     \<and> parse_capacity (Some ''0'') ''PORTAL_LOGIN_START_CAPACITY'' 10000 =
         Err (InvalidEnvironment ''PORTAL_LOGIN_START_CAPACITY'')"

definition post_login_path_validation_is_exact :: bool where
  "post_login_path_validation_is_exact \<longleftrightarrow>
     list_all (\<lambda>valid. is_ok (validate_post_login_path valid)) [''/'', ''/foo'', ''/foo?bar=baz'']
     \<and> list_all (\<lambda>invalid. validate_post_login_path invalid = Err InvalidPostLoginPath)
         ['''', ''/'' @ repeated PORTAL_POST_LOGIN_PATH_MAX_BYTES ''a'', ''https://evil.example/'', ''http://evil.example/'',
          ''//evil.example/'', CHR 0x5C # ''evil'', ''/foo'' @ [CHR 0x5C] @ ''bar'', ''javascript:alert(1)'']"

section \<open>The local state\<close>

definition local_state :: portal_local_state where
  "local_state = new_local_state 10 10"

definition login_start_create_claim_and_browser_binding_are_one_shot ::
    "'c crypto_scheme \<Rightarrow> (nat \<Rightarrow> bytes option) \<Rightarrow> bool" where
  "login_start_create_claim_and_browser_binding_are_one_shot C rng \<longleftrightarrow>
     (case create_login_start C rng ''/foo'' 100 (local_state, 0) of
        (Done (Inr created), st1, _) \<Rightarrow>
          length (cls_state created) = 43
          \<and> length (cls_browser_context_reference created) = 43
          \<and> length (cls_code_challenge created) = 43
          \<and> (case claim_login_start (cls_state created) ''wrong'' 101 st1 of (wrong, st2) \<Rightarrow>
             wrong = Err BrowserContextMismatch
             \<and> map_of (login_starts st2) (cls_state created) \<noteq> None
             \<and> (case claim_login_start (cls_state created) (cls_browser_context_reference created) 101 st2 of
                  (Inr claim, st3) \<Rightarrow>
                    lst_post_login_path claim = ''/foo'' \<and> lst_created_at claim = 100 \<and> lst_expires_at claim = 700
                    \<and> map_of (login_starts st3) (cls_state created) = None
                    \<and> fst (claim_login_start (cls_state created) (cls_browser_context_reference created) 101 st3) =
                        Err LocalNotFound
                | _ \<Rightarrow> False))
      | _ \<Rightarrow> False)"

definition login_start_expiry_capacity_and_cleanup_preserve_valid_records ::
    "'c crypto_scheme \<Rightarrow> (nat \<Rightarrow> bytes option) \<Rightarrow> bool" where
  "login_start_expiry_capacity_and_cleanup_preserve_valid_records C rng \<longleftrightarrow>
     (case create_login_start C rng ''/'' 100 (new_local_state 1 1, 0) of
        (Done (Inr created), st1, n1) \<Rightarrow>
          (case claim_login_start (cls_state created) (cls_browser_context_reference created) 700 st1 of (expired, st2) \<Rightarrow>
             expired = Err LocalExpired
             \<and> map_of (login_starts st2) (cls_state created) = None
             \<and> (case create_login_start C rng ''/'' 1000 (st2, n1) of
                  (Done (Inr first), st3, n3) \<Rightarrow>
                    (case create_login_start C rng ''/other'' 1001 (st3, n3) of (refused, st4, _) \<Rightarrow>
                       refused = Done (Err CapacityReached)
                       \<and> map_of (login_starts st4) (cls_state first) \<noteq> None
                       \<and> map_of (login_starts (cleanup_expired 1599 st4)) (cls_state first) \<noteq> None
                       \<and> map_of (login_starts (cleanup_expired 1600 (cleanup_expired 1599 st4))) (cls_state first) = None)
                | _ \<Rightarrow> False))
      | _ \<Rightarrow> False)"

text \<open>The second half of the session test, after the first session has been removed.\<close>

definition session_expiry_part :: "'c crypto_scheme \<Rightarrow> (nat \<Rightarrow> bytes option) \<Rightarrow> portal_local_state \<times> nat \<Rightarrow> bool" where
  "session_expiry_part C rng s \<longleftrightarrow>
     (case create_local_session C rng 44 110 110 s of
        (Done (Inr (expired_reference, _)), st1, _) \<Rightarrow>
          (case get_local_session expired_reference 28909 st1 of (alive, st2) \<Rightarrow>
             alive \<noteq> None
             \<and> (case get_local_session expired_reference 28910 st2 of (dead, st3) \<Rightarrow>
                dead = None \<and> map_of (local_sessions st3) expired_reference = None))
      | _ \<Rightarrow> False)"

definition local_session_create_lookup_remove_expiry_and_capacity ::
    "'c crypto_scheme \<Rightarrow> (nat \<Rightarrow> bytes option) \<Rightarrow> bool" where
  "local_session_create_lookup_remove_expiry_and_capacity C rng \<longleftrightarrow>
     (case create_local_session C rng 42 90 100 (new_local_state 1 1, 0) of
        (Done (Inr (sref, csrf_plaintext)), st1, n1) \<Rightarrow>
          length sref = 43 \<and> length csrf_plaintext = 43
          \<and> (case get_local_session sref 101 st1 of
               (Some session, st2) \<Rightarrow>
                 loc_internal_user_id session = 42 \<and> loc_authenticated_at session = 90
                 \<and> loc_created_at session = 100 \<and> loc_expires_at session = 28900
                 \<and> loc_csrf_lookup session \<noteq> csrf_plaintext
                 \<and> loc_csrf_lookup session = portal_sha256_digest C csrf_plaintext
                 \<and> (case get_local_session sref 102 st2 of (again, st3) \<Rightarrow>
                    again \<noteq> None
                    \<and> (case create_local_session C rng 43 100 103 (st3, n1) of (refused, st4, n4) \<Rightarrow>
                       refused = Done (Err CapacityReached)
                       \<and> map_of (local_sessions st4) sref \<noteq> None
                       \<and> (case remove_local_session sref st4 of (removed, st5) \<Rightarrow>
                          removed \<noteq> None
                          \<and> (case get_local_session sref 103 st5 of (gone, st6) \<Rightarrow>
                             gone = None \<and> session_expiry_part C rng (st6, n4)))))
             | _ \<Rightarrow> False)
      | _ \<Rightarrow> False)"

definition cleanup_removes_both_expired_kinds_and_restart_invalidates_everything ::
    "'c crypto_scheme \<Rightarrow> (nat \<Rightarrow> bytes option) \<Rightarrow> bool" where
  "cleanup_removes_both_expired_kinds_and_restart_invalidates_everything C rng \<longleftrightarrow>
     (case create_login_start C rng ''/'' 10 (local_state, 0) of
        (Done (Inr login), st1, n1) \<Rightarrow>
          (case create_local_session C rng 1 10 10 (st1, n1) of
             (Done (Inr (session, _)), st2, _) \<Rightarrow>
               (let st3 = cleanup_expired 609 st2; st4 = cleanup_expired 28810 st3; restarted = local_state in
                map_of (login_starts st3) (cls_state login) \<noteq> None
                \<and> map_of (local_sessions st3) session \<noteq> None
                \<and> login_starts st4 = [] \<and> local_sessions st4 = []
                \<and> map_of (login_starts restarted) (cls_state login) = None
                \<and> map_of (local_sessions restarted) session = None)
           | _ \<Rightarrow> False)
      | _ \<Rightarrow> False)"

text \<open>A cookie of the model has no domain, so the test's assertions that there is none are left out.\<close>

definition cookie_builders_fix_the_required_attributes_without_issuing_http_cookies :: bool where
  "cookie_builders_fix_the_required_attributes_without_issuing_http_cookies \<longleftrightarrow>
     (let login = login_context_cookie ''a''; session = portal_session_cookie ''b''; csrf = portal_csrf_cookie ''c'' in
      list_all (\<lambda>ck. ck_path ck = Some ''/'' \<and> ck_secure ck \<and> ck_same_site ck = Some Lax) [login, session, csrf]
      \<and> ck_http_only login \<and> ck_http_only session \<and> \<not> ck_http_only csrf)"

section \<open>They pass\<close>

definition portal_unit_tests :: "'c crypto_scheme \<Rightarrow> (nat \<Rightarrow> bytes option) \<Rightarrow> bool list" where
  "portal_unit_tests C rng = [
     service_id_validation_accepts_and_rejects_expected_values,
     auth_foundation_url_validation_accepts_http_and_https_only simple_urls,
     service_secret_empty_is_rejected_without_exposing_its_value,
     capacity_parsing_has_defaults_and_rejects_zero,
     post_login_path_validation_is_exact,
     login_start_create_claim_and_browser_binding_are_one_shot C rng,
     login_start_expiry_capacity_and_cleanup_preserve_valid_records C rng,
     local_session_create_lookup_remove_expiry_and_capacity C rng,
     cleanup_removes_both_expired_kinds_and_restart_invalidates_everything C rng,
     cookie_builders_fix_the_required_attributes_without_issuing_http_cookies]"

lemma portal_boundary_tests:
  "service_id_validation_accepts_and_rejects_expected_values"
  "auth_foundation_url_validation_accepts_http_and_https_only simple_urls"
  "service_secret_empty_is_rejected_without_exposing_its_value" "capacity_parsing_has_defaults_and_rejects_zero"
  "post_login_path_validation_is_exact" "cookie_builders_fix_the_required_attributes_without_issuing_http_cookies"
  by (simp_all add: service_id_validation_accepts_and_rejects_expected_values_def portal_validate_service_id_def Let_def
      portal_service_id_byte_def byte_in_def auth_foundation_url_validation_accepts_http_and_https_only_def
      parse_auth_foundation_base_url_def simple_urls_def simple_parse_def strip_prefix_def simple_mk_def
      service_secret_empty_is_rejected_without_exposing_its_value_def validate_service_secret_def
      capacity_parsing_has_defaults_and_rejects_zero_def parse_capacity_def parse_uint_str_def parse_nat_def parse_digits_def is_digit_def
      digit_value_def post_login_path_validation_is_exact_def validate_post_login_path_def starts_with_def
      PORTAL_POST_LOGIN_PATH_MAX_BYTES_def cookie_builders_fix_the_required_attributes_without_issuing_http_cookies_def
      login_context_cookie_def portal_session_cookie_def portal_csrf_cookie_def)

definition nth_reference :: "'c crypto_scheme \<Rightarrow> (nat \<Rightarrow> bytes option) \<Rightarrow> nat \<Rightarrow> string" where
  "nth_reference C rng n = b64url_encode C (the (rng n))"

locale dependable_draws = crypto_lib C for C :: "'c crypto_scheme" +
  fixes rng :: "nat \<Rightarrow> bytes option"
  assumes each_draw: "\<exists>bs. rng n = Some bs \<and> length bs = 32"
begin

lemma nth_drawn: "random_reference C (rng n) = Some (nth_reference C rng n)"
  using each_draw [of n] by (auto simp: random_reference_def nth_reference_def)

lemma nth_reference_length [simp]: "length (nth_reference C rng n) = 43"
  using each_draw [of n] by (auto simp: nth_reference_def b64url_length)

lemma nth_reference_differs [simp]: "nth_reference C rng n \<noteq> ''wrong''"
proof
  assume "nth_reference C rng n = ''wrong''"
  then have "length (nth_reference C rng n) = length ''wrong''" by (rule arg_cong)
  then show False by simp
qed

lemma first_drawn: "map_of table (nth_reference C rng n) = None \<Longrightarrow>
    fresh_reference C rng table n = Some (Some (nth_reference C rng n), Suc n)"
  by (subst fresh_reference_step(2)) (auto simp: taken_def nth_drawn)

lemma digest_is_no_reference [simp]: "portal_sha256_digest C v \<noteq> nth_reference C rng n"
proof
  assume "portal_sha256_digest C v = nth_reference C rng n"
  then have "length (portal_sha256_digest C v) = 43" by simp
  then show False by (simp add: portal_sha256_digest_def sha256_length)
qed

lemma challenge_length [simp]: "length (sha256_base64url C v) = 43"
  by (simp add: sha256_base64url_def portal_sha256_digest_def b64url_length sha256_length)

lemmas test_simps = create_login_start_def create_local_session_def claim_login_start_def get_local_session_def
  remove_local_session_def cleanup_expired_def new_local_state_def local_state_def Let_def validate_post_login_path_def
  starts_with_def PORTAL_POST_LOGIN_PATH_MAX_BYTES_def checked_add_def LOGIN_START_TTL_SECONDS_def
  LOCAL_SESSION_TTL_SECONDS_def first_drawn nth_drawn

lemma local_state_tests:
  "login_start_create_claim_and_browser_binding_are_one_shot C rng"
  "login_start_expiry_capacity_and_cleanup_preserve_valid_records C rng"
  "local_session_create_lookup_remove_expiry_and_capacity C rng"
  "cleanup_removes_both_expired_kinds_and_restart_invalidates_everything C rng"
  by (simp_all add: login_start_create_claim_and_browser_binding_are_one_shot_def
      login_start_expiry_capacity_and_cleanup_preserve_valid_records_def
      local_session_create_lookup_remove_expiry_and_capacity_def session_expiry_part_def
      cleanup_removes_both_expired_kinds_and_restart_invalidates_everything_def test_simps)

end

interpretation sample_draws: dependable_draws ref_crypto sample_draw
  by unfold_locales (simp add: sample_draw_def)

text \<open>
  C39: The unit tests of the portal's configuration, paths, cookies and local state hold on the
  model, with every random source that never fails and every cryptographic library of the
  contract.
\<close>

theorem portal_unit_tests_pass:
  assumes "crypto_lib C" "\<And>n. \<exists>bs. rng n = Some bs \<and> length bs = 32"
  shows "list_all id (portal_unit_tests C rng)"
proof -
  have "dependable_draws C rng" using assms by (simp add: dependable_draws_def dependable_draws_axioms_def)
  then show ?thesis by (simp add: portal_unit_tests_def portal_boundary_tests dependable_draws.local_state_tests)
qed

theorem portal_unit_tests_pass_witness: "list_all id (portal_unit_tests ref_crypto sample_draw)"
  by (rule portal_unit_tests_pass [OF reference.crypto_lib_axioms]) (simp add: sample_draw_def)

end
