(* ===== verification/Portal_Scenarios.thy ===== *)
theory Portal_Scenarios
  imports System_Flow Portal_Tests
begin

text \<open>
  The tests of \<open>portal_backend/src/main.rs\<close> that run its handlers and routes, as predicates over the
  model: a browser, a fake exchange server that records what it receives, and the local state that
  each request leaves to the next.  The cookie crate is the parameter \<open>pe_split_parse\<close>; the locale
  \<open>cookie_lib\<close> says what the tests need of it.
\<close>

section \<open>The cookie library\<close>

definition cookie_byte :: "char \<Rightarrow> bool" where
  "cookie_byte c \<longleftrightarrow> is_alphanumeric c \<or> c = CHR ''-'' \<or> c = CHR ''_''"

definition clean_cookie :: "string \<times> string \<Rightarrow> bool" where
  "clean_cookie p \<longleftrightarrow> fst p \<noteq> [] \<and> list_all cookie_byte (fst p) \<and> list_all cookie_byte (snd p)"

fun cookie_text :: "(string \<times> string) list \<Rightarrow> string" where
  "cookie_text [] = []"
| "cookie_text [(n, v)] = n @ ''='' @ v"
| "cookie_text ((n, v) # p # ps) = n @ ''='' @ v @ ''; '' @ cookie_text (p # ps)"

locale cookie_lib =
  fixes parse :: split_parse
  assumes split_text: "ps \<noteq> [] \<Longrightarrow> list_all clean_cookie ps \<Longrightarrow> parse (cookie_text ps) = map Ok ps"
begin

lemma scan_text: "ps \<noteq> [] \<Longrightarrow> list_all clean_cookie ps \<Longrightarrow>
    scan_cookies name (parse (cookie_text ps)) found = scan_cookies name (map Ok ps) found"
  by (simp add: split_text)

end

text \<open>An instance: the pieces between semicolons, without leading spaces, cut at the first \<open>=\<close>.\<close>

definition cookie_piece :: "string \<Rightarrow> (string \<times> string, unit) result" where
  "cookie_piece s = ok_or (split_once (CHR ''='') (dropWhile (\<lambda>c. c = CHR '' '') s)) ()"

function simple_cookies :: split_parse where
  "simple_cookies s = (case split_once (CHR '';'') s of
      None \<Rightarrow> [cookie_piece s] | Some (a, r) \<Rightarrow> cookie_piece a # simple_cookies r)"
  by pat_completeness auto
termination
  by (relation "measure length") (auto simp: split_once_Some_iff)

declare simple_cookies.simps [simp del]

lemma clean_pieces:
  assumes "clean_cookie (n, v)" "sp \<in> {[], '' ''}"
  shows "cookie_piece (sp @ n @ CHR ''='' # v) = Ok (n, v)" "CHR '';'' \<notin> set (sp @ n @ CHR ''='' # v)"
proof -
  from assms(1) obtain c m where n: "n = c # m" by (cases n) (auto simp: clean_cookie_def)
  have bytes: "\<And>x. x \<in> set n \<union> set v \<Longrightarrow> cookie_byte x" using assms(1) by (auto simp: clean_cookie_def list_all_iff)
  have others: "\<not> cookie_byte CHR '';''" "\<not> cookie_byte CHR ''=''" "\<not> cookie_byte CHR '' ''"
    by (simp_all add: cookie_byte_def byte_class_defs)
  then have "CHR '';'' \<notin> set n" "CHR '';'' \<notin> set v" "CHR ''='' \<notin> set n" "c \<noteq> CHR '' ''"
    using bytes n by (fastforce, fastforce, fastforce, fastforce)
  then show "cookie_piece (sp @ n @ CHR ''='' # v) = Ok (n, v)" "CHR '';'' \<notin> set (sp @ n @ CHR ''='' # v)"
    using assms(2) split_once_append [of "CHR ''=''" n v] by (auto simp: cookie_piece_def n)
qed

lemma simple_cookies_text:
  "ps \<noteq> [] \<Longrightarrow> list_all clean_cookie ps \<Longrightarrow> sp \<in> {[], '' ''} \<Longrightarrow> simple_cookies (sp @ cookie_text ps) = map Ok ps"
proof (induction ps arbitrary: sp rule: cookie_text.induct)
  case (2 n v)
  then have "clean_cookie (n, v)" by simp
  note piece = clean_pieces [OF this 2(3)]
  then have "split_once (CHR '';'') (sp @ n @ CHR ''='' # v) = None" by (simp add: split_once_None_iff)
  then show ?case using piece(1) by (subst simple_cookies.simps) simp
next
  case (3 n v p ps)
  then have "clean_cookie (n, v)" by simp
  note piece = clean_pieces [OF this 3(4)]
  have "split_once (CHR '';'') ((sp @ n @ CHR ''='' # v) @ CHR '';'' # '' '' @ cookie_text (p # ps)) =
      Some (sp @ n @ CHR ''='' # v, '' '' @ cookie_text (p # ps))"
    using piece(2) by (rule split_once_append)
  moreover have "simple_cookies ('' '' @ cookie_text (p # ps)) = map Ok (p # ps)" using 3(3) by (intro "3.IH") auto
  ultimately show ?case using piece(1) by (subst simple_cookies.simps) simp
qed simp

interpretation simple_jar: cookie_lib simple_cookies
  by unfold_locales (use simple_cookies_text [where sp = "[]"] in simp)

section \<open>The test bench\<close>

record 'c bench =
  bn_crypto :: "'c crypto_scheme"
  bn_rng :: "nat \<Rightarrow> bytes option"
  bn_parse :: split_parse
  bn_now :: u64

text \<open>What the fake server has received, in order: the URL, the Basic credentials and the JSON body.\<close>

type_synonym exchange_log = "(simple_url \<times> (string \<times> string) \<times> json) list"

type_synonym exchange_post =
  "http_client \<Rightarrow> simple_url \<Rightarrow> string \<times> string \<Rightarrow> json \<Rightarrow> exchange_log \<Rightarrow> (nat \<times> json option) option \<times> exchange_log"

text \<open>
  \<open>spawn_exchange_server\<close>: it accepts one request and answers it, or closes the connection without
  an answer; nobody listens afterwards.  \<open>nobody_listens\<close> is a port that was closed again, and
  \<open>redirecting_server\<close> answers with a redirect, which a client that follows it would send on.
\<close>

definition spawn_exchange_server :: "(nat \<times> json option) option \<Rightarrow> exchange_post" where
  "spawn_exchange_server response client url credentials j log =
     (if log = [] then (response, [(url, credentials, j)]) else (None, log))"

definition nobody_listens :: exchange_post where
  "nobody_listens client url credentials j log = (None, log)"

definition redirecting_server :: exchange_post where
  "redirecting_server client url credentials j log =
     (if hc_follows_redirects client
      then (None, log @ [(url, credentials, j), (url\<lparr>su_path := ''/should-not-receive''\<rparr>, credentials, j)])
      else (Some (307, None), log @ [(url, credentials, j)]))"

definition url_at :: "string \<Rightarrow> string \<Rightarrow> simple_url" where
  "url_at scheme host = \<lparr>su_scheme = scheme, su_host = host, su_path = ''/'', su_query = []\<rparr>"

text \<open>\<open>test_state\<close>: the configuration and client in the environment, the local state in the world.\<close>

definition test_env :: "'c bench \<Rightarrow> simple_url \<Rightarrow> usize \<Rightarrow> usize \<Rightarrow> exchange_post \<Rightarrow> (simple_url, exchange_log) portal_env" where
  "test_env B base_url login_capacity session_capacity post = \<lparr>
     pe_config = \<lparr>ac_service_id = ''portal-test'', ac_service_secret = ''test-secret'', ac_auth_foundation_base_url = base_url,
        ac_login_start_capacity = login_capacity, ac_local_session_capacity = session_capacity\<rparr>,
     pe_client = build_http_client, pe_urls = simple_urls, pe_rng = bn_rng B,
     pe_clock = (\<lambda>_. uint (bn_now B) * 1000000000), pe_timestamp = (\<lambda>_. ''''), pe_split_parse = bn_parse B,
     pe_others = (\<lambda>_ st. st), pe_post = post\<rparr>"

definition test_world :: "usize \<Rightarrow> usize \<Rightarrow> exchange_log portal_world" where
  "test_world login_capacity session_capacity = \<lparr>pw_local = new_local_state login_capacity session_capacity,
     pw_draws = 0, pw_ticks = 0, pw_locks = 0, pw_remote = []\<rparr>"

definition has_status :: "nat \<Rightarrow> response run \<Rightarrow> bool" where
  "has_status n x = (case x of Done r \<Rightarrow> resp_status r = n | _ \<Rightarrow> False)"

definition header_cookie :: "response run \<Rightarrow> string \<Rightarrow> cookie option" where
  "header_cookie x name = (case x of Done r \<Rightarrow> List.find (\<lambda>ck. ck_name ck = name) (resp_cookies r) | _ \<Rightarrow> None)"

definition location_of :: "response run \<Rightarrow> string option" where
  "location_of x = (case x of Done r \<Rightarrow> location r | _ \<Rightarrow> None)"

text \<open>The path and the query pairs of a location on the host of the base URL.\<close>

definition location_parts :: "simple_url \<Rightarrow> string option \<Rightarrow> (string \<times> (string \<times> string) list) option" where
  "location_parts base_url target = (case target of None \<Rightarrow> None | Some t \<Rightarrow>
     (case split_once (CHR ''?'') t of None \<Rightarrow> None | Some (before, query) \<Rightarrow>
        (case strip_prefix (su_scheme base_url @ ''://'' @ su_host base_url) before of None \<Rightarrow> None | Some path \<Rightarrow> Some (path, form_parse query))))"

definition started_login :: "'c crypto_scheme \<Rightarrow> (simple_url, 'r) portal_env \<Rightarrow> 'r portal_world \<Rightarrow> (string \<times> string \<times> 'r portal_world) option" where
  "started_login C E w = (case run_handler (portal_login C E) w of (response, w1) \<Rightarrow>
     if \<not> has_status 302 response then None
     else case location_parts (ac_auth_foundation_base_url (pe_config E)) (location_of response) of
         None \<Rightarrow> None
       | Some (_, pairs) \<Rightarrow>
         (case (map_of pairs ''state'', header_cookie response PORTAL_LOGIN_CONTEXT_COOKIE_NAME) of
            (Some state, Some ck) \<Rightarrow> Some (state, ck_value ck, w1)
          | _ \<Rightarrow> None))"

definition created_session ::
    "'c crypto_scheme \<Rightarrow> (simple_url, 'r) portal_env \<Rightarrow> i32 \<Rightarrow> u64 \<Rightarrow> 'r portal_world \<Rightarrow> (string \<times> string \<times> 'r portal_world) option" where
  "created_session C E internal_user_id authenticated_at w =
     (case unix_epoch_seconds (pe_clock E 0) of
        Done now \<Rightarrow>
          (case create_local_session C (pe_rng E) internal_user_id authenticated_at now (pw_local w, pw_draws w) of
             (Done (Inr (sref, csrf)), st, n) \<Rightarrow> Some (sref, csrf, w\<lparr>pw_local := st, pw_draws := n\<rparr>)
           | _ \<Rightarrow> None)
      | _ \<Rightarrow> None)"

text \<open>The updates the tests make under the mutex.\<close>

definition edit_start :: "string \<Rightarrow> (login_start \<Rightarrow> login_start) \<Rightarrow> 'r portal_world \<Rightarrow> 'r portal_world" where
  "edit_start key f w = w\<lparr>pw_local := (pw_local w)\<lparr>login_starts :=
     map (\<lambda>(k, s). (k, if k = key then f s else s)) (login_starts (pw_local w))\<rparr>\<rparr>"

definition edit_session :: "string \<Rightarrow> (local_session \<Rightarrow> local_session) \<Rightarrow> 'r portal_world \<Rightarrow> 'r portal_world" where
  "edit_session key f w = w\<lparr>pw_local := (pw_local w)\<lparr>local_sessions :=
     map (\<lambda>(k, s). (k, if k = key then f s else s)) (local_sessions (pw_local w))\<rparr>\<rparr>"

definition start_stored :: "string \<Rightarrow> 'r portal_world \<Rightarrow> bool" where
  "start_stored key w \<longleftrightarrow> map_of (login_starts (pw_local w)) key \<noteq> None"

definition session_stored :: "string \<Rightarrow> 'r portal_world \<Rightarrow> bool" where
  "session_stored key w \<longleftrightarrow> map_of (local_sessions (pw_local w)) key \<noteq> None"

definition raw_callback_query :: "string \<Rightarrow> string \<Rightarrow> string" where
  "raw_callback_query code state = ''code='' @ code @ ''&state='' @ state"

definition context_cookie :: "string \<Rightarrow> string option" where
  "context_cookie v = Some (cookie_text [(PORTAL_LOGIN_CONTEXT_COOKIE_NAME, v)])"

text \<open>A request to the routes; None is a rejection, which the framework answers.\<close>

definition route_reply :: "'c crypto_scheme \<Rightarrow> ('u, 'r) portal_env \<Rightarrow> portal_request \<Rightarrow> 'r portal_world \<Rightarrow> response run option \<times> 'r portal_world" where
  "route_reply C E request w = (case routes C E request of None \<Rightarrow> (None, w)
     | Some handler \<Rightarrow> (case run_handler handler w of (x, w1) \<Rightarrow> (Some x, w1)))"

definition requested :: "http_method \<Rightarrow> string \<Rightarrow> (string \<times> string) list \<Rightarrow> portal_request" where
  "requested method path headers = \<lparr>prq_method = method, prq_path = path, prq_query = None, prq_headers = headers\<rparr>"

text \<open>The requests of a loop: each must be answered as \<open>P\<close> says, and the next finds what it left.\<close>

fun each_request ::
    "'c crypto_scheme \<Rightarrow> ('u, 'r) portal_env \<Rightarrow> (response run \<Rightarrow> 'r portal_world \<Rightarrow> bool) \<Rightarrow> portal_request list \<Rightarrow> 'r portal_world
     \<Rightarrow> 'r portal_world option" where
  "each_request C E P [] w = Some w"
| "each_request C E P (request # rest) w =
     (case route_reply C E request w of
        (Some response, w1) \<Rightarrow> if P response w1 then each_request C E P rest w1 else None
      | (None, _) \<Rightarrow> None)"

section \<open>Login and callback\<close>

definition login_redirect_has_only_the_authentication_contract_and_context_cookie :: "'c bench \<Rightarrow> bool" where
  "login_redirect_has_only_the_authentication_contract_and_context_cookie B \<longleftrightarrow>
     (let base_url = \<lparr>su_scheme = ''https'', su_host = ''auth.example'', su_path = ''/ignored'', su_query = [(''x'', ''y'')]\<rparr>;
          E = test_env B base_url 2 2 nobody_listens in
      case run_handler (portal_login (bn_crypto B) E) (test_world 2 2) of (response, _) \<Rightarrow>
        has_status 302 response
        \<and> (case location_parts base_url (location_of response) of
             Some (path, pairs) \<Rightarrow>
               path = ''/auth/login'' \<and> card (dom (map_of pairs)) = 4
               \<and> map_of pairs ''service_id'' = Some ''portal-test''
               \<and> map_of pairs ''code_challenge_method'' = Some ''S256''
               \<and> list_all (\<lambda>name. case map_of pairs name of None \<Rightarrow> False | Some v \<Rightarrow> is_fixed_reference v)
                   [''state'', ''code_challenge'']
               \<and> list_all (\<lambda>name. map_of pairs name = None)
                   [''service_secret'', ''code_verifier'', ''browser_context_reference'', ''post_login_path'']
           | None \<Rightarrow> False)
        \<and> (case header_cookie response PORTAL_LOGIN_CONTEXT_COOKIE_NAME of
             Some ck \<Rightarrow> ck_path ck = Some ''/'' \<and> ck_secure ck \<and> ck_http_only ck \<and> ck_same_site ck = Some Lax
           | None \<Rightarrow> False))"

definition exchange_answer :: "nat \<times> json option" where
  "exchange_answer = (200, Some (JObject [(''internal_user_id'', JNum 123), (''authenticated_at'', JNum 456)]))"

definition callback_exchanges_once_creates_session_and_deletes_login_context :: "'c bench \<Rightarrow> bool" where
  "callback_exchanges_once_creates_session_and_deletes_login_context B \<longleftrightarrow>
     (let C = bn_crypto B; E = test_env B (url_at ''http'' ''127.0.0.1:9'') 2 2 (spawn_exchange_server (Some exchange_answer)) in
      case started_login C E (test_world 2 2) of None \<Rightarrow> False | Some (state, context, w1) \<Rightarrow>
      case run_handler (portal_callback C E (raw_callback_query (repeated 43 ''A'') state) (context_cookie context)) w1 of (response, w2) \<Rightarrow>
        has_status 302 response \<and> location_of response = Some ''/''
        \<and> (case pw_remote w2 of
             [(url, credentials, j)] \<Rightarrow>
               su_path url = ''/auth/handoffs/exchange'' \<and> su_query url = []
               \<and> basic_auth C (fst credentials) (snd credentials) = ''Basic cG9ydGFsLXRlc3Q6dGVzdC1zZWNyZXQ=''
               \<and> (case j of JObject fs \<Rightarrow> map_of fs ''code'' \<noteq> None
                    \<and> (case map_of fs ''code_verifier'' of Some (JStr v) \<Rightarrow> is_fixed_reference v | _ \<Rightarrow> False) | _ \<Rightarrow> False)
           | _ \<Rightarrow> False)
        \<and> (case (header_cookie response PORTAL_SESSION_COOKIE_NAME, header_cookie response PORTAL_CSRF_COOKIE_NAME,
                header_cookie response PORTAL_LOGIN_CONTEXT_COOKIE_NAME) of
             (Some session, Some csrf, Some deleted) \<Rightarrow>
               ck_http_only session \<and> \<not> ck_http_only csrf \<and> ck_max_age deleted = Some 0
           | _ \<Rightarrow> False)
        \<and> map (loc_authenticated_at \<circ> snd) (local_sessions (pw_local w2)) = [456])"

definition callback_invalid_and_wrong_browser_do_not_exchange_or_delete_context :: "'c bench \<Rightarrow> bool" where
  "callback_invalid_and_wrong_browser_do_not_exchange_or_delete_context B \<longleftrightarrow>
     (let C = bn_crypto B; E = test_env B (url_at ''http'' ''127.0.0.1:9'') 3 3 nobody_listens;
          ask = (\<lambda>state cookie. run_handler (portal_callback C E (raw_callback_query (repeated 43 ''A'') state) cookie)) in
      list_all (\<lambda>query. case run_handler (portal_callback C E query None) (test_world 3 3) of (response, w) \<Rightarrow>
          has_status 400 response \<and> header_cookie response PORTAL_LOGIN_CONTEXT_COOKIE_NAME = None \<and> w = test_world 3 3)
        ['''', ''code='', ''state='', ''code=a&code=b&state=c'', ''code=a&state=b&extra=c'']
      \<and> (case started_login C E (test_world 3 3) of None \<Rightarrow> False | Some (state, context, w1) \<Rightarrow>
         case ask state None w1 of (missing_cookie, w2) \<Rightarrow>
           has_status 400 missing_cookie \<and> start_stored state w2
           \<and> (case ask state (context_cookie (repeated 43 ''B'')) w2 of (wrong, w3) \<Rightarrow>
             has_status 400 wrong \<and> header_cookie wrong PORTAL_LOGIN_CONTEXT_COOKIE_NAME = None \<and> start_stored state w3
             \<and> (case ask state (context_cookie context) w3 of (retry, w4) \<Rightarrow>
               has_status 502 retry \<and> header_cookie retry PORTAL_LOGIN_CONTEXT_COOKIE_NAME \<noteq> None
               \<and> (case ask state (context_cookie context) w4 of (reused, w5) \<Rightarrow>
                 has_status 400 reused \<and> header_cookie reused PORTAL_LOGIN_CONTEXT_COOKIE_NAME = None
                 \<and> (case started_login C E w5 of None \<Rightarrow> False | Some (expired_state, expired_context, w6) \<Rightarrow>
                    case ask expired_state (context_cookie expired_context)
                        (edit_start expired_state (\<lambda>s. s\<lparr>lst_expires_at := bn_now B\<rparr>) w6) of (expired, _) \<Rightarrow>
                      has_status 400 expired \<and> header_cookie expired PORTAL_LOGIN_CONTEXT_COOKIE_NAME = None))))))"

text \<open>A login whose exchange gives no user: the context is deleted, and neither table keeps anything.\<close>

definition exchange_fails :: "'c bench \<Rightarrow> exchange_post \<Rightarrow> nat \<Rightarrow> bool" where
  "exchange_fails B post requests \<longleftrightarrow>
     (let C = bn_crypto B; E = test_env B (url_at ''http'' ''127.0.0.1:9'') 2 2 post in
      case started_login C E (test_world 2 2) of None \<Rightarrow> False | Some (state, context, w1) \<Rightarrow>
      case run_handler (portal_callback C E (raw_callback_query (repeated 43 ''A'') state) (context_cookie context)) w1 of (result, w2) \<Rightarrow>
        has_status 502 result
        \<and> header_cookie result PORTAL_LOGIN_CONTEXT_COOKIE_NAME \<noteq> None
        \<and> header_cookie result PORTAL_SESSION_COOKIE_NAME = None
        \<and> \<not> start_stored state w2 \<and> local_sessions (pw_local w2) = []
        \<and> length (pw_remote w2) = requests)"

definition callback_exchange_failures_consume_login_and_never_create_session :: "'c bench \<Rightarrow> bool" where
  "callback_exchange_failures_consume_login_and_never_create_session B \<longleftrightarrow>
     list_all (\<lambda>response. exchange_fails B (spawn_exchange_server (Some response)) 1)
       [(400, None), (401, None), (403, None), (503, None), (200, None)]"

definition callback_connection_failure_and_response_loss_are_single_use_failures :: "'c bench \<Rightarrow> bool" where
  "callback_connection_failure_and_response_loss_are_single_use_failures B \<longleftrightarrow>
     exchange_fails B nobody_listens 0 \<and> exchange_fails B (spawn_exchange_server None) 1"

definition callback_does_not_follow_exchange_redirects :: "'c bench \<Rightarrow> bool" where
  "callback_does_not_follow_exchange_redirects B \<longleftrightarrow> exchange_fails B redirecting_server 1"

definition callback_session_capacity_consumes_handoff_and_deletes_context :: "'c bench \<Rightarrow> bool" where
  "callback_session_capacity_consumes_handoff_and_deletes_context B \<longleftrightarrow>
     (let C = bn_crypto B; E = test_env B (url_at ''http'' ''127.0.0.1:9'') 2 1 (spawn_exchange_server (Some exchange_answer)) in
      case created_session C E 99 100 (test_world 2 1) of None \<Rightarrow> False | Some (_, _, w0) \<Rightarrow>
      case started_login C E w0 of None \<Rightarrow> False | Some (state, context, w1) \<Rightarrow>
      case run_handler (portal_callback C E (raw_callback_query (repeated 43 ''A'') state) (context_cookie context)) w1 of (result, w2) \<Rightarrow>
        has_status 503 result
        \<and> header_cookie result PORTAL_LOGIN_CONTEXT_COOKIE_NAME \<noteq> None
        \<and> header_cookie result PORTAL_SESSION_COOKIE_NAME = None
        \<and> header_cookie result PORTAL_CSRF_COOKIE_NAME = None
        \<and> length (pw_remote w2) = 1
        \<and> \<not> start_stored state w2 \<and> length (local_sessions (pw_local w2)) = 1)"

definition login_capacity_does_not_issue_a_cookie_or_redirect :: "'c bench \<Rightarrow> bool" where
  "login_capacity_does_not_issue_a_cookie_or_redirect B \<longleftrightarrow>
     (let C = bn_crypto B; E = test_env B (url_at ''https'' ''auth.example'') 1 1 nobody_listens in
      case started_login C E (test_world 1 1) of None \<Rightarrow> False | Some (_, _, w1) \<Rightarrow>
      case run_handler (portal_login C E) w1 of (response, w2) \<Rightarrow>
        has_status 503 response \<and> location_of response = None
        \<and> header_cookie response PORTAL_LOGIN_CONTEXT_COOKIE_NAME = None
        \<and> length (login_starts (pw_local w2)) = 1)"

section \<open>Sessions\<close>

definition session_cookie :: "string \<Rightarrow> string" where
  "session_cookie v = cookie_text [(PORTAL_SESSION_COOKIE_NAME, v)]"

definition csrf_cookie :: "string \<Rightarrow> string" where
  "csrf_cookie v = cookie_text [(PORTAL_CSRF_COOKIE_NAME, v)]"

text \<open>The cookies of a session, and a logout request with them.\<close>

definition both_cookies :: "string \<Rightarrow> string \<Rightarrow> string" where
  "both_cookies session csrf = cookie_text [(PORTAL_SESSION_COOKIE_NAME, session), (PORTAL_CSRF_COOKIE_NAME, csrf)]"

definition logout_request :: "string \<Rightarrow> string \<Rightarrow> portal_request" where
  "logout_request cookies csrf = requested POST ''/logout'' [(''cookie'', cookies), (''x-csrf-token'', csrf)]"

definition protected_api_uses_only_one_valid_local_session_cookie :: "'c bench \<Rightarrow> bool" where
  "protected_api_uses_only_one_valid_local_session_cookie B \<longleftrightarrow>
     (let C = bn_crypto B; E = test_env B (url_at ''https'' ''auth.example'') 2 10 nobody_listens;
          me = requested GET ''/api/me''; name = PORTAL_SESSION_COOKIE_NAME in
      case created_session C E 123 456 (test_world 2 10) of None \<Rightarrow> False | Some (sref, _, w0) \<Rightarrow>
      (case route_reply C E (me [(''cookie'', session_cookie sref)]) w0 of
         (Some (Done success), w1) \<Rightarrow>
           resp_status success = 200
           \<and> resp_body success = Json (JObject [(''authenticated'', JBool True), (''internal_user_id'', JNum 123)])
           \<and> session_stored sref w1
           \<and> each_request C E (\<lambda>response w. has_status 401 response)
               [me [], me [(''cookie'', cookie_text [(name, ''bad'')])],
                me [(''cookie'', cookie_text [(name, sref), (name, sref)])],
                me [(''cookie'', cookie_text [(name, repeated 43 ''A'')])],
                me [(''cookie'', cookie_text [(''jwt'', ''old-token'')])],
                me [(''cookie'', cookie_text [(''session_id'', ''old-session'')])],
                me [(''authorization'', ''Bearer old-token'')]] w1 \<noteq> None
       | _ \<Rightarrow> False)
      \<and> each_request C E (\<lambda>response w. has_status 401 response) [me [(''cookie'', session_cookie sref)]] (test_world 2 10) \<noteq> None)"

definition protected_api_rejects_expired_local_session :: "'c bench \<Rightarrow> bool" where
  "protected_api_rejects_expired_local_session B \<longleftrightarrow>
     (let C = bn_crypto B; E = test_env B (url_at ''https'' ''auth.example'') 2 10 nobody_listens in
      case created_session C E 123 456 (test_world 2 10) of None \<Rightarrow> False | Some (sref, _, w0) \<Rightarrow>
      case route_reply C E (requested GET ''/api/me'' [(''cookie'', session_cookie sref)])
          (edit_session sref (\<lambda>s. s\<lparr>loc_expires_at := 0\<rparr>) w0) of
        (Some response, w1) \<Rightarrow> has_status 401 response \<and> \<not> session_stored sref w1
      | _ \<Rightarrow> False)"

definition logout_deletes_only_a_fully_valid_local_session :: "'c bench \<Rightarrow> bool" where
  "logout_deletes_only_a_fully_valid_local_session B \<longleftrightarrow>
     (let C = bn_crypto B; E = test_env B (url_at ''https'' ''auth.example'') 2 10 nobody_listens in
      case created_session C E 123 456 (test_world 2 10) of None \<Rightarrow> False | Some (sref, csrf, w0) \<Rightarrow>
      case route_reply C E (logout_request (both_cookies sref csrf) csrf) w0 of
        (Some (Done response), w1) \<Rightarrow>
          resp_status response = 204 \<and> resp_body response = NoBody \<and> location response = None \<and> \<not> session_stored sref w1
          \<and> list_all (\<lambda>(name, http_only). case header_cookie (Done response) name of None \<Rightarrow> False | Some ck \<Rightarrow>
                ck_value ck = '''' \<and> ck_path ck = Some ''/'' \<and> ck_secure ck \<and> ck_http_only ck = http_only
                \<and> ck_same_site ck = Some Lax \<and> ck_max_age ck = Some 0)
              [(PORTAL_SESSION_COOKIE_NAME, True), (PORTAL_CSRF_COOKIE_NAME, False)]
          \<and> (case route_reply C E (requested GET ''/api/me'' [(''cookie'', session_cookie sref)]) w1 of
               (Some gone, w2) \<Rightarrow>
                 has_status 401 gone
                 \<and> (case route_reply C E (requested GET ''/logout'' []) w2 of
                      (None, _) \<Rightarrow> True | (Some other, _) \<Rightarrow> \<not> has_status 200 other)
             | _ \<Rightarrow> False)
      | _ \<Rightarrow> False)"

definition logout_failures_are_forbidden_and_preserve_valid_session :: "'c bench \<Rightarrow> bool" where
  "logout_failures_are_forbidden_and_preserve_valid_session B \<longleftrightarrow>
     (let C = bn_crypto B; E = test_env B (url_at ''https'' ''auth.example'') 2 10 nobody_listens;
          sname = PORTAL_SESSION_COOKIE_NAME; cname = PORTAL_CSRF_COOKIE_NAME; post = requested POST ''/logout'' in
      case created_session C E 123 456 (test_world 2 10) of None \<Rightarrow> False | Some (sref, csrf, w0) \<Rightarrow>
      let valid_cookies = both_cookies sref csrf;
          forbidden = (\<lambda>response w. has_status 403 response
            \<and> (case response of Done r \<Rightarrow> resp_cookies r = [] | _ \<Rightarrow> False) \<and> session_stored sref w) in
      case each_request C E forbidden
          [post [],
           logout_request (csrf_cookie csrf) csrf,
           logout_request (both_cookies (repeated 43 ''A'') csrf) csrf,
           post [(''cookie'', valid_cookies)],
           logout_request (session_cookie sref) csrf,
           post [(''cookie'', valid_cookies), (''x-csrf-token'', csrf), (''x-csrf-token'', csrf)],
           post [(''cookie'', valid_cookies), (''cookie'', session_cookie sref), (''x-csrf-token'', csrf)],
           logout_request (cookie_text [(sname, ''bad''), (cname, csrf)]) csrf,
           logout_request (cookie_text [(sname, sref), (sname, sref), (cname, csrf)]) csrf,
           logout_request (cookie_text [(sname, sref), (cname, ''bad'')]) csrf,
           logout_request (cookie_text [(sname, sref), (cname, csrf), (cname, csrf)]) csrf,
           logout_request valid_cookies ''bad'',
           logout_request valid_cookies (repeated 43 ''A'')] w0 of
        None \<Rightarrow> False
      | Some w1 \<Rightarrow>
          each_request C E forbidden [logout_request valid_cookies csrf]
            (edit_session sref (\<lambda>s. s\<lparr>loc_csrf_lookup := replicate 32 (CHR 0x00)\<rparr>) w1) \<noteq> None)"

definition expired_and_restarted_local_sessions_cannot_logout :: "'c bench \<Rightarrow> bool" where
  "expired_and_restarted_local_sessions_cannot_logout B \<longleftrightarrow>
     (let C = bn_crypto B; E = test_env B (url_at ''https'' ''auth.example'') 2 10 nobody_listens in
      case created_session C E 123 456 (test_world 2 10) of None \<Rightarrow> False | Some (sref, csrf, w0) \<Rightarrow>
      let logout = logout_request (both_cookies sref csrf) csrf in
      each_request C E (\<lambda>response w. has_status 403 response \<and> \<not> session_stored sref w) [logout]
        (edit_session sref (\<lambda>s. s\<lparr>loc_expires_at := 0\<rparr>) w0) \<noteq> None
      \<and> each_request C E (\<lambda>response w. has_status 403 response) [logout] (test_world 2 10) \<noteq> None)"

text \<open>
  Of the two concurrent logouts, the second gets the mutex before the first (\<open>earlier\<close>) or after
  it: the mutex is held from the lookup of a session to its removal.
\<close>

definition concurrent_logout_has_exactly_one_success :: "'c bench \<Rightarrow> bool \<Rightarrow> bool" where
  "concurrent_logout_has_exactly_one_success B earlier \<longleftrightarrow>
     (let C = bn_crypto B; E = test_env B (url_at ''https'' ''auth.example'') 2 10 nobody_listens in
      case created_session C E 123 456 (test_world 2 10) of None \<Rightarrow> False | Some (sref, csrf, w0) \<Rightarrow>
      let logout = logout_request (both_cookies sref csrf) csrf;
          other = (\<lambda>st. pw_local (snd (route_reply C E logout (w0\<lparr>pw_local := st\<rparr>))));
          raced = E\<lparr>pe_others := (\<lambda>n st. if earlier then other st else st)\<rparr> in
      case route_reply C raced logout w0 of (one, w1) \<Rightarrow>
      case route_reply C E logout (if earlier then w0 else w1) of (two, w2) \<Rightarrow>
        list_all (\<lambda>n. length (filter (\<lambda>x. case x of Some r \<Rightarrow> has_status n r | None \<Rightarrow> False) [one, two]) = 1) [204, 403]
        \<and> \<not> session_stored sref w1 \<and> \<not> session_stored sref w2)"

section \<open>Evaluating them\<close>

lemma cookie_byte_header: "cookie_byte c \<Longrightarrow> header_byte c"
  using b64url_header_byte [of c] by (auto simp: cookie_byte_def b64url_byte_def)

lemma unreserved_header: "unreserved c \<Longrightarrow> header_value_byte c"
proof -
  have "header_byte c \<Longrightarrow> header_value_byte c" by (auto simp: header_byte_def header_value_byte_def byte_in_def)
  then show "unreserved c \<Longrightarrow> header_value_byte c"
    using b64url_header_byte [of c] by (auto simp: unreserved_def b64url_byte_def) (simp add: header_value_byte_def)
qed

lemma fixed_reference_bytes:
  assumes "is_fixed_reference v"
  shows "list_all cookie_byte v" "list_all header_byte v" "list_all unreserved v" "header_value v"
proof -
  have "list_all (\<lambda>b. is_alphanumeric b \<or> b = CHR ''_'' \<or> b = CHR ''-'') v" using assms by (simp add: is_fixed_reference_def)
  then show bytes: "list_all cookie_byte v" "list_all unreserved v" by (auto simp: list_all_iff cookie_byte_def unreserved_def)
  then show "list_all header_byte v" by (auto simp: list_all_iff cookie_byte_header)
  show "header_value v" using assms fixed_reference_iff reference_header by blast
qed

lemma cookie_text_bytes: "list_all clean_cookie ps \<Longrightarrow> list_all header_byte (cookie_text ps)"
proof -
  have "header_byte CHR ''=''" "header_byte CHR '';''" "header_byte CHR '' ''" by (simp_all add: header_byte_def byte_in_def)
  then show "list_all clean_cookie ps \<Longrightarrow> list_all header_byte (cookie_text ps)"
    by (induction ps rule: cookie_text.induct) (auto simp: clean_cookie_def list_all_iff cookie_byte_header)
qed

lemma to_str_text: "list_all clean_cookie ps \<Longrightarrow> to_str (cookie_text ps) = Some (cookie_text ps)"
  by (simp add: to_str_Some_iff cookie_text_bytes)

lemma to_str_reference: "is_fixed_reference v \<Longrightarrow> to_str v = Some v" "to_str ''bad'' = Some ''bad''"
  by (simp_all add: to_str_Some_iff fixed_reference_bytes(2)) (simp add: header_byte_def byte_in_def)

lemma clean_cookies:
  "is_fixed_reference v \<Longrightarrow> clean_cookie (PORTAL_LOGIN_CONTEXT_COOKIE_NAME, v)"
  "is_fixed_reference v \<Longrightarrow> clean_cookie (PORTAL_SESSION_COOKIE_NAME, v)"
  "is_fixed_reference v \<Longrightarrow> clean_cookie (PORTAL_CSRF_COOKIE_NAME, v)"
  "clean_cookie (PORTAL_SESSION_COOKIE_NAME, ''bad'')" "clean_cookie (PORTAL_CSRF_COOKIE_NAME, ''bad'')"
  "clean_cookie (''jwt'', ''old-token'')" "clean_cookie (''session_id'', ''old-session'')"
  by (simp_all add: clean_cookie_def fixed_reference_bytes(1) PORTAL_LOGIN_CONTEXT_COOKIE_NAME_def
      PORTAL_SESSION_COOKIE_NAME_def PORTAL_CSRF_COOKIE_NAME_def)
    (simp_all add: cookie_byte_def byte_class_defs)

lemma cookie_names [simp]:
  "PORTAL_LOGIN_CONTEXT_COOKIE_NAME \<noteq> PORTAL_SESSION_COOKIE_NAME" "PORTAL_LOGIN_CONTEXT_COOKIE_NAME \<noteq> PORTAL_CSRF_COOKIE_NAME"
  "PORTAL_SESSION_COOKIE_NAME \<noteq> PORTAL_CSRF_COOKIE_NAME" "PORTAL_SESSION_COOKIE_NAME \<noteq> PORTAL_LOGIN_CONTEXT_COOKIE_NAME"
  "PORTAL_CSRF_COOKIE_NAME \<noteq> PORTAL_LOGIN_CONTEXT_COOKIE_NAME" "PORTAL_CSRF_COOKIE_NAME \<noteq> PORTAL_SESSION_COOKIE_NAME"
  "''jwt'' \<noteq> PORTAL_SESSION_COOKIE_NAME" "''session_id'' \<noteq> PORTAL_SESSION_COOKIE_NAME"
  by (simp_all add: PORTAL_LOGIN_CONTEXT_COOKIE_NAME_def PORTAL_SESSION_COOKIE_NAME_def PORTAL_CSRF_COOKIE_NAME_def)

lemma cookie_fields [simp]:
  "ck_name (login_context_cookie v) = PORTAL_LOGIN_CONTEXT_COOKIE_NAME" "ck_value (login_context_cookie v) = v"
  "ck_name (portal_session_cookie v) = PORTAL_SESSION_COOKIE_NAME" "ck_value (portal_session_cookie v) = v"
  "ck_name (portal_csrf_cookie v) = PORTAL_CSRF_COOKIE_NAME" "ck_value (portal_csrf_cookie v) = v"
  "ck_name delete_login_context_cookie = PORTAL_LOGIN_CONTEXT_COOKIE_NAME" "ck_value delete_login_context_cookie = ''''"
  "ck_name delete_portal_session_cookie = PORTAL_SESSION_COOKIE_NAME" "ck_value delete_portal_session_cookie = ''''"
  "ck_name delete_portal_csrf_cookie = PORTAL_CSRF_COOKIE_NAME" "ck_value delete_portal_csrf_cookie = ''''"
  by (simp_all add: login_context_cookie_def portal_session_cookie_def portal_csrf_cookie_def delete_login_context_cookie_def
      delete_portal_session_cookie_def delete_portal_csrf_cookie_def)

lemma percent_encode_id: "list_all unreserved s \<Longrightarrow> percent_encode s = s"
  by (induction s) auto

lemma callback_query_parsed:
  assumes "is_fixed_reference c" "is_fixed_reference s"
  shows "parse_callback_query simple_urls (raw_callback_query c s) = Ok \<lparr>pcq_code = c, pcq_state = s\<rparr>"
proof -
  have "list_all unreserved ''code''" "list_all unreserved ''state''" by (simp_all add: unreserved_def byte_class_defs)
  then have "raw_callback_query c s = show_query [(''code'', c), (''state'', s)]"
    using fixed_reference_bytes(3) [OF assms(1)] fixed_reference_bytes(3) [OF assms(2)]
    by (simp only: raw_callback_query_def show_query.simps percent_encode_id append_Cons append_Nil append_assoc)
  then have "form_parse (raw_callback_query c s) = [(''code'', c), (''state'', s)]" by (simp only: form_parse_show)
  then have "url_form_parse simple_urls (raw_callback_query c s) = [(''code'', c), (''state'', s)]" by (simp add: simple_urls_def)
  with assms show ?thesis by (simp add: parse_callback_query_def)
qed

lemma repeated_reference [simp]: "\<not> is_fixed_reference ''bad''" "is_fixed_reference (replicate 43 CHR ''A'')" "is_fixed_reference (replicate 43 CHR ''B'')"
  by (simp_all add: is_fixed_reference_def list_all_iff byte_class_defs)

lemma percent_encode_header: "list_all header_value_byte (percent_encode s)"
proof (induction s)
  case (Cons c s)
  have "\<forall>d \<in> {..<16}. unreserved (hex_upper d)"
    by (simp add: lessThan_nat_numeral lessThan_Suc hex_upper_def unreserved_def byte_class_defs)
  then have "unreserved (hex_upper (of_char c div 16))" "unreserved (hex_upper (of_char c mod 16))"
    using char_nibbles(1,2) [of c] by blast+
  moreover have "header_value_byte CHR ''%''" by (simp add: header_value_byte_def)
  ultimately show ?case using Cons.IH unreserved_header by auto
qed simp

lemma show_query_header: "list_all header_value_byte (show_query ps)"
proof -
  have "header_value_byte CHR ''=''" "header_value_byte CHR ''&''" by (simp_all add: header_value_byte_def)
  then show ?thesis by (induction ps rule: show_query.induct) (simp_all add: percent_encode_header)
qed

lemma location_parts_show:
  assumes "list_all (\<lambda>c. header_value_byte c \<and> c \<noteq> CHR ''?'') (su_scheme u @ su_host u @ su_path u)" "su_query u \<noteq> []"
    and "su_scheme base = su_scheme u" "su_host base = su_host u"
  shows "location_parts base (Some (simple_to_string u)) = Some (su_path u, su_query u)"
proof -
  let ?prefix = "su_scheme u @ ''://'' @ su_host u"
  have chars: "list_all (\<lambda>c. header_value_byte c \<and> c \<noteq> CHR ''?'') (?prefix @ su_path u)"
    using assms(1) by (simp add: header_value_byte_def)
  then have "filter header_value_byte (?prefix @ su_path u @ ''?'' @ show_query (su_query u)) =
      (?prefix @ su_path u) @ CHR ''?'' # show_query (su_query u)"
    using show_query_header by (auto simp: list_all_iff filter_id_conv header_value_byte_def)
  then have printed: "simple_to_string u = (?prefix @ su_path u) @ CHR ''?'' # show_query (su_query u)"
    using assms(2) by (simp add: simple_to_string_def)
  have "CHR ''?'' \<notin> set (?prefix @ su_path u)" using chars by (auto simp: list_all_iff)
  then have "split_once (CHR ''?'') (simple_to_string u) = Some (?prefix @ su_path u, show_query (su_query u))"
    unfolding printed by (rule split_once_append)
  moreover have "strip_prefix p (p @ s) = Some s" for p s by (simp add: strip_prefix_def)
  then have "strip_prefix ?prefix (?prefix @ su_path u) = Some (su_path u)" by (metis append_assoc)
  ultimately show ?thesis using assms(3,4) by (simp add: location_parts_def form_parse_show)
qed


locale lucky_bench =
  fixes B :: "'c bench"
  assumes bench_crypto: "crypto_lib (bn_crypto B)"
    and bench_cookies: "cookie_lib (bn_parse B)"
    and bench_draws: "\<exists>bs. bn_rng B n = Some bs \<and> length bs = 32"
    and bench_now: "unat (bn_now B) + 28800 < 2 ^ 64"
    and no_letters: "nth_reference (bn_crypto B) (bn_rng B) n \<notin> {replicate 43 (CHR ''A''), replicate 43 (CHR ''B'')}"

sublocale lucky_bench \<subseteq> dependable_draws "bn_crypto B" "bn_rng B"
  using bench_crypto bench_draws by (simp add: dependable_draws_def dependable_draws_axioms_def)

sublocale lucky_bench \<subseteq> cookie_lib "bn_parse B"
  by (rule bench_cookies)

context lucky_bench
begin

lemma drawn_fixed [simp]: "is_fixed_reference (nth_reference (bn_crypto B) (bn_rng B) n)"
  using bench_draws [of n] generated_reference_valid [OF bench_crypto] by (auto simp: nth_reference_def references_agree)

lemma drawn_bytes [simp]: "header_value (nth_reference (bn_crypto B) (bn_rng B) n)"
  by (rule fixed_reference_bytes(4)) simp

lemma drawn_letters [simp]:
  "nth_reference (bn_crypto B) (bn_rng B) n \<noteq> replicate 43 (CHR ''A'')" "replicate 43 (CHR ''A'') \<noteq> nth_reference (bn_crypto B) (bn_rng B) n"
  "nth_reference (bn_crypto B) (bn_rng B) n \<noteq> replicate 43 (CHR ''B'')" "replicate 43 (CHR ''B'') \<noteq> nth_reference (bn_crypto B) (bn_rng B) n"
  using no_letters [of n] by auto

lemma bench_env [simp]:
  "pe_urls (test_env B u l s post) = simple_urls" "pe_rng (test_env B u l s post) = bn_rng B"
  "pe_split_parse (test_env B u l s post) = bn_parse B" "pe_others (test_env B u l s post) n st = st"
  "ac_auth_foundation_base_url (pe_config (test_env B u l s post)) = u" "pe_post (test_env B u l s post) = post"
  "ac_service_id (pe_config (test_env B u l s post)) = ''portal-test''" "pe_client (test_env B u l s post) = build_http_client"
  "ac_service_secret (pe_config (test_env B u l s post)) = ''test-secret''"
  "unix_epoch_seconds (pe_clock (test_env B u l s post) n) = Done (bn_now B)"
  by (simp_all add: test_env_def unix_epoch_seconds_def)

lemma bench_expiry:
  "checked_add (bn_now B) LOGIN_START_TTL_SECONDS = Some (bn_now B + LOGIN_START_TTL_SECONDS)"
  "bn_now B < bn_now B + LOGIN_START_TTL_SECONDS"
  "checked_add (bn_now B) LOCAL_SESSION_TTL_SECONDS = Some (bn_now B + LOCAL_SESSION_TTL_SECONDS)"
  "bn_now B < bn_now B + LOCAL_SESSION_TTL_SECONDS"
proof -
  have "checked_add (bn_now B) ttl = Some (bn_now B + ttl)" "unat (bn_now B + ttl) = unat (bn_now B) + unat ttl"
    if "unat ttl \<le> 28800" for ttl :: u64
    using bench_now that by (simp_all add: unat_word_ariths checked_add_def)
  from this [of LOGIN_START_TTL_SECONDS] this [of LOCAL_SESSION_TTL_SECONDS]
  show "checked_add (bn_now B) LOGIN_START_TTL_SECONDS = Some (bn_now B + LOGIN_START_TTL_SECONDS)"
    "bn_now B < bn_now B + LOGIN_START_TTL_SECONDS"
    "checked_add (bn_now B) LOCAL_SESSION_TTL_SECONDS = Some (bn_now B + LOCAL_SESSION_TTL_SECONDS)"
    "bn_now B < bn_now B + LOCAL_SESSION_TTL_SECONDS"
    by (simp_all add: LOGIN_START_TTL_SECONDS_def LOCAL_SESSION_TTL_SECONDS_def word_less_nat_alt)
qed

lemma context_parsed: "is_fixed_reference v \<Longrightarrow> login_context_from_cookie_header (bn_parse B) (context_cookie v) = Ok v"
  by (simp add: login_context_from_cookie_header_def context_cookie_def scan_text clean_cookies del: cookie_text.simps)

lemma cookies_scanned:
  "ps \<noteq> [] \<Longrightarrow> list_all clean_cookie ps \<Longrightarrow>
     scan_headers (bn_parse B) name (cookie_text ps # hs) found = and_then (scan_cookies name (map Ok ps) found) (scan_headers (bn_parse B) name hs)"
  by (simp add: to_str_text scan_text)

lemmas handler_simps = run_handler_def hbind_def portal_now_def perform_def lock_def on_local_def drawing_def respond_def answer_def

lemmas bench_simps = has_status_def header_cookie_def location_of_def location_def empty_response_def test_world_def
  new_local_state_def start_stored_def session_stored_def

lemma run_login:
  assumes "length (login_starts (cleanup_expired (bn_now B) (pw_local w))) < unat (login_start_capacity (pw_local w))"
    and "map_of (login_starts (cleanup_expired (bn_now B) (pw_local w))) (nth_reference (bn_crypto B) (bn_rng B) (pw_draws w)) = None"
  shows "run_handler (portal_login (bn_crypto B) (test_env B u l s post)) w =
    (Done (with_cookie (login_context_cookie (nth_reference (bn_crypto B) (bn_rng B) (Suc (pw_draws w))))
      (with_header ''location'' (simple_to_string (u\<lparr>su_path := ''/auth/login'',
         su_query := [(''service_id'', ''portal-test''), (''state'', nth_reference (bn_crypto B) (bn_rng B) (pw_draws w)),
           (''code_challenge'', sha256_base64url (bn_crypto B) (nth_reference (bn_crypto B) (bn_rng B) (Suc (Suc (pw_draws w))))),
           (''code_challenge_method'', ''S256'')]\<rparr>)) (empty_response 302))),
     w\<lparr>pw_ticks := Suc (pw_ticks w), pw_locks := Suc (pw_locks w), pw_draws := Suc (Suc (Suc (pw_draws w))),
       pw_local := put_start (nth_reference (bn_crypto B) (bn_rng B) (pw_draws w))
         \<lparr>lst_browser_context_reference = nth_reference (bn_crypto B) (bn_rng B) (Suc (pw_draws w)),
          lst_code_verifier = nth_reference (bn_crypto B) (bn_rng B) (Suc (Suc (pw_draws w))),
          lst_post_login_path = ''/'', lst_created_at = bn_now B, lst_expires_at = bn_now B + LOGIN_START_TTL_SECONDS\<rparr>
         (cleanup_expired (bn_now B) (pw_local w))\<rparr>)"
proof -
  have header: "header_value (simple_to_string v)" for v using simple.to_string_header [of v] by (simp add: simple_urls_def)
  show ?thesis
    using assms by (simp add: portal_login_def Let_def handler_simps create_login_start_def validate_post_login_path_def
        PORTAL_POST_LOGIN_PATH_MAX_BYTES_def starts_with_def first_drawn nth_drawn bench_expiry put_start_def
        redirect_response_def append_cookie_def auth_foundation_endpoint_def simple_urls_def header)
qed

lemma run_started_login:
  assumes "length (login_starts (cleanup_expired (bn_now B) (pw_local w))) < unat (login_start_capacity (pw_local w))"
    and "map_of (login_starts (cleanup_expired (bn_now B) (pw_local w))) (nth_reference (bn_crypto B) (bn_rng B) (pw_draws w)) = None"
    and "list_all (\<lambda>c. header_value_byte c \<and> c \<noteq> CHR ''?'') (su_scheme u @ su_host u)"
  shows "started_login (bn_crypto B) (test_env B u l s post) w =
    Some (nth_reference (bn_crypto B) (bn_rng B) (pw_draws w), nth_reference (bn_crypto B) (bn_rng B) (Suc (pw_draws w)),
     w\<lparr>pw_ticks := Suc (pw_ticks w), pw_locks := Suc (pw_locks w), pw_draws := Suc (Suc (Suc (pw_draws w))),
       pw_local := put_start (nth_reference (bn_crypto B) (bn_rng B) (pw_draws w))
         \<lparr>lst_browser_context_reference = nth_reference (bn_crypto B) (bn_rng B) (Suc (pw_draws w)),
          lst_code_verifier = nth_reference (bn_crypto B) (bn_rng B) (Suc (Suc (pw_draws w))),
          lst_post_login_path = ''/'', lst_created_at = bn_now B, lst_expires_at = bn_now B + LOGIN_START_TTL_SECONDS\<rparr>
         (cleanup_expired (bn_now B) (pw_local w))\<rparr>)"
proof -
  let ?u = "\<lambda>q. u\<lparr>su_path := ''/auth/login'', su_query := q\<rparr>"
  have parts: "location_parts u (Some (simple_to_string (?u (p # q)))) = Some (''/auth/login'', p # q)" for p q
  proof -
    have path: "list_all (\<lambda>c. header_value_byte c \<and> c \<noteq> CHR ''?'') ''/auth/login''" by (simp add: header_value_byte_def)
    have "location_parts u (Some (simple_to_string (?u (p # q)))) = Some (su_path (?u (p # q)), su_query (?u (p # q)))"
    proof (rule location_parts_show)
      show "list_all (\<lambda>c. header_value_byte c \<and> c \<noteq> CHR ''?'') (su_scheme (?u (p # q)) @ su_host (?u (p # q)) @ su_path (?u (p # q)))"
        using assms(3) path by simp
    qed simp_all
    then show ?thesis by simp
  qed
  show ?thesis
    unfolding started_login_def run_login [OF assms(1,2)] by (simp add: bench_simps parts)
qed

lemmas callback_simps = portal_callback_def handler_simps callback_query_parsed context_parsed claim_login_start_def put_start_def
  exchange_code_def refuse_login_def append_cookie_def bench_expiry cleanup_expired_def Let_def

lemma login_tests:
  "login_redirect_has_only_the_authentication_contract_and_context_cookie B"
  "login_capacity_does_not_issue_a_cookie_or_redirect B"
proof -
  let ?u = "\<lparr>su_scheme = ''https'', su_host = ''auth.example'', su_path = ''/ignored'', su_query = [(''x'', ''y'')]\<rparr>"
  have parts: "location_parts ?u (Some (simple_to_string (?u\<lparr>su_path := ''/auth/login'', su_query := p # q\<rparr>))) = Some (''/auth/login'', p # q)" for p q
    using location_parts_show [of "?u\<lparr>su_path := ''/auth/login'', su_query := p # q\<rparr>" ?u] by (simp add: header_value_byte_def)
  have challenge: "is_fixed_reference (sha256_base64url (bn_crypto B) v)" for v
    using challenge_valid [OF bench_crypto] by (simp add: references_agree)
  show "login_redirect_has_only_the_authentication_contract_and_context_cookie B"
    unfolding login_redirect_has_only_the_authentication_contract_and_context_cookie_def Let_def
    by (subst run_login) (simp_all add: bench_simps cleanup_expired_def parts [simplified] challenge login_context_cookie_def)
  show "login_capacity_does_not_issue_a_cookie_or_redirect B"
    unfolding login_capacity_does_not_issue_a_cookie_or_redirect_def Let_def
    by (subst run_started_login) (simp_all add: bench_simps cleanup_expired_def url_at_def header_value_byte_def portal_login_def
        handler_simps create_login_start_def validate_post_login_path_def PORTAL_POST_LOGIN_PATH_MAX_BYTES_def starts_with_def
        put_start_def bench_expiry)
qed

lemma plain_hosts:
  "list_all (\<lambda>c. header_value_byte c \<and> c \<noteq> CHR ''?'') (su_scheme (url_at ''http'' ''127.0.0.1:9''))"
  "list_all (\<lambda>c. header_value_byte c \<and> c \<noteq> CHR ''?'') (su_host (url_at ''http'' ''127.0.0.1:9''))"
  by (simp_all add: url_at_def header_value_byte_def)

lemmas not_expired = bench_expiry(2,4) [unfolded not_le [symmetric]]

lemma endpoint_parts:
  "su_path (auth_foundation_endpoint simple_urls u p) = p" "su_query (auth_foundation_endpoint simple_urls u p) = []"
  by (simp_all add: auth_foundation_endpoint_def simple_urls_def)

lemma cookie_headers: "header_value []" "header_value ''/''"
  by (simp_all add: header_value_def header_value_byte_def)

text \<open>A callback with the context of a live login start whose exchange gives no user.\<close>

lemma failed_exchange:
  assumes "\<And>url cred j. fst (post build_http_client url cred j []) = None \<or>
      (\<exists>n c. fst (post build_http_client url cred j []) = Some (n, c) \<and> (n = 200 \<longrightarrow> c = None))"
    and "\<And>url cred j. length (snd (post build_http_client url cred j [])) = requests"
  shows "exchange_fails B post requests"
proof -
  let ?sent = "\<lambda>u code v. post build_http_client (auth_foundation_endpoint simple_urls u ''/auth/handoffs/exchange'')
      (''portal-test'', ''test-secret'') (portal_exchange_request code v) []"
  have exchange: "exchange_code (test_env B u l s post) code v w = refuse_login 502 (w\<lparr>pw_remote := snd (?sent u code v)\<rparr>)"
    if "pw_remote w = []" for u l s code v and w :: "exchange_log portal_world"
    using assms(1) [of "auth_foundation_endpoint simple_urls u ''/auth/handoffs/exchange''"
        "(''portal-test'', ''test-secret'')" "portal_exchange_request code v"]
    by (auto simp: exchange_code_def that Let_def split: prod.splits)
  show ?thesis
    unfolding exchange_fails_def Let_def
    by (subst run_started_login)
      (simp_all add: bench_simps cleanup_expired_def plain_hosts put_start_def portal_callback_def handler_simps
        callback_query_parsed context_parsed claim_login_start_def bench_expiry not_expired exchange refuse_login_def append_cookie_def
        cookie_headers assms(2))
qed

lemma exchange_failure_tests:
  "callback_exchange_failures_consume_login_and_never_create_session B"
  "callback_connection_failure_and_response_loss_are_single_use_failures B"
  "callback_does_not_follow_exchange_redirects B"
  unfolding callback_exchange_failures_consume_login_and_never_create_session_def list.pred_inject
    callback_connection_failure_and_response_loss_are_single_use_failures_def callback_does_not_follow_exchange_redirects_def
  by (intro conjI TrueI failed_exchange;
      simp add: spawn_exchange_server_def nobody_listens_def redirecting_server_def build_http_client_def)+

lemma answered_exchange: "decode_exchange_response (JObject [(''internal_user_id'', JNum 123), (''authenticated_at'', JNum 456)]) = Some (123, 456)"
  by (simp add: decode_exchange_response_def json_field_def i32_try_from_def u64_try_from_def)

lemmas session_simps = open_session_def create_local_session_def first_drawn nth_drawn bench_expiry not_expired refuse_login_def
  append_cookie_def redirect_response_def cookie_headers cleanup_expired_def

lemma callback_tests:
  assumes "basic_auth (bn_crypto B) ''portal-test'' ''test-secret'' = ''Basic cG9ydGFsLXRlc3Q6dGVzdC1zZWNyZXQ=''"
  shows "callback_exchanges_once_creates_session_and_deletes_login_context B"
    "callback_session_capacity_consumes_handoff_and_deletes_context B"
proof -
  show "callback_exchanges_once_creates_session_and_deletes_login_context B"
    unfolding callback_exchanges_once_creates_session_and_deletes_login_context_def Let_def
    by (subst run_started_login)
      (simp_all add: bench_simps plain_hosts put_start_def portal_callback_def handler_simps callback_query_parsed context_parsed
        claim_login_start_def session_simps exchange_code_def Let_def spawn_exchange_server_def exchange_answer_def answered_exchange
        endpoint_parts portal_exchange_request_def assms portal_session_cookie_def portal_csrf_cookie_def delete_login_context_cookie_def)
  show "callback_session_capacity_consumes_handoff_and_deletes_context B"
    unfolding callback_session_capacity_consumes_handoff_and_deletes_context_def Let_def created_session_def
    apply (simp add: bench_simps session_simps Let_def)
    apply (subst run_started_login)
      apply (simp_all add: bench_simps plain_hosts put_start_def portal_callback_def handler_simps callback_query_parsed context_parsed
        claim_login_start_def session_simps exchange_code_def Let_def spawn_exchange_server_def exchange_answer_def answered_exchange)
    done
qed

lemma refused_queries:
  "list_all (\<lambda>query. parse_callback_query simple_urls query = Err ())
     ['''', ''code='', ''state='', ''code=a&code=b&state=c'', ''code=a&state=b&extra=c'']"
  by (simp add: parse_callback_query_def simple_urls_def form_parse.simps pair_of_def is_fixed_reference_def)

lemma invalid_callback_test: "callback_invalid_and_wrong_browser_do_not_exchange_or_delete_context B"
proof -
  have refused: "run_handler (portal_callback (bn_crypto B) (test_env B u l s post) query cookie) w = (Done (empty_response 400), w)"
    if "parse_callback_query simple_urls query = Err ()" for u l s post query cookie and w :: "exchange_log portal_world"
    using that by (simp add: portal_callback_def handler_simps)
  have no_cookie: "login_context_from_cookie_header parse None = Err ()" for parse
    by (simp add: login_context_from_cookie_header_def ok_or_def)
  show ?thesis
    unfolding callback_invalid_and_wrong_browser_do_not_exchange_or_delete_context_def Let_def
    using refused_queries
    by (simp add: refused)
      (simp add: run_started_login bench_simps plain_hosts put_start_def portal_callback_def handler_simps callback_query_parsed
        context_parsed claim_login_start_def session_simps exchange_code_def Let_def nobody_listens_def no_cookie edit_start_def)
qed

lemma run_created_session:
  "created_session (bn_crypto B) (test_env B u l s post) i a (test_world 2 10) = Some
     (nth_reference (bn_crypto B) (bn_rng B) 0, nth_reference (bn_crypto B) (bn_rng B) (Suc 0),
      (test_world 2 10)\<lparr>pw_draws := Suc (Suc 0), pw_local := put_session (nth_reference (bn_crypto B) (bn_rng B) 0)
        \<lparr>loc_internal_user_id = i, loc_authenticated_at = a, loc_created_at = bn_now B,
         loc_expires_at = bn_now B + LOCAL_SESSION_TTL_SECONDS,
         loc_csrf_lookup = portal_sha256_digest (bn_crypto B) (nth_reference (bn_crypto B) (bn_rng B) (Suc 0))\<rparr>
        (new_local_state 2 10)\<rparr>)"
  by (simp add: created_session_def test_world_def new_local_state_def session_simps Let_def put_session_def)

lemmas route_simps = route_reply_def routes_def requested_def path_is_def logout_request_def session_cookie_def csrf_cookie_def both_cookies_def
  get_all_def get_me_def portal_logout_def fixed_reference_cookie_from_headers_def csrf_header_from_headers_def cookies_scanned
  clean_cookies handler_simps get_local_session_def remove_local_session_def put_session_def bench_simps not_expired
  cleanup_expired_def append_cookie_def cookie_headers edit_session_def ok_or_def ct_eq_iff to_str_reference

lemma api_tests: "protected_api_uses_only_one_valid_local_session_cookie B" "protected_api_rejects_expired_local_session B"
  unfolding protected_api_uses_only_one_valid_local_session_cookie_def protected_api_rejects_expired_local_session_def Let_def
    run_created_session
  by (simp_all add: route_simps me_response_def del: cookie_text.simps scan_headers.simps(2))

lemma logout_test: "logout_deletes_only_a_fully_valid_local_session B"
  unfolding logout_deletes_only_a_fully_valid_local_session_def Let_def run_created_session
  by (simp add: route_simps delete_portal_session_cookie_def delete_portal_csrf_cookie_def del: cookie_text.simps scan_headers.simps(2))

lemma dead_session_test: "expired_and_restarted_local_sessions_cannot_logout B"
  unfolding expired_and_restarted_local_sessions_cannot_logout_def Let_def run_created_session
  by (simp add: route_simps del: cookie_text.simps scan_headers.simps(2))

lemma race_of_logouts: "concurrent_logout_has_exactly_one_success B earlier"
  unfolding concurrent_logout_has_exactly_one_success_def Let_def run_created_session
  by (cases earlier) (simp_all add: route_simps del: cookie_text.simps scan_headers.simps(2))

lemma forbidden_logout_test:
  assumes "sha256 (bn_crypto B) (nth_reference (bn_crypto B) (bn_rng B) 1) \<noteq> replicate 32 (CHR 0x00)"
  shows "logout_failures_are_forbidden_and_preserve_valid_session B"
  unfolding logout_failures_are_forbidden_and_preserve_valid_session_def Let_def run_created_session
  using assms by (simp add: route_simps portal_sha256_digest_def del: cookie_text.simps scan_headers.simps(2))

end

section \<open>They hold\<close>

definition portal_scenarios :: "'c bench \<Rightarrow> bool list" where
  "portal_scenarios B = [
     login_redirect_has_only_the_authentication_contract_and_context_cookie B,
     callback_exchanges_once_creates_session_and_deletes_login_context B,
     callback_invalid_and_wrong_browser_do_not_exchange_or_delete_context B,
     callback_exchange_failures_consume_login_and_never_create_session B,
     callback_connection_failure_and_response_loss_are_single_use_failures B,
     callback_session_capacity_consumes_handoff_and_deletes_context B,
     login_capacity_does_not_issue_a_cookie_or_redirect B,
     callback_does_not_follow_exchange_redirects B,
     protected_api_uses_only_one_valid_local_session_cookie B,
     protected_api_rejects_expired_local_session B,
     logout_deletes_only_a_fully_valid_local_session B,
     logout_failures_are_forbidden_and_preserve_valid_session B,
     expired_and_restarted_local_sessions_cannot_logout B,
     concurrent_logout_has_exactly_one_success B True,
     concurrent_logout_has_exactly_one_success B False]"

text \<open>A bench on the reference cryptography and the simple cookie parser.\<close>

definition bench_draw :: "nat \<Rightarrow> bytes option" where
  "bench_draw n = Some (replicate 32 (char_of (16 + n mod 8)))"

lemma bench_draw_letters:
  "nth_reference ref_crypto bench_draw n \<notin> {replicate 43 (CHR ''A''), replicate 43 (CHR ''B'')}"
proof -
  have "\<forall>k \<in> {..<8}. b64url_encode ref_crypto (replicate 32 (char_of (16 + k :: nat))) \<notin> {replicate 43 (CHR ''A''), replicate 43 (CHR ''B'')}"
    by (simp add: ref_crypto_def rfc_b64url_encode_def byte_vals_def b64_alphabet_url_def upt_rec replicate_count lessThan_nat_numeral
      lessThan_Suc char_of_eq_iff take_bit_eq_mod)
  moreover have "n mod 8 \<in> {..<8}" by simp
  ultimately show ?thesis unfolding nth_reference_def bench_draw_def option.sel by blast
qed

lemma bench_vectors:
  "basic_auth ref_crypto ''portal-test'' ''test-secret'' = ''Basic cG9ydGFsLXRlc3Q6dGVzdC1zZWNyZXQ=''"
  "nth_reference ref_crypto bench_draw 1 = ''ERERERERERERERERERERERERERERERERERERERERERE''"
  by (simp_all add: basic_auth_def nth_reference_def bench_draw_def ref_crypto_def rfc_b64_encode_def rfc_b64url_encode_def byte_vals_def
      b64_alphabet_std_def b64_padding_def b64_alphabet_url_def upt_rec replicate_count char_of_eq_iff take_bit_eq_mod)

interpretation sample_bench: lucky_bench "\<lparr>bn_crypto = ref_crypto, bn_rng = bench_draw, bn_parse = simple_cookies, bn_now = 150\<rparr>"
  by (rule lucky_bench.intro)
    (use bench_draw_letters in \<open>simp_all add: reference.crypto_lib_axioms simple_jar.cookie_lib_axioms\<close>, simp_all add: bench_draw_def)

text \<open>
  C40: The portal's tests of its handlers and routes hold on the model, whatever the random source
  draws (apart from the two made-up references of the tests), at any time, and with every library of
  the contracts: a login gives away nothing but the contract; a callback is exchanged once with the
  portal's credentials and verifier, and a failure of any kind uses the login up without a session;
  the wrong browser changes nothing; only an unambiguous live cookie is answered; a logout needs
  session, cookie and header to agree, and of two at once exactly one succeeds.
\<close>

theorem portal_scenarios_pass:
  assumes "crypto_lib C" "cookie_lib parse" "unat now + 28800 < 2 ^ 64"
    and "\<And>n. \<exists>bs. fill n = Some bs \<and> length bs = 32"
    and "\<And>n. nth_reference C fill n \<notin> {replicate 43 (CHR ''A''), replicate 43 (CHR ''B'')}"
    and "basic_auth C ''portal-test'' ''test-secret'' = ''Basic cG9ydGFsLXRlc3Q6dGVzdC1zZWNyZXQ=''"
    and "sha256 C (nth_reference C fill 1) \<noteq> replicate 32 (CHR 0x00)"
  shows "list_all id (portal_scenarios \<lparr>bn_crypto = C, bn_rng = fill, bn_parse = parse, bn_now = now\<rparr>)"
proof -
  have "lucky_bench \<lparr>bn_crypto = C, bn_rng = fill, bn_parse = parse, bn_now = now\<rparr>"
    using assms(1-5) by (simp add: lucky_bench_def)
  note tests = lucky_bench.login_tests [OF this] lucky_bench.exchange_failure_tests [OF this] lucky_bench.callback_tests [OF this]
    lucky_bench.invalid_callback_test [OF this] lucky_bench.api_tests [OF this] lucky_bench.logout_test [OF this]
    lucky_bench.dead_session_test [OF this] lucky_bench.race_of_logouts [OF this] lucky_bench.forbidden_logout_test [OF this]
  show ?thesis using assms(6,7) by (simp add: portal_scenarios_def tests)
qed

theorem portal_scenarios_pass_witness:
  "list_all id (portal_scenarios \<lparr>bn_crypto = ref_crypto, bn_rng = bench_draw, bn_parse = simple_cookies, bn_now = 150\<rparr>)"
proof (rule portal_scenarios_pass [OF reference.crypto_lib_axioms simple_jar.cookie_lib_axioms])
  show "sha256 ref_crypto (nth_reference ref_crypto bench_draw 1) \<noteq> replicate 32 (CHR 0x00)"
    unfolding bench_vectors(2) by (simp add: ref_crypto_def sha256_drawn_reference replicate_count)
qed (use bench_draw_letters in \<open>simp_all add: bench_vectors(1)\<close>, simp add: bench_draw_def)

end
