(* ===== verification/Spec2Isabelle.thy ===== *)
theory Spec2Isabelle
  imports Auth_Startup System_Flow Auth_Integration Portal_Scenarios
begin

text \<open>
  Verification library of the authentication foundation (\<open>rust-auth0-service\<close>) and the portal
  backend (\<open>portal_backend\<close>).

  \<^bold>\<open>The program.\<close>  The authentication service logs users in with Google and hands the result to
  registered web services.  A login writes a waiting transaction to Redis and sends the browser to
  Google (or, with a live common session, issues a handoff at once); the Google callback claims the
  transaction, resolves the Google identity to an internal user in PostgreSQL, stores a common
  session and a one-shot handoff, and redirects to the service's registered callback; the service
  exchanges the handoff code, with its secret and the PKCE verifier, for the user.  The portal
  backend is such a service: it keeps login starts and local sessions in memory, starts the login,
  exchanges the code in its callback and serves its own session.

  \<^bold>\<open>Theories and sources.\<close>  All paths are under \<open>src/\<close>.
  \<^item> \<open>Prelude\<close>: bytes, UTF-8, decimal numbers, results and the checked arithmetic of Rust.
    \<open>Crypto\<close>: the locale \<open>crypto_lib\<close> of the crates for SHA-256, base64 and constant-time
    comparison; \<open>Crypto_Reference\<close> an instance, whose SHA-256 \<open>Crypto_Vectors\<close> runs on published test
    vectors.  \<open>Environment\<close>: environment variables.
  \<^item> \<open>Auth_Foundation\<close>: \<open>rust-auth0-service/src/auth_foundation.rs\<close>, whole.
  \<^item> \<open>Redis_Server\<close> (the locale \<open>redis_server\<close>: what the commands used promise, with an in-memory
    instance), \<open>Redis_Codec\<close>, \<open>Redis_Scripts\<close> (the five Lua scripts) and \<open>Redis_State\<close> (the Rust
    functions around them): \<open>rust-auth0-service/src/redis_state.rs\<close>, whole.  \<open>Script_Laws\<close>,
    \<open>Redis_Machine\<close>, \<open>Redis_Contracts\<close>, \<open>Redis_Properties\<close> and \<open>Redis_Revocation\<close> are about them.
  \<^item> \<open>Postgres\<close>: \<open>rust-auth0-service/src/postgres.rs\<close>, whole, over the locale \<open>postgres_db\<close>.
  \<^item> \<open>Handler\<close>, \<open>Http\<close>: handlers that may answer early, responses, cookies, JSON, and the locale
    \<open>url_lib\<close> of the URL crate with an instance.
  \<^item> \<open>Auth_Service\<close> (the handlers, cookies and routes) and \<open>Auth_Startup\<close> (configuration and
    \<open>main\<close>): \<open>rust-auth0-service/src/main.rs\<close>, whole.  \<open>Auth_Handlers\<close> holds what each handler has
    done when it ends; \<open>Auth_Properties\<close>, \<open>Auth_Login\<close>, \<open>Auth_App\<close> and \<open>Auth_Flow\<close> its properties.
  \<^item> \<open>Portal_Config\<close>, \<open>Portal_State\<close>, \<open>Portal_Backend\<close>: \<open>portal_backend/src/main.rs\<close>, whole.
    \<open>Portal_Store\<close>, \<open>Portal_Machine\<close>, \<open>Portal_Handlers\<close> and \<open>Portal_Properties\<close> are about them.
  \<^item> \<open>Login_Flow\<close>: the two programs composed; \<open>System_Flow\<close>: a login through both, from the first
    request to the last.
  \<^item> \<open>Foundation_Tests\<close>, \<open>Redis_Tests\<close>, \<open>Redis_Integration\<close>, \<open>Redis_Rejections\<close>, \<open>Auth_Tests\<close>,
    \<open>Login_Tests\<close>, \<open>Auth_Integration\<close>, \<open>Portal_Tests\<close>, \<open>Portal_Scenarios\<close>: the programs' own tests (\<open>mod tests\<close> of the five files), each a
    predicate or script with the name of the test.  \<open>Redis_Bench\<close> runs scripts on the in-memory server,
    with the equation of each call and of two calls that race; \<open>Auth_Bench\<close> runs requests to the
    handlers on that server and the in-memory database.

  \<^bold>\<open>How the state is modelled.\<close>  A handler is a function from a world to an answer and a world.
  The authentication service's world is its Redis connection (server and round-trip number), its
  database pool, and the positions in the random source and the clock; the environment says, for
  each round trip, what other clients did before it and whether the request or the reply was lost.
  So a theorem over an arbitrary environment covers every interleaving with other instances, and
  \<open>quiet\<close>, \<open>alone\<close> and \<open>isolated\<close> name the restrictions the liveness and atomicity theorems make.
  The portal's world is the state behind its mutex; \<open>pe_others\<close> is what other requests and the
  cleanup task did before each acquisition.  A portal operation is \<open>Done\<close>, \<open>Panicked\<close> or
  \<open>Hanging\<close>, and that no request panics or hangs is a theorem.

  \<^bold>\<open>What is shown.\<close>
  \<^item> Redis: every run of any number of instances is a path of an abstract store in which keys only
    move forward; so claims, exchanges and logouts happen at most once; each function's success is
    sound, its refusals change nothing (or delete an expired key), and it succeeds where it should;
    states survive being written and read.  After a logout no handoff of that session is exchanged
    or issued, in every interleaving.
  \<^item> PostgreSQL: the lookups on every branch; an identity and its user are committed together or not
    at all, also when the commit's reply is lost or another client races.
  \<^item> Authentication service: what a redirect of login or of the Google callback, an exchange and a
    logout imply about both stores; the statuses and headers of every route; startup and its
    configuration.  With reachable stores a login at Google and a single sign-on run to their end.
  \<^item> Portal: the tables with lazy cleanup refine a store without expired entries, keep their
    well-formedness and capacities, and give a login start and a session away once; the handlers'
    soundness; the loop for a fresh reference returns; the parsers accept exactly what they should.
  \<^item> Both: a portal session belongs to the user of a live common session and to the browser and the
    verifier of one login; the login URL of the portal is accepted; the duplicated checks agree; a
    browser that logs in at a registered portal ends with a session of its user.
  \<^item> Tests: the unit tests of all five files, the Redis and the database tests and the portal's handler
    tests hold on the model, for every random source and library of the contracts where they do not compare
    with published values.

  \<^bold>\<open>Parameters, loops and fuel.\<close>  Third-party code is a parameter: hashing and encoding
  (\<open>crypto_scheme\<close>), Redis (\<open>redis\<close>), PostgreSQL (\<open>postgres\<close>), URLs (\<open>url_ops\<close>), cookie parsing,
  Google's token and user-info answers, the random source and the clock; the locales state what of
  their documented behaviour the proofs use, and every locale is interpreted.  There is no fuel: the
  one unbounded loop (\<open>fresh_reference\<close>, retried until a drawn reference is unused) is a
  \<open>partial_function\<close> whose value is \<open>None\<close> exactly when it does not return.

  \<^bold>\<open>Not modelled.\<close>  The integration tests of the Google callback, of the exchange and of the
  logout (whose facts the theorems about \<open>google_auth_callback\<close>, the exchange and the logout state for
  every request), and the test of a killed Redis connection, which reads a time to live the in-memory
  server does not keep; the request parsing of the
  HTTP frameworks (its result is an input of \<open>auth_app\<close> and \<open>routes\<close>); logging, apart from the error
  messages the handlers and the Redis functions record; \<open>Debug\<close> formatting; the SQL migrations (their
  tables, keys and defaults are the laws of \<open>postgres_db\<close>); the Vue frontend, the container builds and
  Kubernetes manifests, which hold no Rust.
\<close>

end
